(* ===== verification/Prelude.thy ===== *)
theory Prelude
  imports Complex_Main "HOL-Library.Word" "HOL-Library.Char_ord" "HOL-Library.List_Lexorder"
begin

text \<open>
  What the components share: the fact collections of the development, the machine types of
  the C++ program, its floating point values, and the generic facts on lists that the
  component theories use.

  \<^item> \<open>size_t\<close> is a 64-bit and \<open>int\<close> a 32-bit machine word; the implicit conversions the
    program makes between them are \<open>size_to_int\<close> (narrowing) and \<open>int_to_size\<close> (sign
    extension), both as the compiler does them.
  \<^item> \<open>double\<close> and \<open>float\<close> values are the numbers they denote, with the infinities and NaN
    apart; \<open>fp_ne\<close> is C++'s \<open>!=\<close> on them (NaN differs from everything, itself included).
    The program makes no rounding computation on them: it copies, compares, widens, and
    counts up from 1 and 0.5.
\<close>

section \<open>Fact collections\<close>

named_theorems st_simps \<open>execution rules of the state-and-exception computations\<close>
named_theorems model_defs \<open>definitions of the accessors and small operations of the model\<close>

section \<open>Machine integers\<close>

type_synonym size_t = "64 word"
type_synonym int32 = "32 word"

definition size_to_int :: "size_t \<Rightarrow> int32" where
  "size_to_int n = ucast n"

definition int_to_size :: "int32 \<Rightarrow> size_t" where
  "int_to_size n = scast n"

lemma size_to_int_of_nat [simp]: "size_to_int (of_nat n) = of_nat n"
  unfolding size_to_int_def by transfer simp

lemma sint_of_nat_small:
  assumes "n < 2 ^ 31"
  shows "sint (of_nat n :: int32) = int n"
proof -
  have "sint (of_nat n :: int32) = signed_take_bit 31 (int n)"
    by (simp add: signed_of_nat)
  also have "\<dots> = int n"
    using assms by (intro signed_take_bit_int_eq_self) auto
  finally show ?thesis .
qed

text \<open>Sizes below \<open>2\<^sup>3\<^sup>1\<close> survive the trip through \<open>int\<close>.\<close>

lemma int_to_size_of_nat:
  assumes "n < 2 ^ 31"
  shows "int_to_size (of_nat n) = of_nat n"
  using sint_of_nat_small [OF assms] by (simp add: int_to_size_def scast_eq)

lemma unat_of_nat_size:
  assumes "n < 2 ^ 31"
  shows "unat (of_nat n :: size_t) = n"
  using assms by (simp add: unat_of_nat take_bit_nat_eq_self)

lemma unat_index_small:
  assumes "n < 2 ^ 31"
  shows "unat (int_to_size (size_to_int (of_nat n))) = n"
  using assms by (simp add: int_to_size_of_nat unat_of_nat_size)

lemma size_to_int_to_size [simp]: "size_to_int (int_to_size n) = n"
  unfolding size_to_int_def int_to_size_def by transfer (simp add: take_bit_signed_take_bit)

section \<open>Floating point values\<close>

datatype fp = FNaN | FInf bool | FNum rat

type_synonym double = fp
type_synonym float32 = fp

fun fp_ne :: "fp \<Rightarrow> fp \<Rightarrow> bool" where
  "fp_ne FNaN _ = True"
| "fp_ne _ FNaN = True"
| "fp_ne x y = (x \<noteq> y)"

lemma fp_ne_iff: "fp_ne x y \<longleftrightarrow> x = FNaN \<or> y = FNaN \<or> x \<noteq> y"
  by (cases x; cases y) auto

lemma fp_eqD: "\<not> fp_ne x y \<Longrightarrow> x = y"
  by (simp add: fp_ne_iff)

section \<open>Lists\<close>

text \<open>A list as a C++ vector: \<open>resize\<close> truncates or pads with the value-initialised element.\<close>

definition resize_list :: "nat \<Rightarrow> 'a \<Rightarrow> 'a list \<Rightarrow> 'a list" where
  "resize_list n x xs = take n xs @ replicate (n - length xs) x"

lemma length_resize_list [simp]: "length (resize_list n x xs) = n"
  by (simp add: resize_list_def)

lemma resize_list_Nil [simp]: "resize_list n x [] = replicate n x"
  by (simp add: resize_list_def)

lemma distinct_map_fst_filter:
  "distinct (map fst xs) \<Longrightarrow> distinct (map fst (filter P xs))"
  by (induction xs) auto

lemma sorted_map_fst_filter:
  "sorted (map fst xs) \<Longrightarrow> sorted (map fst (filter P xs))"
  by (rule sorted_filter)

lemma find_None_notin: "List.find (\<lambda>e. fst e = k) xs = None \<longleftrightarrow> k \<notin> fst ` set xs"
  by (force simp: find_None_iff)

lemma map_of_values: "map_of (map (\<lambda>e. (fst e, f (snd e))) es) k = map_option f (map_of es k)"
  by (induction es) auto

lemma strict_sorted_fst:
  "sorted_wrt (<) (map fst xs) \<longleftrightarrow> sorted (map fst xs) \<and> distinct (map fst xs)"
  for xs :: "('k::linorder \<times> 'v) list"
  by (rule strict_sorted_iff)

end
