(* ===== verification/Std_Map.thy ===== *)
theory Std_Map
  imports Prelude
begin

text \<open>
  The model of \<open>std::map\<close>, which holds the dimensions, attributes, variables, containers and
  file data of the program. The program relies on three things: lookup by key, iteration in
  increasing key order (equal-sized maps are compared by walking both in step, and the first
  dimension with a wanted size is the one with the least name), and \<open>insert\<close> keeping the entry
  a key already has.

  \<^item> \<open>smap\<close> is the type of association lists with strictly increasing keys; its operations are
    those of \<open>std::map\<close> that the code calls, and two maps are equal exactly when every lookup
    agrees (\<open>smap_eqI\<close>).
  \<^item> the locale \<open>ordered_map\<close> is the contract the clients use, and \<open>std_map\<close> below interprets
    it on \<open>smap\<close>. Inside it the loop over the keys that both \<open>removeAllButThese...\<close> operations
    run is treated once.
\<close>

section \<open>Insertion and deletion on ordered association lists\<close>

fun ins_entry :: "'k::linorder \<Rightarrow> 'v \<Rightarrow> ('k \<times> 'v) list \<Rightarrow> ('k \<times> 'v) list" where
  "ins_entry k v [] = [(k, v)]"
| "ins_entry k v (e # es) =
     (if k < fst e then (k, v) # e # es
      else if k = fst e then e # es
      else e # ins_entry k v es)"

fun put_entry :: "'k::linorder \<Rightarrow> 'v \<Rightarrow> ('k \<times> 'v) list \<Rightarrow> ('k \<times> 'v) list" where
  "put_entry k v [] = [(k, v)]"
| "put_entry k v (e # es) =
     (if k < fst e then (k, v) # e # es
      else if k = fst e then (k, v) # es
      else e # put_entry k v es)"

lemma keys_ins_entry: "fst ` set (ins_entry k v es) = insert k (fst ` set es)"
  by (induction es) auto

lemma keys_put_entry: "fst ` set (put_entry k v es) = insert k (fst ` set es)"
  by (induction es) auto

lemma sorted_ins_entry:
  "sorted_wrt (<) (map fst es) \<Longrightarrow> sorted_wrt (<) (map fst (ins_entry k v es))"
  by (induction es) (auto simp: keys_ins_entry [unfolded image_def] keys_ins_entry)

lemma sorted_put_entry:
  "sorted_wrt (<) (map fst es) \<Longrightarrow> sorted_wrt (<) (map fst (put_entry k v es))"
  by (induction es) (auto simp: keys_put_entry)

lemma map_of_ins_entry:
  "sorted_wrt (<) (map fst es) \<Longrightarrow>
   map_of (ins_entry k v es) = (if k \<in> fst ` set es then map_of es else (map_of es)(k \<mapsto> v))"
  by (induction es) (auto simp: fun_eq_iff)

lemma map_of_put_entry:
  "sorted_wrt (<) (map fst es) \<Longrightarrow> map_of (put_entry k v es) = (map_of es)(k \<mapsto> v)"
  by (induction es) (auto simp: fun_eq_iff)

text \<open>A key beyond all others goes last, and is found there.\<close>

lemma ins_entry_last: "\<forall>e \<in> set es. fst e < k \<Longrightarrow> ins_entry k v es = es @ [(k, v)]"
  by (induction es) auto

lemma put_entry_last:
  "\<forall>e \<in> set es. fst e < k \<Longrightarrow> put_entry k v es = es @ [(k, v)]"
  "\<forall>e \<in> set es. fst e < k \<Longrightarrow> put_entry k v (es @ [(k, v')]) = es @ [(k, v)]"
  by (induction es) auto

lemma ins_entry_present:
  "sorted_wrt (<) (map fst es) \<Longrightarrow> k \<in> fst ` set es \<Longrightarrow> ins_entry k v es = es"
  by (induction es) auto

lemma ins_entry_absent: "k \<notin> fst ` set es \<Longrightarrow> ins_entry k v es = put_entry k v es"
  by (induction es) auto

lemma map_ins_entry:
  assumes "\<And>e. fst (enc e) = fst e"
  shows "map enc (ins_entry k v es) = ins_entry k (snd (enc (k, v))) (map enc es)"
proof -
  have "enc (k, v) = (k, snd (enc (k, v)))" using assms [of "(k, v)"] by (simp add: prod_eq_iff)
  then show ?thesis using assms by (induction es) simp_all
qed

text \<open>Entries added one by one to those that are there.\<close>

definition merge_entries :: "('k::linorder \<times> 'v) list \<Rightarrow> ('k \<times> 'v) list \<Rightarrow> ('k \<times> 'v) list" where
  "merge_entries es0 es = fold (\<lambda>e. ins_entry (fst e) (snd e)) es es0"

lemma merge_entries_simps [simp]:
  "merge_entries es0 [] = es0"
  "merge_entries es0 (es @ [e]) = ins_entry (fst e) (snd e) (merge_entries es0 es)"
  by (simp_all add: merge_entries_def)

lemma keys_merge_entries: "fst ` set (merge_entries es0 es) = fst ` set es0 \<union> fst ` set es"
  by (induction es rule: rev_induct) (auto simp: keys_ins_entry)

lemma sorted_merge_entries:
  "sorted_wrt (<) (map fst es0) \<Longrightarrow> sorted_wrt (<) (map fst (merge_entries es0 es))"
  by (induction es rule: rev_induct) (simp_all add: sorted_ins_entry)

lemma merge_entries_present:
  assumes "sorted_wrt (<) (map fst es0)" and "fst ` set es \<subseteq> fst ` set es0"
  shows "merge_entries es0 es = es0"
  using assms by (induction es rule: rev_induct) (simp_all add: ins_entry_present)

lemma merge_entries_Nil: "sorted_wrt (<) (map fst es) \<Longrightarrow> merge_entries [] es = es"
proof (induction es rule: rev_induct)
  case (snoc e es)
  then have "\<forall>x \<in> set es. fst x < fst e" "merge_entries [] es = es" by (auto simp: sorted_wrt_append)
  then show ?case by (simp add: ins_entry_last)
qed simp

lemma sorted_filter_keys:
  "sorted_wrt (<) (map fst es) \<Longrightarrow> sorted_wrt (<) (map fst (filter P es))"
  by (induction es) auto

lemma map_of_filter_key:
  "map_of (filter (\<lambda>e. fst e \<noteq> k) es) = (map_of es)(k := None)"
  by (induction es) (auto simp: fun_eq_iff)

text \<open>Ordered association lists are determined by their lookups.\<close>

lemma ordered_alist_eqI:
  assumes "sorted_wrt (<) (map fst xs)" and "sorted_wrt (<) (map fst ys)"
    and "map_of xs = map_of ys"
  shows "xs = (ys :: ('k::linorder \<times> 'v) list)"
proof -
  have dist: "distinct (map fst xs)" "distinct (map fst ys)"
    using assms(1,2) by (simp_all add: strict_sorted_fst)
  have "set xs = set ys"
    using assms(3) dist by (simp add: map_of_inject_set)
  moreover have "sorted (map fst xs)" "sorted (map fst ys)"
    using assms(1,2) by (simp_all add: strict_sorted_fst)
  ultimately show ?thesis
    using dist by (intro map_sorted_distinct_set_unique [of fst]) (auto simp: inj_on_def distinct_map)
qed

section \<open>The type of maps and its operations\<close>

typedef (overloaded) ('k::linorder, 'v) smap =
  "{es :: ('k \<times> 'v) list. sorted_wrt (<) (map fst es)}"
  morphisms entries Smap
  by (rule exI [where x = "[]"]) simp

setup_lifting type_definition_smap

lift_definition smap_empty :: "('k::linorder, 'v) smap" is "[]"
  by simp

lift_definition smap_find :: "('k::linorder, 'v) smap \<Rightarrow> 'k \<Rightarrow> 'v option" is map_of .

text \<open>\<open>insert\<close> leaves the map alone when the key is there; \<open>smap_put\<close> assigns through the
  reference that \<open>at\<close> returns.\<close>

lift_definition smap_insert :: "'k::linorder \<Rightarrow> 'v \<Rightarrow> ('k, 'v) smap \<Rightarrow> ('k, 'v) smap" is ins_entry
  by (rule sorted_ins_entry)

lift_definition smap_put :: "'k::linorder \<Rightarrow> 'v \<Rightarrow> ('k, 'v) smap \<Rightarrow> ('k, 'v) smap" is put_entry
  by (rule sorted_put_entry)

lift_definition smap_erase :: "'k::linorder \<Rightarrow> ('k, 'v) smap \<Rightarrow> ('k, 'v) smap" is
  "\<lambda>k. filter (\<lambda>e. fst e \<noteq> k)"
  by (rule sorted_filter_keys)

definition smap_keys :: "('k::linorder, 'v) smap \<Rightarrow> 'k list" where
  "smap_keys m = map fst (entries m)"

definition smap_size :: "('k::linorder, 'v) smap \<Rightarrow> nat" where
  "smap_size m = length (entries m)"

lemma sorted_keys: "sorted_wrt (<) (smap_keys m)"
  unfolding smap_keys_def by transfer

lemma distinct_keys [simp]: "distinct (smap_keys m)"
  using sorted_keys [of m] by (simp add: strict_sorted_iff)

lemma smap_eqI:
  assumes "\<And>k. smap_find m k = smap_find m' k"
  shows "m = m'"
proof -
  have "smap_find m = smap_find m'" using assms by (rule ext)
  then show ?thesis by transfer (simp add: ordered_alist_eqI)
qed

lemma set_keys: "set (smap_keys m) = dom (smap_find m)"
  unfolding smap_keys_def by transfer (simp add: dom_map_of_conv_image_fst)

lemma map_of_entries: "map_of (entries m) = smap_find m"
  by transfer simp

lemma in_entries_iff: "(k, v) \<in> set (entries m) \<longleftrightarrow> smap_find m k = Some v"
  by transfer (simp add: strict_sorted_fst)

lemma find_empty [simp]: "smap_find smap_empty k = None"
  by transfer simp

lemma find_insert [simp]:
  "smap_find (smap_insert k v m) k' =
    (if k' = k \<and> smap_find m k = None then Some v else smap_find m k')"
  by transfer (auto simp: map_of_ins_entry map_of_eq_None_iff)

lemma find_put [simp]: "smap_find (smap_put k v m) k' = (if k' = k then Some v else smap_find m k')"
  by transfer (auto simp: map_of_put_entry)

lemma put_put [simp]: "smap_put k v (smap_put k v' m) = smap_put k v m"
  by (rule smap_eqI) simp

lemma insert_new: "smap_find m k = None \<Longrightarrow> smap_insert k v m = smap_put k v m"
  by (rule smap_eqI) simp

lemma find_erase [simp]: "smap_find (smap_erase k m) k' = (if k' = k then None else smap_find m k')"
  by transfer (simp add: map_of_filter_key)

lemma put_erased [simp]: "smap_put k v (smap_erase k m) = smap_put k v m"
  by (rule smap_eqI) simp

lemma entries_empty [simp]: "entries smap_empty = []"
  by transfer simp

lemma entries_insert [simp]: "entries (smap_insert k v m) = ins_entry k v (entries m)"
  by transfer simp

lemma entries_put [simp]: "entries (smap_put k v m) = put_entry k v (entries m)"
  by transfer simp

lemma entries_erase [simp]: "entries (smap_erase k m) = filter (\<lambda>e. fst e \<noteq> k) (entries m)"
  by transfer simp

lemma size_eq_card: "smap_size m = card (dom (smap_find m))"
proof -
  have "smap_size m = length (smap_keys m)"
    by (simp add: smap_size_def smap_keys_def)
  then show ?thesis
    by (simp add: distinct_card set_keys [symmetric])
qed

text \<open>Two maps with the same keys are walked in step over the same keys.\<close>

lemma keys_eq_iff: "smap_keys m = smap_keys m' \<longleftrightarrow> dom (smap_find m) = dom (smap_find m')"
proof
  assume "dom (smap_find m) = dom (smap_find m')"
  then have "set (smap_keys m) = set (smap_keys m')" by (simp add: set_keys)
  then show "smap_keys m = smap_keys m'"
    by (intro strict_sorted_equal) (simp_all add: sorted_keys)
qed (simp add: set_keys [symmetric])

text \<open>Two maps are compared by walking both; a key is the other when neither is less.\<close>

lemma same_entry: "(\<lambda>x y. \<not> fst x < fst y \<and> \<not> fst y < fst x \<and> snd x = snd y) = ((=) :: ('k::linorder \<times> 'v) \<Rightarrow> _)"
  by (auto simp: fun_eq_iff prod_eq_iff)

instantiation smap :: (linorder, equal) equal
begin

definition equal_smap_def:
  "HOL.equal m m' \<longleftrightarrow> list_all2 (\<lambda>x y. \<not> fst x < fst y \<and> \<not> fst y < fst x \<and> snd x = snd y) (entries m) (entries m')"

instance
  by standard (simp add: equal_smap_def same_entry list.rel_eq entries_inject)

end

section \<open>The contract of an ordered map\<close>

locale ordered_map =
  fixes lookup :: "'m \<Rightarrow> 'k::linorder \<Rightarrow> 'v option"
    and insert :: "'k \<Rightarrow> 'v \<Rightarrow> 'm \<Rightarrow> 'm"
    and erase :: "'k \<Rightarrow> 'm \<Rightarrow> 'm"
    and keys :: "'m \<Rightarrow> 'k list"
  assumes lookup_insert:
      "lookup (insert k v m) k' = (if k' = k \<and> lookup m k = None then Some v else lookup m k')"
    and lookup_erase: "lookup (erase k m) k' = (if k' = k then None else lookup m k')"
    and keys_ordered: "sorted_wrt (<) (keys m)"
    and keys_dom: "set (keys m) = dom (lookup m)"
    and lookup_inject: "(\<And>k. lookup m k = lookup m' k) \<Longrightarrow> m = m'"
begin

lemma insert_present: "lookup m k = Some v' \<Longrightarrow> insert k v m = m"
  by (rule lookup_inject) (simp add: lookup_insert)

lemma erase_absent: "lookup m k = None \<Longrightarrow> erase k m = m"
  by (rule lookup_inject) (simp add: lookup_erase)

lemma insert_erase: "lookup m k = None \<Longrightarrow> erase k (insert k v m) = m"
  by (rule lookup_inject) (simp add: lookup_erase lookup_insert)

lemma keys_insert: "set (keys (insert k v m)) = Set.insert k (set (keys m))"
  by (auto simp: keys_dom dom_def lookup_insert split: if_splits)

lemma lookup_keys: "k \<in> set (keys m) \<longleftrightarrow> lookup m k \<noteq> None"
  by (auto simp: keys_dom)

text \<open>The loop of the \<open>removeAllButThese...\<close> operations: walk a list of keys and erase each one
  that is not wanted.\<close>

lemma lookup_fold_erase:
  "lookup (fold (\<lambda>k m. if P k then m else erase k m) ks m) k =
    (if k \<in> set ks \<and> \<not> P k then None else lookup m k)"
  by (induction ks arbitrary: m) (auto simp: lookup_erase)

lemma lookup_retain:
  "lookup (fold (\<lambda>k m. if P k then m else erase k m) (keys m) m) k =
    (if P k then lookup m k else None)"
  by (auto simp: lookup_fold_erase keys_dom)

lemma keys_retain:
  "keys (fold (\<lambda>k m. if P k then m else erase k m) (keys m) m) = filter P (keys m)"
proof (rule strict_sorted_equal)
  show "set (keys (fold (\<lambda>k m. if P k then m else erase k m) (keys m) m)) = set (filter P (keys m))"
    by (auto simp: keys_dom lookup_retain dom_def split: if_splits)
qed (simp_all add: keys_ordered sorted_wrt_filter)

end

text \<open>
  The weaker contract of the \<open>add...\<close> operations of \<open>Metadata\<close> and \<open>Data\<close>: the first entry
  under a name stays. Adding a list of entries in order gives each name its first value.
\<close>

locale keyed_store =
  fixes get :: "'m \<Rightarrow> 'k \<Rightarrow> 'v option" and add :: "'k \<Rightarrow> 'v \<Rightarrow> 'm \<Rightarrow> 'm"
  assumes get_add: "get (add k v m) k' = (if k' = k \<and> get m k = None then Some v else get m k')"
begin

lemma get_adds:
  "get (fold (\<lambda>e. add (fst e) (snd e)) es m) k =
    (case get m k of Some v \<Rightarrow> Some v | None \<Rightarrow> map_of es k)"
  by (induction es arbitrary: m) (auto simp: get_add split: option.split)

lemma get_adds_fresh:
  "get m k = None \<Longrightarrow> get (fold (\<lambda>e. add (fst e) (snd e)) es m) k = map_of es k"
  by (simp add: get_adds)

lemma dom_adds: "dom (get (fold (\<lambda>e. add (fst e) (snd e)) es m)) = dom (get m) \<union> fst ` set es"
proof (rule set_eqI)
  fix k
  have "map_of es k \<noteq> None \<longleftrightarrow> k \<in> fst ` set es" by (simp add: map_of_eq_None_iff)
  then show "k \<in> dom (get (fold (\<lambda>e. add (fst e) (snd e)) es m)) \<longleftrightarrow> k \<in> dom (get m) \<union> fst ` set es"
    by (cases "get m k") (simp_all add: domIff get_adds)
qed

end

sublocale ordered_map \<subseteq> store: keyed_store lookup insert
  by unfold_locales (rule lookup_insert)

interpretation std_map: ordered_map smap_find smap_insert smap_erase smap_keys
  by unfold_locales (simp_all add: sorted_keys set_keys smap_eqI)

end
