(* ===== verification/Effects.thy ===== *)
theory Effects
  imports Prelude
begin

text \<open>
  Computations with a state and exceptions. A member function that may throw is a function
  from the state of the program to either an error or a result, and the state it leaves: the
  state changes made before a \<open>throw\<close> stay, as they do in C++. \<open>bindS\<close> is sequencing, \<open>foldS\<close>
  a range-based \<open>for\<close> loop that carries its local variables, \<open>catchNc\<close> the handler
  \<open>catch (netCDF::exceptions::NcException&)\<close>.

  \<^item> \<open>RuntimeError\<close> is what \<open>utils::throwException\<close> throws (after \<open>MPI_Abort\<close>), named by the
    member function in its message and the name the message quotes;
  \<^item> \<open>InvalidArgument\<close>, \<open>LengthError\<close> are the exceptions of the standard library that the code
    can raise; \<open>NcException\<close> is thrown by NetCDF, \<open>AtlasException\<close> by Atlas and OOPS;
  \<^item> \<open>Undefined\<close> stands for undefined behaviour: an access outside a vector, a null pointer, a
    conversion out of range. It is an outcome of its own, so a theorem that excludes it says
    that the code does not reach it. \<open>Terminate\<close> is an exception leaving a destructor.
\<close>

datatype error =
    RuntimeError string string
  | InvalidArgument string
  | LengthError
  | NcException string
  | AtlasException string
  | Undefined string
  | Terminate

type_synonym ('w, 'a) st = "'w \<Rightarrow> (error + 'a) \<times> 'w"

definition returnS :: "'a \<Rightarrow> ('w, 'a) st" where
  "returnS x = (\<lambda>w. (Inr x, w))"

definition throwS :: "error \<Rightarrow> ('w, 'a) st" where
  "throwS e = (\<lambda>w. (Inl e, w))"

definition bindS :: "('w, 'a) st \<Rightarrow> ('a \<Rightarrow> ('w, 'b) st) \<Rightarrow> ('w, 'b) st" where
  "bindS m f = (\<lambda>w. case m w of (Inl e, w') \<Rightarrow> (Inl e, w') | (Inr x, w') \<Rightarrow> f x w')"

definition seqS :: "('w, unit) st \<Rightarrow> ('w, 'b) st \<Rightarrow> ('w, 'b) st" where
  "seqS m k = bindS m (\<lambda>_. k)"

definition getS :: "('w \<Rightarrow> 'a) \<Rightarrow> ('w, 'a) st" where
  "getS f = (\<lambda>w. (Inr (f w), w))"

definition modifyS :: "('w \<Rightarrow> 'w) \<Rightarrow> ('w, unit) st" where
  "modifyS f = (\<lambda>w. (Inr (), f w))"

definition whenS :: "bool \<Rightarrow> ('w, unit) st \<Rightarrow> ('w, unit) st" where
  "whenS b m = (if b then m else returnS ())"

primrec foldS :: "('x \<Rightarrow> 'a \<Rightarrow> ('w, 'a) st) \<Rightarrow> 'x list \<Rightarrow> 'a \<Rightarrow> ('w, 'a) st" where
  "foldS f [] a = returnS a"
| "foldS f (x # xs) a = bindS (f x a) (foldS f xs)"

primrec mapS :: "('x \<Rightarrow> ('w, 'a) st) \<Rightarrow> 'x list \<Rightarrow> ('w, 'a list) st" where
  "mapS f [] = returnS []"
| "mapS f (x # xs) = bindS (f x) (\<lambda>y. bindS (mapS f xs) (\<lambda>ys. returnS (y # ys)))"

definition forS :: "'x list \<Rightarrow> ('x \<Rightarrow> ('w, unit) st) \<Rightarrow> ('w, unit) st" where
  "forS xs f = foldS (\<lambda>x _. f x) xs ()"

definition catchNc :: "('w, 'a) st \<Rightarrow> (string \<Rightarrow> ('w, 'a) st) \<Rightarrow> ('w, 'a) st" where
  "catchNc m h = (\<lambda>w. case m w of (Inl (NcException s), w') \<Rightarrow> h s w' | r \<Rightarrow> r)"

section \<open>Execution rules\<close>

lemma returnS_apply [st_simps]: "returnS x w = (Inr x, w)"
  by (simp add: returnS_def)

lemma throwS_apply [st_simps]: "throwS e w = (Inl e, w)"
  by (simp add: throwS_def)

lemma getS_apply [st_simps]: "getS f w = (Inr (f w), w)"
  by (simp add: getS_def)

lemma modifyS_apply [st_simps]: "modifyS f w = (Inr (), f w)"
  by (simp add: modifyS_def)

lemma bindS_Inr: "m w = (Inr x, w') \<Longrightarrow> bindS m f w = f x w'"
  by (simp add: bindS_def)

lemma bindS_Inl: "m w = (Inl e, w') \<Longrightarrow> bindS m f w = (Inl e, w')"
  by (simp add: bindS_def)

lemma bindS_returnS [st_simps]: "bindS (returnS x) f = f x"
  by (simp add: bindS_def returnS_def)

lemma bindS_throwS [st_simps]: "bindS (throwS e) f = throwS e"
  by (simp add: bindS_def throwS_def)

lemma bindS_Pair_Inr [st_simps]: "bindS (Pair (Inr x)) f = f x"
  by (simp add: bindS_def)

lemma bindS_Pair_Inl [st_simps]: "bindS (Pair (Inl e)) f = Pair (Inl e)"
  by (simp add: bindS_def fun_eq_iff)

lemma bindS_getS [st_simps]: "bindS (getS g) f w = f (g w) w"
  by (simp add: bindS_def getS_def)

lemma bindS_modifyS [st_simps]: "bindS (modifyS g) f w = f () (g w)"
  by (simp add: bindS_def modifyS_def)

lemma bindS_assoc [st_simps]: "bindS (bindS m f) g = bindS m (\<lambda>x. bindS (f x) g)"
  by (auto simp: bindS_def fun_eq_iff split: prod.splits sum.splits)

lemma seqS_eq [st_simps]: "seqS m k = bindS m (\<lambda>_. k)"
  by (simp add: seqS_def)

lemma whenS_True [st_simps]: "whenS True m = m"
  by (simp add: whenS_def)

lemma whenS_False [st_simps]: "whenS False m = returnS ()"
  by (simp add: whenS_def)

lemma bindS_returnS_right [st_simps]: "bindS m returnS = m" "bindS m (\<lambda>x. Pair (Inr x)) = m"
  by (auto simp: bindS_def returnS_def fun_eq_iff split: prod.splits sum.splits)

lemma bindS_Inr_iff:
  "bindS m f w = (Inr y, w2) \<longleftrightarrow> (\<exists>x w1. m w = (Inr x, w1) \<and> f x w1 = (Inr y, w2))"
  by (auto simp: bindS_def split: prod.splits sum.splits)

lemma bindS_InrE:
  assumes "bindS m f w = (Inr y, w2)"
  obtains x w1 where "m w = (Inr x, w1)" and "f x w1 = (Inr y, w2)"
  using assms by (auto simp: bindS_Inr_iff)

lemma bindS_cong [fundef_cong]:
  "m = m' \<Longrightarrow> (\<And>x. f x = f' x) \<Longrightarrow> bindS m f = bindS m' f'"
  by presburger

lemma foldS_append: "foldS f (xs @ ys) a = bindS (foldS f xs a) (foldS f ys)"
proof (induction xs arbitrary: a)
  case Nil
  show ?case by (simp add: st_simps)
next
  case (Cons x xs)
  then have "foldS f (xs @ ys) = (\<lambda>a. bindS (foldS f xs a) (foldS f ys))" by (rule ext)
  then show ?case by (simp add: st_simps)
qed

lemma forS_Nil [st_simps]: "forS [] f = returnS ()"
  by (simp add: forS_def)

lemma forS_Cons [st_simps]: "forS (x # xs) f = bindS (f x) (\<lambda>_. forS xs f)"
  by (simp add: forS_def)

lemma forS_append: "forS (xs @ ys) f = bindS (forS xs f) (\<lambda>_. forS ys f)"
  by (simp add: forS_def foldS_append)

lemma catchNc_ok: "m w = (Inr x, w') \<Longrightarrow> catchNc m h w = (Inr x, w')"
  by (simp add: catchNc_def)

section \<open>Invariants of computations\<close>

text \<open>
  \<open>keepsS I m\<close>: from a state with \<open>I\<close>, \<open>m\<close> leaves a state with \<open>I\<close>, whether it returns or
  throws.
\<close>

definition keepsS :: "('w \<Rightarrow> bool) \<Rightarrow> ('w, 'a) st \<Rightarrow> bool" where
  "keepsS I m \<longleftrightarrow> (\<forall>w. I w \<longrightarrow> I (snd (m w)))"

named_theorems keeps_intros \<open>which computations keep which invariants\<close>

lemma keepsSD: "keepsS I m \<Longrightarrow> m w = (r, w') \<Longrightarrow> I w \<Longrightarrow> I w'"
  by (metis keepsS_def snd_conv)

lemma keepsS_snd: "keepsS I m \<Longrightarrow> I w \<Longrightarrow> I (snd (m w))"
  by (simp add: keepsS_def)

lemma keepsS_returnS [keeps_intros]: "keepsS I (returnS x)"
  by (simp add: keepsS_def returnS_def)

lemma keepsS_throwS [keeps_intros]: "keepsS I (throwS e)"
  by (simp add: keepsS_def throwS_def)

lemma keepsS_getS [keeps_intros]: "keepsS I (getS f)"
  by (simp add: keepsS_def getS_def)

lemma keepsS_modifyS [keeps_intros]: "(\<And>w. I w \<Longrightarrow> I (f w)) \<Longrightarrow> keepsS I (modifyS f)"
  by (simp add: keepsS_def modifyS_def)

lemma keepsS_bindS [keeps_intros]:
  assumes "keepsS I m" and "\<And>x. keepsS I (f x)"
  shows "keepsS I (bindS m f)"
  unfolding keepsS_def
proof (intro allI impI)
  fix w assume "I w"
  with assms(1) have "I (snd (m w))" by (simp add: keepsS_def)
  with assms(2) show "I (snd (bindS m f w))"
    by (cases "m w") (auto simp: bindS_def keepsS_def split: sum.split)
qed

lemma keepsS_seqS [keeps_intros]: "keepsS I m \<Longrightarrow> keepsS I k \<Longrightarrow> keepsS I (seqS m k)"
  by (simp add: seqS_def keepsS_bindS)

lemma keepsS_whenS [keeps_intros]: "keepsS I m \<Longrightarrow> keepsS I (whenS b m)"
  by (simp add: whenS_def keepsS_returnS)

lemma keepsS_if [keeps_intros]:
  "(b \<Longrightarrow> keepsS I m) \<Longrightarrow> (\<not> b \<Longrightarrow> keepsS I m') \<Longrightarrow> keepsS I (if b then m else m')"
  by simp

lemma keepsS_option [keeps_intros]:
  "(x = None \<Longrightarrow> keepsS I m) \<Longrightarrow> (\<And>y. x = Some y \<Longrightarrow> keepsS I (f y)) \<Longrightarrow>
   keepsS I (case x of None \<Rightarrow> m | Some y \<Rightarrow> f y)"
  by (simp split: option.split)

lemma keepsS_prod [keeps_intros]:
  "(\<And>y z. x = (y, z) \<Longrightarrow> keepsS I (f y z)) \<Longrightarrow> keepsS I (case x of (y, z) \<Rightarrow> f y z)"
  by (simp split: prod.split)

lemma keepsS_mapS [keeps_intros]: "(\<And>x. keepsS I (f x)) \<Longrightarrow> keepsS I (mapS f xs)"
  by (induction xs) (simp_all add: keepsS_returnS keepsS_bindS)

lemma keepsS_foldS [keeps_intros]:
  "(\<And>x a. keepsS I (f x a)) \<Longrightarrow> keepsS I (foldS f xs a)"
  by (induction xs arbitrary: a) (simp_all add: keepsS_returnS keepsS_bindS)

lemma keepsS_forS [keeps_intros]: "(\<And>x. keepsS I (f x)) \<Longrightarrow> keepsS I (forS xs f)"
  by (simp add: forS_def keepsS_foldS)

lemma keepsS_catchNc [keeps_intros]:
  assumes "keepsS I m" and "\<And>s. keepsS I (h s)"
  shows "keepsS I (catchNc m h)"
  unfolding keepsS_def
proof (intro allI impI)
  fix w assume "I w"
  with assms(1) have "I (snd (m w))" by (simp add: keepsS_def)
  with assms(2) show "I (snd (catchNc m h w))"
    by (cases "m w") (auto simp: catchNc_def keepsS_def split: sum.split error.split)
qed

section \<open>Loops that do not throw\<close>

text \<open>A loop whose every round succeeds without touching the state is a plain \<open>fold\<close>.\<close>

lemma foldS_pure:
  assumes "\<And>x a. x \<in> set xs \<Longrightarrow> f x a w = (Inr (g x a), w)"
  shows "foldS f xs a w = (Inr (fold g xs a), w)"
  using assms by (induction xs arbitrary: a) (auto simp: st_simps bindS_Inr)

lemma forS_pure:
  assumes "\<And>x. x \<in> set xs \<Longrightarrow> f x w = (Inr (), w)"
  shows "forS xs f w = (Inr (), w)"
  using assms by (induction xs) (auto simp: st_simps bindS_Inr)

lemma mapS_pure:
  assumes "\<And>x. x \<in> set xs \<Longrightarrow> f x w = (Inr (g x), w)"
  shows "mapS f xs w = (Inr (map g xs), w)"
  using assms by (induction xs) (auto simp: st_simps bindS_Inr)

text \<open>A loop over accumulators that keep a property, where each such round succeeds.\<close>

lemma foldS_pure_inv:
  assumes "P a" and "\<And>x a. x \<in> set xs \<Longrightarrow> P a \<Longrightarrow> f x a w = (Inr (g x a), w) \<and> P (g x a)"
  shows "foldS f xs a w = (Inr (fold g xs a), w) \<and> P (fold g xs a)"
  using assms by (induction xs arbitrary: a) (auto simp: st_simps bindS_Inr)

text \<open>A loop that carries a property of the rounds done so far to its end.\<close>

lemma foldS_rounds:
  assumes "Q [] a w"
    and "\<And>ys x zs a w. xs = ys @ x # zs \<Longrightarrow> Q ys a w \<Longrightarrow>
      \<exists>a' w'. f x a w = (Inr a', w') \<and> Q (ys @ [x]) a' w'"
  shows "\<exists>a' w'. foldS f xs a w = (Inr a', w') \<and> Q xs a' w'"
proof -
  have "\<exists>a' w'. foldS f zs a w = (Inr a', w') \<and> Q xs a' w'" if "xs = ys @ zs" and "Q ys a w" for ys zs a w
    using that
  proof (induction zs arbitrary: ys a w)
    case (Cons x zs)
    then obtain a1 w1 where "f x a w = (Inr a1, w1)" "Q (ys @ [x]) a1 w1" using assms(2) by blast
    with Cons.IH [of "ys @ [x]" a1 w1] Cons.prems(1) show ?case by (simp add: bindS_Inr)
  qed (simp add: returnS_apply)
  from this [of "[]" xs] assms(1) show ?thesis by simp
qed

lemma forS_rounds:
  assumes "Q [] w"
    and "\<And>ys x zs w. xs = ys @ x # zs \<Longrightarrow> Q ys w \<Longrightarrow> \<exists>w'. f x w = (Inr (), w') \<and> Q (ys @ [x]) w'"
  shows "\<exists>w'. forS xs f w = (Inr (), w') \<and> Q xs w'"
  using foldS_rounds [where Q = "\<lambda>ys _. Q ys" and a = "()" and f = "\<lambda>x _. f x"] assms
  unfolding forS_def by fastforce

section \<open>Nested loops\<close>

lemma forS_map: "forS (map g xs) f = forS xs (\<lambda>x. f (g x))"
  by (induction xs) (simp_all add: st_simps)

text \<open>Two nested loops run through the pairs of their variables, the outer variable first.\<close>

lemma forS_nested:
  "forS js (\<lambda>j. forS is (\<lambda>i. h i j)) =
   forS (concat (map (\<lambda>j. map (\<lambda>i. (i, j)) is) js)) (\<lambda>p. h (fst p) (snd p))"
  by (induction js) (simp_all add: st_simps forS_append forS_map)

lemma foldS_map: "foldS f (map g xs) = foldS (\<lambda>x. f (g x)) xs"
proof (rule ext)
  show "foldS f (map g xs) a = foldS (\<lambda>x. f (g x)) xs a" for a
  proof (induction xs arbitrary: a)
    case (Cons x xs)
    then have "foldS f (map g xs) = foldS (\<lambda>x. f (g x)) xs" by (rule ext)
    then show ?case by simp
  qed simp
qed

lemma foldS_nested:
  "foldS (\<lambda>i a. foldS (\<lambda>j a. h i j a) js a) is =
   foldS (\<lambda>p. h (fst p) (snd p)) (concat (map (\<lambda>i. map (Pair i) js) is))"
proof (rule ext)
  show "foldS (\<lambda>i a. foldS (\<lambda>j a. h i j a) js a) is a =
      foldS (\<lambda>p. h (fst p) (snd p)) (concat (map (\<lambda>i. map (Pair i) js) is)) a" for a
  proof (induction "is" arbitrary: a)
    case (Cons i "is")
    then have "foldS (\<lambda>i a. foldS (\<lambda>j a. h i j a) js a) is =
        foldS (\<lambda>p. h (fst p) (snd p)) (concat (map (\<lambda>i. map (Pair i) js) is))"
      by (rule ext)
    then show ?case by (simp add: foldS_append foldS_map)
  qed simp
qed

end
