(* ===== verification/Constants.thy ===== *)
theory Constants
  imports Prelude
begin

text \<open>
  \<open>src/monio/Constants.h\<close>: the enumerations, the field metadata structure the callers fill in,
  and the names and sizes of the LFRic and JEDI conventions. Enumerators that the code uses as
  array positions or \<open>int\<close> codes are numbers; \<open>eDataTypes\<close>, which it switches on, is a datatype.
\<close>

record FieldMetadata =
  lfricReadName :: string
  lfricWriteName :: string
  jediName :: string
  lfricVertConfig :: string
  jediVertConfig :: string
  units :: string
  numberOfLevels :: int32
  noFirstLevel :: bool

abbreviation (input) eLongitude :: nat where "eLongitude \<equiv> 0"
abbreviation (input) eLatitude :: nat where "eLatitude \<equiv> 1"

abbreviation (input) eHorizontal :: nat where "eHorizontal \<equiv> 0"
abbreviation (input) eVertical :: nat where "eVertical \<equiv> 1"

abbreviation (input) eLfricConvention :: int32 where "eLfricConvention \<equiv> 0"
abbreviation (input) eJediConvention :: int32 where "eJediConvention \<equiv> 1"

text \<open>\<open>eAttributeNames\<close>: the first three are looked up, the rest have fixed values.\<close>

abbreviation (input) eStandardName :: nat where "eStandardName \<equiv> 0"
abbreviation (input) eLongName :: nat where "eLongName \<equiv> 1"
abbreviation (input) eUnitsName :: nat where "eUnitsName \<equiv> 2"
abbreviation (input) eNumberOfAttributeNames :: nat where "eNumberOfAttributeNames \<equiv> 10"

datatype eDataTypes =
    eByte | eChar | eShort | eInt | eFloat | eDouble
  | eUByte | eUShort | eUInt | eUInt64 | eString | eNumberOfDataTypes

section \<open>Names\<close>

definition kTimeDimName :: string where "kTimeDimName = ''time_counter''"
definition kTimeVarName :: string where "kTimeVarName = ''time_instant''"
definition kTimeOriginName :: string where "kTimeOriginName = ''time_origin''"
definition kTileDimName :: string where "kTileDimName = ''surface_tiles''"
definition kTileVarName :: string where "kTileVarName = ''tile_fraction''"

definition kVerticalFullName :: string where "kVerticalFullName = ''full_levels''"
definition kVerticalHalfName :: string where "kVerticalHalfName = ''half_levels''"
definition kVertFullNoSurfName :: string where "kVertFullNoSurfName = ''full_levels_no_surf''"
definition kVertHalfWithTopName :: string where "kVertHalfWithTopName = ''half_levels_with_top''"

definition kLfricMeshTerm :: string where "kLfricMeshTerm = ''Mesh2d''"
definition kLfricLonVarName :: string where "kLfricLonVarName = ''Mesh2d_face_y''"
definition kLfricLatVarName :: string where "kLfricLatVarName = ''Mesh2d_face_x''"

definition kLongitudeVarName :: string where "kLongitudeVarName = ''longitude''"
definition kLatitudeVarName :: string where "kLatitudeVarName = ''latitude''"

definition kNotFoundError :: string where "kNotFoundError = ''NOT_FOUND''"

definition kProducedByName :: string where "kProducedByName = ''produced_by''"
definition kProducedByString :: string where
  "kProducedByString = ''MONIO: Met Office NetCDF I/O''"
definition kVariableConventionName :: string where
  "kVariableConventionName = ''variable_convention''"

text \<open>\<open>kDataTypeNames[type]\<close>; the array has no entry for the count itself.\<close>

fun kDataTypeNames :: "eDataTypes \<Rightarrow> string option" where
  "kDataTypeNames eByte = Some ''byte''"
| "kDataTypeNames eChar = Some ''char''"
| "kDataTypeNames eShort = Some ''short''"
| "kDataTypeNames eInt = Some ''int''"
| "kDataTypeNames eFloat = Some ''float''"
| "kDataTypeNames eDouble = Some ''double''"
| "kDataTypeNames eUByte = Some ''unsigned byte''"
| "kDataTypeNames eUShort = Some ''unsigned short''"
| "kDataTypeNames eUInt = Some ''unsigned int''"
| "kDataTypeNames eUInt64 = Some ''long int''"
| "kDataTypeNames eString = Some ''std::string''"
| "kDataTypeNames eNumberOfDataTypes = None"

definition kIncrementAttributeNames :: "string list" where
  "kIncrementAttributeNames =
    [''standard_name'', ''long_name'', ''units'', ''mesh'', ''location'', ''online_operation'',
     ''interval_operation'', ''interval_write'', ''cell_methods'', ''coordinates'']"

definition kIncrementVariableValues :: "string list" where
  "kIncrementVariableValues =
    [kNotFoundError, kNotFoundError, kNotFoundError, ''Mesh2d'', ''face'', ''instant'',
     ''3600 s'', ''3600 s'', ''time: point'', ''Mesh2d_face_y Mesh2d_face_x'']"

definition kNamingConventions :: "string list" where
  "kNamingConventions = [''LFRic'', ''JEDI'']"

definition kMissingVariableNames :: "string list" where
  "kMissingVariableNames = [''TO BE DERIVED'', ''TO BE IMPLEMENTED'', ''none'']"

definition kLfricCoordVarNames :: "string list" where
  "kLfricCoordVarNames = [kLfricLonVarName, kLfricLatVarName]"

definition kCoordVarNames :: "string list" where
  "kCoordVarNames = [kLongitudeVarName, kLatitudeVarName]"

section \<open>Numbers\<close>

abbreviation (input) kMPIRankOwner :: nat where "kMPIRankOwner \<equiv> 0"

abbreviation (input) kVerticalFullSize :: int32 where "kVerticalFullSize \<equiv> 71"
abbreviation (input) kVerticalHalfSize :: int32 where "kVerticalHalfSize \<equiv> 70"
abbreviation (input) kVertFullNoSurfSize :: int32 where "kVertFullNoSurfSize \<equiv> 70"
abbreviation (input) kVertHalfWithTopSize :: int32 where "kVertHalfWithTopSize \<equiv> 71"

definition kVerticalFullInc :: rat where "kVerticalFullInc = 1"
definition kVerticalHalfInc :: rat where "kVerticalHalfInc = 1 / 2"

end
