(* ===== verification/Objects.thy ===== *)
theory Objects
  imports Std_Map Effects Constants
begin

text \<open>
  The data of the program: one record or datatype per class, with the class's members, and the
  state of a process that its member functions act on.

  Objects that the code shares by pointer and changes through it live in a heap of the state and
  are passed as positions in it (\<open>ref\<close>): \<open>Variable\<close>s (a copied \<open>Metadata\<close> shares them), Atlas
  fields (a \<open>Field\<close> is a handle), and the \<open>File\<close>, \<open>Reader\<close> and \<open>Writer\<close> objects (the error path
  of every member function reaches those of the singleton through \<open>Monio::get().closeFiles()\<close>).
  Attributes are immutable, and a data container is not changed once it is shared, so both are
  values. \<open>Metadata\<close>, \<open>Data\<close> and \<open>FileData\<close> have value semantics: a parameter passed by
  reference is an argument and a component of the result.
\<close>

type_synonym ref = nat

section \<open>Attributes and data containers\<close>

text \<open>\<open>AttributeBase\<close> and its three derived classes: name and value.\<close>

datatype AttributeBase =
    AttributeDouble string double
  | AttributeInt string int32
  | AttributeString string string

text \<open>\<open>DataContainerBase\<close> and its three derived classes: name and data vector.\<close>

datatype DataContainerBase =
    DataContainerDouble string "double list"
  | DataContainerFloat string "float32 list"
  | DataContainerInt string "int32 list"

section \<open>Metadata and data\<close>

record Variable =
  varName :: string
  varType :: eDataTypes
  varDims :: "(string \<times> size_t) list"
  varAttrs :: "(string, AttributeBase) smap"

record Metadata =
  mdDimensions :: "(string, int32) smap"
  mdGlobalAttrs :: "(string, AttributeBase) smap"
  mdVariables :: "(string, ref) smap"

record Data =
  dataContainers :: "(string, DataContainerBase) smap"

text \<open>\<open>'t\<close> is the type of \<open>util::DateTime\<close>.\<close>

record 't FileData =
  fdData :: Data
  fdMetadata :: Metadata
  fdLfricAtlasMap :: "size_t list"
  fdDateTimes :: "'t list"

section \<open>Files, readers and writers\<close>

text \<open>\<open>netCDF::NcFile::FileMode\<close>, and the handle of an open \<open>NcFile\<close> (\<open>None\<close>: a null pointer).\<close>

datatype FileMode = nc_read | nc_write | nc_replace | nc_newFile

record File =
  fiPath :: string
  fiMode :: FileMode
  fiDataFile :: "nat option"

record Reader =
  rdOwner :: nat
  rdFile :: "ref option"

record Writer =
  wrOwner :: nat
  wrFile :: "ref option"

record AtlasWriter =
  awDimCount :: int32

record 't Monio =
  moOwner :: nat
  moReader :: ref
  moWriter :: ref
  moAtlasWriter :: AtlasWriter
  moFilesData :: "(string, 't FileData) smap"

section \<open>Atlas fields\<close>

text \<open>
  What the code observes of an \<open>atlas::Field\<close>: its name, function space (an opaque handle), the
  \<open>global\<close> flag of its metadata, its shape and its two-dimensional array, whose element type is
  the field's \<open>datatype()\<close>. \<open>ArrOther\<close> is a field of any other kind.
\<close>

datatype FieldArray =
    ArrDouble "double list list"
  | ArrFloat "float32 list list"
  | ArrInt "int32 list list"
  | ArrOther

record Field =
  fieldName :: string
  fieldSpace :: nat
  fieldGlobal :: bool
  fieldShape :: "int32 list"
  fieldArray :: FieldArray

section \<open>The state of a process\<close>

text \<open>
  \<open>mpiRank\<close> is the rank of this PE; \<open>aborted\<close> is set by \<open>MPI_Abort\<close>; \<open>theMonio\<close> is the static
  \<open>Monio::this_\<close>; \<open>outside\<close> is the state of what the program calls (disk, NetCDF library, the
  other PEs), of an arbitrary type \<open>'d\<close>.
\<close>

record ('d, 't) world =
  mpiRank :: nat
  aborted :: bool
  varHeap :: "Variable list"
  fieldHeap :: "Field list"
  fileHeap :: "File list"
  readerHeap :: "Reader list"
  writerHeap :: "Writer list"
  theMonio :: "'t Monio option"
  outside :: 'd

end
