(* ===== verification/Services.thy ===== *)
theory Services
  imports Objects
begin

text \<open>
  The code that MONIO calls and that is not part of it: NetCDF, Atlas, the OOPS date-time classes
  and the file system. Each call is a component of the record \<open>env\<close>, an argument of every
  definition that makes the call; nothing is assumed about it here. A call acts on the state
  \<open>outside\<close> of the process and either returns a value or throws an exception with a text
  (\<open>what()\<close>). The records describe what the calls hand over.
\<close>

section \<open>What NetCDF hands over\<close>

datatype NcType =
    nc_BYTE | nc_CHAR | nc_SHORT | nc_INT | nc_FLOAT | nc_DOUBLE
  | nc_UBYTE | nc_USHORT | nc_UINT | nc_INT64 | nc_UINT64 | nc_STRING

text \<open>
  An attribute: its name and type, and what each overload of \<open>getValues\<close> would store: the text,
  the values converted to \<open>int\<close>, and the values converted to \<open>double\<close>.
\<close>

record NcAtt =
  attName :: string
  attType :: NcType
  attText :: string
  attInts :: "int32 list"
  attDoubles :: "double list"

record NcVar =
  ncVarName :: string
  ncVarType :: NcType
  ncVarDims :: "(string \<times> size_t) list"
  ncVarAtts :: "(string \<times> NcAtt) list"

text \<open>The values \<open>putAtt\<close> is given.\<close>

datatype PutValue = PutDouble double | PutInt int32 | PutText string

section \<open>What Atlas is handed\<close>

datatype DataKind = KIND_REAL64 | KIND_REAL32 | KIND_INT32 | KIND_OTHER

record FieldOptions =
  optName :: string
  optLevels :: int32
  optKind :: DataKind

text \<open>A \<open>FieldSet\<close>: the fields in order, and by the name each was added under.\<close>

record FieldSet =
  fsFields :: "ref list"
  fsIndex :: "(string, ref) smap"

section \<open>The calls\<close>

type_synonym ('d, 'a) call = "'d \<Rightarrow> (string + 'a) \<times> 'd"

text \<open>
  A \<open>netCDF::NcFile\<close> is an open handle. \<open>getDims\<close>, \<open>getVars\<close> and \<open>getAtts\<close> return their
  multimaps as lists of key and value, in iteration order. The calls that move data come in one
  instance per element type. An attribute is put on a variable (\<open>Some name\<close>) or on the file.
\<close>

record ('d, 't) env =
  ncOpen :: "string \<Rightarrow> FileMode \<Rightarrow> ('d, nat) call"
  ncClose :: "nat \<Rightarrow> ('d, unit) call"
  ncGetDims :: "nat \<Rightarrow> ('d, (string \<times> size_t) list) call"
  ncGetVars :: "nat \<Rightarrow> ('d, (string \<times> NcVar) list) call"
  ncGetAtts :: "nat \<Rightarrow> ('d, (string \<times> NcAtt) list) call"
  ncAddDim :: "nat \<Rightarrow> string \<Rightarrow> size_t \<Rightarrow> ('d, unit) call"
  ncAddVar :: "nat \<Rightarrow> string \<Rightarrow> string \<Rightarrow> string list \<Rightarrow> ('d, unit) call"
  ncPutAtt :: "nat \<Rightarrow> string option \<Rightarrow> string \<Rightarrow> PutValue \<Rightarrow> ('d, unit) call"
  ncVarSize :: "nat \<Rightarrow> string \<Rightarrow> ('d, nat) call"
  ncGetDouble :: "nat \<Rightarrow> string \<Rightarrow> ('d, double list) call"
  ncGetFloat :: "nat \<Rightarrow> string \<Rightarrow> ('d, float32 list) call"
  ncGetInt :: "nat \<Rightarrow> string \<Rightarrow> ('d, int32 list) call"
  ncGetDoubleAt :: "nat \<Rightarrow> string \<Rightarrow> size_t list \<Rightarrow> size_t list \<Rightarrow> ('d, double list) call"
  ncGetFloatAt :: "nat \<Rightarrow> string \<Rightarrow> size_t list \<Rightarrow> size_t list \<Rightarrow> ('d, float32 list) call"
  ncGetIntAt :: "nat \<Rightarrow> string \<Rightarrow> size_t list \<Rightarrow> size_t list \<Rightarrow> ('d, int32 list) call"
  ncPutDouble :: "nat \<Rightarrow> string \<Rightarrow> double list \<Rightarrow> ('d, unit) call"
  ncPutFloat :: "nat \<Rightarrow> string \<Rightarrow> float32 list \<Rightarrow> ('d, unit) call"
  ncPutInt :: "nat \<Rightarrow> string \<Rightarrow> int32 list \<Rightarrow> ('d, unit) call"
  osFileExists :: "string \<Rightarrow> 'd \<Rightarrow> bool"
  osCommandOutput :: "string \<Rightarrow> ('d, string) call"
  dateTimeOf :: "string \<Rightarrow> ('d, 't) call"
  addDuration :: "'t \<Rightarrow> size_t \<Rightarrow> 't"
  atCreateField :: "nat \<Rightarrow> FieldOptions \<Rightarrow> ('d, Field) call"
  atGather :: "nat \<Rightarrow> Field \<Rightarrow> Field \<Rightarrow> ('d, Field) call"
  atScatter :: "nat \<Rightarrow> Field \<Rightarrow> Field \<Rightarrow> ('d, Field) call"
  atHaloExchange :: "Field \<Rightarrow> ('d, Field) call"
  atFieldSetAdd :: "FieldSet \<Rightarrow> string \<Rightarrow> ref \<Rightarrow> FieldSet"
  atGhost :: "nat \<Rightarrow> int32 list"
  atLonLat :: "nat \<Rightarrow> (double \<times> double) list"
  atGridName :: "nat \<Rightarrow> string"
  atGridLonLat :: "string \<Rightarrow> (double \<times> double) list"
  atClosestPoint :: "(double \<times> double) list \<Rightarrow> size_t list \<Rightarrow> double \<times> double \<Rightarrow> size_t"

section \<open>Making a call\<close>

definition callS :: "(string \<Rightarrow> error) \<Rightarrow> ('d, 'a) call \<Rightarrow> (('d, 't) world, 'a) st" where
  "callS err f = (\<lambda>w. case f (outside w) of
      (Inl s, d) \<Rightarrow> (Inl (err s), w\<lparr>outside := d\<rparr>)
    | (Inr x, d) \<Rightarrow> (Inr x, w\<lparr>outside := d\<rparr>))"

abbreviation ncS :: "('d, 'a) call \<Rightarrow> (('d, 't) world, 'a) st" where
  "ncS \<equiv> callS NcException"

abbreviation atlasS :: "('d, 'a) call \<Rightarrow> (('d, 't) world, 'a) st" where
  "atlasS \<equiv> callS AtlasException"

lemma callS_Inr: "f (outside w) = (Inr x, d) \<Longrightarrow> callS err f w = (Inr x, w\<lparr>outside := d\<rparr>)"
  by (simp add: callS_def)

lemma callS_Inl: "f (outside w) = (Inl s, d) \<Longrightarrow> callS err f w = (Inl (err s), w\<lparr>outside := d\<rparr>)"
  by (simp add: callS_def)

text \<open>A call changes nothing of the process but \<open>outside\<close>.\<close>

lemma callS_frame: "snd (callS err f w) = w\<lparr>outside := snd (f (outside w))\<rparr>"
  by (auto simp: callS_def split: prod.split sum.split)

lemma keepsS_callS [keeps_intros]:
  assumes "\<And>w d. I w \<Longrightarrow> I (w\<lparr>outside := d\<rparr>)"
  shows "keepsS I (callS err f)"
  using assms by (simp add: keepsS_def callS_frame)

section \<open>Objects on the heaps\<close>

text \<open>Following a pointer; a position outside the heap stands for a dangling or null pointer.\<close>

definition derefS :: "(('d, 't) world \<Rightarrow> 'a list) \<Rightarrow> ref \<Rightarrow> (('d, 't) world, 'a) st" where
  "derefS heap r = (\<lambda>w. if r < length (heap w) then (Inr (heap w ! r), w)
                        else (Inl (Undefined ''dangling pointer''), w))"

definition newVariable :: "Variable \<Rightarrow> (('d, 't) world, ref) st" where
  "newVariable v = (\<lambda>w. (Inr (length (varHeap w)), w\<lparr>varHeap := varHeap w @ [v]\<rparr>))"

definition setVariable :: "ref \<Rightarrow> Variable \<Rightarrow> (('d, 't) world, unit) st" where
  "setVariable r v = modifyS (\<lambda>w. w\<lparr>varHeap := (varHeap w)[r := v]\<rparr>)"

definition newField :: "Field \<Rightarrow> (('d, 't) world, ref) st" where
  "newField f = (\<lambda>w. (Inr (length (fieldHeap w)), w\<lparr>fieldHeap := fieldHeap w @ [f]\<rparr>))"

definition setField :: "ref \<Rightarrow> Field \<Rightarrow> (('d, 't) world, unit) st" where
  "setField r f = modifyS (\<lambda>w. w\<lparr>fieldHeap := (fieldHeap w)[r := f]\<rparr>)"

definition newFile :: "File \<Rightarrow> (('d, 't) world, ref) st" where
  "newFile f = (\<lambda>w. (Inr (length (fileHeap w)), w\<lparr>fileHeap := fileHeap w @ [f]\<rparr>))"

definition setFile :: "ref \<Rightarrow> File \<Rightarrow> (('d, 't) world, unit) st" where
  "setFile r f = modifyS (\<lambda>w. w\<lparr>fileHeap := (fileHeap w)[r := f]\<rparr>)"

definition newReader :: "Reader \<Rightarrow> (('d, 't) world, ref) st" where
  "newReader x = (\<lambda>w. (Inr (length (readerHeap w)), w\<lparr>readerHeap := readerHeap w @ [x]\<rparr>))"

definition setReader :: "ref \<Rightarrow> Reader \<Rightarrow> (('d, 't) world, unit) st" where
  "setReader r x = modifyS (\<lambda>w. w\<lparr>readerHeap := (readerHeap w)[r := x]\<rparr>)"

definition newWriter :: "Writer \<Rightarrow> (('d, 't) world, ref) st" where
  "newWriter x = (\<lambda>w. (Inr (length (writerHeap w)), w\<lparr>writerHeap := writerHeap w @ [x]\<rparr>))"

definition setWriter :: "ref \<Rightarrow> Writer \<Rightarrow> (('d, 't) world, unit) st" where
  "setWriter r x = modifyS (\<lambda>w. w\<lparr>writerHeap := (writerHeap w)[r := x]\<rparr>)"

lemma derefS_ok [st_simps]: "r < length (heap w) \<Longrightarrow> derefS heap r w = (Inr (heap w ! r), w)"
  by (simp add: derefS_def)

lemma derefS_bad: "\<not> r < length (heap w) \<Longrightarrow> derefS heap r w = (Inl (Undefined ''dangling pointer''), w)"
  by (simp add: derefS_def)

lemma bindS_derefS [st_simps]:
  "r < length (heap w) \<Longrightarrow> bindS (derefS heap r) f w = f (heap w ! r) w"
  by (simp add: bindS_def derefS_def)

lemma keepsS_derefS [keeps_intros]: "keepsS I (derefS heap r)"
  by (simp add: keepsS_def derefS_def)

lemmas new_apply [st_simps] =
  newVariable_def [THEN fun_cong] newField_def [THEN fun_cong] newFile_def [THEN fun_cong]
  newReader_def [THEN fun_cong] newWriter_def [THEN fun_cong]

lemmas set_apply [st_simps] =
  setVariable_def setField_def setFile_def setReader_def setWriter_def

end
