(* ===== verification/File_Handles.thy ===== *)
theory File_Handles
  imports Services
begin

text \<open>
  Who owns an open file: construction and closing of \<open>File\<close> (\<open>File.cc\<close>), opening and closing of
  \<open>Reader\<close> and \<open>Writer\<close> (\<open>Reader.cc\<close>, \<open>Writer.cc\<close>), the singleton (\<open>Monio::get\<close>), its
  \<open>closeFiles\<close>, and the error exit \<open>closeFiles(); throwException(...)\<close> that nearly every member
  function of the program takes (\<open>failS\<close>). These come first because the small classes call them.

  The locale \<open>file_owner\<close> is what \<open>closeFiles\<close> relies on; \<open>Reader\<close> and \<open>Writer\<close> both provide it.
  \<open>wf_world\<close> is the ownership invariant of the state, kept by every operation here, whether it
  returns or throws.
\<close>

section \<open>The error exit of the program\<close>

definition throwException :: "string \<Rightarrow> string \<Rightarrow> (('d, 't) world, 'a) st" where
  "throwException who what =
    seqS (modifyS (\<lambda>w. w\<lparr>aborted := True\<rparr>)) (throwS (RuntimeError who what))"

section \<open>\<open>File\<close>: construction, \<open>close\<close>, destruction\<close>

text \<open>
  In the handler of the constructor \<open>close()\<close> finds a null pointer and does nothing.
\<close>

definition File_new :: "('d, 't) env \<Rightarrow> string \<Rightarrow> FileMode \<Rightarrow> (('d, 't) world, ref) st" where
  "File_new E filePath fileMode =
    bindS (catchNc (ncS (ncOpen E filePath fileMode)) (throwException ''File'')) (\<lambda>h.
    newFile \<lparr>fiPath = filePath, fiMode = fileMode, fiDataFile = Some h\<rparr>)"

definition File_close :: "('d, 't) env \<Rightarrow> ref \<Rightarrow> (('d, 't) world, unit) st" where
  "File_close E r =
    bindS (derefS fileHeap r) (\<lambda>f.
    case fiDataFile f of
      None \<Rightarrow> returnS ()
    | Some h \<Rightarrow> seqS (ncS (ncClose E h)) (setFile r (f\<lparr>fiDataFile := None\<rparr>)))"

text \<open>An exception that leaves the destructor ends the program.\<close>

definition File_delete :: "('d, 't) env \<Rightarrow> ref \<Rightarrow> (('d, 't) world, unit) st" where
  "File_delete E r = catchNc (File_close E r) (\<lambda>_. throwS Terminate)"

definition File_getFile :: "ref \<Rightarrow> (('d, 't) world, nat) st" where
  "File_getFile r =
    bindS (derefS fileHeap r) (\<lambda>f.
    case fiDataFile f of
      None \<Rightarrow> throwException ''File::getFile'' ''Data file has not been initialised''
    | Some h \<Rightarrow> returnS h)"

section \<open>\<open>Reader\<close>: opening and closing\<close>

definition Reader_isOpen :: "ref \<Rightarrow> (('d, 't) world, bool) st" where
  "Reader_isOpen r = bindS (derefS readerHeap r) (\<lambda>rd. returnS (rdFile rd \<noteq> None))"

definition Reader_getFile :: "ref \<Rightarrow> (('d, 't) world, ref) st" where
  "Reader_getFile r =
    bindS (derefS readerHeap r) (\<lambda>rd.
    case rdFile rd of
      None \<Rightarrow> throwException ''Reader::getFile'' ''File has not been initialised''
    | Some f \<Rightarrow> returnS f)"

text \<open>\<open>onOwner\<close>: the test \<open>mpiCommunicator_.rank() == mpiRankOwner_\<close> around a body.\<close>

definition Reader_onOwner :: "ref \<Rightarrow> (('d, 't) world, unit) st \<Rightarrow> (('d, 't) world, unit) st" where
  "Reader_onOwner r body =
    bindS (derefS readerHeap r) (\<lambda>rd.
    bindS (getS mpiRank) (\<lambda>rank.
    whenS (rank = rdOwner rd) body))"

definition Reader_resetFile :: "('d, 't) env \<Rightarrow> ref \<Rightarrow> ref option \<Rightarrow> (('d, 't) world, unit) st" where
  "Reader_resetFile E r new =
    bindS (derefS readerHeap r) (\<lambda>rd.
    seqS (setReader r (rd\<lparr>rdFile := new\<rparr>))
      (case rdFile rd of None \<Rightarrow> returnS () | Some old \<Rightarrow> File_delete E old))"

definition Reader_closeFile :: "('d, 't) env \<Rightarrow> ref \<Rightarrow> (('d, 't) world, unit) st" where
  "Reader_closeFile E r = Reader_onOwner r (
    bindS (Reader_isOpen r) (\<lambda>isOpen.
    whenS isOpen (
      bindS (Reader_getFile r) (\<lambda>f.
      seqS (File_close E f) (Reader_resetFile E r None)))))"

definition Reader_openFile :: "('d, 't) env \<Rightarrow> ref \<Rightarrow> string \<Rightarrow> (('d, 't) world, unit) st" where
  "Reader_openFile E r filePath = Reader_onOwner r (
    whenS (length filePath \<noteq> 0) (
      catchNc
        (bindS (File_new E filePath nc_read) (\<lambda>f. Reader_resetFile E r (Some f)))
        (\<lambda>_. seqS (Reader_closeFile E r)
               (throwException ''Reader::openFile'' ''An exception occurred while accessing File''))))"

text \<open>The two constructors; the one that is given a path opens the file.\<close>

definition Reader_new :: "nat \<Rightarrow> (('d, 't) world, ref) st" where
  "Reader_new mpiRankOwner = newReader \<lparr>rdOwner = mpiRankOwner, rdFile = None\<rparr>"

definition Reader_newOpen :: "('d, 't) env \<Rightarrow> nat \<Rightarrow> string \<Rightarrow> (('d, 't) world, ref) st" where
  "Reader_newOpen E mpiRankOwner filePath =
    bindS (newReader \<lparr>rdOwner = mpiRankOwner, rdFile = None\<rparr>) (\<lambda>r.
    seqS (Reader_openFile E r filePath) (returnS r))"

section \<open>\<open>Writer\<close>: opening and closing\<close>

definition Writer_isOpen :: "ref \<Rightarrow> (('d, 't) world, bool) st" where
  "Writer_isOpen r = bindS (derefS writerHeap r) (\<lambda>wr. returnS (wrFile wr \<noteq> None))"

definition Writer_getFile :: "ref \<Rightarrow> (('d, 't) world, ref) st" where
  "Writer_getFile r =
    bindS (derefS writerHeap r) (\<lambda>wr.
    case wrFile wr of
      None \<Rightarrow> throwException ''Writer::getFile'' ''File has not been initialised''
    | Some f \<Rightarrow> returnS f)"

definition Writer_onOwner :: "ref \<Rightarrow> (('d, 't) world, unit) st \<Rightarrow> (('d, 't) world, unit) st" where
  "Writer_onOwner r body =
    bindS (derefS writerHeap r) (\<lambda>wr.
    bindS (getS mpiRank) (\<lambda>rank.
    whenS (rank = wrOwner wr) body))"

definition Writer_resetFile :: "('d, 't) env \<Rightarrow> ref \<Rightarrow> ref option \<Rightarrow> (('d, 't) world, unit) st" where
  "Writer_resetFile E r new =
    bindS (derefS writerHeap r) (\<lambda>wr.
    seqS (setWriter r (wr\<lparr>wrFile := new\<rparr>))
      (case wrFile wr of None \<Rightarrow> returnS () | Some old \<Rightarrow> File_delete E old))"

definition Writer_closeFile :: "('d, 't) env \<Rightarrow> ref \<Rightarrow> (('d, 't) world, unit) st" where
  "Writer_closeFile E r = Writer_onOwner r (
    bindS (Writer_isOpen r) (\<lambda>isOpen.
    whenS isOpen (
      bindS (Writer_getFile r) (\<lambda>f.
      seqS (File_close E f) (Writer_resetFile E r None)))))"

definition Writer_openFile :: "('d, 't) env \<Rightarrow> ref \<Rightarrow> string \<Rightarrow> (('d, 't) world, unit) st" where
  "Writer_openFile E r filePath = Writer_onOwner r (
    whenS (length filePath \<noteq> 0) (
      catchNc
        (bindS (File_new E filePath nc_replace) (\<lambda>f. Writer_resetFile E r (Some f)))
        (\<lambda>_. seqS (Writer_closeFile E r)
               (throwException ''Writer::openFile'' ''An exception occurred while creating File''))))"

definition Writer_new :: "nat \<Rightarrow> (('d, 't) world, ref) st" where
  "Writer_new mpiRankOwner = newWriter \<lparr>wrOwner = mpiRankOwner, wrFile = None\<rparr>"

definition Writer_newOpen :: "('d, 't) env \<Rightarrow> nat \<Rightarrow> string \<Rightarrow> (('d, 't) world, ref) st" where
  "Writer_newOpen E mpiRankOwner filePath =
    bindS (newWriter \<lparr>wrOwner = mpiRankOwner, wrFile = None\<rparr>) (\<lambda>r.
    seqS (Writer_openFile E r filePath) (returnS r))"

section \<open>The singleton and \<open>closeFiles\<close>\<close>

text \<open>\<open>Monio::get\<close> constructs the instance, with its reader and writer, at the first call.\<close>

definition Monio_new :: "nat \<Rightarrow> (('d, 't) world, 't Monio) st" where
  "Monio_new mpiRankOwner =
    bindS (Reader_new mpiRankOwner) (\<lambda>rd.
    bindS (Writer_new mpiRankOwner) (\<lambda>wr.
    returnS \<lparr>moOwner = mpiRankOwner, moReader = rd, moWriter = wr,
             moAtlasWriter = \<lparr>awDimCount = 0\<rparr>, moFilesData = smap_empty\<rparr>))"

definition Monio_get :: "(('d, 't) world, 't Monio) st" where
  "Monio_get =
    bindS (getS theMonio) (\<lambda>this.
    case this of
      Some m \<Rightarrow> returnS m
    | None \<Rightarrow> bindS (Monio_new kMPIRankOwner) (\<lambda>m.
                seqS (modifyS (\<lambda>w. w\<lparr>theMonio := Some m\<rparr>)) (returnS m)))"

text \<open>
  \<open>~Monio\<close> deletes \<open>this_\<close>, the static pointer to the instance, and deleting an object runs its
  destructor; \<open>this_\<close> is not reset. A call that does not return is \<open>None\<close>.
\<close>

partial_function (option) Monio_destroy :: "('d, 't) world \<Rightarrow> unit option" where
  "Monio_destroy w = (case theMonio w of None \<Rightarrow> Some () | Some this \<Rightarrow> Monio_destroy w)"

definition Monio_closeFiles :: "('d, 't) env \<Rightarrow> 't Monio \<Rightarrow> (('d, 't) world, unit) st" where
  "Monio_closeFiles E this =
    bindS (Reader_isOpen (moReader this)) (\<lambda>readerOpen.
    seqS (whenS readerOpen (Reader_closeFile E (moReader this)))
   (bindS (Writer_isOpen (moWriter this)) (\<lambda>writerOpen.
    whenS writerOpen (Writer_closeFile E (moWriter this)))))"

text \<open>\<open>Monio::get().closeFiles(); utils::throwException(...)\<close>.\<close>

definition failS :: "('d, 't) env \<Rightarrow> string \<Rightarrow> string \<Rightarrow> (('d, 't) world, 'a) st" where
  "failS E who what =
    bindS Monio_get (\<lambda>m.
    seqS (Monio_closeFiles E m)
    (throwException who what))"

section \<open>The ownership invariant\<close>

text \<open>
  Every open file of a reader or writer is on the heap, only the PE of the owner's rank opens one,
  and the singleton's reader and writer exist.
\<close>

definition wf_world :: "('d, 't) world \<Rightarrow> bool" where
  "wf_world w \<longleftrightarrow>
    (\<forall>rd \<in> set (readerHeap w). \<forall>f. rdFile rd = Some f \<longrightarrow>
        f < length (fileHeap w) \<and> mpiRank w = rdOwner rd) \<and>
    (\<forall>wr \<in> set (writerHeap w). \<forall>f. wrFile wr = Some f \<longrightarrow>
        f < length (fileHeap w) \<and> mpiRank w = wrOwner wr) \<and>
    (\<forall>m. theMonio w = Some m \<longrightarrow>
        moReader m < length (readerHeap w) \<and> moWriter m < length (writerHeap w))"

text \<open>What is open: \<open>readerSlot\<close> and \<open>writerSlot\<close> are the \<open>file_\<close> members.\<close>

definition readerSlot :: "ref \<Rightarrow> ('d, 't) world \<Rightarrow> ref option" where
  "readerSlot r w = (if r < length (readerHeap w) then rdFile (readerHeap w ! r) else None)"

definition writerSlot :: "ref \<Rightarrow> ('d, 't) world \<Rightarrow> ref option" where
  "writerSlot r w = (if r < length (writerHeap w) then wrFile (writerHeap w ! r) else None)"

definition filesClosed :: "('d, 't) world \<Rightarrow> bool" where
  "filesClosed w \<longleftrightarrow>
    (\<forall>m. theMonio w = Some m \<longrightarrow> readerSlot (moReader m) w = None \<and> writerSlot (moWriter m) w = None)"

text \<open>The operations of this theory touch neither the variables nor the fields nor the rank, and
  the heaps only grow. \<open>handles_frame w w'\<close> collects this.\<close>

definition handles_frame :: "('d, 't) world \<Rightarrow> ('d, 't) world \<Rightarrow> bool" where
  "handles_frame w w' \<longleftrightarrow>
    mpiRank w' = mpiRank w \<and> varHeap w' = varHeap w \<and> fieldHeap w' = fieldHeap w \<and>
    length (fileHeap w) \<le> length (fileHeap w') \<and>
    length (readerHeap w) \<le> length (readerHeap w') \<and>
    length (writerHeap w) \<le> length (writerHeap w')"

lemma handles_frame_refl [simp]: "handles_frame w w"
  by (simp add: handles_frame_def)

lemma handles_frame_trans: "handles_frame w w' \<Longrightarrow> handles_frame w' w'' \<Longrightarrow> handles_frame w w''"
  by (simp add: handles_frame_def)

lemmas handle_defs =
  throwException_def File_new_def File_close_def File_delete_def File_getFile_def
  Reader_isOpen_def Reader_getFile_def Reader_onOwner_def Reader_resetFile_def
  Reader_closeFile_def Reader_openFile_def
  Writer_isOpen_def Writer_getFile_def Writer_onOwner_def Writer_resetFile_def
  Writer_closeFile_def Writer_openFile_def

lemmas unfold_st =
  bindS_def seqS_def returnS_def throwS_def getS_def modifyS_def whenS_def catchNc_def callS_def
  derefS_def newVariable_def newField_def newFile_def Reader_new_def Writer_new_def newReader_def newWriter_def
  setVariable_def setField_def setFile_def setReader_def setWriter_def

lemma wf_world_outside [simp]: "wf_world (w\<lparr>outside := d\<rparr>) = wf_world w"
  by (simp add: wf_world_def)

lemma wf_world_aborted [simp]: "wf_world (w\<lparr>aborted := b\<rparr>) = wf_world w"
  by (simp add: wf_world_def)

lemma wf_world_varHeap [simp]: "wf_world (w\<lparr>varHeap := vs\<rparr>) = wf_world w"
  by (simp add: wf_world_def)

lemma wf_world_fieldHeap [simp]: "wf_world (w\<lparr>fieldHeap := fs\<rparr>) = wf_world w"
  by (simp add: wf_world_def)

lemma wf_world_fileHeap: "length (fileHeap w) \<le> length fs \<Longrightarrow> wf_world w \<Longrightarrow> wf_world (w\<lparr>fileHeap := fs\<rparr>)"
  by (fastforce simp: wf_world_def)

lemma throwException_apply: "throwException who what w = (Inl (RuntimeError who what), w\<lparr>aborted := True\<rparr>)"
  by (simp add: throwException_def st_simps)

lemma throwException_wf [keeps_intros]: "keepsS wf_world (throwException who what)"
  by (simp add: keepsS_def throwException_apply)

lemma File_close_wf [keeps_intros]: "keepsS wf_world (File_close E r)"
  by (auto simp: keepsS_def File_close_def unfold_st wf_world_fileHeap
      split: prod.splits sum.splits option.splits)

lemma File_new_wf [keeps_intros]: "keepsS wf_world (File_new E p md)"
  unfolding File_new_def
  by (intro keeps_intros) (auto simp: keepsS_def newFile_def wf_world_fileHeap)

lemma File_delete_wf [keeps_intros]: "keepsS wf_world (File_delete E r)"
  unfolding File_delete_def by (intro keeps_intros)

section \<open>What closing and opening do\<close>

lemma File_close_apply:
  "f < length (fileHeap w) \<Longrightarrow>
   File_close E f w = (case fiDataFile (fileHeap w ! f) of
      None \<Rightarrow> (Inr (), w)
    | Some h \<Rightarrow> (case ncClose E h (outside w) of
        (Inl s, d) \<Rightarrow> (Inl (NcException s), w\<lparr>outside := d\<rparr>)
      | (Inr _, d) \<Rightarrow> (Inr (), w\<lparr>outside := d,
            fileHeap := (fileHeap w)[f := (fileHeap w ! f)\<lparr>fiDataFile := None\<rparr>]\<rparr>)))"
  by (simp add: File_close_def unfold_st split: option.split prod.split sum.split)

lemma File_close_closed:
  assumes "File_close E f w = (Inr (), w')"
  shows "fiDataFile (fileHeap w' ! f) = None \<and> length (fileHeap w') = length (fileHeap w) \<and>
    f < length (fileHeap w) \<and> readerHeap w' = readerHeap w \<and> writerHeap w' = writerHeap w \<and>
    theMonio w' = theMonio w \<and> mpiRank w' = mpiRank w"
proof -
  have f: "f < length (fileHeap w)"
    using assms by (rule contrapos_pp) (simp add: File_close_def bindS_Inl derefS_bad)
  show ?thesis
    using assms f by (auto simp: File_close_apply split: option.splits prod.splits sum.splits)
qed

text \<open>Destroying a closed file does nothing, so \<open>file_.reset()\<close> after \<open>close()\<close> is just that.\<close>

lemma File_delete_closed:
  "f < length (fileHeap w) \<Longrightarrow> fiDataFile (fileHeap w ! f) = None \<Longrightarrow> File_delete E f w = (Inr (), w)"
  by (simp add: File_delete_def catchNc_def File_close_apply)

lemma File_new_apply:
  "File_new E p md w = (case ncOpen E p md (outside w) of
      (Inl s, d) \<Rightarrow> (Inl (RuntimeError ''File'' s), w\<lparr>outside := d, aborted := True\<rparr>)
    | (Inr h, d) \<Rightarrow> (Inr (length (fileHeap w)), w\<lparr>outside := d,
        fileHeap := fileHeap w @ [\<lparr>fiPath = p, fiMode = md, fiDataFile = Some h\<rparr>]\<rparr>))"
  by (simp add: File_new_def unfold_st throwException_apply split: prod.split sum.split)

text \<open>Closing a reader: the three ways it can go.\<close>

lemma Reader_closeFile_idle:
  assumes "r < length (readerHeap w)" and "readerSlot r w = None \<or> mpiRank w \<noteq> rdOwner (readerHeap w ! r)"
  shows "Reader_closeFile E r w = (Inr (), w)"
  using assms by (auto simp: Reader_closeFile_def Reader_onOwner_def Reader_isOpen_def readerSlot_def
      st_simps whenS_def)

lemma Reader_closeFile_bad:
  "\<not> r < length (readerHeap w) \<Longrightarrow> Reader_closeFile E r w = (Inl (Undefined ''dangling pointer''), w)"
  by (simp add: Reader_closeFile_def Reader_onOwner_def bindS_Inl [OF derefS_bad])

lemma Reader_closeFile_open:
  assumes "wf_world w" and "readerSlot r w = Some f"
  shows "Reader_closeFile E r w = (case File_close E f w of
      (Inl e, w1) \<Rightarrow> (Inl e, w1)
    | (Inr _, w1) \<Rightarrow> (Inr (), w1\<lparr>readerHeap :=
        (readerHeap w1)[r := (readerHeap w1 ! r)\<lparr>rdFile := None\<rparr>]\<rparr>))"
proof -
  have r: "r < length (readerHeap w)" and slot: "rdFile (readerHeap w ! r) = Some f"
    using assms(2) by (auto simp: readerSlot_def split: if_splits)
  then have rank: "mpiRank w = rdOwner (readerHeap w ! r)"
    using assms(1) by (auto simp: wf_world_def)
  have "Reader_closeFile E r w = bindS (File_close E f) (\<lambda>_. Reader_resetFile E r None) w"
    using r slot rank
    by (simp add: Reader_closeFile_def Reader_onOwner_def Reader_isOpen_def Reader_getFile_def
        seqS_def st_simps)
  moreover have "Reader_resetFile E r None w1 = (Inr (), w1\<lparr>readerHeap :=
        (readerHeap w1)[r := (readerHeap w1 ! r)\<lparr>rdFile := None\<rparr>]\<rparr>)"
    if "File_close E f w = (Inr (), w1)" for w1
    using File_close_closed [OF that] r slot
    by (simp add: Reader_resetFile_def st_simps setReader_def File_delete_closed)
  ultimately show ?thesis
    by (auto simp: bindS_def split: prod.split sum.split)
qed

lemma Reader_closeFile_clears:
  assumes "wf_world w" and "r < length (readerHeap w)" and "Reader_closeFile E r w = (Inr (), w')"
  shows "readerSlot r w' = None"
proof (cases "readerSlot r w")
  case None
  then show ?thesis using assms by (simp add: Reader_closeFile_idle)
next
  case (Some f)
  then show ?thesis
    using assms by (auto simp: Reader_closeFile_open readerSlot_def dest: File_close_closed
        split: prod.splits sum.splits)
qed

lemma wf_world_clear_reader:
  "wf_world w \<Longrightarrow> wf_world (w\<lparr>readerHeap := (readerHeap w)[r := (readerHeap w ! r)\<lparr>rdFile := None\<rparr>]\<rparr>)"
  by (cases "r < length (readerHeap w)")
    (auto simp: wf_world_def dest!: set_update_subset_insert [THEN subsetD])

lemma Reader_closeFile_wf [keeps_intros]: "keepsS wf_world (Reader_closeFile E r)"
  unfolding keepsS_def
proof (intro allI impI)
  fix w :: "('a, 'b) world"
  assume wf: "wf_world w"
  show "wf_world (snd (Reader_closeFile E r w))"
  proof (cases "readerSlot r w")
    case None
    then show ?thesis
      using wf by (cases "r < length (readerHeap w)")
        (simp_all add: Reader_closeFile_idle Reader_closeFile_bad)
  next
    case (Some f)
    then show ?thesis
      using wf File_close_wf [of E f]
      by (auto simp: Reader_closeFile_open keepsS_def wf_world_clear_reader dest!: spec [of _ w]
          split: prod.split sum.split)
  qed
qed

text \<open>Opening: the new file is in the slot before the old one is destroyed.\<close>

lemma wf_world_set_reader:
  "wf_world w \<Longrightarrow> f < length (fileHeap w) \<Longrightarrow> mpiRank w = rdOwner (readerHeap w ! r) \<Longrightarrow>
   wf_world (w\<lparr>readerHeap := (readerHeap w)[r := (readerHeap w ! r)\<lparr>rdFile := Some f\<rparr>]\<rparr>)"
  by (cases "r < length (readerHeap w)")
    (auto simp: wf_world_def dest!: set_update_subset_insert [THEN subsetD])

lemma Reader_resetFile_apply:
  assumes "r < length (readerHeap w)"
  shows "Reader_resetFile E r new w =
    (case readerSlot r w of None \<Rightarrow> returnS () | Some old \<Rightarrow> File_delete E old)
      (w\<lparr>readerHeap := (readerHeap w)[r := (readerHeap w ! r)\<lparr>rdFile := new\<rparr>]\<rparr>)"
  using assms by (simp add: Reader_resetFile_def readerSlot_def st_simps setReader_def)

lemma Reader_resetFile_bad:
  "\<not> r < length (readerHeap w) \<Longrightarrow> Reader_resetFile E r new w = (Inl (Undefined ''dangling pointer''), w)"
  by (simp add: Reader_resetFile_def bindS_Inl [OF derefS_bad])

lemma Reader_openFile_idle:
  assumes "r < length (readerHeap w)" and "p = [] \<or> mpiRank w \<noteq> rdOwner (readerHeap w ! r)"
  shows "Reader_openFile E r p w = (Inr (), w)"
  using assms by (auto simp: Reader_openFile_def Reader_onOwner_def st_simps whenS_def)

lemma Reader_openFile_bad:
  "\<not> r < length (readerHeap w) \<Longrightarrow> Reader_openFile E r p w = (Inl (Undefined ''dangling pointer''), w)"
  by (simp add: Reader_openFile_def Reader_onOwner_def bindS_Inl [OF derefS_bad])

lemma Reader_resetFile_wf:
  assumes "wf_world w" and "f < length (fileHeap w)" and "r < length (readerHeap w)"
    and "mpiRank w = rdOwner (readerHeap w ! r)"
  shows "wf_world (snd (Reader_resetFile E r (Some f) w))"
proof -
  have "wf_world (w\<lparr>readerHeap := (readerHeap w)[r := (readerHeap w ! r)\<lparr>rdFile := Some f\<rparr>]\<rparr>)"
    using assms by (intro wf_world_set_reader)
  then show ?thesis
    using assms(3) by (auto simp: Reader_resetFile_apply returnS_def intro: keepsS_snd [OF File_delete_wf]
        split: option.split)
qed

text \<open>
  No NetCDF exception comes out of the body of \<open>openFile\<close>'s \<open>try\<close>: the constructor of \<open>File\<close> has
  caught it already. The handler of \<open>openFile\<close> is dead code.
\<close>

lemma File_new_no_NcException: "File_new E p md w \<noteq> (Inl (NcException s), w')"
  by (auto simp: File_new_apply split: prod.splits sum.splits)

lemma File_delete_no_NcException: "File_delete E f w \<noteq> (Inl (NcException s), w')"
  by (auto simp: File_delete_def catchNc_def throwS_def split: prod.splits sum.splits error.splits)

lemma Reader_openFile_owner:
  assumes "r < length (readerHeap w)" and "p \<noteq> []" and "mpiRank w = rdOwner (readerHeap w ! r)"
  shows "Reader_openFile E r p w =
    bindS (File_new E p nc_read) (\<lambda>f. Reader_resetFile E r (Some f)) w"
proof -
  have "Reader_resetFile E r (Some f) w1 \<noteq> (Inl (NcException s), w2)" for f w1 w2 s
    by (cases "r < length (readerHeap w1)")
      (auto simp: Reader_resetFile_apply Reader_resetFile_bad returnS_def
        File_delete_no_NcException split: option.split)
  then have "bindS (File_new E p nc_read) (\<lambda>f. Reader_resetFile E r (Some f)) w
      \<noteq> (Inl (NcException s), w2)" for w2 s
    using File_new_no_NcException [of E p nc_read w]
    by (auto simp: bindS_def split: prod.split sum.split)
  then show ?thesis
    using assms by (auto simp: Reader_openFile_def Reader_onOwner_def st_simps catchNc_def
        split: prod.split sum.split error.split)
qed

lemma Reader_openFile_sets:
  assumes "r < length (readerHeap w)" and "p \<noteq> []" and "mpiRank w = rdOwner (readerHeap w ! r)"
    and "Reader_openFile E r p w = (Inr (), w')"
  shows "readerSlot r w' = Some (length (fileHeap w))"
proof -
  obtain w1 where "File_new E p nc_read w = (Inr (length (fileHeap w)), w1)"
    and "readerHeap w1 = readerHeap w"
    and "Reader_resetFile E r (Some (length (fileHeap w))) w1 = (Inr (), w')"
    using assms by (auto simp: Reader_openFile_owner File_new_apply bindS_def
        split: prod.splits sum.splits)
  with assms(1) show ?thesis
    by (auto simp: Reader_resetFile_apply readerSlot_def returnS_def File_delete_def catchNc_def throwS_def
        split: option.splits prod.splits sum.splits error.splits dest!: File_close_closed)
qed

lemma Reader_openFile_wf [keeps_intros]: "keepsS wf_world (Reader_openFile E r p)"
  unfolding keepsS_def
proof (intro allI impI)
  fix w :: "('a, 'b) world"
  assume wf: "wf_world w"
  consider "\<not> r < length (readerHeap w)"
    | "r < length (readerHeap w)" "p = [] \<or> mpiRank w \<noteq> rdOwner (readerHeap w ! r)"
    | "r < length (readerHeap w)" "p \<noteq> []" "mpiRank w = rdOwner (readerHeap w ! r)"
    by blast
  then show "wf_world (snd (Reader_openFile E r p w))"
  proof cases
    case 3
    then show ?thesis
      using wf Reader_resetFile_wf wf_world_fileHeap
      by (auto simp: Reader_openFile_owner File_new_apply bindS_def intro!: Reader_resetFile_wf wf_world_fileHeap
          split: prod.split sum.split)
  qed (simp_all add: wf Reader_openFile_bad Reader_openFile_idle)
qed

text \<open>The same for a writer.\<close>

lemma Writer_closeFile_idle:
  assumes "r < length (writerHeap w)" and "writerSlot r w = None \<or> mpiRank w \<noteq> wrOwner (writerHeap w ! r)"
  shows "Writer_closeFile E r w = (Inr (), w)"
  using assms by (auto simp: Writer_closeFile_def Writer_onOwner_def Writer_isOpen_def writerSlot_def
      st_simps whenS_def)

lemma Writer_closeFile_bad:
  "\<not> r < length (writerHeap w) \<Longrightarrow> Writer_closeFile E r w = (Inl (Undefined ''dangling pointer''), w)"
  by (simp add: Writer_closeFile_def Writer_onOwner_def bindS_Inl [OF derefS_bad])

lemma Writer_closeFile_open:
  assumes "wf_world w" and "writerSlot r w = Some f"
  shows "Writer_closeFile E r w = (case File_close E f w of
      (Inl e, w1) \<Rightarrow> (Inl e, w1)
    | (Inr _, w1) \<Rightarrow> (Inr (), w1\<lparr>writerHeap :=
        (writerHeap w1)[r := (writerHeap w1 ! r)\<lparr>wrFile := None\<rparr>]\<rparr>))"
proof -
  have r: "r < length (writerHeap w)" and slot: "wrFile (writerHeap w ! r) = Some f"
    using assms(2) by (auto simp: writerSlot_def split: if_splits)
  then have rank: "mpiRank w = wrOwner (writerHeap w ! r)"
    using assms(1) by (auto simp: wf_world_def)
  have "Writer_closeFile E r w = bindS (File_close E f) (\<lambda>_. Writer_resetFile E r None) w"
    using r slot rank
    by (simp add: Writer_closeFile_def Writer_onOwner_def Writer_isOpen_def Writer_getFile_def
        seqS_def st_simps)
  moreover have "Writer_resetFile E r None w1 = (Inr (), w1\<lparr>writerHeap :=
        (writerHeap w1)[r := (writerHeap w1 ! r)\<lparr>wrFile := None\<rparr>]\<rparr>)"
    if "File_close E f w = (Inr (), w1)" for w1
    using File_close_closed [OF that] r slot
    by (simp add: Writer_resetFile_def st_simps setWriter_def File_delete_closed)
  ultimately show ?thesis
    by (auto simp: bindS_def split: prod.split sum.split)
qed

lemma Writer_closeFile_clears:
  assumes "wf_world w" and "r < length (writerHeap w)" and "Writer_closeFile E r w = (Inr (), w')"
  shows "writerSlot r w' = None"
proof (cases "writerSlot r w")
  case None
  then show ?thesis using assms by (simp add: Writer_closeFile_idle)
next
  case (Some f)
  then show ?thesis
    using assms by (auto simp: Writer_closeFile_open writerSlot_def dest: File_close_closed
        split: prod.splits sum.splits)
qed

lemma wf_world_clear_writer:
  "wf_world w \<Longrightarrow> wf_world (w\<lparr>writerHeap := (writerHeap w)[r := (writerHeap w ! r)\<lparr>wrFile := None\<rparr>]\<rparr>)"
  by (cases "r < length (writerHeap w)")
    (auto simp: wf_world_def dest!: set_update_subset_insert [THEN subsetD])

lemma Writer_closeFile_wf [keeps_intros]: "keepsS wf_world (Writer_closeFile E r)"
  unfolding keepsS_def
proof (intro allI impI)
  fix w :: "('a, 'b) world"
  assume wf: "wf_world w"
  show "wf_world (snd (Writer_closeFile E r w))"
  proof (cases "writerSlot r w")
    case None
    then show ?thesis
      using wf by (cases "r < length (writerHeap w)")
        (simp_all add: Writer_closeFile_idle Writer_closeFile_bad)
  next
    case (Some f)
    then show ?thesis
      using wf File_close_wf [of E f]
      by (auto simp: Writer_closeFile_open keepsS_def wf_world_clear_writer dest!: spec [of _ w]
          split: prod.split sum.split)
  qed
qed

lemma wf_world_set_writer:
  "wf_world w \<Longrightarrow> f < length (fileHeap w) \<Longrightarrow> mpiRank w = wrOwner (writerHeap w ! r) \<Longrightarrow>
   wf_world (w\<lparr>writerHeap := (writerHeap w)[r := (writerHeap w ! r)\<lparr>wrFile := Some f\<rparr>]\<rparr>)"
  by (cases "r < length (writerHeap w)")
    (auto simp: wf_world_def dest!: set_update_subset_insert [THEN subsetD])

lemma Writer_resetFile_apply:
  assumes "r < length (writerHeap w)"
  shows "Writer_resetFile E r new w =
    (case writerSlot r w of None \<Rightarrow> returnS () | Some old \<Rightarrow> File_delete E old)
      (w\<lparr>writerHeap := (writerHeap w)[r := (writerHeap w ! r)\<lparr>wrFile := new\<rparr>]\<rparr>)"
  using assms by (simp add: Writer_resetFile_def writerSlot_def st_simps setWriter_def)

lemma Writer_resetFile_bad:
  "\<not> r < length (writerHeap w) \<Longrightarrow> Writer_resetFile E r new w = (Inl (Undefined ''dangling pointer''), w)"
  by (simp add: Writer_resetFile_def bindS_Inl [OF derefS_bad])

lemma Writer_openFile_idle:
  assumes "r < length (writerHeap w)" and "p = [] \<or> mpiRank w \<noteq> wrOwner (writerHeap w ! r)"
  shows "Writer_openFile E r p w = (Inr (), w)"
  using assms by (auto simp: Writer_openFile_def Writer_onOwner_def st_simps whenS_def)

lemma Writer_openFile_bad:
  "\<not> r < length (writerHeap w) \<Longrightarrow> Writer_openFile E r p w = (Inl (Undefined ''dangling pointer''), w)"
  by (simp add: Writer_openFile_def Writer_onOwner_def bindS_Inl [OF derefS_bad])

lemma Writer_resetFile_wf:
  assumes "wf_world w" and "f < length (fileHeap w)" and "r < length (writerHeap w)"
    and "mpiRank w = wrOwner (writerHeap w ! r)"
  shows "wf_world (snd (Writer_resetFile E r (Some f) w))"
proof -
  have "wf_world (w\<lparr>writerHeap := (writerHeap w)[r := (writerHeap w ! r)\<lparr>wrFile := Some f\<rparr>]\<rparr>)"
    using assms by (intro wf_world_set_writer)
  then show ?thesis
    using assms(3) by (auto simp: Writer_resetFile_apply returnS_def intro: keepsS_snd [OF File_delete_wf]
        split: option.split)
qed

lemma Writer_openFile_owner:
  assumes "r < length (writerHeap w)" and "p \<noteq> []" and "mpiRank w = wrOwner (writerHeap w ! r)"
  shows "Writer_openFile E r p w =
    bindS (File_new E p nc_replace) (\<lambda>f. Writer_resetFile E r (Some f)) w"
proof -
  have "Writer_resetFile E r (Some f) w1 \<noteq> (Inl (NcException s), w2)" for f w1 w2 s
    by (cases "r < length (writerHeap w1)")
      (auto simp: Writer_resetFile_apply Writer_resetFile_bad returnS_def
        File_delete_no_NcException split: option.split)
  then have "bindS (File_new E p nc_replace) (\<lambda>f. Writer_resetFile E r (Some f)) w
      \<noteq> (Inl (NcException s), w2)" for w2 s
    using File_new_no_NcException [of E p nc_replace w]
    by (auto simp: bindS_def split: prod.split sum.split)
  then show ?thesis
    using assms by (auto simp: Writer_openFile_def Writer_onOwner_def st_simps catchNc_def
        split: prod.split sum.split error.split)
qed

lemma Writer_openFile_sets:
  assumes "r < length (writerHeap w)" and "p \<noteq> []" and "mpiRank w = wrOwner (writerHeap w ! r)"
    and "Writer_openFile E r p w = (Inr (), w')"
  shows "writerSlot r w' = Some (length (fileHeap w))"
proof -
  obtain w1 where "File_new E p nc_replace w = (Inr (length (fileHeap w)), w1)"
    and "writerHeap w1 = writerHeap w"
    and "Writer_resetFile E r (Some (length (fileHeap w))) w1 = (Inr (), w')"
    using assms by (auto simp: Writer_openFile_owner File_new_apply bindS_def
        split: prod.splits sum.splits)
  with assms(1) show ?thesis
    by (auto simp: Writer_resetFile_apply writerSlot_def returnS_def File_delete_def catchNc_def throwS_def
        split: option.splits prod.splits sum.splits error.splits dest!: File_close_closed)
qed

lemma Writer_openFile_wf [keeps_intros]: "keepsS wf_world (Writer_openFile E r p)"
  unfolding keepsS_def
proof (intro allI impI)
  fix w :: "('a, 'b) world"
  assume wf: "wf_world w"
  consider "\<not> r < length (writerHeap w)"
    | "r < length (writerHeap w)" "p = [] \<or> mpiRank w \<noteq> wrOwner (writerHeap w ! r)"
    | "r < length (writerHeap w)" "p \<noteq> []" "mpiRank w = wrOwner (writerHeap w ! r)"
    by blast
  then show "wf_world (snd (Writer_openFile E r p w))"
  proof cases
    case 3
    then show ?thesis
      using wf Writer_resetFile_wf wf_world_fileHeap
      by (auto simp: Writer_openFile_owner File_new_apply bindS_def intro!: Writer_resetFile_wf wf_world_fileHeap
          split: prod.split sum.split)
  qed (simp_all add: wf Writer_openFile_bad Writer_openFile_idle)
qed

end
