(* ===== verification/Closing.thy ===== *)
theory Closing
  imports File_Handles
begin

text \<open>
  The contract of an object that owns an open file (\<open>file_owner\<close>), provided by \<open>Reader\<close> and by
  \<open>Writer\<close>, and what the program builds on it: \<open>Monio::closeFiles\<close> leaves no file of the
  singleton open, and the error exit \<open>failS\<close> of every member function therefore ends with both
  files closed and the process aborted.
\<close>

section \<open>The contract\<close>

locale file_owner =
  fixes isOpen :: "ref \<Rightarrow> ('w, bool) st"
    and closeFile :: "ref \<Rightarrow> ('w, unit) st"
    and openFile :: "ref \<Rightarrow> string \<Rightarrow> ('w, unit) st"
    and slot :: "ref \<Rightarrow> 'w \<Rightarrow> ref option"
    and valid :: "ref \<Rightarrow> 'w \<Rightarrow> bool"
    and owns :: "ref \<Rightarrow> 'w \<Rightarrow> bool"
    and inv :: "'w \<Rightarrow> bool"
  assumes isOpen_slot: "valid r w \<Longrightarrow> isOpen r w = (Inr (slot r w \<noteq> None), w)"
    and close_idle: "valid r w \<Longrightarrow> slot r w = None \<Longrightarrow> closeFile r w = (Inr (), w)"
    and close_clears: "inv w \<Longrightarrow> valid r w \<Longrightarrow> closeFile r w = (Inr (), w') \<Longrightarrow> slot r w' = None"
    and close_valid: "inv w \<Longrightarrow> valid r w \<Longrightarrow> closeFile r w = (Inr (), w') \<Longrightarrow> valid r w'"
    and open_idle: "valid r w \<Longrightarrow> p = [] \<or> \<not> owns r w \<Longrightarrow> openFile r p w = (Inr (), w)"
    and open_sets: "valid r w \<Longrightarrow> p \<noteq> [] \<Longrightarrow> owns r w \<Longrightarrow> openFile r p w = (Inr (), w') \<Longrightarrow>
                    slot r w' \<noteq> None"
    and open_valid: "valid r w \<Longrightarrow> openFile r p w = (Inr (), w') \<Longrightarrow> valid r w'"
    and close_keeps: "keepsS inv (closeFile r)"
    and open_keeps: "keepsS inv (openFile r p)"
begin

text \<open>Asking whether a file is open before closing it changes nothing.\<close>

lemma closeIfOpen:
  assumes "valid r w"
  shows "bindS (isOpen r) (\<lambda>isOpen. whenS isOpen (closeFile r)) w = closeFile r w"
  using assms by (cases "slot r w = None") (auto simp: bindS_def isOpen_slot whenS_def returnS_def close_idle)

lemma closeIfOpen_then:
  assumes "valid r w"
  shows "bindS (isOpen r) (\<lambda>isOpen. seqS (whenS isOpen (closeFile r)) k) w = seqS (closeFile r) k w"
  using closeIfOpen [OF assms] assms by (simp add: bindS_def seqS_def isOpen_slot)

text \<open>Closing twice is closing once.\<close>

lemma close_twice:
  assumes "inv w" and "valid r w" and "closeFile r w = (Inr (), w')"
  shows "closeFile r w' = (Inr (), w')"
  using close_clears [OF assms] close_valid [OF assms] by (rule close_idle [rotated])

lemma close_inv: "inv w \<Longrightarrow> inv (snd (closeFile r w))"
  by (rule keepsS_snd [OF close_keeps])

text \<open>Opening and closing leaves the slot empty.\<close>

lemma open_close:
  assumes "inv w" and "valid r w" and "openFile r p w = (Inr (), w1)" and "closeFile r w1 = (Inr (), w2)"
  shows "slot r w2 = None \<and> inv w2"
proof -
  have "inv w1" using keepsS_snd [OF open_keeps assms(1), of r p] assms(3) by simp
  moreover have "valid r w1" using assms(2,3) by (rule open_valid)
  ultimately show ?thesis
    using assms(4) close_clears close_inv [of w1 r] by auto
qed

end

section \<open>Readers and writers provide it\<close>

definition readerValid :: "ref \<Rightarrow> ('d, 't) world \<Rightarrow> bool" where
  "readerValid r w \<longleftrightarrow> r < length (readerHeap w)"

definition writerValid :: "ref \<Rightarrow> ('d, 't) world \<Rightarrow> bool" where
  "writerValid r w \<longleftrightarrow> r < length (writerHeap w)"

definition readerOwns :: "ref \<Rightarrow> ('d, 't) world \<Rightarrow> bool" where
  "readerOwns r w \<longleftrightarrow> mpiRank w = rdOwner (readerHeap w ! r)"

definition writerOwns :: "ref \<Rightarrow> ('d, 't) world \<Rightarrow> bool" where
  "writerOwns r w \<longleftrightarrow> mpiRank w = wrOwner (writerHeap w ! r)"

lemma Reader_isOpen_apply:
  "r < length (readerHeap w) \<Longrightarrow> Reader_isOpen r w = (Inr (readerSlot r w \<noteq> None), w)"
  by (simp add: Reader_isOpen_def st_simps readerSlot_def returnS_def)

lemma Writer_isOpen_apply:
  "r < length (writerHeap w) \<Longrightarrow> Writer_isOpen r w = (Inr (writerSlot r w \<noteq> None), w)"
  by (simp add: Writer_isOpen_def st_simps writerSlot_def returnS_def)

text \<open>Neither operation moves an object: the heaps of readers and writers keep their length.\<close>

definition sameObjects :: "nat \<Rightarrow> nat \<Rightarrow> 't Monio option \<Rightarrow> nat \<Rightarrow> ('d, 't) world \<Rightarrow> bool" where
  "sameObjects nr nw m rank w \<longleftrightarrow>
    length (readerHeap w) = nr \<and> length (writerHeap w) = nw \<and> theMonio w = m \<and> mpiRank w = rank"

lemma sameObjects_simps [simp]:
  "sameObjects nr nw m k (w\<lparr>outside := d\<rparr>) = sameObjects nr nw m k w"
  "sameObjects nr nw m k (w\<lparr>aborted := b\<rparr>) = sameObjects nr nw m k w"
  "sameObjects nr nw m k (w\<lparr>fileHeap := fs\<rparr>) = sameObjects nr nw m k w"
  "sameObjects nr nw m k (w\<lparr>readerHeap := (readerHeap w)[r := rd]\<rparr>) = sameObjects nr nw m k w"
  "sameObjects nr nw m k (w\<lparr>writerHeap := (writerHeap w)[r := wr]\<rparr>) = sameObjects nr nw m k w"
  by (simp_all add: sameObjects_def)

lemma throwException_same [keeps_intros]:
  "keepsS (sameObjects nr nw m k) (throwException who what)"
  by (simp add: keepsS_def throwException_apply)

lemma File_close_same [keeps_intros]: "keepsS (sameObjects nr nw m k) (File_close E f)"
  unfolding File_close_def set_apply
  by (intro keeps_intros) (auto intro!: keeps_intros split: option.split)

lemma File_delete_same [keeps_intros]: "keepsS (sameObjects nr nw m k) (File_delete E f)"
  unfolding File_delete_def by (intro keeps_intros)

lemma File_new_same [keeps_intros]: "keepsS (sameObjects nr nw m k) (File_new E p md)"
  unfolding File_new_def by (intro keeps_intros) (auto simp: keepsS_def newFile_def)

lemma Reader_closeFile_same [keeps_intros]: "keepsS (sameObjects nr nw m k) (Reader_closeFile E r)"
  unfolding Reader_closeFile_def Reader_onOwner_def Reader_isOpen_def Reader_getFile_def
    Reader_resetFile_def set_apply
  by (intro keeps_intros) (auto intro!: keeps_intros split: option.split)

lemma Writer_closeFile_same [keeps_intros]: "keepsS (sameObjects nr nw m k) (Writer_closeFile E r)"
  unfolding Writer_closeFile_def Writer_onOwner_def Writer_isOpen_def Writer_getFile_def
    Writer_resetFile_def set_apply
  by (intro keeps_intros) (auto intro!: keeps_intros split: option.split)

lemma Reader_openFile_same [keeps_intros]: "keepsS (sameObjects nr nw m k) (Reader_openFile E r p)"
  unfolding Reader_openFile_def Reader_onOwner_def Reader_resetFile_def set_apply
  by (intro keeps_intros) (auto intro!: keeps_intros split: option.split)

lemma Writer_openFile_same [keeps_intros]: "keepsS (sameObjects nr nw m k) (Writer_openFile E r p)"
  unfolding Writer_openFile_def Writer_onOwner_def Writer_resetFile_def set_apply
  by (intro keeps_intros) (auto intro!: keeps_intros split: option.split)

lemma sameObjects_keeps:
  assumes "\<And>nr nw m k. keepsS (sameObjects nr nw m k) c"
  shows "length (readerHeap (snd (c w))) = length (readerHeap w)"
    and "length (writerHeap (snd (c w))) = length (writerHeap w)"
    and "theMonio (snd (c w)) = theMonio w"
    and "mpiRank (snd (c w)) = mpiRank w"
  using keepsS_snd [OF assms, of "length (readerHeap w)" "length (writerHeap w)" "theMonio w" "mpiRank w" w]
  by (simp_all add: sameObjects_def)

lemmas closeFile_objects =
  sameObjects_keeps [OF Reader_closeFile_same] sameObjects_keeps [OF Writer_closeFile_same]

lemmas openFile_objects =
  sameObjects_keeps [OF Reader_openFile_same] sameObjects_keeps [OF Writer_openFile_same]

interpretation reader_file: file_owner Reader_isOpen "Reader_closeFile E" "Reader_openFile E"
    readerSlot readerValid readerOwns wf_world
  for E :: "('d, 't) env"
proof (unfold_locales, goal_cases)
  case (4 w r w')
  then show ?case using closeFile_objects(1) [of E r w] by (simp add: readerValid_def)
next
  case (6 r w p w')
  then show ?case by (simp add: readerValid_def readerOwns_def Reader_openFile_sets)
next
  case (7 r w p w')
  then show ?case using openFile_objects(1) [of E r p w] by (simp add: readerValid_def)
qed (auto simp: readerValid_def readerOwns_def Reader_isOpen_apply Reader_closeFile_idle
    Reader_openFile_idle intro: Reader_closeFile_clears keeps_intros)

interpretation writer_file: file_owner Writer_isOpen "Writer_closeFile E" "Writer_openFile E"
    writerSlot writerValid writerOwns wf_world
  for E :: "('d, 't) env"
proof (unfold_locales, goal_cases)
  case (4 w r w')
  then show ?case using closeFile_objects(6) [of E r w] by (simp add: writerValid_def)
next
  case (6 r w p w')
  then show ?case by (simp add: writerValid_def writerOwns_def Writer_openFile_sets)
next
  case (7 r w p w')
  then show ?case using openFile_objects(6) [of E r p w] by (simp add: writerValid_def)
qed (auto simp: writerValid_def writerOwns_def Writer_isOpen_apply Writer_closeFile_idle
    Writer_openFile_idle intro: Writer_closeFile_clears keeps_intros)

section \<open>Destroying the singleton\<close>

lemma Monio_destroy_returns: "Monio_destroy w = Some u \<Longrightarrow> theMonio w = None"
  by (rule Monio_destroy.raw_induct [where P = "\<lambda>w u. theMonio w = None"]) (auto split: option.splits)


section \<open>\<open>Monio::get\<close> and \<open>closeFiles\<close>\<close>

lemma Monio_get_Some: "theMonio w = Some m \<Longrightarrow> Monio_get w = (Inr m, w)"
  by (simp add: Monio_get_def st_simps returnS_def)

lemma Monio_get_None:
  "theMonio w = None \<Longrightarrow>
   Monio_get w =
    (let m = \<lparr>moOwner = kMPIRankOwner, moReader = length (readerHeap w), moWriter = length (writerHeap w),
              moAtlasWriter = \<lparr>awDimCount = 0\<rparr>, moFilesData = smap_empty\<rparr>
     in (Inr m, w\<lparr>readerHeap := readerHeap w @ [\<lparr>rdOwner = kMPIRankOwner, rdFile = None\<rparr>],
                  writerHeap := writerHeap w @ [\<lparr>wrOwner = kMPIRankOwner, wrFile = None\<rparr>],
                  theMonio := Some m\<rparr>))"
  by (simp add: Monio_get_def Monio_new_def unfold_st Let_def)

lemma Monio_get_ok:
  assumes "wf_world w"
  obtains m w' where "Monio_get w = (Inr m, w')" and "wf_world w'" and "theMonio w' = Some m"
    and "mpiRank w' = mpiRank w" and "varHeap w' = varHeap w" and "fieldHeap w' = fieldHeap w"
    and "outside w' = outside w" and "aborted w' = aborted w"
proof (cases "theMonio w")
  case None
  then show ?thesis
    using assms by (intro that [OF Monio_get_None [OF None, unfolded Let_def]]) (auto simp: wf_world_def)
next
  case (Some m)
  then show ?thesis using assms by (intro that) (auto simp: Monio_get_Some)
qed

lemma wf_world_monio:
  "wf_world w \<Longrightarrow> theMonio w = Some m \<Longrightarrow>
   moReader m < length (readerHeap w) \<and> moWriter m < length (writerHeap w)"
  by (simp add: wf_world_def)

text \<open>\<open>closeFiles\<close> closes the reader's file, then the writer's.\<close>

lemma Monio_closeFiles_eq:
  assumes "wf_world w" and "theMonio w = Some m"
  shows "Monio_closeFiles E m w =
    seqS (Reader_closeFile E (moReader m)) (Writer_closeFile E (moWriter m)) w"
proof -
  have "readerValid (moReader m) w"
    using wf_world_monio [OF assms] by (simp add: readerValid_def)
  then have "Monio_closeFiles E m w = seqS (Reader_closeFile E (moReader m))
      (bindS (Writer_isOpen (moWriter m)) (\<lambda>isOpen. whenS isOpen (Writer_closeFile E (moWriter m)))) w"
    unfolding Monio_closeFiles_def by (rule reader_file.closeIfOpen_then)
  also have "\<dots> = seqS (Reader_closeFile E (moReader m)) (Writer_closeFile E (moWriter m)) w"
  proof (cases "Reader_closeFile E (moReader m) w")
    case (Pair x w1)
    then have "writerValid (moWriter m) w1"
      using closeFile_objects(2) [of E "moReader m" w] wf_world_monio [OF assms]
      by (simp add: writerValid_def)
    then show ?thesis
      using Pair by (simp add: seqS_def bindS_def [of "Reader_closeFile E (moReader m)"]
          writer_file.closeIfOpen split: sum.split)
  qed
  finally show ?thesis .
qed

lemma Writer_closeFile_readers: "readerHeap (snd (Writer_closeFile E r w)) = readerHeap w"
proof -
  have keeps: "keepsS (\<lambda>w. readerHeap w = h) (Writer_closeFile E r)" for h
    unfolding Writer_closeFile_def Writer_onOwner_def Writer_isOpen_def Writer_getFile_def
      Writer_resetFile_def set_apply throwException_def File_delete_def File_close_def
    by (intro keeps_intros) (auto intro!: keeps_intros split: option.split)
  show ?thesis by (rule keepsS_snd [OF keeps]) simp
qed

lemma Monio_closeFiles_closes:
  assumes "wf_world w" and "theMonio w = Some m" and "Monio_closeFiles E m w = (Inr (), w')"
  shows "filesClosed w' \<and> wf_world w' \<and> theMonio w' = Some m"
proof -
  obtain w1 where rd: "Reader_closeFile E (moReader m) w = (Inr (), w1)"
    and wr: "Writer_closeFile E (moWriter m) w1 = (Inr (), w')"
    using assms by (auto simp: Monio_closeFiles_eq seqS_def elim: bindS_InrE)
  have valid: "readerValid (moReader m) w" "moWriter m < length (writerHeap w)"
    using wf_world_monio [OF assms(1,2)] by (simp_all add: readerValid_def)
  have wf1: "wf_world w1" using reader_file.close_inv [OF assms(1), of E "moReader m"] rd by simp
  moreover have "moWriter m < length (writerHeap w1)" "theMonio w1 = Some m"
    using closeFile_objects(2,3) [of E "moReader m" w] rd valid assms(2) by simp_all
  ultimately have "writerSlot (moWriter m) w' = None" "theMonio w' = Some m" "wf_world w'"
    using writer_file.close_clears [OF wf1 _ wr] closeFile_objects(7) [of E "moWriter m" w1] wr
      writer_file.close_inv [OF wf1, of E "moWriter m"] by (simp_all add: writerValid_def)
  moreover have "readerSlot (moReader m) w' = None"
    using reader_file.close_clears [OF assms(1) valid(1) rd] Writer_closeFile_readers [of E "moWriter m" w1] wr
    by (simp add: readerSlot_def split: if_splits)
  ultimately show ?thesis by (simp add: filesClosed_def)
qed

section \<open>The error exit\<close>

text \<open>
  \<open>failS\<close> never returns; from a well-formed state it throws its own exception with both files of
  the singleton closed and the process aborted, unless NetCDF throws while closing.
\<close>

lemma Monio_get_wf [keeps_intros]: "keepsS wf_world Monio_get"
  by (metis Monio_get_ok keepsS_def snd_conv)

lemma throwException_bind [st_simps]: "bindS (throwException who what) f = throwException who what"
  by (simp add: throwException_def st_simps)

lemma failS_bind [st_simps]: "bindS (failS E who what) f = failS E who what"
  by (simp add: failS_def st_simps)

text \<open>
  \<open>handle_free I\<close>: \<open>I\<close> does not depend on the files, readers, writers and the singleton. The
  error exit keeps every such property.
\<close>

definition handle_free :: "(('d, 't) world \<Rightarrow> bool) \<Rightarrow> bool" where
  "handle_free I \<longleftrightarrow> (\<forall>w. I w \<longrightarrow>
    (\<forall>d. I (w\<lparr>outside := d\<rparr>)) \<and> (\<forall>b. I (w\<lparr>aborted := b\<rparr>)) \<and> (\<forall>h. I (w\<lparr>fileHeap := h\<rparr>)) \<and>
    (\<forall>h. I (w\<lparr>readerHeap := h\<rparr>)) \<and> (\<forall>h. I (w\<lparr>writerHeap := h\<rparr>)) \<and> (\<forall>m. I (w\<lparr>theMonio := m\<rparr>)))"

lemma handle_freeD:
  assumes "handle_free I" and "I w"
  shows "I (w\<lparr>outside := d\<rparr>)" and "I (w\<lparr>aborted := b\<rparr>)" and "I (w\<lparr>fileHeap := fh\<rparr>)"
    and "I (w\<lparr>readerHeap := rh\<rparr>)" and "I (w\<lparr>writerHeap := wh\<rparr>)" and "I (w\<lparr>theMonio := m\<rparr>)"
  using assms by (simp_all add: handle_free_def)

lemma handle_free_varHeap [intro, simp]: "handle_free (\<lambda>w. P (varHeap w))"
  by (simp add: handle_free_def)

lemma handle_free_fieldHeap [intro, simp]: "handle_free (\<lambda>w. P (fieldHeap w))"
  by (simp add: handle_free_def)

lemma throwException_free: "handle_free I \<Longrightarrow> keepsS I (throwException who what)"
  by (simp add: keepsS_def throwException_apply handle_freeD)

lemma File_close_free: "handle_free I \<Longrightarrow> keepsS I (File_close E f)"
  unfolding File_close_def setFile_def by (intro keeps_intros) (auto simp: handle_freeD)

lemma Reader_closeFile_free: "handle_free I \<Longrightarrow> keepsS I (Reader_closeFile E r)"
  unfolding Reader_closeFile_def Reader_onOwner_def Reader_isOpen_def Reader_getFile_def
    Reader_resetFile_def setReader_def File_delete_def
  by (intro keeps_intros throwException_free File_close_free) (auto simp: handle_freeD)

lemma Writer_closeFile_free: "handle_free I \<Longrightarrow> keepsS I (Writer_closeFile E r)"
  unfolding Writer_closeFile_def Writer_onOwner_def Writer_isOpen_def Writer_getFile_def
    Writer_resetFile_def setWriter_def File_delete_def
  by (intro keeps_intros throwException_free File_close_free) (auto simp: handle_freeD)

lemma Monio_get_free: "handle_free I \<Longrightarrow> keepsS I Monio_get"
  unfolding Monio_get_def Monio_new_def Reader_new_def Writer_new_def
  by (intro keeps_intros) (auto simp: keepsS_def new_apply handle_freeD)

lemma failS_free [keeps_intros]: "handle_free I \<Longrightarrow> keepsS I (failS E who what)"
  unfolding failS_def Monio_closeFiles_def Reader_isOpen_def Writer_isOpen_def
  by (intro keeps_intros Monio_get_free Reader_closeFile_free Writer_closeFile_free throwException_free)

lemma failS_not_Inr: "failS E who what w \<noteq> (Inr x, w')"
  by (auto simp: failS_def bindS_def seqS_def throwException_apply split: prod.splits sum.splits)

lemma filesClosed_aborted [simp]: "filesClosed (w\<lparr>aborted := b\<rparr>) = filesClosed w"
  by (simp add: filesClosed_def readerSlot_def writerSlot_def)

text \<open>A NetCDF library whose \<open>close\<close> never throws.\<close>

definition closeQuiet :: "('d, 't) env \<Rightarrow> bool" where
  "closeQuiet E \<longleftrightarrow> (\<forall>h d. \<not> isl (fst (ncClose E h d)))"

lemma closeQuietD: "closeQuiet E \<Longrightarrow> ncClose E h d \<noteq> (Inl s, d')"
  by (metis closeQuiet_def fst_conv sum.disc(1))

lemma File_close_quiet:
  assumes "closeQuiet E" and "f < length (fileHeap w)"
  shows "\<exists>w'. File_close E f w = (Inr (), w')"
  using assms by (auto simp: File_close_apply closeQuietD split: option.split prod.split sum.split)

lemma Reader_closeFile_quiet:
  assumes "closeQuiet E" and "wf_world w" and "r < length (readerHeap w)"
  shows "\<exists>w'. Reader_closeFile E r w = (Inr (), w')"
proof (cases "readerSlot r w")
  case (Some f)
  then have "f < length (fileHeap w)"
    using assms(2,3) by (auto simp: readerSlot_def wf_world_def)
  then show ?thesis
    using File_close_quiet [OF assms(1)] Some assms(2) by (fastforce simp: Reader_closeFile_open)
qed (use assms in \<open>simp add: Reader_closeFile_idle\<close>)

lemma Writer_closeFile_quiet:
  assumes "closeQuiet E" and "wf_world w" and "r < length (writerHeap w)"
  shows "\<exists>w'. Writer_closeFile E r w = (Inr (), w')"
proof (cases "writerSlot r w")
  case (Some f)
  then have "f < length (fileHeap w)"
    using assms(2,3) by (auto simp: writerSlot_def wf_world_def)
  then show ?thesis
    using File_close_quiet [OF assms(1)] Some assms(2) by (fastforce simp: Writer_closeFile_open)
qed (use assms in \<open>simp add: Writer_closeFile_idle\<close>)

lemma Monio_closeFiles_quiet:
  assumes "closeQuiet E" and "wf_world w" and "theMonio w = Some m"
  shows "\<exists>w'. Monio_closeFiles E m w = (Inr (), w')"
proof -
  obtain w1 where rd: "Reader_closeFile E (moReader m) w = (Inr (), w1)"
    using Reader_closeFile_quiet [OF assms(1,2)] wf_world_monio [OF assms(2,3)] by blast
  have "wf_world w1" using reader_file.close_inv [OF assms(2), of E "moReader m"] rd by simp
  moreover have "moWriter m < length (writerHeap w1)"
    using closeFile_objects(2) [of E "moReader m" w] rd wf_world_monio [OF assms(2,3)] by simp
  ultimately show ?thesis
    using Writer_closeFile_quiet [OF assms(1)] rd assms by (simp add: Monio_closeFiles_eq seqS_def bindS_Inr)
qed

lemma failS_quiet:
  assumes "closeQuiet E" and "wf_world w"
  shows "\<exists>w'. failS E who what w = (Inl (RuntimeError who what), w') \<and>
    filesClosed w' \<and> aborted w' \<and> wf_world w'"
proof -
  obtain m w1 where get: "Monio_get w = (Inr m, w1)" "wf_world w1" "theMonio w1 = Some m"
    using assms(2) by (rule Monio_get_ok)
  obtain w2 where close: "Monio_closeFiles E m w1 = (Inr (), w2)"
    using Monio_closeFiles_quiet [OF assms(1) get(2,3)] by blast
  have "failS E who what w = (Inl (RuntimeError who what), w2\<lparr>aborted := True\<rparr>)"
    by (simp add: failS_def seqS_def get(1) close bindS_Inr throwException_apply)
  moreover have "filesClosed (w2\<lparr>aborted := True\<rparr>)" "wf_world (w2\<lparr>aborted := True\<rparr>)"
    using Monio_closeFiles_closes [OF get(2,3) close] by simp_all
  ultimately show ?thesis by auto
qed

end
