(* ===== verification/Invariants.thy ===== *)
theory Invariants
  imports Closing
begin

text \<open>
  Invariants of the state of a process that calls into the library. \<open>call_invariant\<close> lists what an
  invariant must survive so that every operation of the program that does not touch a \<open>Variable\<close>
  and opens no file keeps it; \<open>world_invariant\<close> (\<open>Variables\<close>) adds the operations on variables, and
  \<open>reading_invariant\<close> and \<open>writing_invariant\<close> (\<open>Monio_Core\<close>) opening a file. Each theory proves
  \<open>keepsS I\<close> for its own operations once, in the context of these locales, and the invariants of
  the program are interpretations.
\<close>

locale call_invariant =
  fixes I :: "('d, 't) world \<Rightarrow> bool" and E :: "('d, 't) env"
  assumes outside_kept: "I w \<Longrightarrow> I (w\<lparr>outside := d\<rparr>)"
    and aborted_kept: "I w \<Longrightarrow> I (w\<lparr>aborted := b\<rparr>)"
    and fieldHeap_kept: "I w \<Longrightarrow> I (w\<lparr>fieldHeap := fs\<rparr>)"
    and fileHeap_kept: "I w \<Longrightarrow> length (fileHeap w) \<le> length hs \<Longrightarrow> I (w\<lparr>fileHeap := hs\<rparr>)"
    and theMonio_kept: "I w \<Longrightarrow> theMonio w = Some m \<Longrightarrow> moOwner m' = moOwner m \<Longrightarrow>
          moReader m' = moReader m \<Longrightarrow> moWriter m' = moWriter m \<Longrightarrow> I (w\<lparr>theMonio := Some m'\<rparr>)"
    and Monio_get_kept [keeps_intros]: "keepsS I Monio_get"
    and Reader_closeFile_kept [keeps_intros]: "keepsS I (Reader_closeFile E r)"
    and Writer_closeFile_kept [keeps_intros]: "keepsS I (Writer_closeFile E r)"
begin

lemma callS_kept [keeps_intros]: "keepsS I (callS err f)"
  by (rule keepsS_callS) (rule outside_kept)

lemma throwException_kept [keeps_intros]: "keepsS I (throwException who what)"
  by (simp add: keepsS_def throwException_apply aborted_kept)

lemma File_close_kept [keeps_intros]: "keepsS I (File_close E r)"
  unfolding File_close_def setFile_def
  by (intro keeps_intros) (simp add: fileHeap_kept)

lemma File_delete_kept [keeps_intros]: "keepsS I (File_delete E r)"
  unfolding File_delete_def by (intro keeps_intros)

lemma File_new_kept [keeps_intros]: "keepsS I (File_new E p md)"
  unfolding File_new_def by (intro keeps_intros) (simp add: keepsS_def newFile_def fileHeap_kept)

lemma setField_kept [keeps_intros]: "keepsS I (setField r f)"
  unfolding setField_def by (rule keepsS_modifyS) (rule fieldHeap_kept)

lemma newField_kept [keeps_intros]: "keepsS I (newField f)"
  by (simp add: newField_def keepsS_def fieldHeap_kept)

lemma Monio_closeFiles_kept [keeps_intros]: "keepsS I (Monio_closeFiles E m)"
  unfolding Monio_closeFiles_def Reader_isOpen_def Writer_isOpen_def by (intro keeps_intros)

lemma failS_kept [keeps_intros]: "keepsS I (failS E who what)"
  unfolding failS_def by (intro keeps_intros)

end

section \<open>Ownership\<close>

lemma wf_world_theMonio:
  "wf_world w \<Longrightarrow> theMonio w = Some m \<Longrightarrow> moReader m' = moReader m \<Longrightarrow> moWriter m' = moWriter m \<Longrightarrow>
   wf_world (w\<lparr>theMonio := Some m'\<rparr>)"
  by (simp add: wf_world_def)

interpretation wf: call_invariant wf_world E for E :: "('d, 't) env"
  by unfold_locales (simp_all add: wf_world_fileHeap wf_world_theMonio Monio_get_wf
      Reader_closeFile_wf Writer_closeFile_wf)

section \<open>Invariants of the variables\<close>

lemma call_invariant_vars: "call_invariant (\<lambda>w. P (varHeap w)) E"
  by unfold_locales (auto intro: Monio_get_free Reader_closeFile_free Writer_closeFile_free)

end
