(* ===== verification/Utils.thy ===== *)
theory Utils
  imports Invariants
begin

text \<open>
  \<open>src/monio/Utils.cc\<close>: splitting and cleaning strings, reading a flag, searching vectors, the
  keys of a map, running a shell command. Characters are classified as in the \<open>C\<close> locale.
  \<open>utils::throwException\<close> is in \<open>File_Handles\<close>.
\<close>

section \<open>Splitting a string\<close>

text \<open>\<open>std::getline\<close> on the rest of a string stream: the next word and what is left after its
  separator; \<open>None\<close> when nothing is left to read.\<close>

fun getline :: "string \<Rightarrow> char \<Rightarrow> (string \<times> string) option" where
  "getline [] sep = None"
| "getline (c # cs) sep =
    Some (takeWhile (\<lambda>x. x \<noteq> sep) (c # cs), drop 1 (dropWhile (\<lambda>x. x \<noteq> sep) (c # cs)))"

lemma getline_shorter: "getline s sep = Some (word, rest) \<Longrightarrow> length rest < length s"
  by (cases s) (auto intro: le_less_trans [OF diff_le_mono [OF length_dropWhile_le]]
      simp: length_dropWhile_le less_Suc_eq_le diff_le_self [THEN order_trans, OF length_dropWhile_le])

function strToWords :: "string \<Rightarrow> char \<Rightarrow> string list" where
  "strToWords inputStr separatorChar = (case getline inputStr separatorChar of
      None \<Rightarrow> []
    | Some (word, rest) \<Rightarrow> word # strToWords rest separatorChar)"
  by pat_completeness auto

termination strToWords
  by (relation "measure (\<lambda>(s, c). length s)") (auto dest: getline_shorter)

declare strToWords.simps [simp del]

lemma strToWords_Nil [simp]: "strToWords [] c = []"
  by (simp add: strToWords.simps)

lemma strToWords_word:
  assumes "c \<notin> set w" and "w \<noteq> []"
  shows "strToWords w c = [w]"
proof -
  have "takeWhile (\<lambda>x. x \<noteq> c) w = w" "dropWhile (\<lambda>x. x \<noteq> c) w = []"
    using assms(1) by (auto simp: takeWhile_eq_all_conv dropWhile_eq_Nil_conv)
  then have "getline w c = Some (w, [])" using assms(2) by (cases w) simp_all
  then show ?thesis by (simp add: strToWords.simps [of w])
qed

lemma strToWords_Cons: "c \<notin> set w \<Longrightarrow> strToWords (w @ c # s) c = w # strToWords s c"
  by (cases w) (auto simp: strToWords.simps [of "_ # _"] takeWhile_append dropWhile_append)

text \<open>Every input is empty, one word, or a word before a separator.\<close>

lemma separator_cases [case_names Nil word split]:
  fixes s :: string
  obtains "s = []" | "s \<noteq> []" "c \<notin> set s" | w t where "s = w @ c # t" "c \<notin> set w"
  using split_list_first [of c s] by (cases "s = []") auto

section \<open>Flags\<close>

definition isspace :: "char \<Rightarrow> bool" where
  "isspace c \<longleftrightarrow> (let n = of_char c :: nat in n = 32 \<or> (9 \<le> n \<and> n \<le> 13))"

definition tolower :: "char \<Rightarrow> char" where
  "tolower c = (let n = of_char c :: nat in if 65 \<le> n \<and> n \<le> 90 then char_of (n + 32) else c)"

definition strNoWhiteSpace :: "string \<Rightarrow> string" where
  "strNoWhiteSpace input = filter (\<lambda>x. \<not> isspace x) input"

definition strTolower :: "string \<Rightarrow> string" where
  "strTolower input = map tolower input"

definition strToBool :: "string \<Rightarrow> error + bool" where
  "strToBool input = (let cleanStr = strNoWhiteSpace (strTolower input) in
    if (length cleanStr = 1 \<and> cleanStr = ''1'') \<or> (length cleanStr = 4 \<and> cleanStr = ''true'')
    then Inr True
    else if (length cleanStr = 1 \<and> cleanStr = ''0'') \<or> (length cleanStr = 5 \<and> cleanStr = ''false'')
    then Inr False
    else Inl (InvalidArgument input))"

section \<open>Files and keys\<close>

definition fileExists :: "('d, 't) env \<Rightarrow> string \<Rightarrow> (('d, 't) world, bool) st" where
  "fileExists E path = getS (\<lambda>w. osFileExists E path (outside w))"

definition extractKeys :: "('k::linorder, 'v) smap \<Rightarrow> 'k list" where
  "extractKeys inputMap = map fst (entries inputMap)"

lemma extractKeys_eq: "extractKeys m = smap_keys m"
  by (simp add: extractKeys_def smap_keys_def)

lemma keepsS_fileExists [keeps_intros]: "keepsS I (fileExists E path)"
  by (simp add: fileExists_def keepsS_getS)

section \<open>Running a command\<close>

text \<open>
  What the command writes before it ends is a parameter (\<open>osCommandOutput\<close>). \<open>fgets\<close> reads up to and
  including the next newline, but at most one character less than the buffer holds; nothing left to
  read is a null pointer. Appending the buffer stops at its first NUL.
\<close>

fun readLine :: "nat \<Rightarrow> string \<Rightarrow> string \<times> string" where
  "readLine 0 s = ([], s)"
| "readLine (Suc n) [] = ([], [])"
| "readLine (Suc n) (c # s) =
    (if c = CHR 0x0A then ([c], s) else (c # fst (readLine n s), snd (readLine n s)))"

definition fgets :: "nat \<Rightarrow> string \<Rightarrow> (string \<times> string) option" where
  "fgets bufferSize s = (if s = [] then None else Some (readLine (bufferSize - 1) s))"

definition cString :: "string \<Rightarrow> string" where
  "cString buffer = takeWhile (\<lambda>c. c \<noteq> CHR 0x00) buffer"

lemma readLine_append: "fst (readLine n s) @ snd (readLine n s) = s"
  by (induction n s rule: readLine.induct) auto

lemma readLine_shorter: "0 < n \<Longrightarrow> s \<noteq> [] \<Longrightarrow> length (snd (readLine n s)) < length s"
proof (cases n; cases s)
  fix m c t assume "n = Suc m" "s = c # t"
  then show ?thesis
    using arg_cong [OF readLine_append [of m t], of length] by auto
qed simp_all

lemma fgets_shorter: "1 < n \<Longrightarrow> fgets n s = Some (buffer, rest) \<Longrightarrow> length rest < length s"
  using readLine_shorter [of "n - 1" s] by (auto simp: fgets_def split: if_splits)

lemma fgets_append: "fgets n s = Some (buffer, rest) \<Longrightarrow> buffer @ rest = s"
  using readLine_append [of "n - 1" s] by (auto simp: fgets_def split: if_splits)

function readAll :: "string \<Rightarrow> string \<Rightarrow> string" where
  "readAll output result = (case fgets 128 output of
      None \<Rightarrow> result
    | Some (buffer, rest) \<Rightarrow> readAll rest (result @ cString buffer))"
  by pat_completeness auto

termination readAll
  by (relation "measure (\<lambda>(output, result). length output)") (auto dest: fgets_shorter [rotated])

declare readAll.simps [simp del]

definition shellCommand :: "string \<Rightarrow> string" where
  "shellCommand cmd = ''sh -c '' @ [CHR 0x27] @ cmd @ [CHR 0x27] @ '' 2>&1''"

definition exec :: "('d, 't) env \<Rightarrow> string \<Rightarrow> (('d, 't) world, string) st" where
  "exec E cmd =
    bindS (callS (\<lambda>_. RuntimeError '''' ''popen() failed!'') (osCommandOutput E (shellCommand cmd)))
    (\<lambda>output. returnS (readAll output ''''))"

lemma readAll_all: "CHR 0x00 \<notin> set out \<Longrightarrow> readAll out res = res @ out"
proof (induction out res rule: readAll.induct)
  case (1 out res)
  show ?case
  proof (cases "fgets 128 out")
    case None
    then show ?thesis by (simp add: readAll.simps [of out] fgets_def split: if_splits)
  next
    case (Some p)
    then obtain buffer rest where p: "fgets 128 out = Some (buffer, rest)" by (cases p) auto
    have "out = buffer @ rest" using fgets_append [OF p] by simp
    moreover have "cString buffer = buffer"
      using 1(2) calculation by (auto simp: cString_def takeWhile_eq_all_conv)
    ultimately show ?thesis
      using 1(1) [OF p refl] 1(2) p by (simp add: readAll.simps [of "buffer @ rest"])
  qed
qed

text \<open>
  C35: \<open>exec\<close> returns everything a command wrote, however its output is cut into lines and buffers:
  the reading loop ends, and loses nothing when the output has no NUL.
\<close>

theorem exec_returns_output:
  assumes "osCommandOutput E (shellCommand cmd) (outside w) = (Inr output, d)" and "CHR 0x00 \<notin> set output"
  shows "exec E cmd w = (Inr output, w\<lparr>outside := d\<rparr>)"
  using assms by (simp add: exec_def bindS_Inr callS_Inr readAll_all returnS_apply)

section \<open>Searching a vector\<close>

text \<open>\<open>std::find\<close>, as the position it stops at: the length of the vector when there is none.\<close>

primrec std_find :: "'a list \<Rightarrow> 'a \<Rightarrow> nat" where
  "std_find [] x = 0"
| "std_find (y # ys) x = (if y = x then 0 else Suc (std_find ys x))"

definition findPosInVector :: "'a list \<Rightarrow> 'a \<Rightarrow> int32" where
  "findPosInVector vector searchTerm =
    (if std_find vector searchTerm \<noteq> length vector then of_nat (std_find vector searchTerm) else -1)"

definition findInVector :: "'a list \<Rightarrow> 'a \<Rightarrow> bool" where
  "findInVector vector searchTerm = (std_find vector searchTerm \<noteq> length vector)"

lemma std_find_le: "std_find xs x \<le> length xs"
  by (induction xs) auto

lemma std_find_end: "std_find xs x = length xs \<longleftrightarrow> x \<notin> set xs"
  by (induction xs) auto

lemma std_find_nth: "std_find xs x < length xs \<Longrightarrow> xs ! std_find xs x = x"
  by (induction xs) auto

lemma std_find_least: "i < std_find xs x \<Longrightarrow> xs ! i \<noteq> x"
proof (induction xs arbitrary: i)
  case (Cons y ys)
  then show ?case by (cases i) (auto split: if_splits)
qed simp

lemma findInVector_iff [simp]: "findInVector xs x \<longleftrightarrow> x \<in> set xs"
  by (simp add: findInVector_def std_find_end)

text \<open>
  Splitting loses nothing and splits everywhere: no word contains the separator, and putting
  a separator after each word gives back the input, with a final separator added when the input
  lacks one.
\<close>

lemma strToWords_splits:
  "concat (map (\<lambda>w. w @ [c]) (strToWords s c)) = (if s = [] \<or> last s = c then s else s @ [c]) \<and>
   c \<notin> \<Union> (set ` set (strToWords s c))"
proof (induction "length s" arbitrary: s rule: less_induct)
  case less
  show ?case
  proof (cases rule: separator_cases [where s = s and c = c])
    case (split w t)
    then show ?thesis using less [of t] by (auto simp: strToWords_Cons)
  qed (auto simp: strToWords_word)
qed

text \<open>
  On a vector of fewer than \<open>2\<^sup>3\<^sup>1\<close> elements \<open>findPosInVector\<close> returns -1 exactly when the element
  is absent, and otherwise the first position that holds it.
\<close>

lemma findPosInVector_first:
  assumes "length xs < 2 ^ 31"
  shows "if x \<in> set xs
    then \<exists>i < length xs. sint (findPosInVector xs x) = int i \<and> xs ! i = x \<and> (\<forall>k < i. xs ! k \<noteq> x)
    else findPosInVector xs x = -1"
proof (cases "x \<in> set xs")
  case True
  then have "std_find xs x < length xs"
    using std_find_le [of xs x] by (simp add: std_find_end le_neq_implies_less)
  moreover have "sint (findPosInVector xs x) = int (std_find xs x)"
    using calculation assms by (simp add: findPosInVector_def sint_of_nat_small)
  ultimately have "\<exists>i < length xs. sint (findPosInVector xs x) = int i \<and> xs ! i = x \<and> (\<forall>k < i. xs ! k \<noteq> x)"
    by (intro exI [of _ "std_find xs x"]) (simp add: std_find_nth std_find_least)
  then show ?thesis using True by simp
qed (simp add: findPosInVector_def std_find_end)

end
