(* ===== verification/Data_Containers.thy ===== *)
theory Data_Containers
  imports Utils
begin

text \<open>
  The small value classes. \<open>AttributeBase\<close> and its derived classes
  (\<open>AttributeDouble.cc\<close>, \<open>AttributeInt.cc\<close>, \<open>AttributeString.cc\<close>): constructed with a name and a
  value, read, never changed. \<open>DataContainerBase\<close> and its derived classes
  (\<open>DataContainerDouble.cc\<close>, \<open>DataContainerFloat.cc\<close>, \<open>DataContainerInt.cc\<close>), the same text for
  three element types: the operations are written once for any element type over the vector
  \<open>dataVector_\<close> and instantiated per class.
\<close>

section \<open>Attributes\<close>

fun attrType :: "AttributeBase \<Rightarrow> eDataTypes" where
  "attrType (AttributeDouble name value) = eDouble"
| "attrType (AttributeInt name value) = eInt"
| "attrType (AttributeString name value) = eString"

fun attrName :: "AttributeBase \<Rightarrow> string" where
  "attrName (AttributeDouble name value) = name"
| "attrName (AttributeInt name value) = name"
| "attrName (AttributeString name value) = name"

text \<open>\<open>getValue\<close> of the numeric classes, through a pointer cast to the class.\<close>

fun doubleValue :: "AttributeBase \<Rightarrow> ('w, double) st" where
  "doubleValue (AttributeDouble name value) = returnS value"
| "doubleValue (AttributeInt name value) = throwS (Undefined ''null AttributeDouble'')"
| "doubleValue (AttributeString name value) = throwS (Undefined ''null AttributeDouble'')"

fun intValue :: "AttributeBase \<Rightarrow> ('w, int32) st" where
  "intValue (AttributeInt name value) = returnS value"
| "intValue (AttributeDouble name value) = throwS (Undefined ''null AttributeInt'')"
| "intValue (AttributeString name value) = throwS (Undefined ''null AttributeInt'')"

text \<open>\<open>dynamic_pointer_cast<AttributeString>(attr)->getValue()\<close>: a null pointer for the other classes.\<close>

fun stringValue :: "AttributeBase \<Rightarrow> ('w, string) st" where
  "stringValue (AttributeString name value) = returnS value"
| "stringValue (AttributeDouble name value) = throwS (Undefined ''null AttributeString'')"
| "stringValue (AttributeInt name value) = throwS (Undefined ''null AttributeString'')"

lemma attrType_eString: "attrType a = eString \<longleftrightarrow> (\<exists>n s. a = AttributeString n s)"
  by (cases a) auto

section \<open>Data containers\<close>

fun containerType :: "DataContainerBase \<Rightarrow> eDataTypes" where
  "containerType (DataContainerDouble name dataVector) = eDouble"
| "containerType (DataContainerFloat name dataVector) = eFloat"
| "containerType (DataContainerInt name dataVector) = eInt"

fun containerName :: "DataContainerBase \<Rightarrow> string" where
  "containerName (DataContainerDouble name dataVector) = name"
| "containerName (DataContainerFloat name dataVector) = name"
| "containerName (DataContainerInt name dataVector) = name"

text \<open>The test lets the index one past the end through.\<close>

definition container_getDatum ::
    "('d, 't) env \<Rightarrow> string \<Rightarrow> 'a list \<Rightarrow> size_t \<Rightarrow> (('d, 't) world, 'a) st" where
  "container_getDatum E who dataVector index =
    seqS (whenS (unat index > length dataVector) (failS E who ''''))
    (if unat index < length dataVector then returnS (dataVector ! unat index)
     else throwS (Undefined ''dataVector_[index]''))"

definition container_setDatum :: "'a list \<Rightarrow> size_t \<Rightarrow> 'a \<Rightarrow> ('w, 'a list) st" where
  "container_setDatum dataVector index datum =
    (if unat index < length dataVector then returnS (dataVector[unat index := datum])
     else throwS (Undefined ''dataVector_[index]''))"

definition container_pushDatum :: "'a list \<Rightarrow> 'a \<Rightarrow> 'a list" where
  "container_pushDatum dataVector datum = dataVector @ [datum]"

text \<open>\<open>resize\<close> takes a \<open>size_t\<close>: a negative size becomes a huge one, above \<open>max_size()\<close>.\<close>

definition container_setSize :: "nat \<Rightarrow> 'a \<Rightarrow> 'a list \<Rightarrow> int32 \<Rightarrow> ('w, 'a list) st" where
  "container_setSize maxSize initial dataVector newSize =
    (let n = unat (int_to_size newSize) in
     if n > maxSize then throwS LengthError else returnS (resize_list n initial dataVector))"

definition container_clear :: "'a list \<Rightarrow> 'a list" where
  "container_clear dataVector = []"

definition container_setData :: "'a list \<Rightarrow> 'a list \<Rightarrow> 'a list" where
  "container_setData dataVector newVector = newVector"

text \<open>The three classes. \<open>max_size()\<close> of a vector is \<open>2\<^sup>6\<^sup>3 - 1\<close> over the size of an element.\<close>

definition DataContainerDouble_getDatum ::
    "('d, 't) env \<Rightarrow> double list \<Rightarrow> size_t \<Rightarrow> (('d, 't) world, double) st" where
  "DataContainerDouble_getDatum E = container_getDatum E ''DataContainerDouble::getDatum''"

definition DataContainerFloat_getDatum ::
    "('d, 't) env \<Rightarrow> float32 list \<Rightarrow> size_t \<Rightarrow> (('d, 't) world, float32) st" where
  "DataContainerFloat_getDatum E = container_getDatum E ''DataContainerFloat::getDatum''"

definition DataContainerInt_getDatum ::
    "('d, 't) env \<Rightarrow> int32 list \<Rightarrow> size_t \<Rightarrow> (('d, 't) world, int32) st" where
  "DataContainerInt_getDatum E = container_getDatum E ''DataContainerInt::getDatum''"

definition DataContainerDouble_setSize :: "double list \<Rightarrow> int32 \<Rightarrow> ('w, double list) st" where
  "DataContainerDouble_setSize = container_setSize ((2 ^ 63 - 1) div 8) (FNum 0)"

definition DataContainerFloat_setSize :: "float32 list \<Rightarrow> int32 \<Rightarrow> ('w, float32 list) st" where
  "DataContainerFloat_setSize = container_setSize ((2 ^ 63 - 1) div 4) (FNum 0)"

definition DataContainerInt_setSize :: "int32 list \<Rightarrow> int32 \<Rightarrow> ('w, int32 list) st" where
  "DataContainerInt_setSize = container_setSize ((2 ^ 63 - 1) div 4) 0"

definition DataContainerDouble_new :: "string \<Rightarrow> DataContainerBase" where
  "DataContainerDouble_new name = DataContainerDouble name []"

definition DataContainerDouble_setDatum :: "double list \<Rightarrow> size_t \<Rightarrow> double \<Rightarrow> ('w, double list) st" where
  "DataContainerDouble_setDatum = container_setDatum"

definition DataContainerDouble_pushDatum :: "double list \<Rightarrow> double \<Rightarrow> double list" where
  "DataContainerDouble_pushDatum = container_pushDatum"

definition DataContainerDouble_setData :: "double list \<Rightarrow> double list \<Rightarrow> double list" where
  "DataContainerDouble_setData = container_setData"

definition DataContainerDouble_clear :: "double list \<Rightarrow> double list" where
  "DataContainerDouble_clear = container_clear"

definition DataContainerFloat_new :: "string \<Rightarrow> DataContainerBase" where
  "DataContainerFloat_new name = DataContainerFloat name []"

definition DataContainerFloat_setDatum :: "float32 list \<Rightarrow> size_t \<Rightarrow> float32 \<Rightarrow> ('w, float32 list) st" where
  "DataContainerFloat_setDatum = container_setDatum"

definition DataContainerFloat_pushDatum :: "float32 list \<Rightarrow> float32 \<Rightarrow> float32 list" where
  "DataContainerFloat_pushDatum = container_pushDatum"

definition DataContainerFloat_setData :: "float32 list \<Rightarrow> float32 list \<Rightarrow> float32 list" where
  "DataContainerFloat_setData = container_setData"

definition DataContainerFloat_clear :: "float32 list \<Rightarrow> float32 list" where
  "DataContainerFloat_clear = container_clear"

definition DataContainerInt_new :: "string \<Rightarrow> DataContainerBase" where
  "DataContainerInt_new name = DataContainerInt name []"

definition DataContainerInt_setDatum :: "int32 list \<Rightarrow> size_t \<Rightarrow> int32 \<Rightarrow> ('w, int32 list) st" where
  "DataContainerInt_setDatum = container_setDatum"

definition DataContainerInt_pushDatum :: "int32 list \<Rightarrow> int32 \<Rightarrow> int32 list" where
  "DataContainerInt_pushDatum = container_pushDatum"

definition DataContainerInt_setData :: "int32 list \<Rightarrow> int32 list \<Rightarrow> int32 list" where
  "DataContainerInt_setData = container_setData"

definition DataContainerInt_clear :: "int32 list \<Rightarrow> int32 list" where
  "DataContainerInt_clear = container_clear"

lemma container_setSize_ok:
  assumes "n < 2 ^ 31" and "2 ^ 31 \<le> mx"
  shows "container_setSize mx x xs (of_nat n) = returnS (resize_list n x xs)"
  using assms by (simp add: container_setSize_def int_to_size_of_nat unat_of_nat_size)

lemma container_setSize_small [st_simps]:
  assumes "n < 2 ^ 31"
  shows "DataContainerDouble_setSize ds (of_nat n) = returnS (resize_list n (FNum 0) ds)"
    and "DataContainerFloat_setSize fs (of_nat n) = returnS (resize_list n (FNum 0) fs)"
    and "DataContainerInt_setSize is (of_nat n) = returnS (resize_list n 0 is)"
  using assms by (simp_all add: DataContainerDouble_setSize_def DataContainerFloat_setSize_def
      DataContainerInt_setSize_def container_setSize_ok)

text \<open>A negative size is refused.\<close>

lemma unat_int_to_size_neg:
  assumes "sint (n :: int32) < 0"
  shows "2 ^ 63 \<le> unat (int_to_size n)"
proof -
  have "- (2 ^ 31) \<le> sint n" using sint_greater_eq [of n] by simp
  have len: "LENGTH(64) = 64" by simp
  have "uint (int_to_size n) = sint n mod 2 ^ 64"
    by (simp only: int_to_size_def scast_eq uint_word_of_int len)
  also have "\<dots> = (sint n + 2 ^ 64) mod 2 ^ 64"
    by (rule mod_add_self2 [symmetric])
  also have "\<dots> = sint n + 2 ^ 64"
    using assms \<open>- (2 ^ 31) \<le> sint n\<close> by (intro mod_pos_pos_trivial) simp_all
  finally have "uint (int_to_size n) = sint n + 2 ^ 64" .
  then have "2 ^ 63 \<le> uint (int_to_size n)"
    using \<open>- (2 ^ 31) \<le> sint n\<close> by simp
  then have "int (2 ^ 63) \<le> int (unat (int_to_size n))"
    by (simp only: uint_nat of_nat_power of_nat_numeral)
  then show ?thesis by (simp only: of_nat_le_iff)
qed

lemma container_setSize_neg:
  "sint n < 0 \<Longrightarrow> mx < 2 ^ 63 \<Longrightarrow> container_setSize mx x xs n = throwS LengthError"
  using unat_int_to_size_neg [of n] by (simp add: container_setSize_def)

section \<open>Invariants\<close>

lemma setSize_keeps [keeps_intros]:
  "keepsS I (DataContainerDouble_setSize ds n)"
  "keepsS I (DataContainerFloat_setSize ds n)"
  "keepsS I (DataContainerInt_setSize is n)"
  by (simp_all add: DataContainerDouble_setSize_def DataContainerFloat_setSize_def
      DataContainerInt_setSize_def container_setSize_def Let_def keepsS_returnS keepsS_throwS)

lemma keepsS_container [keeps_intros]:
  assumes "\<And>n xs. keepsS I (a n xs)" and "\<And>n xs. keepsS I (b n xs)" and "\<And>n xs. keepsS I (c n xs)"
  shows "keepsS I (case x of DataContainerDouble n xs \<Rightarrow> a n xs | DataContainerFloat n xs \<Rightarrow> b n xs
    | DataContainerInt n xs \<Rightarrow> c n xs)"
  using assms by (cases x) simp_all

section \<open>Properties\<close>

text \<open>
  C33: \<open>getDatum\<close> returns the element at every index inside the vector, throws its own exception
  at every index beyond the size with the files of the singleton closed, and at the index equal
  to the size, which its test lets through, reads past the end.
\<close>

theorem getDatum_outcomes:
  assumes "closeQuiet E" and "wf_world w"
  shows "if unat i < length xs then DataContainerDouble_getDatum E xs i w = (Inr (xs ! unat i), w)
    else if unat i = length xs
    then DataContainerDouble_getDatum E xs i w = (Inl (Undefined ''dataVector_[index]''), w)
    else \<exists>w'. DataContainerDouble_getDatum E xs i w =
        (Inl (RuntimeError ''DataContainerDouble::getDatum'' ''''), w') \<and> filesClosed w' \<and> aborted w'"
proof -
  obtain w' where "(failS E ''DataContainerDouble::getDatum'' '''' :: (_, double) st) w =
      (Inl (RuntimeError ''DataContainerDouble::getDatum'' ''''), w')"
    "filesClosed w'" "aborted w'"
    using failS_quiet [OF assms] by blast
  then show ?thesis
    by (auto simp: DataContainerDouble_getDatum_def container_getDatum_def st_simps bindS_Inl)
qed

end
