(* ===== verification/Variables.thy ===== *)
theory Variables
  imports Data_Containers
begin

text \<open>
  \<open>src/monio/Variable.cc\<close>. A \<open>Variable\<close> is shared by pointer, so its operations take its position
  on the heap of variables; \<open>dimensions_\<close> is a vector of name and size in the order of the file,
  which \<open>addDimension\<close> keeps free of repeated names, and \<open>attributes_\<close> a map.
\<close>

section \<open>Operations\<close>

definition Variable_new :: "string \<Rightarrow> eDataTypes \<Rightarrow> (('d, 't) world, ref) st" where
  "Variable_new name type =
    newVariable \<lparr>varName = name, varType = type, varDims = [], varAttrs = smap_empty\<rparr>"

definition Variable_getName :: "ref \<Rightarrow> (('d, 't) world, string) st" where
  "Variable_getName r = bindS (derefS varHeap r) (\<lambda>v. returnS (varName v))"

definition Variable_getType :: "ref \<Rightarrow> (('d, 't) world, eDataTypes) st" where
  "Variable_getType r = bindS (derefS varHeap r) (\<lambda>v. returnS (varType v))"

primrec totalSize :: "(string \<times> size_t) list \<Rightarrow> size_t \<Rightarrow> size_t" where
  "totalSize [] acc = acc"
| "totalSize (d # ds) acc = totalSize ds (acc * snd d)"

definition Variable_getTotalSize :: "ref \<Rightarrow> (('d, 't) world, size_t) st" where
  "Variable_getTotalSize r = bindS (derefS varHeap r) (\<lambda>v. returnS (totalSize (varDims v) 1))"

definition Variable_getDimensionsMap :: "ref \<Rightarrow> (('d, 't) world, (string \<times> size_t) list) st" where
  "Variable_getDimensionsMap r = bindS (derefS varHeap r) (\<lambda>v. returnS (varDims v))"

definition Variable_getDimensionNames :: "ref \<Rightarrow> (('d, 't) world, string list) st" where
  "Variable_getDimensionNames r = bindS (derefS varHeap r) (\<lambda>v. returnS (map fst (varDims v)))"

definition Variable_getAttributes :: "ref \<Rightarrow> (('d, 't) world, (string, AttributeBase) smap) st" where
  "Variable_getAttributes r = bindS (derefS varHeap r) (\<lambda>v. returnS (varAttrs v))"

definition Variable_getAttribute ::
    "('d, 't) env \<Rightarrow> ref \<Rightarrow> string \<Rightarrow> (('d, 't) world, AttributeBase) st" where
  "Variable_getAttribute E r name =
    bindS (derefS varHeap r) (\<lambda>v.
    case smap_find (varAttrs v) name of
      Some attr \<Rightarrow> returnS attr
    | None \<Rightarrow> failS E ''Variable::getAttribute'' name)"

text \<open>Both errors of \<open>getStrAttr\<close> name \<open>getAttribute\<close>, as the messages do.\<close>

definition Variable_getStrAttr ::
    "('d, 't) env \<Rightarrow> ref \<Rightarrow> string \<Rightarrow> (('d, 't) world, string) st" where
  "Variable_getStrAttr E r name =
    bindS (derefS varHeap r) (\<lambda>v.
    case smap_find (varAttrs v) name of
      Some attr \<Rightarrow>
        if attrType attr = eString then stringValue attr
        else failS E ''Variable::getAttribute'' ''data type not coded for''
    | None \<Rightarrow> failS E ''Variable::getAttribute'' name)"

definition Variable_addDimension ::
    "('d, 't) env \<Rightarrow> ref \<Rightarrow> string \<Rightarrow> size_t \<Rightarrow> (('d, 't) world, unit) st" where
  "Variable_addDimension E r dimName dimSize =
    bindS (derefS varHeap r) (\<lambda>v.
    if List.find (\<lambda>element. fst element = dimName) (varDims v) = None
    then setVariable r (v\<lparr>varDims := varDims v @ [(dimName, dimSize)]\<rparr>)
    else failS E ''Variable::addDimension'' dimName)"

definition Variable_addAttribute ::
    "('d, 't) env \<Rightarrow> ref \<Rightarrow> AttributeBase \<Rightarrow> (('d, 't) world, unit) st" where
  "Variable_addAttribute E r attr =
    bindS (derefS varHeap r) (\<lambda>v.
    if smap_find (varAttrs v) (attrName attr) = None
    then setVariable r (v\<lparr>varAttrs := smap_insert (attrName attr) attr (varAttrs v)\<rparr>)
    else failS E ''Variable::addAttribute'' (attrName attr))"

text \<open>\<open>find_if\<close> and \<open>erase\<close>: the first dimension of the name goes, if there is one.\<close>

primrec eraseDim :: "string \<Rightarrow> (string \<times> size_t) list \<Rightarrow> (string \<times> size_t) list" where
  "eraseDim name [] = []"
| "eraseDim name (d # ds) = (if fst d = name then ds else d # eraseDim name ds)"

definition Variable_deleteDimension :: "ref \<Rightarrow> string \<Rightarrow> (('d, 't) world, unit) st" where
  "Variable_deleteDimension r dimName =
    bindS (derefS varHeap r) (\<lambda>v.
    setVariable r (v\<lparr>varDims := eraseDim dimName (varDims v)\<rparr>))"

definition Variable_deleteAttribute ::
    "('d, 't) env \<Rightarrow> ref \<Rightarrow> string \<Rightarrow> (('d, 't) world, unit) st" where
  "Variable_deleteAttribute E r name =
    bindS (derefS varHeap r) (\<lambda>v.
    if smap_find (varAttrs v) name \<noteq> None
    then setVariable r (v\<lparr>varAttrs := smap_erase name (varAttrs v)\<rparr>)
    else failS E ''Variable::deleteAttribute'' name)"

lemmas variable_defs =
  Variable_new_def Variable_getName_def Variable_getType_def Variable_getTotalSize_def
  Variable_getDimensionsMap_def Variable_getDimensionNames_def Variable_getAttributes_def
  Variable_getAttribute_def Variable_getStrAttr_def Variable_addDimension_def
  Variable_addAttribute_def Variable_deleteDimension_def Variable_deleteAttribute_def

section \<open>Well-formed variables\<close>

text \<open>Dimension names are distinct and every attribute is stored under its own name.\<close>

definition wf_variable :: "Variable \<Rightarrow> bool" where
  "wf_variable v \<longleftrightarrow> distinct (map fst (varDims v)) \<and>
    list_all (\<lambda>e. attrName (snd e) = fst e) (entries (varAttrs v))"

definition wf_vars :: "Variable list \<Rightarrow> bool" where
  "wf_vars vs \<longleftrightarrow> list_all wf_variable vs"

lemma wf_variable_iff:
  "wf_variable v \<longleftrightarrow> distinct (map fst (varDims v)) \<and>
    (\<forall>k a. smap_find (varAttrs v) k = Some a \<longrightarrow> attrName a = k)"
  by (auto simp: wf_variable_def list_all_iff in_entries_iff [symmetric])

lemma eraseDim_filter: "distinct (map fst ds) \<Longrightarrow> eraseDim n ds = filter (\<lambda>d. fst d \<noteq> n) ds"
proof (induction ds)
  case (Cons d ds)
  then show ?case by (auto intro!: filter_True [symmetric] simp: image_iff)
qed simp

lemma eraseDim_absent: "n \<notin> fst ` set ds \<Longrightarrow> eraseDim n ds = ds"
  by (induction ds) auto

lemma wf_variable_new: "wf_variable \<lparr>varName = n, varType = t, varDims = [], varAttrs = smap_empty\<rparr>"
  by (simp add: wf_variable_iff)

lemma wf_variable_addDim:
  "wf_variable v \<Longrightarrow> List.find (\<lambda>e. fst e = n) (varDims v) = None \<Longrightarrow>
   wf_variable (v\<lparr>varDims := varDims v @ [(n, s)]\<rparr>)"
  by (auto simp: wf_variable_iff find_None_notin)

lemma wf_variable_eraseDim:
  "wf_variable v \<Longrightarrow> wf_variable (v\<lparr>varDims := eraseDim n (varDims v)\<rparr>)"
  by (simp add: wf_variable_iff eraseDim_filter distinct_map_fst_filter)

lemma wf_variable_addAttr:
  "wf_variable v \<Longrightarrow> wf_variable (v\<lparr>varAttrs := smap_insert (attrName a) a (varAttrs v)\<rparr>)"
  by (auto simp: wf_variable_iff)

lemma wf_variable_eraseAttr:
  "wf_variable v \<Longrightarrow> wf_variable (v\<lparr>varAttrs := smap_erase n (varAttrs v)\<rparr>)"
  by (auto simp: wf_variable_iff)

section \<open>What the operations keep\<close>

lemma stringValue_keeps [keeps_intros]: "keepsS I (stringValue a)"
  by (cases a) (auto intro: keeps_intros)

text \<open>What one operation can make of a variable.\<close>

inductive varStep :: "Variable \<Rightarrow> Variable \<Rightarrow> bool" where
  addDim: "n \<notin> fst ` set (varDims v) \<Longrightarrow> varStep v (v\<lparr>varDims := varDims v @ [(n, s)]\<rparr>)"
| addAttr: "smap_find (varAttrs v) (attrName a) = None \<Longrightarrow>
    varStep v (v\<lparr>varAttrs := smap_insert (attrName a) a (varAttrs v)\<rparr>)"
| deleteDim: "varStep v (v\<lparr>varDims := eraseDim n (varDims v)\<rparr>)"
| deleteAttr: "varStep v (v\<lparr>varAttrs := smap_erase n (varAttrs v)\<rparr>)"

inductive_cases varStepE: "varStep v v'"

text \<open>Invariants that survive the operations on variables too.\<close>

locale world_invariant = call_invariant +
  assumes Variable_new_kept [keeps_intros]: "keepsS I (Variable_new n t)"
    and Variable_step_kept: "I w \<Longrightarrow> r < length (varHeap w) \<Longrightarrow> varStep (varHeap w ! r) v' \<Longrightarrow>
          I (w\<lparr>varHeap := (varHeap w)[r := v']\<rparr>)"
begin

text \<open>Following a pointer to a variable and then acting on it.\<close>

lemma derefVar_kept:
  assumes "\<And>w. r < length (varHeap w) \<Longrightarrow> I w \<Longrightarrow> I (snd (f (varHeap w ! r) w))"
  shows "keepsS I (bindS (derefS varHeap r) f)"
  using assms by (auto simp: keepsS_def bindS_def derefS_def)

lemma Variable_changes_kept [keeps_intros]:
  "keepsS I (Variable_addDimension E r n s)"
  "keepsS I (Variable_addAttribute E r a)"
  "keepsS I (Variable_deleteDimension r n)"
  "keepsS I (Variable_deleteAttribute E r n)"
  unfolding Variable_addDimension_def Variable_addAttribute_def Variable_deleteDimension_def
    Variable_deleteAttribute_def
  by (rule derefVar_kept; auto simp: st_simps find_None_notin intro: Variable_step_kept varStep.intros
      keepsS_snd [OF failS_kept])+

lemma variable_kept [keeps_intros]:
  "keepsS I (Variable_getName r)"
  "keepsS I (Variable_getType r)"
  "keepsS I (Variable_getTotalSize r)"
  "keepsS I (Variable_getDimensionsMap r)"
  "keepsS I (Variable_getDimensionNames r)"
  "keepsS I (Variable_getAttributes r)"
  "keepsS I (Variable_getAttribute E r n)"
  "keepsS I (Variable_getStrAttr E r n)"
  unfolding variable_defs by (intro keeps_intros)+

end

interpretation wf: world_invariant wf_world E for E :: "('d, 't) env"
  by unfold_locales (simp_all add: keepsS_def Variable_new_def newVariable_def)

text \<open>An invariant of the variables alone.\<close>

lemma world_invariant_vars:
  assumes "\<And>vs n t. P vs \<Longrightarrow> P (vs @ [\<lparr>varName = n, varType = t, varDims = [], varAttrs = smap_empty\<rparr>])"
    and "\<And>vs r v'. P vs \<Longrightarrow> r < length vs \<Longrightarrow> varStep (vs ! r) v' \<Longrightarrow> P (vs[r := v'])"
  shows "world_invariant (\<lambda>w. P (varHeap w)) E"
  by (rule world_invariant.intro [OF call_invariant_vars], unfold_locales)
    (simp_all add: assms keepsS_def Variable_new_def newVariable_def)

lemma wf_vars_step: "wf_variable v \<Longrightarrow> varStep v v' \<Longrightarrow> wf_variable v'"
  by (erule varStepE) (simp_all add: wf_variable_addDim wf_variable_eraseDim wf_variable_addAttr wf_variable_eraseAttr
      find_None_notin)

lemma wf_vars_nth: "wf_vars vs \<Longrightarrow> r < length vs \<Longrightarrow> wf_variable (vs ! r)"
  by (simp add: wf_vars_def list_all_length)

lemma wf_vars_update: "wf_vars vs \<Longrightarrow> wf_variable v \<Longrightarrow> wf_vars (vs[r := v])"
  by (auto simp: wf_vars_def list_all_iff dest!: set_update_subset_insert [THEN subsetD])

interpretation wfVars: world_invariant "\<lambda>w. wf_vars (varHeap w)" E for E :: "('d, 't) env"
proof (rule world_invariant_vars)
  show "wf_vars (vs[r := v'])" if "wf_vars vs" "r < length vs" "varStep (vs ! r) v'" for vs r v'
    using that by (intro wf_vars_update wf_vars_step [OF wf_vars_nth])
qed (simp add: wf_vars_def wf_variable_new)

text \<open>
  \<open>typed ids vs\<close>: the first variables of the heap have these names and types. No operation changes the
  name or type of a variable, or removes one.
\<close>

definition identOf :: "Variable \<Rightarrow> string \<times> eDataTypes" where
  "identOf v = (varName v, varType v)"

definition typed :: "(string \<times> eDataTypes) list \<Rightarrow> Variable list \<Rightarrow> bool" where
  "typed ids vs \<longleftrightarrow> take (length ids) (map identOf vs) = ids"

lemma identOf_step: "varStep v v' \<Longrightarrow> identOf v' = identOf v"
  by (erule varStepE) (simp_all add: identOf_def)

lemma typed_refl: "typed (map identOf vs) vs"
  by (simp add: typed_def)

lemma typed_nth: "typed (map identOf vs) vs' \<Longrightarrow> i < length vs \<Longrightarrow> i < length vs' \<and> identOf (vs' ! i) = identOf (vs ! i)"
  unfolding typed_def by (metis length_map length_take min_less_iff_conj nth_map nth_take)

interpretation typedVars: world_invariant "\<lambda>w. typed ids (varHeap w)" E for E :: "('d, 't) env" and ids
proof (rule world_invariant_vars)
  fix vs r v' assume "typed ids vs" "r < length vs" "varStep (vs ! r) v'"
  moreover have "map identOf (vs[r := v']) = map identOf vs"
    using calculation by (simp add: map_update identOf_step list_update_same_conv)
  ultimately show "typed ids (vs[r := v'])" by (simp add: typed_def)
qed (auto simp: typed_def take_Cons' dest!: arg_cong [where f = length])

section \<open>Properties\<close>

text \<open>The product of the sizes, modulo \<open>2\<^sup>6\<^sup>4\<close>.\<close>

lemma totalSize_prod: "totalSize ds acc = acc * (\<Prod>d\<leftarrow>ds. snd d)"
  by (induction ds arbitrary: acc) (simp_all add: mult.assoc)

lemma totalSize_unat: "unat (totalSize ds 1) = (\<Prod>d\<leftarrow>ds. unat (snd d)) mod 2 ^ 64"
proof -
  have "unat (\<Prod>d\<leftarrow>ds. snd d) = (\<Prod>d\<leftarrow>ds. unat (snd d)) mod 2 ^ 64"
  proof (induction ds)
    case (Cons d ds)
    have "unat (snd d * (\<Prod>d\<leftarrow>ds. snd d)) = (unat (snd d) * unat (\<Prod>d\<leftarrow>ds. snd d)) mod 2 ^ 64"
      by (simp add: unat_word_ariths)
    then show ?case using Cons by (simp add: mod_mult_right_eq)
  qed simp
  then show ?thesis by (simp add: totalSize_prod)
qed

end
