(* ===== verification/Metadatas.thy ===== *)
theory Metadatas
  imports Variables
begin

text \<open>
  \<open>src/monio/Metadata.cc\<close>: the dimensions, global attributes and variables of a file. A
  \<open>Metadata\<close> is a value whose variables are shared: copies of it refer to the same positions of
  the heap of variables, so deleting a dimension through one copy changes all. The three
  \<open>add...\<close> operations keep the entry a name already has (\<open>keyed_store\<close>). \<open>print\<close> and its helpers
  are in \<open>Metadata_Print\<close>.
\<close>

section \<open>Equality\<close>

text \<open>Two containers of the same size walked in step, with \<open>return false\<close> at the first pair that
  differs.\<close>

fun walk2 :: "('a \<Rightarrow> 'a \<Rightarrow> bool) \<Rightarrow> 'a list \<Rightarrow> 'a list \<Rightarrow> bool" where
  "walk2 same (x # xs) (y # ys) = (if \<not> same x y then False else walk2 same xs ys)"
| "walk2 same _ _ = True"

definition attr_eq :: "AttributeBase \<Rightarrow> AttributeBase \<Rightarrow> bool" where
  "attr_eq lhs rhs =
    (if attrType lhs = attrType rhs \<and> attrName lhs = attrName rhs then
      (case (lhs, rhs) of
        (AttributeDouble _ x, AttributeDouble _ y) \<Rightarrow> \<not> fp_ne x y
      | (AttributeInt _ x, AttributeInt _ y) \<Rightarrow> x = y
      | (AttributeString _ x, AttributeString _ y) \<Rightarrow> x = y
      | _ \<Rightarrow> False)
     else False)"

definition variable_eq :: "Variable \<Rightarrow> Variable \<Rightarrow> bool" where
  "variable_eq lhs rhs =
    (if varName lhs = varName rhs \<and> varType lhs = varType rhs \<and>
        size_to_int (totalSize (varDims lhs) 1) = size_to_int (totalSize (varDims rhs) 1) \<and>
        length (varDims lhs) = length (varDims rhs)
     then
      (if \<not> walk2 (\<lambda>x y. \<not> (fst x \<noteq> fst y \<or> snd x \<noteq> snd y)) (varDims lhs) (varDims rhs) then False
       else if smap_size (varAttrs lhs) = smap_size (varAttrs rhs)
       then walk2 (\<lambda>x y. attr_eq (snd x) (snd y)) (entries (varAttrs lhs)) (entries (varAttrs rhs))
       else False)
     else False)"

text \<open>The dimensions are compared when the two maps have the same size; there is no \<open>else\<close>.\<close>

definition Metadata_eq :: "Variable list \<Rightarrow> Metadata \<Rightarrow> Metadata \<Rightarrow> bool" where
  "Metadata_eq vs lhs rhs =
    (if smap_size (mdDimensions lhs) = smap_size (mdDimensions rhs) \<and>
        \<not> walk2 (\<lambda>x y. \<not> (snd x \<noteq> snd y)) (entries (mdDimensions lhs)) (entries (mdDimensions rhs))
     then False
     else if smap_size (mdVariables lhs) = smap_size (mdVariables rhs)
     then walk2 (\<lambda>x y. variable_eq (vs ! snd x) (vs ! snd y)) (entries (mdVariables lhs))
            (entries (mdVariables rhs))
     else False)"

section \<open>Reading\<close>

definition isDimDefined :: "Metadata \<Rightarrow> string \<Rightarrow> bool" where
  "isDimDefined m dimName = (smap_find (mdDimensions m) dimName \<noteq> None)"

definition getDimension :: "('d, 't) env \<Rightarrow> Metadata \<Rightarrow> string \<Rightarrow> (('d, 't) world, int32) st" where
  "getDimension E m dimName =
    (case smap_find (mdDimensions m) dimName of
      Some value \<Rightarrow> returnS value
    | None \<Rightarrow> failS E ''Metadata::getDimension'' dimName)"

definition getDimensionName :: "Metadata \<Rightarrow> int32 \<Rightarrow> string" where
  "getDimensionName m dimValue =
    (case List.find (\<lambda>it. snd it = dimValue) (entries (mdDimensions m)) of
      Some it \<Rightarrow> fst it
    | None \<Rightarrow> kNotFoundError)"

definition getVariable :: "('d, 't) env \<Rightarrow> Metadata \<Rightarrow> string \<Rightarrow> (('d, 't) world, ref) st" where
  "getVariable E m name =
    (case smap_find (mdVariables m) name of
      Some var \<Rightarrow> returnS var
    | None \<Rightarrow> failS E ''Metadata::getVariable'' name)"

definition getVariables ::
    "('d, 't) env \<Rightarrow> Metadata \<Rightarrow> string list \<Rightarrow> (('d, 't) world, ref list) st" where
  "getVariables E m varNames = mapS (getVariable E m) varNames"

definition getVarStrAttrs ::
    "('d, 't) env \<Rightarrow> Metadata \<Rightarrow> string list \<Rightarrow> string \<Rightarrow> (('d, 't) world, string list) st" where
  "getVarStrAttrs E m varNames name =
    bindS (getVariables E m varNames) (\<lambda>variables.
    bindS (mapS (\<lambda>var. Variable_getStrAttr E var name) variables) (\<lambda>varStrAttrs.
    if length varNames \<noteq> length varStrAttrs
    then failS E ''Metadata::getVarStrAttrs'' ''Unmatched number of variables and attributes''
    else returnS varStrAttrs))"

definition getDimensionNames :: "Metadata \<Rightarrow> string list" where
  "getDimensionNames m = extractKeys (mdDimensions m)"

definition getVariableNames :: "Metadata \<Rightarrow> string list" where
  "getVariableNames m = extractKeys (mdVariables m)"

definition getGlobalAttrNames :: "Metadata \<Rightarrow> string list" where
  "getGlobalAttrNames m = extractKeys (mdGlobalAttrs m)"

text \<open>The overload without names takes all variables.\<close>

definition getAllVarStrAttrs ::
    "('d, 't) env \<Rightarrow> Metadata \<Rightarrow> string \<Rightarrow> (('d, 't) world, string list) st" where
  "getAllVarStrAttrs E m name = getVarStrAttrs E m (getVariableNames m) name"

text \<open>\<open>std::string::find\<close>: the first position at which the searched string occurs.\<close>

fun string_find :: "string \<Rightarrow> string \<Rightarrow> nat option" where
  "string_find [] t = (if t = [] then Some 0 else None)"
| "string_find (c # cs) t =
    (if take (length t) (c # cs) = t then Some 0 else map_option Suc (string_find cs t))"

definition findVariableNames :: "Metadata \<Rightarrow> string \<Rightarrow> string list" where
  "findVariableNames m searchTerm =
    fold (\<lambda>variableKey variableNames.
        if string_find variableKey searchTerm \<noteq> None then variableNames @ [variableKey]
        else variableNames)
      (extractKeys (mdVariables m)) []"

definition getVariableConvention :: "Metadata \<Rightarrow> ('w, int32) st" where
  "getVariableConvention m =
    foldS (\<lambda>globalAttr variableConvention.
        if fst globalAttr = kVariableConventionName then
          bindS (stringValue (snd globalAttr)) (\<lambda>dataFormatValue.
          let pos = findPosInVector kNamingConventions dataFormatValue in
          returnS (if pos \<noteq> -1 then pos else variableConvention))
        else returnS variableConvention)
      (entries (mdGlobalAttrs m)) eLfricConvention"

section \<open>Changing\<close>

definition Metadata_new :: Metadata where
  "Metadata_new = \<lparr>mdDimensions = smap_empty, mdGlobalAttrs = smap_empty, mdVariables = smap_empty\<rparr>"

definition addDimension :: "string \<Rightarrow> int32 \<Rightarrow> Metadata \<Rightarrow> Metadata" where
  "addDimension dimName value m =
    (if smap_find (mdDimensions m) dimName = None
     then m\<lparr>mdDimensions := smap_insert dimName value (mdDimensions m)\<rparr> else m)"

definition addGlobalAttr :: "string \<Rightarrow> AttributeBase \<Rightarrow> Metadata \<Rightarrow> Metadata" where
  "addGlobalAttr name attr m =
    (if smap_find (mdGlobalAttrs m) name = None
     then m\<lparr>mdGlobalAttrs := smap_insert name attr (mdGlobalAttrs m)\<rparr> else m)"

definition addVariable :: "string \<Rightarrow> ref \<Rightarrow> Metadata \<Rightarrow> Metadata" where
  "addVariable name var m =
    (if smap_find (mdVariables m) name = None
     then m\<lparr>mdVariables := smap_insert name var (mdVariables m)\<rparr> else m)"

definition deleteVariable ::
    "('d, 't) env \<Rightarrow> string \<Rightarrow> Metadata \<Rightarrow> (('d, 't) world, Metadata) st" where
  "deleteVariable E name m =
    (if smap_find (mdVariables m) name \<noteq> None
     then returnS (m\<lparr>mdVariables := smap_erase name (mdVariables m)\<rparr>)
     else failS E ''Metadata::deleteVariable'' name)"

definition removeAllButTheseVariables ::
    "('d, 't) env \<Rightarrow> string list \<Rightarrow> Metadata \<Rightarrow> (('d, 't) world, Metadata) st" where
  "removeAllButTheseVariables E varNames m =
    foldS (\<lambda>variableKey m.
        if findInVector varNames variableKey = False then deleteVariable E variableKey m
        else returnS m)
      (extractKeys (mdVariables m)) m"

definition deleteDimension :: "string \<Rightarrow> Metadata \<Rightarrow> (('d, 't) world, Metadata) st" where
  "deleteDimension dimName m =
    (let m' = (if smap_find (mdDimensions m) dimName \<noteq> None
               then m\<lparr>mdDimensions := smap_erase dimName (mdDimensions m)\<rparr> else m) in
     seqS (forS (entries (mdVariables m')) (\<lambda>varPair. Variable_deleteDimension (snd varPair) dimName))
     (returnS m'))"

text \<open>\<open>clear\<close> leaves the dimensions.\<close>

definition Metadata_clear :: "Metadata \<Rightarrow> Metadata" where
  "Metadata_clear m = m\<lparr>mdVariables := smap_empty, mdGlobalAttrs := smap_empty\<rparr>"

definition clearGlobalAttributes :: "Metadata \<Rightarrow> Metadata" where
  "clearGlobalAttributes m = m\<lparr>mdGlobalAttrs := smap_empty\<rparr>"

section \<open>The stores\<close>

interpretation dims: keyed_store "\<lambda>m. smap_find (mdDimensions m)" addDimension
  by unfold_locales (auto simp: addDimension_def)

interpretation globalAttrs: keyed_store "\<lambda>m. smap_find (mdGlobalAttrs m)" addGlobalAttr
  by unfold_locales (auto simp: addGlobalAttr_def)

interpretation vars: keyed_store "\<lambda>m. smap_find (mdVariables m)" addVariable
  by unfold_locales (auto simp: addVariable_def)

lemma add_frames [simp]:
  "mdGlobalAttrs (addDimension n v m) = mdGlobalAttrs m"
  "mdVariables (addDimension n v m) = mdVariables m"
  "mdDimensions (addGlobalAttr n a m) = mdDimensions m"
  "mdVariables (addGlobalAttr n a m) = mdVariables m"
  "mdDimensions (addVariable n r m) = mdDimensions m"
  "mdGlobalAttrs (addVariable n r m) = mdGlobalAttrs m"
  by (simp_all add: addDimension_def addGlobalAttr_def addVariable_def)

context world_invariant
begin

lemma metadata_kept [keeps_intros]:
  "keepsS I (getDimension E m n)"
  "keepsS I (getVariable E m n)"
  "keepsS I (getVariables E m ns)"
  "keepsS I (getVarStrAttrs E m ns n)"
  "keepsS I (getVariableConvention m)"
  "keepsS I (deleteVariable E n m)"
  "keepsS I (removeAllButTheseVariables E ns m)"
  "keepsS I (deleteDimension n m)"
  unfolding getDimension_def getVariable_def getVariables_def getVarStrAttrs_def getVariableConvention_def
    deleteVariable_def removeAllButTheseVariables_def deleteDimension_def Let_def
  by (intro keeps_intros)+

end

section \<open>Equality, characterised\<close>

lemma walk2_list_all2: "length xs = length ys \<Longrightarrow> walk2 same xs ys = list_all2 same xs ys"
  by (induction xs ys rule: list_induct2) auto

lemma walk2_map_eq:
  assumes "length xs = length ys"
    and "\<And>x y. x \<in> set xs \<Longrightarrow> y \<in> set ys \<Longrightarrow> same x y \<longleftrightarrow> f x = f y \<and> ok (f x)"
  shows "walk2 same xs ys \<longleftrightarrow> map f xs = map f ys \<and> list_all ok (map f xs)"
  using assms by (induction xs ys rule: list_induct2) auto

fun attrNaN :: "AttributeBase \<Rightarrow> bool" where
  "attrNaN (AttributeDouble name value) = (value = FNaN)"
| "attrNaN _ = False"

definition hasNaN :: "Variable \<Rightarrow> bool" where
  "hasNaN v = list_ex (\<lambda>e. attrNaN (snd e)) (entries (varAttrs v))"

lemma attr_eq_iff: "attr_eq a b \<longleftrightarrow> a = b \<and> \<not> attrNaN a"
  by (cases a; cases b) (auto simp: attr_eq_def fp_ne_iff)

text \<open>Attributes stored under their own names: the list of attributes determines the map.\<close>

lemma attrs_by_values:
  assumes "wf_variable v" and "wf_variable w"
    and "map snd (entries (varAttrs v)) = map snd (entries (varAttrs w))"
  shows "varAttrs v = varAttrs w"
proof -
  have own: "map fst (entries (varAttrs x)) = map attrName (map snd (entries (varAttrs x)))"
    if "wf_variable x" for x
    using that by (auto simp: wf_variable_def list_all_iff)
  have "map fst (entries (varAttrs v)) = map fst (entries (varAttrs w))"
    using own [OF assms(1)] own [OF assms(2)] assms(3) by metis
  then have "entries (varAttrs v) = entries (varAttrs w)"
    using assms(3) by (metis zip_map_fst_snd)
  then show ?thesis by (simp add: entries_inject)
qed

lemma variable_eq_iff:
  assumes "wf_variable v" and "wf_variable w"
  shows "variable_eq v w \<longleftrightarrow> v = w \<and> \<not> hasNaN v"
proof -
  have dims: "walk2 (\<lambda>x y. \<not> (fst x \<noteq> fst y \<or> snd x \<noteq> snd y)) (varDims v) (varDims w) \<longleftrightarrow>
      varDims v = varDims w" if "length (varDims v) = length (varDims w)"
    using walk2_map_eq [OF that, of _ "\<lambda>x. x" "\<lambda>_. True"] by (auto simp: prod_eq_iff list_all_iff)
  have attrs: "walk2 (\<lambda>x y. attr_eq (snd x) (snd y)) (entries (varAttrs v)) (entries (varAttrs w)) \<longleftrightarrow>
      map snd (entries (varAttrs v)) = map snd (entries (varAttrs w)) \<and> \<not> hasNaN v"
    if "smap_size (varAttrs v) = smap_size (varAttrs w)"
    using that walk2_map_eq [of "entries (varAttrs v)" "entries (varAttrs w)" _ snd "\<lambda>a. \<not> attrNaN a"]
    by (auto simp: attr_eq_iff smap_size_def hasNaN_def list_all_iff list_ex_iff)
  show ?thesis
    using dims attrs attrs_by_values [OF assms]
    by (cases v; cases w) (auto simp: variable_eq_def smap_size_def)
qed

text \<open>Metadata whose variables are on the heap.\<close>

definition metadata_on :: "Variable list \<Rightarrow> Metadata \<Rightarrow> bool" where
  "metadata_on vs m = list_all (\<lambda>e. snd e < length vs) (entries (mdVariables m))"

definition variablesOf :: "Variable list \<Rightarrow> Metadata \<Rightarrow> Variable list" where
  "variablesOf vs m = map (\<lambda>e. vs ! snd e) (entries (mdVariables m))"

lemma Metadata_eq_char:
  assumes "wf_vars vs" and "metadata_on vs m" and "metadata_on vs m'"
  shows "Metadata_eq vs m m' \<longleftrightarrow>
    variablesOf vs m = variablesOf vs m' \<and> \<not> list_ex hasNaN (variablesOf vs m) \<and>
    (smap_size (mdDimensions m) = smap_size (mdDimensions m') \<longrightarrow>
     map snd (entries (mdDimensions m)) = map snd (entries (mdDimensions m')))"
proof -
  have dims: "walk2 (\<lambda>x y. \<not> (snd x \<noteq> snd y)) (entries (mdDimensions m)) (entries (mdDimensions m')) \<longleftrightarrow>
      map snd (entries (mdDimensions m)) = map snd (entries (mdDimensions m'))"
    if "smap_size (mdDimensions m) = smap_size (mdDimensions m')"
    using that walk2_map_eq [of "entries (mdDimensions m)" "entries (mdDimensions m')" _ snd "\<lambda>_. True"]
    by (auto simp: smap_size_def list_all_iff)
  have vars: "walk2 (\<lambda>x y. variable_eq (vs ! snd x) (vs ! snd y)) (entries (mdVariables m))
      (entries (mdVariables m')) \<longleftrightarrow>
      variablesOf vs m = variablesOf vs m' \<and> \<not> list_ex hasNaN (variablesOf vs m)"
    if "smap_size (mdVariables m) = smap_size (mdVariables m')"
    using that assms walk2_map_eq [of "entries (mdVariables m)" "entries (mdVariables m')"
        "\<lambda>x y. variable_eq (vs ! snd x) (vs ! snd y)" "\<lambda>e. vs ! snd e" "\<lambda>v. \<not> hasNaN v"]
    by (auto simp: variable_eq_iff wf_vars_nth metadata_on_def list_all_iff list_ex_iff smap_size_def
        variablesOf_def)
  have "length (variablesOf vs x) = smap_size (mdVariables x)" for x
    by (simp add: variablesOf_def smap_size_def)
  then show ?thesis using dims vars by (auto simp: Metadata_eq_def) metis+
qed

text \<open>
  C27: two \<open>Metadata\<close> compare equal exactly when their variables, in key order, are equal and free
  of NaN attributes, and, in case they have the same number of dimensions, the dimension values in
  key order are equal. Global attributes, the names of dimensions, and dimension maps of
  different sizes play no part.
\<close>

theorem Metadata_eq_iff:
  assumes "wf_vars vs" and "metadata_on vs m" and "metadata_on vs m'"
  shows "Metadata_eq vs m m' \<longleftrightarrow>
    variablesOf vs m = variablesOf vs m' \<and> \<not> list_ex hasNaN (variablesOf vs m) \<and>
    (smap_size (mdDimensions m) = smap_size (mdDimensions m') \<longrightarrow>
     map snd (entries (mdDimensions m)) = map snd (entries (mdDimensions m')))"
  by (rule Metadata_eq_char [OF assms])

text \<open>
  C28: adding a dimension is invisible to the comparison: a metadata that contains no NaN attribute
  still compares equal to the same metadata with one more dimension.
\<close>

theorem Metadata_eq_blind_to_dimension:
  assumes "wf_vars vs" and "metadata_on vs m" and "\<not> list_ex hasNaN (variablesOf vs m)"
    and "smap_find (mdDimensions m) name = None"
  shows "Metadata_eq vs m (addDimension name value m) \<and> addDimension name value m \<noteq> m"
proof -
  have "dom (smap_find (smap_insert name value (mdDimensions m))) =
      insert name (dom (smap_find (mdDimensions m)))"
    by (auto split: if_splits)
  moreover have "finite (dom (smap_find (mdDimensions m)))"
    by (simp add: set_keys [symmetric])
  ultimately have "smap_size (smap_insert name value (mdDimensions m)) = Suc (smap_size (mdDimensions m))"
    using assms(4) by (simp add: size_eq_card card_insert_if domIff)
  moreover have "metadata_on vs (addDimension name value m)"
    using assms(2) by (simp add: metadata_on_def)
  moreover have "variablesOf vs (addDimension name value m) = variablesOf vs m"
    by (simp add: variablesOf_def)
  moreover have "mdDimensions (addDimension name value m) = smap_insert name value (mdDimensions m)"
    using assms(4) by (simp add: addDimension_def)
  ultimately show ?thesis
    using assms by (auto simp: Metadata_eq_char)
qed

section \<open>Looking up\<close>

lemma find_sorted_least:
  fixes es :: "('k::linorder \<times> 'v) list"
  assumes "sorted_wrt (<) (map fst es)" and "List.find P es = Some e"
  shows "e \<in> set es \<and> P e \<and> (\<forall>e' \<in> set es. P e' \<longrightarrow> fst e \<le> fst e')"
  using assms by (induction es) (auto split: if_splits intro: less_imp_le)

lemma sorted_entries: "sorted_wrt (<) (map fst (entries m))"
  using sorted_keys [of m] by (simp add: smap_keys_def)

text \<open>
  \<open>getDimensionName\<close> returns the least name, in string order, among the dimensions that have the
  wanted size, and \<open>NOT_FOUND\<close> when no dimension has it.
\<close>

lemma getDimensionName_char:
  "if \<exists>k. smap_find (mdDimensions m) k = Some v
   then smap_find (mdDimensions m) (getDimensionName m v) = Some v \<and>
        (\<forall>k. smap_find (mdDimensions m) k = Some v \<longrightarrow> getDimensionName m v \<le> k)
   else getDimensionName m v = ''NOT_FOUND''"
proof (cases "List.find (\<lambda>it. snd it = v) (entries (mdDimensions m))")
  case None
  then show ?thesis
    using iffD1 [OF find_None_iff None]
    by (auto simp: getDimensionName_def None kNotFoundError_def in_entries_iff [symmetric])
next
  case (Some it)
  then show ?thesis
    using find_sorted_least [OF sorted_entries Some]
    by (cases it) (auto simp: getDimensionName_def in_entries_iff [symmetric])
qed

lemma getDimensionName_only:
  assumes "smap_find (mdDimensions m) k = Some v" and "\<And>k'. smap_find (mdDimensions m) k' = Some v \<Longrightarrow> k' = k"
  shows "getDimensionName m v = k"
  using getDimensionName_char [of m v] assms by (metis (no_types))

lemma string_find_iff: "string_find s t \<noteq> None \<longleftrightarrow> (\<exists>a b. s = a @ t @ b)"
proof (induction s t rule: string_find.induct)
  case (2 c cs t)
  have "take (length t) (c # cs) = t \<longleftrightarrow> (\<exists>b. c # cs = t @ b)"
    by (metis append_eq_conv_conj append_take_drop_id)
  then show ?case
    using 2 by (auto simp: Cons_eq_append_conv) (metis append_Cons)+
qed auto

lemma fold_collect: "fold (\<lambda>x acc. if P x then acc @ [x] else acc) xs acc = acc @ filter P xs"
  by (induction xs arbitrary: acc) auto

text \<open>\<open>findVariableNames\<close> returns, in order, the names of all variables that contain the searched text.\<close>

lemma findVariableNames_eq:
  "findVariableNames m t = filter (\<lambda>k. \<exists>a b. k = a @ t @ b) (smap_keys (mdVariables m))"
  by (simp add: findVariableNames_def fold_collect string_find_iff extractKeys_eq del: not_None_eq)

lemma filter_key_entries:
  "filter (\<lambda>e. fst e = k) (entries m) = (case smap_find m k of None \<Rightarrow> [] | Some v \<Rightarrow> [(k, v)])"
proof -
  have "filter (\<lambda>e. fst e = k) es = (case map_of es k of None \<Rightarrow> [] | Some v \<Rightarrow> [(k, v)])"
    if "distinct (map fst es)" for es :: "('a \<times> 'b) list"
    using that by (induction es) (force simp: filter_empty_conv split: option.split)+
  then show ?thesis
    using sorted_entries [of m] by (simp add: map_of_entries strict_sorted_fst)
qed

lemma foldS_skip: "foldS (\<lambda>x a. if P x then f x a else returnS a) xs = foldS f (filter P xs)"
proof (rule ext)
  show "foldS (\<lambda>x a. if P x then f x a else returnS a) xs a = foldS f (filter P xs) a" for a
    by (induction xs arbitrary: a) (auto simp: st_simps intro: arg_cong [where f = "bindS _"])
qed

lemma getVariableConvention_run:
  "getVariableConvention m w =
    (case smap_find (mdGlobalAttrs m) ''variable_convention'' of
      None \<Rightarrow> (Inr eLfricConvention, w)
    | Some (AttributeString _ s) \<Rightarrow> (Inr (if s = ''JEDI'' then eJediConvention else eLfricConvention), w)
    | Some _ \<Rightarrow> (Inl (Undefined ''null AttributeString''), w))"
proof -
  have "getVariableConvention m w = foldS (\<lambda>globalAttr variableConvention.
          bindS (stringValue (snd globalAttr)) (\<lambda>dataFormatValue.
          let pos = findPosInVector kNamingConventions dataFormatValue in
          returnS (if pos \<noteq> -1 then pos else variableConvention)))
      (case smap_find (mdGlobalAttrs m) kVariableConventionName of None \<Rightarrow> []
       | Some v \<Rightarrow> [(kVariableConventionName, v)]) eLfricConvention w"
    by (simp add: getVariableConvention_def foldS_skip filter_key_entries)
  then show ?thesis
    by (auto simp: kVariableConventionName_def kNamingConventions_def findPosInVector_def st_simps
        split: option.split AttributeBase.split)
qed


section \<open>Deleting\<close>

text \<open>The loop that deletes every variable but the wanted ones.\<close>

lemma deleteVariables_loop:
  assumes "distinct ks" and "set ks \<subseteq> dom (smap_find (mdVariables m))"
  shows "foldS (\<lambda>k m. if P k then returnS m else deleteVariable E k m) ks m w =
    (Inr (m\<lparr>mdVariables := fold (\<lambda>k vs. if P k then vs else smap_erase k vs) ks (mdVariables m)\<rparr>), w)"
  using assms
proof (induction ks arbitrary: m)
  case (Cons k ks)
  then have "set ks \<subseteq> dom (smap_find (if P k then mdVariables m else smap_erase k (mdVariables m)))"
    by (auto simp: domIff subset_iff)
  with Cons show ?case
    by (auto simp: st_simps deleteVariable_def domIff)
qed (simp add: st_simps)

lemma retainVariables:
  "foldS (\<lambda>k m. if P k then returnS m else deleteVariable E k m) (smap_keys (mdVariables m)) m w =
    (Inr (m\<lparr>mdVariables := fold (\<lambda>k vs. if P k then vs else smap_erase k vs)
      (smap_keys (mdVariables m)) (mdVariables m)\<rparr>), w)"
  by (rule deleteVariables_loop) (simp_all add: set_keys)

text \<open>
  \<open>removeAllButTheseVariables\<close> never fails, and keeps exactly the variables it is given, with
  dimensions and global attributes untouched.
\<close>

lemma removeAllButTheseVariables_restricts:
  "\<exists>m'. removeAllButTheseVariables E names m w = (Inr m', w) \<and>
    mdDimensions m' = mdDimensions m \<and> mdGlobalAttrs m' = mdGlobalAttrs m \<and>
    (\<forall>k. smap_find (mdVariables m') k = (if k \<in> set names then smap_find (mdVariables m) k else None))"
proof -
  have "removeAllButTheseVariables E names m =
      foldS (\<lambda>k m. if k \<in> set names then returnS m else deleteVariable E k m) (smap_keys (mdVariables m)) m"
    by (simp add: removeAllButTheseVariables_def extractKeys_eq)
      (rule arg_cong [where f = "\<lambda>f. foldS f _ _"]; auto simp: fun_eq_iff)
  then show ?thesis
    by (simp add: retainVariables std_map.lookup_retain)
qed

text \<open>The loop of \<open>deleteDimension\<close> over the variables: erasing twice is erasing once.\<close>

definition withoutDim :: "string \<Rightarrow> Variable \<Rightarrow> Variable" where
  "withoutDim n v = v\<lparr>varDims := eraseDim n (varDims v)\<rparr>"

lemma withoutDim_twice: "wf_variable v \<Longrightarrow> withoutDim n (withoutDim n v) = withoutDim n v"
  by (simp add: withoutDim_def wf_variable_iff eraseDim_filter distinct_map_fst_filter)

lemma Variable_deleteDimension_apply:
  "r < length (varHeap w) \<Longrightarrow>
   Variable_deleteDimension r n w = (Inr (), w\<lparr>varHeap := (varHeap w)[r := withoutDim n (varHeap w ! r)]\<rparr>)"
  by (simp add: Variable_deleteDimension_def st_simps withoutDim_def)

definition eraseDims :: "string \<Rightarrow> ref set \<Rightarrow> Variable list \<Rightarrow> Variable list" where
  "eraseDims n rs vs = map (\<lambda>i. if i \<in> rs then withoutDim n (vs ! i) else vs ! i) [0..<length vs]"

lemma length_eraseDims [simp]: "length (eraseDims n rs vs) = length vs"
  by (simp add: eraseDims_def)

lemma eraseDims_nth: "i < length vs \<Longrightarrow>
    eraseDims n rs vs ! i = (if i \<in> rs then withoutDim n (vs ! i) else vs ! i)"
  by (simp add: eraseDims_def)

lemma eraseDims_step:
  assumes "wf_vars vs" and "r < length vs"
  shows "eraseDims n rs (vs[r := withoutDim n (vs ! r)]) = eraseDims n (insert r rs) vs"
  using assms by (intro nth_equalityI) (auto simp: eraseDims_nth nth_list_update withoutDim_twice wf_vars_nth)

lemma deleteDims_loop:
  assumes "wf_vars (varHeap w)" and "\<forall>e \<in> set es. snd e < length (varHeap w)"
  shows "forS es (\<lambda>e. Variable_deleteDimension (snd e) n) w =
    (Inr (), w\<lparr>varHeap := eraseDims n (snd ` set es) (varHeap w)\<rparr>)"
  using assms
proof (induction es arbitrary: w)
  case Nil
  have "eraseDims n {} (varHeap w) = varHeap w" by (simp add: eraseDims_def map_nth)
  then show ?case by (simp add: st_simps)
next
  case (Cons e es)
  then have r: "snd e < length (varHeap w)" by simp
  have "wf_vars ((varHeap w)[snd e := withoutDim n (varHeap w ! snd e)])"
    using Cons.prems(1) r
    by (simp add: wf_vars_update withoutDim_def wf_variable_eraseDim wf_vars_nth)
  with Cons r show ?case
    using Variable_deleteDimension_apply [OF r, of n]
    by (simp add: st_simps bindS_Inr eraseDims_step)
qed

lemma deleteDimension_run:
  assumes "wf_vars (varHeap w)" and "metadata_on (varHeap w) m"
  shows "deleteDimension n m w = (Inr (m\<lparr>mdDimensions := smap_erase n (mdDimensions m)\<rparr>),
    w\<lparr>varHeap := eraseDims n (snd ` set (entries (mdVariables m))) (varHeap w)\<rparr>)"
proof -
  have dims: "(if smap_find (mdDimensions m) n \<noteq> None
      then m\<lparr>mdDimensions := smap_erase n (mdDimensions m)\<rparr> else m) =
      m\<lparr>mdDimensions := smap_erase n (mdDimensions m)\<rparr>"
    by (auto simp: std_map.erase_absent)
  have "forS (entries (mdVariables m)) (\<lambda>e. Variable_deleteDimension (snd e) n) w =
      (Inr (), w\<lparr>varHeap := eraseDims n (snd ` set (entries (mdVariables m))) (varHeap w)\<rparr>)"
    using assms by (intro deleteDims_loop) (auto simp: metadata_on_def list_all_iff)
  then show ?thesis
    unfolding deleteDimension_def Let_def dims by (simp add: st_simps bindS_Inr)
qed

lemma wf_eraseDims: "wf_vars vs \<Longrightarrow> wf_vars (eraseDims n rs vs)"
  by (auto simp: wf_vars_def list_all_length eraseDims_nth withoutDim_def intro: wf_variable_eraseDim)

lemma eraseDims_filter_nth:
  "wf_vars vs \<Longrightarrow> i < length vs \<Longrightarrow> eraseDims n rs vs ! i =
    (if i \<in> rs then (vs ! i)\<lparr>varDims := filter (\<lambda>d. fst d \<noteq> n) (varDims (vs ! i))\<rparr> else vs ! i)"
  using wf_vars_nth [of vs i] by (simp add: eraseDims_nth withoutDim_def wf_variable_iff eraseDim_filter)

text \<open>
  C31: \<open>deleteDimension\<close> never fails; it removes the dimension from the metadata and from every
  variable on the heap that the metadata refers to, so also from those of any copy of it that
  shares them, and leaves every other variable as it was.
\<close>

theorem deleteDimension_effect:
  assumes "wf_vars (varHeap w)" and "metadata_on (varHeap w) m"
  shows "\<exists>w'. deleteDimension n m w = (Inr (m\<lparr>mdDimensions := smap_erase n (mdDimensions m)\<rparr>), w') \<and>
    w' = w\<lparr>varHeap := varHeap w'\<rparr> \<and> length (varHeap w') = length (varHeap w) \<and>
    (\<forall>i < length (varHeap w). varHeap w' ! i =
      (if i \<in> snd ` set (entries (mdVariables m))
       then (varHeap w ! i)\<lparr>varDims := filter (\<lambda>d. fst d \<noteq> n) (varDims (varHeap w ! i))\<rparr>
       else varHeap w ! i))"
  using deleteDimension_run [OF assms] by (simp add: eraseDims_filter_nth [OF assms(1)])

end
