(* ===== verification/Data_Store.thy ===== *)
theory Data_Store
  imports Metadatas
begin

text \<open>
  \<open>src/monio/Data.cc\<close> and \<open>src/monio/FileData.cc\<close>: the data containers of a file by name, their
  comparison, and the package of data, metadata, order map and date-times kept per file.
\<close>

section \<open>\<open>Data\<close>\<close>

definition compareData :: "('a \<Rightarrow> 'a \<Rightarrow> bool) \<Rightarrow> 'a list \<Rightarrow> 'a list \<Rightarrow> bool" where
  "compareData differ lhsVec rhsVec =
    (if length lhsVec = length rhsVec then walk2 (\<lambda>x y. \<not> differ x y) lhsVec rhsVec else False)"

definition container_eq :: "DataContainerBase \<Rightarrow> DataContainerBase \<Rightarrow> bool" where
  "container_eq lhs rhs =
    (if containerType lhs = containerType rhs \<and> containerName lhs = containerName rhs then
      (case (lhs, rhs) of
        (DataContainerDouble _ x, DataContainerDouble _ y) \<Rightarrow> compareData fp_ne x y
      | (DataContainerFloat _ x, DataContainerFloat _ y) \<Rightarrow> compareData fp_ne x y
      | (DataContainerInt _ x, DataContainerInt _ y) \<Rightarrow> compareData (\<noteq>) x y
      | _ \<Rightarrow> False)
     else False)"

definition Data_eq :: "Data \<Rightarrow> Data \<Rightarrow> bool" where
  "Data_eq lhs rhs =
    (if smap_size (dataContainers lhs) = smap_size (dataContainers rhs)
     then walk2 (\<lambda>x y. container_eq (snd x) (snd y)) (entries (dataContainers lhs))
            (entries (dataContainers rhs))
     else False)"

definition Data_new :: Data where
  "Data_new = \<lparr>dataContainers = smap_empty\<rparr>"

definition addContainer :: "DataContainerBase \<Rightarrow> Data \<Rightarrow> Data" where
  "addContainer container d =
    (if smap_find (dataContainers d) (containerName container) = None
     then d\<lparr>dataContainers := smap_insert (containerName container) container (dataContainers d)\<rparr>
     else d)"

definition deleteContainer :: "string \<Rightarrow> Data \<Rightarrow> Data" where
  "deleteContainer name d =
    (if smap_find (dataContainers d) name \<noteq> None
     then d\<lparr>dataContainers := smap_erase name (dataContainers d)\<rparr> else d)"

definition removeAllButTheseContainers :: "string list \<Rightarrow> Data \<Rightarrow> Data" where
  "removeAllButTheseContainers names d =
    fold (\<lambda>containerKey d.
        if findInVector names containerKey = False then deleteContainer containerKey d else d)
      (extractKeys (dataContainers d)) d"

definition isContainerPresent :: "Data \<Rightarrow> string \<Rightarrow> bool" where
  "isContainerPresent d name = (smap_find (dataContainers d) name \<noteq> None)"

text \<open>The message of \<open>getContainer\<close> names no member function.\<close>

definition getContainer ::
    "('d, 't) env \<Rightarrow> Data \<Rightarrow> string \<Rightarrow> (('d, 't) world, DataContainerBase) st" where
  "getContainer E d name =
    (case smap_find (dataContainers d) name of
      Some container \<Rightarrow> returnS container
    | None \<Rightarrow> failS E ''DataContainer'' name)"

definition getDataContainerNames :: "Data \<Rightarrow> string list" where
  "getDataContainerNames d = extractKeys (dataContainers d)"

definition Data_clear :: "Data \<Rightarrow> Data" where
  "Data_clear d = d\<lparr>dataContainers := smap_empty\<rparr>"

section \<open>\<open>FileData\<close>\<close>

definition FileData_new :: "'t FileData" where
  "FileData_new = \<lparr>fdData = Data_new, fdMetadata = Metadata_new, fdLfricAtlasMap = [], fdDateTimes = []\<rparr>"

definition clearData :: "'t FileData \<Rightarrow> 't FileData" where
  "clearData fd = fd\<lparr>fdMetadata := Metadata_clear (fdMetadata fd), fdData := Data_clear (fdData fd)\<rparr>"

definition setLfricAtlasMap :: "size_t list \<Rightarrow> 't FileData \<Rightarrow> 't FileData" where
  "setLfricAtlasMap lfricAtlasMap fd = fd\<lparr>fdLfricAtlasMap := lfricAtlasMap\<rparr>"

definition setDateTimes :: "'t list \<Rightarrow> 't FileData \<Rightarrow> 't FileData" where
  "setDateTimes dateTimes fd = fd\<lparr>fdDateTimes := dateTimes\<rparr>"

section \<open>Facts\<close>

text \<open>Every container is stored under its own name.\<close>

definition wf_data :: "Data \<Rightarrow> bool" where
  "wf_data d \<longleftrightarrow> list_all (\<lambda>e. containerName (snd e) = fst e) (entries (dataContainers d))"

lemma wf_data_iff: "wf_data d \<longleftrightarrow> (\<forall>k c. smap_find (dataContainers d) k = Some c \<longrightarrow> containerName c = k)"
  by (auto simp: wf_data_def list_all_iff in_entries_iff [symmetric])

interpretation containers: keyed_store "\<lambda>d. smap_find (dataContainers d)"
    "\<lambda>name c d. if smap_find (dataContainers d) name = None
       then d\<lparr>dataContainers := smap_insert name c (dataContainers d)\<rparr> else d"
  by unfold_locales auto

lemma find_addContainer [simp]:
  "smap_find (dataContainers (addContainer c d)) k =
    (if k = containerName c \<and> smap_find (dataContainers d) k = None then Some c
     else smap_find (dataContainers d) k)"
  by (auto simp: addContainer_def)

lemma deleteContainer_eq:
  "deleteContainer name d = d\<lparr>dataContainers := smap_erase name (dataContainers d)\<rparr>"
  by (auto simp: deleteContainer_def std_map.erase_absent)

lemma wf_data_ops:
  "wf_data Data_new"
  "wf_data d \<Longrightarrow> wf_data (addContainer c d)"
  "wf_data d \<Longrightarrow> wf_data (deleteContainer n d)"
  "wf_data (Data_clear d)"
  by (auto simp: wf_data_iff Data_new_def deleteContainer_eq Data_clear_def split: if_splits)

context world_invariant
begin

lemma getContainer_kept [keeps_intros]: "keepsS I (getContainer E d n)"
  unfolding getContainer_def by (intro keeps_intros)

end

text \<open>A container whose vector has no NaN.\<close>

fun nanFree :: "DataContainerBase \<Rightarrow> bool" where
  "nanFree (DataContainerDouble name xs) = (FNaN \<notin> set xs)"
| "nanFree (DataContainerFloat name xs) = (FNaN \<notin> set xs)"
| "nanFree (DataContainerInt name xs) = True"

lemma compareData_fp: "compareData fp_ne xs ys \<longleftrightarrow> xs = ys \<and> FNaN \<notin> set xs"
proof -
  have "walk2 (\<lambda>x y. \<not> fp_ne x y) xs ys \<longleftrightarrow> map (\<lambda>x. x) xs = map (\<lambda>x. x) ys \<and>
      list_all (\<lambda>x. x \<noteq> FNaN) (map (\<lambda>x. x) xs)" if "length xs = length ys"
    by (rule walk2_map_eq [OF that]) (auto simp: fp_ne_iff)
  then show ?thesis by (auto simp: compareData_def list_all_iff)
qed

lemma compareData_int: "compareData (\<noteq>) xs ys \<longleftrightarrow> xs = ys" for xs :: "int32 list"
proof -
  have "walk2 (\<lambda>x y. \<not> x \<noteq> y) xs ys \<longleftrightarrow> xs = ys" if "length xs = length ys"
    using walk2_map_eq [OF that, of _ "\<lambda>x. x" "\<lambda>x. True"] by (auto simp: list_all_iff)
  then show ?thesis by (auto simp: compareData_def)
qed

lemma container_eq_iff: "container_eq c d \<longleftrightarrow> c = d \<and> nanFree c"
  by (cases c; cases d) (auto simp: container_eq_def compareData_fp compareData_int)

lemma data_by_values:
  assumes "wf_data d" and "wf_data d'"
    and "map snd (entries (dataContainers d)) = map snd (entries (dataContainers d'))"
  shows "d = d'"
proof -
  have own: "map fst (entries (dataContainers x)) = map containerName (map snd (entries (dataContainers x)))"
    if "wf_data x" for x
    using that by (auto simp: wf_data_def list_all_iff)
  have "map fst (entries (dataContainers d)) = map fst (entries (dataContainers d'))"
    using own [OF assms(1)] own [OF assms(2)] assms(3) by metis
  then have "entries (dataContainers d) = entries (dataContainers d')"
    using assms(3) by (metis zip_map_fst_snd)
  then show ?thesis by (simp add: entries_inject)
qed

text \<open>
  C29: two \<open>Data\<close> objects compare equal exactly when they are the same collection of containers
  and none of its values is NaN.
\<close>

theorem Data_eq_iff:
  assumes "wf_data d" and "wf_data d'"
  shows "Data_eq d d' \<longleftrightarrow>
    d = d' \<and> (\<forall>k c. smap_find (dataContainers d) k = Some c \<longrightarrow> nanFree c)"
proof -
  have "walk2 (\<lambda>x y. container_eq (snd x) (snd y)) (entries (dataContainers d)) (entries (dataContainers d'))
      \<longleftrightarrow> map snd (entries (dataContainers d)) = map snd (entries (dataContainers d')) \<and>
        list_all nanFree (map snd (entries (dataContainers d)))"
    if "smap_size (dataContainers d) = smap_size (dataContainers d')"
    using that by (intro walk2_map_eq) (auto simp: smap_size_def container_eq_iff)
  moreover have "list_all nanFree (map snd (entries (dataContainers d))) \<longleftrightarrow>
      (\<forall>k c. smap_find (dataContainers d) k = Some c \<longrightarrow> nanFree c)"
    by (auto simp: list_all_iff in_entries_iff [symmetric])
  ultimately show ?thesis
    using data_by_values [OF assms] by (auto simp: Data_eq_def)
qed

lemma find_removeAllButThese:
  "smap_find (dataContainers (removeAllButTheseContainers names d)) k =
    (if k \<in> set names then smap_find (dataContainers d) k else None)"
proof -
  have "dataContainers (fold (\<lambda>k d. if findInVector names k = False then deleteContainer k d else d) ks d) =
      fold (\<lambda>k m. if k \<in> set names then m else smap_erase k m) ks (dataContainers d)" for ks
    by (induction ks arbitrary: d) (simp_all add: deleteContainer_eq)
  then show ?thesis
    by (simp add: removeAllButTheseContainers_def extractKeys_eq std_map.lookup_retain)
qed

text \<open>The specification of \<open>Data\<close>: a finite map from names to containers.\<close>

definition absData :: "Data \<Rightarrow> string \<rightharpoonup> DataContainerBase" where
  "absData d = smap_find (dataContainers d)"

text \<open>
  C30: \<open>Data\<close> implements a finite map from names to containers, operation by operation: adding keeps
  what is there, deleting removes one name, \<open>removeAllButTheseContainers\<close> restricts, \<open>clear\<close> empties,
  the names come sorted.
\<close>

theorem Data_refines_map:
  "absData Data_new = Map.empty \<and>
   absData (addContainer c d) =
     (if containerName c \<in> dom (absData d) then absData d else (absData d)(containerName c \<mapsto> c)) \<and>
   absData (deleteContainer n d) = (absData d)(n := None) \<and>
   absData (removeAllButTheseContainers ns d) = absData d |` set ns \<and>
   absData (Data_clear d) = Map.empty \<and>
   (isContainerPresent d n \<longleftrightarrow> n \<in> dom (absData d)) \<and>
   getDataContainerNames d = sorted_list_of_set (dom (absData d))"
proof (intro conjI)
  show "getDataContainerNames d = sorted_list_of_set (dom (absData d))"
  proof (rule sorted_distinct_set_unique)
    show "sorted (getDataContainerNames d)" "distinct (getDataContainerNames d)"
      using sorted_keys [of "dataContainers d"]
      by (auto simp: getDataContainerNames_def extractKeys_eq strict_sorted_iff)
    have fin: "finite (dom (absData d))"
      using set_keys [of "dataContainers d"] by (metis absData_def finite_set)
    then show "set (getDataContainerNames d) = set (sorted_list_of_set (dom (absData d)))"
      by (simp add: getDataContainerNames_def extractKeys_eq set_keys absData_def)
  qed simp_all
qed (auto simp: absData_def fun_eq_iff Data_new_def deleteContainer_eq Data_clear_def isContainerPresent_def
    find_removeAllButThese restrict_map_def domIff)

end
