(* ===== verification/Utils_Atlas.thy ===== *)
theory Utils_Atlas
  imports Data_Store
begin

text \<open>
  \<open>src/monio/UtilsAtlas.cc\<close>: coordinates, the map from LFRic order to Atlas order, global fields,
  sizes and comparison of fields. A field is a position on the heap of fields; an element of its
  array is read and written through \<open>make_view<T, 2>\<close>, which the model takes as the pair of
  functions \<open>ElementType\<close> for each of the three element types \<open>T\<close>. Indices are \<open>atlas::idx_t\<close>, a
  signed 32-bit integer, whose overflow is undefined.
\<close>

section \<open>Fields and views\<close>

record 'a ElementType =
  etView :: "FieldArray \<Rightarrow> 'a list list option"
  etArray :: "'a list list \<Rightarrow> FieldArray"

definition tDouble :: "double ElementType" where
  "tDouble = \<lparr>etView = (\<lambda>a. case a of ArrDouble rows \<Rightarrow> Some rows | _ \<Rightarrow> None), etArray = ArrDouble\<rparr>"

definition tFloat :: "float32 ElementType" where
  "tFloat = \<lparr>etView = (\<lambda>a. case a of ArrFloat rows \<Rightarrow> Some rows | _ \<Rightarrow> None), etArray = ArrFloat\<rparr>"

definition tInt :: "int32 ElementType" where
  "tInt = \<lparr>etView = (\<lambda>a. case a of ArrInt rows \<Rightarrow> Some rows | _ \<Rightarrow> None), etArray = ArrInt\<rparr>"

definition makeView :: "'a ElementType \<Rightarrow> ref \<Rightarrow> (('d, 't) world, 'a list list) st" where
  "makeView T f =
    bindS (derefS fieldHeap f) (\<lambda>field.
    case etView T (fieldArray field) of
      Some rows \<Rightarrow> returnS rows
    | None \<Rightarrow> throwS (AtlasException ''make_view''))"

text \<open>\<open>fieldView(i, j)\<close>, as a value and as the target of an assignment.\<close>

definition inView :: "int32 \<Rightarrow> int32 \<Rightarrow> 'a list list \<Rightarrow> bool" where
  "inView i j rows \<longleftrightarrow> 0 \<le> sint i \<and> nat (sint i) < length rows \<and>
    0 \<le> sint j \<and> nat (sint j) < length (rows ! nat (sint i))"

definition viewGet :: "'a ElementType \<Rightarrow> ref \<Rightarrow> int32 \<Rightarrow> int32 \<Rightarrow> (('d, 't) world, 'a) st" where
  "viewGet T f i j =
    bindS (makeView T f) (\<lambda>rows.
    if inView i j rows then returnS (rows ! nat (sint i) ! nat (sint j))
    else throwS (Undefined ''fieldView(i, j)''))"

definition viewSet :: "'a ElementType \<Rightarrow> ref \<Rightarrow> int32 \<Rightarrow> int32 \<Rightarrow> 'a \<Rightarrow> (('d, 't) world, unit) st" where
  "viewSet T f i j x =
    bindS (makeView T f) (\<lambda>rows.
    if inView i j rows then
      bindS (derefS fieldHeap f) (\<lambda>field.
      setField f (field\<lparr>fieldArray := etArray T
        (rows[nat (sint i) := (rows ! nat (sint i))[nat (sint j) := x]])\<rparr>))
    else throwS (Undefined ''fieldView(i, j)''))"

definition datatypeOf :: "Field \<Rightarrow> DataKind" where
  "datatypeOf field = (case fieldArray field of
      ArrDouble _ \<Rightarrow> KIND_REAL64 | ArrFloat _ \<Rightarrow> KIND_REAL32 | ArrInt _ \<Rightarrow> KIND_INT32
    | ArrOther \<Rightarrow> KIND_OTHER)"

text \<open>\<open>field.shape(k)\<close> and \<open>fieldShape[k]\<close>.\<close>

definition shapeAt :: "int32 list \<Rightarrow> nat \<Rightarrow> ('w, int32) st" where
  "shapeAt shp k = (if k < length shp then returnS (shp ! k) else throwS (Undefined ''fieldShape[k]''))"

text \<open>Signed arithmetic on \<open>idx_t\<close>, and the range of a loop \<open>for (idx_t i = lo; i < hi; ++i)\<close>.\<close>

definition checkedIdx :: "int \<Rightarrow> ('w, int32) st" where
  "checkedIdx n =
    (if - (2 ^ 31) \<le> n \<and> n < 2 ^ 31 then returnS (word_of_int n)
     else throwS (Undefined ''signed overflow''))"

definition idxRange :: "int32 \<Rightarrow> int32 \<Rightarrow> int32 list" where
  "idxRange lo hi = map word_of_int [sint lo..sint hi - 1]"

text \<open>The test \<open>mpiCommunicator_.rank() == mpiRankOwner_\<close> around a body, and the result without it.\<close>

definition onRank :: "nat \<Rightarrow> 'a \<Rightarrow> (('d, 't) world, 'a) st \<Rightarrow> (('d, 't) world, 'a) st" where
  "onRank owner other body =
    bindS (getS mpiRank) (\<lambda>rank. if rank = owner then body else returnS other)"

section \<open>Sizes\<close>

text \<open>One past the last node of the PE that is not a ghost.\<close>

definition getHorizontalSize :: "('d, 't) env \<Rightarrow> Field \<Rightarrow> int32" where
  "getHorizontalSize E field =
    (let ghostView = atGhost E (fieldSpace field) in
     case List.find (\<lambda>i. ghostView ! i = 0) (rev [0..<length ghostView]) of
       Some i \<Rightarrow> of_nat (i + 1)
     | None \<Rightarrow> 0)"

definition getGlobalDataSize :: "Field \<Rightarrow> ('w, int32) st" where
  "getGlobalDataSize field =
    foldS (\<lambda>d s. checkedIdx (sint s * sint d)) (fieldShape field) 1"

section \<open>Coordinates\<close>

text \<open>Walking the longitudes and the latitudes in step up to the end of the longitudes.\<close>

fun pairCoords :: "float32 list \<Rightarrow> float32 list \<Rightarrow> ('w, (double \<times> double) list) st" where
  "pairCoords [] lats = returnS []"
| "pairCoords (lon # lons) [] = throwS (Undefined ''*latIt'')"
| "pairCoords (lon # lons) (lat # lats) =
    bindS (pairCoords lons lats) (\<lambda>coords. returnS ((lon, lat) # coords))"

definition getLfricCoords ::
    "('d, 't) env \<Rightarrow> DataContainerBase list \<Rightarrow> (('d, 't) world, (double \<times> double) list) st" where
  "getLfricCoords E coordData =
    (if length coordData = 2 then
      bindS (mapS (\<lambda>coordContainer.
          case coordContainer of
            DataContainerFloat _ dataVec \<Rightarrow> returnS dataVec
          | _ \<Rightarrow> failS E ''utilsatlas::getLfricCoords'' ''Data type not coded for'') coordData)
        (\<lambda>coordVectorArray. pairCoords (coordVectorArray ! 0) (coordVectorArray ! 1))
     else failS E ''utilsatlas::getLfricCoords'' ''Incorrect number of coordinate axes'')"

definition getGridCoords :: "('d, 't) env \<Rightarrow> string \<Rightarrow> (double \<times> double) list" where
  "getGridCoords E grid = atGridLonLat E grid"

definition getAtlasCoords :: "('d, 't) env \<Rightarrow> ref \<Rightarrow> (('d, 't) world, (double \<times> double) list) st" where
  "getAtlasCoords E f =
    bindS (derefS fieldHeap f) (\<lambda>field.
    if fieldGlobal field = False then
      mapS (\<lambda>i. if nat (sint i) < length (atLonLat E (fieldSpace field))
                then returnS (atLonLat E (fieldSpace field) ! nat (sint i))
                else throwS (Undefined ''lonLatView(i, k)''))
        (idxRange 0 (getHorizontalSize E field))
    else returnS (getGridCoords E (atGridName E (fieldSpace field))))"

definition convertLatLonToContainers ::
    "(double \<times> double) list \<Rightarrow> string list \<Rightarrow> ('w, DataContainerBase list) st" where
  "convertLatLonToContainers atlasCoords coordNames =
    (if length coordNames \<le> eLatitude then throwS (Undefined ''coordNames[eLatitude]'')
     else (case fold (\<lambda>atlasCoord (lons, lats).
              (container_pushDatum lons (fst atlasCoord), container_pushDatum lats (snd atlasCoord)))
            atlasCoords ([], []) of
       (lons, lats) \<Rightarrow>
         returnS [DataContainerDouble (coordNames ! eLongitude) lons,
                  DataContainerDouble (coordNames ! eLatitude) lats]))"

definition createLfricAtlasMap ::
    "('d, 't) env \<Rightarrow> (double \<times> double) list \<Rightarrow> (double \<times> double) list \<Rightarrow>
     (('d, 't) world, size_t list) st" where
  "createLfricAtlasMap E atlasCoords lfricCoords =
    seqS (whenS (length atlasCoords \<noteq> length lfricCoords)
      (failS E ''utilsatlas::createLfricAtlasMap'' ''Configured grid is not compatible with input file''))
    (let indices = map of_nat [0..<length atlasCoords] in
     returnS (map (\<lambda>lfricCoord. atClosestPoint E atlasCoords indices lfricCoord) lfricCoords))"

section \<open>Global fields\<close>

definition codedKind :: "DataKind \<Rightarrow> bool" where
  "codedKind k \<longleftrightarrow> \<not> (k \<noteq> KIND_REAL64 \<and> k \<noteq> KIND_REAL32 \<and> k \<noteq> KIND_INT32)"

definition getGlobalField :: "('d, 't) env \<Rightarrow> ref \<Rightarrow> (('d, 't) world, ref) st" where
  "getGlobalField E f =
    bindS (derefS fieldHeap f) (\<lambda>field.
    if fieldGlobal field = False then
      bindS (shapeAt (fieldShape field) eVertical) (\<lambda>numLevels.
      seqS (whenS (\<not> codedKind (datatypeOf field))
        (failS E ''utilsatlas::getGlobalFieldSet'' ''Data type not coded for''))
     (bindS (atlasS (atCreateField E (fieldSpace field)
          \<lparr>optName = fieldName field, optLevels = numLevels, optKind = datatypeOf field\<rparr>)) (\<lambda>created.
      bindS (newField created) (\<lambda>g.
      bindS (atlasS (atHaloExchange E field)) (\<lambda>exchanged.
      seqS (setField f exchanged)
     (bindS (atlasS (atGather E (fieldSpace field) exchanged created)) (\<lambda>gathered.
      seqS (setField g gathered)
     (returnS g))))))))
    else returnS f)"

definition getGlobalFieldSet :: "('d, 't) env \<Rightarrow> FieldSet \<Rightarrow> (('d, 't) world, FieldSet) st" where
  "getGlobalFieldSet E fieldSet =
    (if length (fsFields fieldSet) \<noteq> 0 then
      foldS (\<lambda>f globalFieldSet.
          bindS (getGlobalField E f) (\<lambda>g.
          bindS (derefS fieldHeap g) (\<lambda>field.
          returnS (atFieldSetAdd E globalFieldSet (fieldName field) g))))
        (fsFields fieldSet) \<lparr>fsFields = [], fsIndex = smap_empty\<rparr>
     else failS E ''utilsatlas::getGlobalFieldSet'' ''FieldSet has zero fields'')"

section \<open>Types and comparison\<close>

definition atlasTypeToMonioEnum ::
    "('d, 't) env \<Rightarrow> DataKind \<Rightarrow> (('d, 't) world, eDataTypes) st" where
  "atlasTypeToMonioEnum E kind =
    (case kind of
      KIND_INT32 \<Rightarrow> returnS eInt
    | KIND_REAL32 \<Rightarrow> returnS eFloat
    | KIND_REAL64 \<Rightarrow> returnS eDouble
    | KIND_OTHER \<Rightarrow> failS E ''utilsatlas::atlasTypeToMonioEnum'' ''Data type not coded for'')"

text \<open>\<open>return false\<close> at the first pair of elements that differ, as the result of a fold.\<close>

definition compareFields :: "ref \<Rightarrow> ref \<Rightarrow> (('d, 't) world, bool) st" where
  "compareFields a b =
    bindS (makeView tDouble a) (\<lambda>_.
    bindS (makeView tDouble b) (\<lambda>_.
    bindS (derefS fieldHeap a) (\<lambda>field.
    bindS (shapeAt (fieldShape field) eVertical) (\<lambda>vertical.
    bindS (shapeAt (fieldShape field) eHorizontal) (\<lambda>horizontal.
    foldS (\<lambda>j same. foldS (\<lambda>i same.
        if same then
          bindS (viewGet tDouble a i j) (\<lambda>x. bindS (viewGet tDouble b i j) (\<lambda>y.
          returnS (\<not> fp_ne x y)))
        else returnS False) (idxRange 0 horizontal) same) (idxRange 0 vertical) True)))))"

text \<open>\<open>fieldSet[name]\<close>.\<close>

definition fieldNamed :: "FieldSet \<Rightarrow> string \<Rightarrow> ('w, ref) st" where
  "fieldNamed fieldSet name = (case smap_find (fsIndex fieldSet) name of
      Some f \<Rightarrow> returnS f | None \<Rightarrow> throwS (AtlasException name))"

definition compareFieldSets :: "FieldSet \<Rightarrow> FieldSet \<Rightarrow> (('d, 't) world, bool) st" where
  "compareFieldSets aSet bSet =
    foldS (\<lambda>a same.
        if same then
          bindS (derefS fieldHeap a) (\<lambda>field.
          bindS (fieldNamed bSet (fieldName field)) (\<lambda>b. compareFields a b))
        else returnS False) (fsFields aSet) True"

section \<open>What the operations keep\<close>

lemma makeView_keeps [keeps_intros]: "keepsS I (makeView T f)"
  unfolding makeView_def by (intro keeps_intros)

lemma viewGet_keeps [keeps_intros]: "keepsS I (viewGet T f i j)"
  unfolding viewGet_def by (intro keeps_intros)

context world_invariant
begin

lemma viewSet_kept [keeps_intros]: "keepsS I (viewSet T f i j x)"
  unfolding viewSet_def by (intro keeps_intros)

end

lemma onRank_keeps [keeps_intros]: "keepsS I body \<Longrightarrow> keepsS I (onRank owner other body)"
  unfolding onRank_def by (intro keeps_intros)

lemma shapeAt_keeps [keeps_intros]: "keepsS I (shapeAt shp k)"
  unfolding shapeAt_def by (intro keeps_intros)

lemma checkedIdx_keeps [keeps_intros]: "keepsS I (checkedIdx n)"
  unfolding checkedIdx_def by (intro keeps_intros)

lemma pairCoords_keeps [keeps_intros]: "keepsS I (pairCoords xs ys)"
  by (induction xs ys rule: pairCoords.induct) (auto intro: keeps_intros)

lemma keepsS_DataKind [keeps_intros]:
  assumes "keepsS I a" and "keepsS I b" and "keepsS I c" and "keepsS I d"
  shows "keepsS I (case k of KIND_INT32 \<Rightarrow> a | KIND_REAL32 \<Rightarrow> b | KIND_REAL64 \<Rightarrow> c | KIND_OTHER \<Rightarrow> d)"
  using assms by (cases k) simp_all

context world_invariant
begin

lemma atlas_kept [keeps_intros]:
  "keepsS I (getGlobalDataSize field)"
  "keepsS I (getAtlasCoords E f)"
  "keepsS I (convertLatLonToContainers coords names)"
  "keepsS I (createLfricAtlasMap E atlas lfric)"
  "keepsS I (getGlobalField E f)"
  "keepsS I (atlasTypeToMonioEnum E k)"
  "keepsS I (fieldNamed fs n)"
  unfolding getGlobalDataSize_def getAtlasCoords_def convertLatLonToContainers_def
    createLfricAtlasMap_def getGlobalField_def atlasTypeToMonioEnum_def fieldNamed_def Let_def
  by (intro keeps_intros)+

lemma getLfricCoords_kept [keeps_intros]: "keepsS I (getLfricCoords E cs)"
  unfolding getLfricCoords_def by (intro keeps_intros)

end

section \<open>Fields as matrices\<close>

definition lawfulType :: "'a ElementType \<Rightarrow> bool" where
  "lawfulType T \<longleftrightarrow> (\<forall>a rows. etView T a = Some rows \<longleftrightarrow> a = etArray T rows)"

lemma lawful_types [simp]: "lawfulType tDouble" "lawfulType tFloat" "lawfulType tInt"
  by (auto simp: lawfulType_def tDouble_def tFloat_def tInt_def split: FieldArray.splits)

definition isMatrix :: "nat \<Rightarrow> nat \<Rightarrow> 'a list list \<Rightarrow> bool" where
  "isMatrix n L rows \<longleftrightarrow> length rows = n \<and> list_all (\<lambda>row. length row = L) rows"

definition matrix :: "nat \<Rightarrow> nat \<Rightarrow> (nat \<Rightarrow> nat \<Rightarrow> 'a) \<Rightarrow> 'a list list" where
  "matrix n L g = map (\<lambda>i. map (g i) [0..<L]) [0..<n]"

definition upd2 :: "nat \<Rightarrow> nat \<Rightarrow> 'a \<Rightarrow> 'a list list \<Rightarrow> 'a list list" where
  "upd2 i j x rows = rows[i := (rows ! i)[j := x]]"

lemma isMatrix_nth: "isMatrix n L rows \<Longrightarrow> i < n \<Longrightarrow> length (rows ! i) = L"
  by (auto simp: isMatrix_def list_all_length)

lemma isMatrix_matrix [simp]: "isMatrix n L (matrix n L g)"
  by (simp add: isMatrix_def matrix_def list_all_length)

lemma matrix_nth [simp]: "i < n \<Longrightarrow> j < L \<Longrightarrow> matrix n L g ! i ! j = g i j"
  by (simp add: matrix_def)

lemma isMatrix_upd2: "isMatrix n L rows \<Longrightarrow> isMatrix n L (upd2 i j x rows)"
  by (cases "i < length rows") (auto simp: isMatrix_def upd2_def list_all_length nth_list_update)

lemma upd2_nth:
  "isMatrix n L rows \<Longrightarrow> i < n \<Longrightarrow> j < L \<Longrightarrow> i' < n \<Longrightarrow> j' < L \<Longrightarrow>
   upd2 i j x rows ! i' ! j' = (if i' = i \<and> j' = j then x else rows ! i' ! j')"
  by (auto simp: isMatrix_def upd2_def nth_list_update list_all_length)

lemma matrix_eqI:
  assumes "isMatrix n L A" and "isMatrix n L B" and "\<And>i j. i < n \<Longrightarrow> j < L \<Longrightarrow> A ! i ! j = B ! i ! j"
  shows "A = B"
  using assms by (intro nth_equalityI) (auto simp: isMatrix_def list_all_length)

lemma matrix_self: "isMatrix n L rows \<Longrightarrow> matrix n L (\<lambda>i j. rows ! i ! j) = rows"
  by (rule matrix_eqI [of n L]) (assumption | simp)+

lemma fold_upd2:
  assumes "isMatrix n L rows" and "\<forall>p \<in> set ps. fst p < n \<and> snd p < L"
  shows "isMatrix n L (fold (\<lambda>p. upd2 (fst p) (snd p) (g (fst p) (snd p))) ps rows) \<and>
    (\<forall>i < n. \<forall>j < L. fold (\<lambda>p. upd2 (fst p) (snd p) (g (fst p) (snd p))) ps rows ! i ! j =
      (if (i, j) \<in> set ps then g i j else rows ! i ! j))"
  using assms
proof (induction ps arbitrary: rows)
  case (Cons p ps)
  then have "isMatrix n L (upd2 (fst p) (snd p) (g (fst p) (snd p)) rows)"
    by (simp add: isMatrix_upd2)
  from Cons.IH [OF this] Cons.prems show ?case
    by (auto simp: upd2_nth)
qed simp

lemma fold_upd2_all:
  assumes "isMatrix n L rows" and "set ps = {0..<n} \<times> {0..<L}"
  shows "fold (\<lambda>p. upd2 (fst p) (snd p) (g (fst p) (snd p))) ps rows = matrix n L g"
proof (rule matrix_eqI)
  have range: "\<forall>p \<in> set ps. fst p < n \<and> snd p < L" using assms(2) by auto
  show "isMatrix n L (fold (\<lambda>p. upd2 (fst p) (snd p) (g (fst p) (snd p))) ps rows)"
    using fold_upd2 [OF assms(1) range] by blast
  show "fold (\<lambda>p. upd2 (fst p) (snd p) (g (fst p) (snd p))) ps rows ! i ! j = matrix n L g ! i ! j"
    if "i < n" "j < L" for i j
    using fold_upd2 [OF assms(1) range, of g] that assms(2) by simp
qed simp

section \<open>Reading and assigning elements\<close>

definition hasRows :: "'a ElementType \<Rightarrow> ref \<Rightarrow> 'a list list \<Rightarrow> ('d, 't) world \<Rightarrow> bool" where
  "hasRows T f rows w \<longleftrightarrow> f < length (fieldHeap w) \<and> fieldArray (fieldHeap w ! f) = etArray T rows"

definition setRows :: "'a ElementType \<Rightarrow> ref \<Rightarrow> 'a list list \<Rightarrow> ('d, 't) world \<Rightarrow> ('d, 't) world" where
  "setRows T f rows w =
    w\<lparr>fieldHeap := (fieldHeap w)[f := (fieldHeap w ! f)\<lparr>fieldArray := etArray T rows\<rparr>]\<rparr>"

lemma setRows_same:
  assumes "hasRows T f rows w"
  shows "setRows T f rows w = w"
proof -
  have "(fieldHeap w ! f)\<lparr>fieldArray := etArray T rows\<rparr> = fieldHeap w ! f"
    using assms by (cases "fieldHeap w ! f") (simp add: hasRows_def)
  then show ?thesis by (cases w) (simp add: setRows_def)
qed

lemma setRows_twice [simp]: "setRows T f rows' (setRows T f rows w) = setRows T f rows' w"
  by (cases "f < length (fieldHeap w)") (simp_all add: setRows_def list_update_beyond)

lemma lawful_view [simp]: "lawfulType T \<Longrightarrow> etView T (etArray T rows) = Some rows"
  by (simp add: lawfulType_def)

lemma hasRows_setRows: "f < length (fieldHeap w) \<Longrightarrow> hasRows T f rows (setRows T f rows w)"
  by (simp add: hasRows_def setRows_def)

lemma hasRows_setRows_other: "g \<noteq> f \<Longrightarrow> hasRows T g rows w \<Longrightarrow> hasRows T g rows (setRows T' f rows' w)"
  by (simp add: hasRows_def setRows_def)

lemma makeView_apply: "lawfulType T \<Longrightarrow> hasRows T f rows w \<Longrightarrow> makeView T f w = (Inr rows, w)"
  by (simp add: makeView_def hasRows_def st_simps)

lemma inView_of_nat:
  assumes "isMatrix n L rows" and "i < n" and "j < L" and "n < 2 ^ 31" and "L < 2 ^ 31"
  shows "inView (of_nat i) (of_nat j) rows"
  using assms isMatrix_nth [OF assms(1,2)] by (simp add: inView_def sint_of_nat_small isMatrix_def)

lemma viewGet_apply:
  assumes "lawfulType T" and "hasRows T f rows w" and "isMatrix n L rows"
    and "i < n" and "j < L" and "n < 2 ^ 31" and "L < 2 ^ 31"
  shows "viewGet T f (of_nat i) (of_nat j) w = (Inr (rows ! i ! j), w)"
  using inView_of_nat [OF assms(3-7)] assms(4-7) makeView_apply [OF assms(1,2)]
  by (simp add: viewGet_def bindS_Inr returnS_apply sint_of_nat_small)

lemma viewSet_apply:
  assumes "lawfulType T" and "hasRows T f rows w" and "isMatrix n L rows"
    and "i < n" and "j < L" and "n < 2 ^ 31" and "L < 2 ^ 31"
  shows "viewSet T f (of_nat i) (of_nat j) x w = (Inr (), setRows T f (upd2 i j x rows) w)"
  using inView_of_nat [OF assms(3-7)] assms(2,4-7) makeView_apply [OF assms(1,2)]
  by (simp add: viewSet_def bindS_Inr sint_of_nat_small hasRows_def st_simps setRows_def upd2_def)

text \<open>A loop of assignments to the elements of one field.\<close>

lemma forS_assign:
  assumes "hasRows T f rows w" and "isMatrix n L rows" and "P w"
    and "\<And>i j rows w. (i, j) \<in> set ps \<Longrightarrow> hasRows T f rows w \<Longrightarrow> isMatrix n L rows \<Longrightarrow> P w \<Longrightarrow>
      step (i, j) w = (Inr (), setRows T f (upd2 i j (g i j) rows) w)"
    and "\<And>rows w. P w \<Longrightarrow> P (setRows T f rows w)"
  shows "forS ps step w =
    (Inr (), setRows T f (fold (\<lambda>p. upd2 (fst p) (snd p) (g (fst p) (snd p))) ps rows) w)"
  using assms
proof (induction ps arbitrary: rows w)
  case Nil
  then show ?case by (simp add: st_simps setRows_same)
next
  case (Cons p ps)
  let ?rows = "upd2 (fst p) (snd p) (g (fst p) (snd p)) rows"
  have step: "step p w = (Inr (), setRows T f ?rows w)"
    using Cons.prems(4) [of "fst p" "snd p" rows w] Cons.prems(1-3) by simp
  have "forS ps step (setRows T f ?rows w) = (Inr (), setRows T f
      (fold (\<lambda>p. upd2 (fst p) (snd p) (g (fst p) (snd p))) ps ?rows) (setRows T f ?rows w))"
    using Cons.prems by (intro Cons.IH) (auto simp: isMatrix_upd2 hasRows_def setRows_def)
  then show ?case using step by (simp add: st_simps bindS_Inr)
qed

lemma shapeAt_pair [simp]:
  "shapeAt [horizontal, vertical] 0 = returnS horizontal"
  "shapeAt [horizontal, vertical] (Suc 0) = returnS vertical"
  by (simp_all add: shapeAt_def)

section \<open>Index ranges\<close>

lemma upto_of_nat: "[int a..int b - 1] = map int [a..<b]"
  by (rule nth_equalityI) (auto simp: nth_upto)

lemma idxRange_of_nat:
  assumes "a < 2 ^ 31" and "b < 2 ^ 31"
  shows "idxRange (of_nat a) (of_nat b) = map of_nat [a..<b]"
  using assms by (simp add: idxRange_def sint_of_nat_small upto_of_nat)

text \<open>The position of level \<open>j\<close> of a column in a vector ordered level by level.\<close>

lemma position_word:
  assumes "unat m + j * n < 2 ^ 31" and "j < 2 ^ 31"
  shows "size_to_int (m + int_to_size (of_nat j) * of_nat n) = of_nat (unat m + j * n)"
proof -
  have "m = of_nat (unat m)" by simp
  then have "m + int_to_size (of_nat j) * of_nat n = of_nat (unat m + j * n)"
    using assms(2) by (metis int_to_size_of_nat of_nat_add of_nat_mult)
  then show ?thesis by (simp only: size_to_int_of_nat)
qed

lemma position_unat:
  "k < 2 ^ 31 \<Longrightarrow> unat (int_to_size (of_nat k)) = k"
  by (simp add: int_to_size_of_nat unat_of_nat_size)

section \<open>Order maps\<close>

text \<open>A map from positions to positions that hits each once.\<close>

definition isOrderMap :: "size_t list \<Rightarrow> bool" where
  "isOrderMap lam \<longleftrightarrow> distinct lam \<and> list_all (\<lambda>m. unat m < length lam) lam"

definition position :: "size_t list \<Rightarrow> nat \<Rightarrow> nat \<Rightarrow> nat" where
  "position lam i j = unat (lam ! i) + j * length lam"

lemma isOrderMap_nth: "isOrderMap lam \<Longrightarrow> i < length lam \<Longrightarrow> unat (lam ! i) < length lam"
  by (simp add: isOrderMap_def list_all_length)

lemma position_less:
  assumes "isOrderMap lam" and "i < length lam" and "j < L"
  shows "position lam i j < length lam * L"
proof -
  have "position lam i j < length lam + j * length lam"
    using isOrderMap_nth [OF assms(1,2)] by (simp add: position_def)
  also have "\<dots> = Suc j * length lam" by simp
  also have "\<dots> \<le> L * length lam" using assms(3) by (intro mult_le_mono1) simp
  finally show ?thesis by (simp add: mult.commute)
qed

lemma position_inj:
  assumes "isOrderMap lam" and "i < length lam" and "i' < length lam"
    and "position lam i j = position lam i' j'"
  shows "i = i' \<and> j = j'"
proof -
  have less: "unat (lam ! i) < length lam" "unat (lam ! i') < length lam"
    using assms(1-3) by (simp_all add: isOrderMap_nth)
  have "unat (lam ! i) = position lam i j mod length lam" "unat (lam ! i') = position lam i' j' mod length lam"
    using less by (simp_all add: position_def)
  moreover have "lam \<noteq> []" using assms(2) by auto
  then have "j = position lam i j div length lam" "j' = position lam i' j' div length lam"
    using less by (simp_all add: position_def)
  ultimately have "lam ! i = lam ! i'" "j = j'" using assms(4) by (metis word_unat_eq_iff, simp)
  then show ?thesis
    using assms(1-3) by (simp add: isOrderMap_def nth_eq_iff_index_eq)
qed

end
