(* ===== verification/Atlas_Reader.thy ===== *)
theory Atlas_Reader
  imports Utils_Atlas
begin

text \<open>
  \<open>src/monio/AtlasReader.cc\<close>: filling a field with the data of a container, in Atlas order through
  the map from LFRic order, or in storage order. The elements are assigned one at a time, so what
  was assigned before an error stays. \<open>owner\<close> is the member \<open>mpiRankOwner_\<close>.
\<close>

text \<open>The check lets the index equal to the size through; there the vector is read past its end.\<close>

definition populateDatum ::
    "('d, 't) env \<Rightarrow> 'a ElementType \<Rightarrow> ref \<Rightarrow> 'a list \<Rightarrow> int32 \<Rightarrow> int32 \<Rightarrow> int32 \<Rightarrow>
     (('d, 't) world, unit) st" where
  "populateDatum E T f dataVec index i j =
    (let k = unat (int_to_size index) in
     if k \<le> length dataVec then
       (if k < length dataVec then viewSet T f i j (dataVec ! k)
        else throwS (Undefined ''dataVec[index]''))
     else failS E ''AtlasReader::populateField'' ''Calculated index exceeds size of data'')"

definition lfricIndex :: "size_t list \<Rightarrow> nat \<Rightarrow> int32 \<Rightarrow> int32" where
  "lfricIndex lfricToAtlasMap i j =
    size_to_int (lfricToAtlasMap ! i + int_to_size j * of_nat (length lfricToAtlasMap))"

definition populateField ::
    "('d, 't) env \<Rightarrow> 'a ElementType \<Rightarrow> ref \<Rightarrow> 'a list \<Rightarrow> size_t list \<Rightarrow> bool \<Rightarrow> bool \<Rightarrow>
     (('d, 't) world, unit) st" where
  "populateField E T f dataVec lfricToAtlasMap noFirst isLfricConvention =
    bindS (makeView T f) (\<lambda>_.
    bindS (derefS fieldHeap f) (\<lambda>field.
    bindS (shapeAt (fieldShape field) eVertical) (\<lambda>numLevels.
    if noFirst = True \<and> numLevels = kVerticalFullSize then
      failS E ''AtlasReader::populateField'' ''Field levels misconfiguration''
    else if isLfricConvention = True \<and> noFirst = True \<and> numLevels = kVerticalHalfSize then
      forS (idxRange 1 kVerticalFullSize) (\<lambda>j. forS [0..<length lfricToAtlasMap] (\<lambda>i.
        populateDatum E T f dataVec (lfricIndex lfricToAtlasMap i j) (of_nat i) (j - 1)))
    else
      forS (idxRange 0 numLevels) (\<lambda>j. forS [0..<length lfricToAtlasMap] (\<lambda>i.
        populateDatum E T f dataVec (lfricIndex lfricToAtlasMap i j) (of_nat i) j)))))"

definition populateWholeField ::
    "('d, 't) env \<Rightarrow> 'a ElementType \<Rightarrow> ref \<Rightarrow> 'a list \<Rightarrow> (('d, 't) world, unit) st" where
  "populateWholeField E T f dataVec =
    bindS (derefS fieldHeap f) (\<lambda>field.
    bindS (shapeAt (fieldShape field) eHorizontal) (\<lambda>shapeHorizontal.
    let horizontal = (if fieldGlobal field = False then getHorizontalSize E field else shapeHorizontal) in
    bindS (makeView T f) (\<lambda>_.
    bindS (shapeAt (fieldShape field) eVertical) (\<lambda>vertical.
    forS (idxRange 0 horizontal) (\<lambda>i. forS (idxRange 0 vertical) (\<lambda>j.
      bindS (checkedIdx (sint i + sint j * sint horizontal)) (\<lambda>index.
      populateDatum E T f dataVec index i j)))))))"

definition populateFieldWithDataContainer ::
    "('d, 't) env \<Rightarrow> nat \<Rightarrow> ref \<Rightarrow> DataContainerBase \<Rightarrow> size_t list \<Rightarrow> bool \<Rightarrow> bool \<Rightarrow>
     (('d, 't) world, unit) st" where
  "populateFieldWithDataContainer E owner f dataContainer lfricToAtlasMap noFirst isLfricConvention =
    onRank owner () (case dataContainer of
        DataContainerDouble _ dataVec \<Rightarrow>
          populateField E tDouble f dataVec lfricToAtlasMap noFirst isLfricConvention
      | DataContainerFloat _ dataVec \<Rightarrow>
          populateField E tFloat f dataVec lfricToAtlasMap noFirst isLfricConvention
      | DataContainerInt _ dataVec \<Rightarrow>
          populateField E tInt f dataVec lfricToAtlasMap noFirst isLfricConvention)"

definition populateWholeFieldWithDataContainer ::
    "('d, 't) env \<Rightarrow> nat \<Rightarrow> ref \<Rightarrow> DataContainerBase \<Rightarrow> (('d, 't) world, unit) st" where
  "populateWholeFieldWithDataContainer E owner f dataContainer =
    onRank owner () (case dataContainer of
        DataContainerDouble _ dataVec \<Rightarrow> populateWholeField E tDouble f dataVec
      | DataContainerFloat _ dataVec \<Rightarrow> populateWholeField E tFloat f dataVec
      | DataContainerInt _ dataVec \<Rightarrow> populateWholeField E tInt f dataVec)"

definition getReadField :: "('d, 't) env \<Rightarrow> ref \<Rightarrow> bool \<Rightarrow> (('d, 't) world, ref) st" where
  "getReadField E f noFirst =
    bindS (derefS fieldHeap f) (\<lambda>field.
    bindS (if noFirst = True
           then bindS (shapeAt (fieldShape field) eVertical) (\<lambda>n. returnS (n = kVerticalFullSize))
           else returnS False) (\<lambda>tooManyLevels.
    if tooManyLevels then
      seqS (whenS (\<not> codedKind (datatypeOf field))
        (failS E ''AtlasReader::getReadField'' ''Data type not coded for''))
     (bindS (atlasS (atCreateField E (fieldSpace field)
          \<lparr>optName = fieldName field, optLevels = kVerticalHalfSize, optKind = datatypeOf field\<rparr>))
        newField)
    else returnS f))"

definition populateFieldWithFileData ::
    "('d, 't) env \<Rightarrow> nat \<Rightarrow> ref \<Rightarrow> 't FileData \<Rightarrow> FieldMetadata \<Rightarrow> string \<Rightarrow> bool \<Rightarrow>
     (('d, 't) world, unit) st" where
  "populateFieldWithFileData E owner f fd fieldMetadata readName isLfricConvention =
    bindS (getReadField E f (noFirstLevel fieldMetadata)) (\<lambda>readField.
    bindS (getContainer E (fdData fd) readName) (\<lambda>dataContainer.
    populateFieldWithDataContainer E owner readField dataContainer (fdLfricAtlasMap fd)
      (noFirstLevel fieldMetadata) isLfricConvention))"

section \<open>What the operations keep\<close>

context world_invariant
begin

lemma populateDatum_kept [keeps_intros]: "keepsS I (populateDatum E T f xs k i j)"
  unfolding populateDatum_def Let_def by (intro keeps_intros)

lemma populateField_kept [keeps_intros]:
  "keepsS I (populateField E T f xs lam noFirst isLfric)"
  "keepsS I (populateWholeField E T f xs)"
  unfolding populateField_def populateWholeField_def Let_def by (intro keeps_intros)+

lemma atlas_reader_kept [keeps_intros]:
  "keepsS I (getReadField E f noFirst)"
  "keepsS I (populateFieldWithDataContainer E owner f c lam noFirst isLfric)"
  "keepsS I (populateFieldWithFileData E owner f fd fm readName isLfric)"
  unfolding populateFieldWithFileData_def getReadField_def populateFieldWithDataContainer_def
  by (intro keeps_intros)+

end

section \<open>Where the data go\<close>

lemma populateDatum_apply:
  assumes "lawfulType T" and "hasRows T f rows w" and "isMatrix n L rows"
    and "i < n" and "j < L" and "n < 2 ^ 31" and "L < 2 ^ 31"
    and "k < length dataVec" and "length dataVec \<le> 2 ^ 31"
  shows "populateDatum E T f dataVec (of_nat k) (of_nat i) (of_nat j) w =
    (Inr (), setRows T f (upd2 i j (dataVec ! k) rows) w)"
  using assms position_unat [of k] viewSet_apply [OF assms(1-7)]
  by (simp add: populateDatum_def)

lemma lfricIndex_of_nat:
  "unat (lam ! i) + j * length lam < 2 ^ 31 \<Longrightarrow> j < 2 ^ 31 \<Longrightarrow>
   lfricIndex lam i (of_nat j) = of_nat (unat (lam ! i) + j * length lam)"
  by (simp only: lfricIndex_def position_word)

lemma set_pairs: "set (concat (map (\<lambda>j. map (\<lambda>i. (i, j)) [0..<n]) [0..<L])) = {0..<n} \<times> {0..<L}"
  by auto

text \<open>Every element within the data: level \<open>j\<close>, shifted by \<open>s\<close> levels, of every column.\<close>

definition covers :: "size_t list \<Rightarrow> nat \<Rightarrow> nat \<Rightarrow> 'a list \<Rightarrow> bool" where
  "covers lam L s dataVec \<longleftrightarrow> length lam < 2 ^ 31 \<and> L + s < 2 ^ 31 \<and> length dataVec \<le> 2 ^ 31 \<and>
    list_all (\<lambda>m. list_all (\<lambda>j. unat m + (j + s) * length lam < length dataVec) [0..<L]) lam"

lemma coversD:
  assumes "covers lam L s dataVec" and "i < length lam" and "j < L"
  shows "unat (lam ! i) + (j + s) * length lam < length dataVec"
  using assms by (auto simp: covers_def list_all_length)

lemma populate_loop:
  assumes "lawfulType T" and "hasRows T f rows w" and "isMatrix (length lam) L rows"
    and "covers lam L s dataVec"
    and "\<And>i j. i < length lam \<Longrightarrow> j < L \<Longrightarrow> step (i, j) =
      populateDatum E T f dataVec (lfricIndex lam i (of_nat (j + s))) (of_nat i) (of_nat j)"
  shows "forS (concat (map (\<lambda>j. map (\<lambda>i. (i, j)) [0..<length lam]) [0..<L])) step w =
    (Inr (), setRows T f (matrix (length lam) L (\<lambda>i j. dataVec ! (unat (lam ! i) + (j + s) * length lam))) w)"
proof -
  let ?ps = "concat (map (\<lambda>j. map (\<lambda>i. (i, j)) [0..<length lam]) [0..<L])"
  let ?g = "\<lambda>i j. dataVec ! (unat (lam ! i) + (j + s) * length lam)"
  have bounds: "length lam < 2 ^ 31" "L + s < 2 ^ 31" "length dataVec \<le> 2 ^ 31"
    using assms(4) by (simp_all add: covers_def)
  have "forS ?ps step w = (Inr (), setRows T f (fold (\<lambda>p. upd2 (fst p) (snd p) (?g (fst p) (snd p))) ?ps rows) w)"
  proof (rule forS_assign [where P = "\<lambda>_. True" and g = ?g, OF assms(2,3)])
    fix i j rows and w :: "('b, 'c) world"
    assume p: "(i, j) \<in> set ?ps" and rows: "hasRows T f rows w" "isMatrix (length lam) L rows"
    then have i: "i < length lam" and j: "j < L" by auto
    note k = coversD [OF assms(4) i j]
    have "lfricIndex lam i (of_nat (j + s)) = of_nat (unat (lam ! i) + (j + s) * length lam)"
      using k bounds j by (intro lfricIndex_of_nat) linarith+
    then show "step (i, j) w = (Inr (), setRows T f (upd2 i j (?g i j) rows) w)"
      using populateDatum_apply [OF assms(1) rows i j bounds(1) _ k bounds(3), of E] bounds(2)
      by (simp only: assms(5) [OF i j])
  qed simp_all
  also have "fold (\<lambda>p. upd2 (fst p) (snd p) (?g (fst p) (snd p))) ?ps rows = matrix (length lam) L ?g"
    by (rule fold_upd2_all [OF assms(3) set_pairs])
  finally show ?thesis .
qed

lemma populateField_all_levels:
  assumes "lawfulType T" and "hasRows T f rows w" and "isMatrix (length lam) L rows"
    and "fieldShape (fieldHeap w ! f) = [of_nat (length lam), of_nat L]"
    and "covers lam L 0 dataVec" and "noFirst \<longrightarrow> L \<noteq> 71 \<and> (isLfric \<longrightarrow> L \<noteq> 70)"
  shows "populateField E T f dataVec lam noFirst isLfric w =
    (Inr (), setRows T f (matrix (length lam) L (\<lambda>i j. dataVec ! (unat (lam ! i) + j * length lam))) w)"
proof -
  have bounds: "length lam < 2 ^ 31" "L < 2 ^ 31" "f < length (fieldHeap w)"
    using assms(2,5) by (simp_all add: covers_def hasRows_def)
  have "(of_nat L :: int32) = of_nat k \<longleftrightarrow> L = k" if "k < 2 ^ 31" for k
    using sint_of_nat_small [OF bounds(2)] sint_of_nat_small [OF that] by (metis of_nat_eq_iff)
  from this [of 71] this [of 70] have levels: "(of_nat L :: int32) = 71 \<longleftrightarrow> L = 71" "(of_nat L :: int32) = 70 \<longleftrightarrow> L = 70"
    by simp_all
  have range: "idxRange 0 (of_nat L) = map of_nat [0..<L]"
    using idxRange_of_nat [of 0 L] bounds(2) by simp
  have "populateField E T f dataVec lam noFirst isLfric w =
      forS (idxRange 0 (of_nat L)) (\<lambda>j. forS [0..<length lam] (\<lambda>i.
        populateDatum E T f dataVec (lfricIndex lam i j) (of_nat i) j)) w"
    using makeView_apply [OF assms(1,2)] bounds(3) assms(6)
    by (auto simp add: populateField_def bindS_Inr st_simps assms(4) levels)
  also have "\<dots> = forS (concat (map (\<lambda>j. map (\<lambda>i. (i, j)) [0..<length lam]) [0..<L])) (\<lambda>p.
        populateDatum E T f dataVec (lfricIndex lam (fst p) (of_nat (snd p))) (of_nat (fst p)) (of_nat (snd p))) w"
    unfolding range forS_map
    by (simp only: forS_nested [where h = "\<lambda>i j.
        populateDatum E T f dataVec (lfricIndex lam i (of_nat j)) (of_nat i) (of_nat j)"])
  also have "\<dots> = (Inr (), setRows T f (matrix (length lam) L
      (\<lambda>i j. dataVec ! (unat (lam ! i) + (j + 0) * length lam))) w)"
    by (rule populate_loop [OF assms(1-3,5)]) simp
  finally show ?thesis by simp
qed

lemma populateField_run:
  assumes "lawfulType T" and "hasRows T f rows w" and "isMatrix (length lam) L rows"
    and "fieldShape (fieldHeap w ! f) = [of_nat (length lam), of_nat L]" and "covers lam L 0 dataVec"
  shows "populateField E T f dataVec lam False isLfric w =
    (Inr (), setRows T f (matrix (length lam) L (\<lambda>i j. dataVec ! (unat (lam ! i) + j * length lam))) w)"
  by (rule populateField_all_levels [OF assms]) simp

text \<open>
  C12: for a field without the surface-level exception, \<open>populateField\<close> puts at node \<open>i\<close> and level
  \<open>j\<close> the datum at position \<open>lam i\<close> of level \<open>j\<close>, where \<open>lam\<close> is the order map, whenever all those
  positions lie within the data.
\<close>

theorem populateField_places:
  assumes "lawfulType T" and "hasRows T f rows w" and "isMatrix (length lam) L rows"
    and "fieldShape (fieldHeap w ! f) = [of_nat (length lam), of_nat L]"
    and "covers lam L 0 dataVec"
  shows "populateField E T f dataVec lam False isLfric w =
    (Inr (), setRows T f (matrix (length lam) L (\<lambda>i j. dataVec ! (unat (lam ! i) + j * length lam))) w)"
  by (rule populateField_run [OF assms])

lemma populateField_skip_run:
  assumes "lawfulType T" and "hasRows T f rows w" and "isMatrix (length lam) 70 rows"
    and "fieldShape (fieldHeap w ! f) = [of_nat (length lam), 70]"
    and "covers lam 70 1 dataVec"
  shows "populateField E T f dataVec lam True True w =
    (Inr (), setRows T f (matrix (length lam) 70 (\<lambda>i j. dataVec ! (unat (lam ! i) + (j + 1) * length lam))) w)"
proof -
  have bounds: "length lam < 2 ^ 31" "f < length (fieldHeap w)"
    using assms(2,5) by (simp_all add: covers_def hasRows_def)
  have "idxRange 1 71 = map of_nat [1..<71]"
    using idxRange_of_nat [of 1 71] by (simp del: upt_rec_numeral)
  also have "[1..<71] = map Suc [0..<70]"
    by (simp only: map_Suc_upt One_nat_def) (simp del: upt_rec_numeral)
  finally have range: "idxRange 1 kVerticalFullSize = map (\<lambda>j. of_nat (j + 1)) [0..<70]"
    by (simp only: map_map comp_def Suc_eq_plus1)
  have minus: "of_nat (j + 1) - 1 = (of_nat j :: int32)" for j by simp
  have "populateField E T f dataVec lam True True w =
      forS (idxRange 1 kVerticalFullSize) (\<lambda>j. forS [0..<length lam] (\<lambda>i.
        populateDatum E T f dataVec (lfricIndex lam i j) (of_nat i) (j - 1))) w"
    using makeView_apply [OF assms(1,2)] bounds(2)
    by (simp add: populateField_def bindS_Inr st_simps assms(4))
  also have "\<dots> = forS (concat (map (\<lambda>j. map (\<lambda>i. (i, j)) [0..<length lam]) [0..<70])) (\<lambda>p.
        populateDatum E T f dataVec (lfricIndex lam (fst p) (of_nat (snd p + 1))) (of_nat (fst p))
          (of_nat (snd p))) w"
    unfolding range forS_map minus
    by (simp only: forS_nested [where h = "\<lambda>i j.
        populateDatum E T f dataVec (lfricIndex lam i (of_nat (j + 1))) (of_nat i) (of_nat j)"])
  also have "\<dots> = (Inr (), setRows T f (matrix (length lam) 70
      (\<lambda>i j. dataVec ! (unat (lam ! i) + (j + 1) * length lam))) w)"
    by (rule populate_loop [OF assms(1-3,5)]) simp
  finally show ?thesis .
qed

text \<open>
  Both cases at once: the levels of the file that are skipped, and what is put where.
\<close>

definition skippedLevels :: "bool \<Rightarrow> bool \<Rightarrow> nat \<Rightarrow> nat" where
  "skippedLevels noFirst isLfric L = (if noFirst \<and> isLfric \<and> L = 70 then 1 else 0)"

lemma populateField_levels:
  assumes "lawfulType T" and "hasRows T f rows w" and "isMatrix (length lam) L rows"
    and "fieldShape (fieldHeap w ! f) = [of_nat (length lam), of_nat L]"
    and "covers lam L (skippedLevels noFirst isLfric L) dataVec" and "\<not> (noFirst \<and> L = 71)"
  shows "populateField E T f dataVec lam noFirst isLfric w =
    (Inr (), setRows T f (matrix (length lam) L (\<lambda>i j. dataVec ! position lam i (j + skippedLevels noFirst isLfric L))) w)"
proof (cases "skippedLevels noFirst isLfric L = 0")
  case True
  then show ?thesis
    using populateField_all_levels [OF assms(1-4), of dataVec noFirst isLfric E] assms(5,6)
    by (simp add: position_def) (simp add: skippedLevels_def split: if_splits)
next
  case False
  then have "noFirst" "isLfric" "L = 70" by (simp_all add: skippedLevels_def split: if_splits)
  then show ?thesis
    using populateField_skip_run [of T f rows w lam dataVec E] assms by (simp add: skippedLevels_def position_def)
qed

text \<open>
  C13: reading an LFRic field that has no surface level (70 levels, \<open>noFirstLevel\<close>) skips the first of
  the 71 levels in the file: level \<open>j\<close> of the field is level \<open>j + 1\<close> of the data.
\<close>

theorem populateField_skips_surface:
  assumes "lawfulType T" and "hasRows T f rows w" and "isMatrix (length lam) 70 rows"
    and "fieldShape (fieldHeap w ! f) = [of_nat (length lam), 70]"
    and "covers lam 70 1 dataVec"
  shows "populateField E T f dataVec lam True True w =
    (Inr (), setRows T f (matrix (length lam) 70 (\<lambda>i j. dataVec ! (unat (lam ! i) + (j + 1) * length lam))) w)"
  by (rule populateField_skip_run [OF assms])

text \<open>
  C34: the bounds check of \<open>populateField\<close> lets an index equal to the number of data through, and
  the datum past the end is read; only larger indices are refused.
\<close>

theorem populateDatum_outcomes:
  assumes "closeQuiet E" and "wf_world w" and "k < 2 ^ 31"
  shows "if k < length dataVec
    then populateDatum E T f dataVec (of_nat k) i j w = viewSet T f i j (dataVec ! k) w
    else if k = length dataVec
    then populateDatum E T f dataVec (of_nat k) i j w = (Inl (Undefined ''dataVec[index]''), w)
    else \<exists>what w'. populateDatum E T f dataVec (of_nat k) i j w =
        (Inl (RuntimeError ''AtlasReader::populateField'' what), w') \<and> filesClosed w' \<and> aborted w'"
  using failS_quiet [OF assms(1,2), where ?'c = unit and who = "''AtlasReader::populateField''"
      and what = "''Calculated index exceeds size of data''"] position_unat [OF assms(3)]
  by (auto simp: populateDatum_def throwS_apply)

end
