(* ===== verification/Atlas_Writer.thy ===== *)
theory Atlas_Writer
  imports Atlas_Reader
begin

text \<open>
  \<open>src/monio/AtlasWriter.cc\<close>: turning a field into the metadata and the data container of a
  \<open>FileData\<close>. \<open>owner\<close> is the member \<open>mpiRankOwner_\<close>; the other member, \<open>dimCount_\<close>, is an argument
  and a result of the one operation that counts.
\<close>

section \<open>Metadata\<close>

definition addVariableDimensions ::
    "('d, 't) env \<Rightarrow> ref \<Rightarrow> Metadata \<Rightarrow> ref \<Rightarrow> string \<Rightarrow> (('d, 't) world, unit) st" where
  "addVariableDimensions E f m var vertConfigName =
    bindS (derefS fieldHeap f) (\<lambda>field.
    bindS (if fieldGlobal field = False
           then bindS (shapeAt (fieldShape field) eHorizontal) (\<lambda>_.
                returnS ((fieldShape field)[eHorizontal := getHorizontalSize E field]))
           else returnS (fieldShape field)) (\<lambda>shape.
    forS (rev shape) (\<lambda>dimSize.
      bindS (if vertConfigName \<noteq> '''' \<and> isDimDefined m vertConfigName
             then bindS (getDimension E m vertConfigName) (\<lambda>n. returnS (dimSize = n))
             else returnS False) (\<lambda>isVertical.
      let dimName = (if isVertical then vertConfigName else getDimensionName m dimSize) in
      whenS (dimName \<noteq> kNotFoundError)
        (Variable_addDimension E var dimName (int_to_size dimSize))))))"

text \<open>The values of the ten attributes of a written variable.\<close>

definition attributeValue :: "FieldMetadata \<Rightarrow> nat \<Rightarrow> string" where
  "attributeValue fieldMetadata i =
    (if i = eStandardName then jediName fieldMetadata
     else if i = eLongName then jediName fieldMetadata @ ''_inc''
     else if i = eUnitsName then units fieldMetadata
     else kIncrementVariableValues ! i)"

definition populateMetadataWithField ::
    "('d, 't) env \<Rightarrow> Metadata \<Rightarrow> ref \<Rightarrow> FieldMetadata \<Rightarrow> string \<Rightarrow> string \<Rightarrow>
     (('d, 't) world, Metadata) st" where
  "populateMetadataWithField E m f fieldMetadata name vertConfigName =
    bindS (derefS fieldHeap f) (\<lambda>field.
    bindS (atlasTypeToMonioEnum E (datatypeOf field)) (\<lambda>type.
    bindS (Variable_new name type) (\<lambda>var.
    seqS (addVariableDimensions E f m var vertConfigName)
   (seqS (forS [0..<eNumberOfAttributeNames] (\<lambda>i.
        Variable_addAttribute E var
          (AttributeString (kIncrementAttributeNames ! i) (attributeValue fieldMetadata i))))
    (returnS (addVariable name var m))))))"

definition populateMetadataWithFieldOnly ::
    "('d, 't) env \<Rightarrow> Metadata \<Rightarrow> ref \<Rightarrow> string \<Rightarrow> (('d, 't) world, Metadata) st" where
  "populateMetadataWithFieldOnly E m f name =
    bindS (derefS fieldHeap f) (\<lambda>field.
    bindS (atlasTypeToMonioEnum E (datatypeOf field)) (\<lambda>type.
    bindS (Variable_new name type) (\<lambda>var.
    seqS (addVariableDimensions E f m var '''')
    (returnS (addVariable name var m)))))"

definition addGlobalAttributes :: "Metadata \<Rightarrow> bool \<Rightarrow> Metadata" where
  "addGlobalAttributes m isLfricConvention =
    (let variableConvention = (if isLfricConvention = True
           then kNamingConventions ! unat eLfricConvention else kNamingConventions ! unat eJediConvention);
         namingAttr = AttributeString kVariableConventionName variableConvention;
         producedByAttr = AttributeString kProducedByName kProducedByString
     in addGlobalAttr (attrName producedByAttr) producedByAttr
          (addGlobalAttr (attrName namingAttr) namingAttr m))"

section \<open>Data\<close>

definition setDataVec :: "'a list \<Rightarrow> int32 \<Rightarrow> 'a \<Rightarrow> ('w, 'a list) st" where
  "setDataVec dataVec index x =
    (if unat (int_to_size index) < length dataVec
     then returnS (dataVec[unat (int_to_size index) := x])
     else throwS (Undefined ''dataVec[index]''))"

definition populateDataVec ::
    "('d, 't) env \<Rightarrow> 'a ElementType \<Rightarrow> 'a list \<Rightarrow> ref \<Rightarrow> size_t list \<Rightarrow> (('d, 't) world, 'a list) st" where
  "populateDataVec E T dataVec f lfricToAtlasMap =
    bindS (derefS fieldHeap f) (\<lambda>field.
    bindS (shapeAt (fieldShape field) eVertical) (\<lambda>numLevels.
    seqS (whenS (of_nat (length lfricToAtlasMap) * int_to_size numLevels \<noteq> of_nat (length dataVec))
      (failS E ''AtlasWriter::populateDataVec'' ''Data container is not configured for the expected data''))
   (bindS (makeView T f) (\<lambda>_.
    foldS (\<lambda>i dataVec. foldS (\<lambda>j dataVec.
        bindS (viewGet T f (of_nat i) j) (\<lambda>x.
        setDataVec dataVec
          (size_to_int (lfricToAtlasMap ! i + int_to_size j * of_nat (length lfricToAtlasMap))) x))
      (idxRange 0 numLevels) dataVec) [0..<length lfricToAtlasMap] dataVec))))"

definition populateWholeDataVec ::
    "'a ElementType \<Rightarrow> 'a list \<Rightarrow> ref \<Rightarrow> int32 list \<Rightarrow> (('d, 't) world, 'a list) st" where
  "populateWholeDataVec T dataVec f dimensions =
    bindS (makeView T f) (\<lambda>_.
    bindS (shapeAt dimensions eHorizontal) (\<lambda>horizontal.
    bindS (shapeAt dimensions eVertical) (\<lambda>vertical.
    foldS (\<lambda>i dataVec. foldS (\<lambda>j dataVec.
        bindS (checkedIdx (sint j + sint i * sint vertical)) (\<lambda>index.
        bindS (viewGet T f i j) (\<lambda>x.
        setDataVec dataVec index x))) (idxRange 0 vertical) dataVec) (idxRange 0 horizontal) dataVec)))"

text \<open>
  A container that is handed in keeps its name and is filled anew (\<open>clear\<close>, \<open>setSize\<close>); it is cast
  to the class of the field's type without a check.
\<close>

definition populateDataContainerWithField ::
    "('d, 't) env \<Rightarrow> nat \<Rightarrow> DataContainerBase option \<Rightarrow> ref \<Rightarrow> size_t list \<Rightarrow> string \<Rightarrow>
     (('d, 't) world, DataContainerBase option) st" where
  "populateDataContainerWithField E owner container f lfricToAtlasMap name =
    onRank owner container (
    bindS (derefS fieldHeap f) (\<lambda>field.
    bindS (getGlobalDataSize field) (\<lambda>fieldSize.
    case datatypeOf field of
      KIND_INT32 \<Rightarrow>
        (case (case container of None \<Rightarrow> DataContainerInt name [] | Some c \<Rightarrow> c) of
          DataContainerInt n dataVec \<Rightarrow>
            bindS (DataContainerInt_setSize (container_clear dataVec) fieldSize) (\<lambda>dataVec.
            bindS (populateDataVec E tInt dataVec f lfricToAtlasMap) (\<lambda>dataVec.
            returnS (Some (DataContainerInt n dataVec))))
        | _ \<Rightarrow> throwS (Undefined ''static_pointer_cast''))
    | KIND_REAL32 \<Rightarrow>
        (case (case container of None \<Rightarrow> DataContainerFloat name [] | Some c \<Rightarrow> c) of
          DataContainerFloat n dataVec \<Rightarrow>
            bindS (DataContainerFloat_setSize (container_clear dataVec) fieldSize) (\<lambda>dataVec.
            bindS (populateDataVec E tFloat dataVec f lfricToAtlasMap) (\<lambda>dataVec.
            returnS (Some (DataContainerFloat n dataVec))))
        | _ \<Rightarrow> throwS (Undefined ''static_pointer_cast''))
    | KIND_REAL64 \<Rightarrow>
        (case (case container of None \<Rightarrow> DataContainerDouble name [] | Some c \<Rightarrow> c) of
          DataContainerDouble n dataVec \<Rightarrow>
            bindS (DataContainerDouble_setSize (container_clear dataVec) fieldSize) (\<lambda>dataVec.
            bindS (populateDataVec E tDouble dataVec f lfricToAtlasMap) (\<lambda>dataVec.
            returnS (Some (DataContainerDouble n dataVec))))
        | _ \<Rightarrow> throwS (Undefined ''static_pointer_cast''))
    | KIND_OTHER \<Rightarrow>
        failS E ''AtlasWriter::populateDataContainerWithField'' ''Data type not coded for'')))"

definition populateDataContainerWithWholeField ::
    "('d, 't) env \<Rightarrow> nat \<Rightarrow> DataContainerBase option \<Rightarrow> ref \<Rightarrow> int32 list \<Rightarrow>
     (('d, 't) world, DataContainerBase option) st" where
  "populateDataContainerWithWholeField E owner container f dimensions =
    onRank owner container (
    bindS (derefS fieldHeap f) (\<lambda>field.
    bindS (getGlobalDataSize field) (\<lambda>fieldSize.
    case datatypeOf field of
      KIND_INT32 \<Rightarrow>
        (case (case container of None \<Rightarrow> DataContainerInt (fieldName field) [] | Some c \<Rightarrow> c) of
          DataContainerInt n dataVec \<Rightarrow>
            bindS (DataContainerInt_setSize (container_clear dataVec) fieldSize) (\<lambda>dataVec.
            bindS (populateWholeDataVec tInt dataVec f dimensions) (\<lambda>dataVec.
            returnS (Some (DataContainerInt n dataVec))))
        | _ \<Rightarrow> throwS (Undefined ''static_pointer_cast''))
    | KIND_REAL32 \<Rightarrow>
        (case (case container of None \<Rightarrow> DataContainerFloat (fieldName field) [] | Some c \<Rightarrow> c) of
          DataContainerFloat n dataVec \<Rightarrow>
            bindS (DataContainerFloat_setSize (container_clear dataVec) fieldSize) (\<lambda>dataVec.
            bindS (populateWholeDataVec tFloat dataVec f dimensions) (\<lambda>dataVec.
            returnS (Some (DataContainerFloat n dataVec))))
        | _ \<Rightarrow> throwS (Undefined ''static_pointer_cast''))
    | KIND_REAL64 \<Rightarrow>
        (case (case container of None \<Rightarrow> DataContainerDouble (fieldName field) [] | Some c \<Rightarrow> c) of
          DataContainerDouble n dataVec \<Rightarrow>
            bindS (DataContainerDouble_setSize (container_clear dataVec) fieldSize) (\<lambda>dataVec.
            bindS (populateWholeDataVec tDouble dataVec f dimensions) (\<lambda>dataVec.
            returnS (Some (DataContainerDouble n dataVec))))
        | _ \<Rightarrow> throwS (Undefined ''static_pointer_cast''))
    | KIND_OTHER \<Rightarrow>
        failS E ''AtlasWriter::populateDataContainerWithField'' ''Data type not coded for'')))"

text \<open>\<open>data.addContainer(dataContainer)\<close> asks a null pointer for its name off the owner's PE.\<close>

definition addFilledContainer :: "DataContainerBase option \<Rightarrow> Data \<Rightarrow> ('w, Data) st" where
  "addFilledContainer container d = (case container of
      Some c \<Rightarrow> returnS (addContainer c d)
    | None \<Rightarrow> throwS (Undefined ''null DataContainerBase''))"

definition populateDataWithField ::
    "('d, 't) env \<Rightarrow> nat \<Rightarrow> Data \<Rightarrow> ref \<Rightarrow> size_t list \<Rightarrow> string \<Rightarrow> (('d, 't) world, Data) st" where
  "populateDataWithField E owner d f lfricToAtlasMap name =
    bindS (populateDataContainerWithField E owner None f lfricToAtlasMap name) (\<lambda>dataContainer.
    addFilledContainer dataContainer d)"

definition populateDataWithWholeField ::
    "('d, 't) env \<Rightarrow> nat \<Rightarrow> Data \<Rightarrow> ref \<Rightarrow> int32 list \<Rightarrow> (('d, 't) world, Data) st" where
  "populateDataWithWholeField E owner d f dimensions =
    bindS (populateDataContainerWithWholeField E owner None f dimensions) (\<lambda>dataContainer.
    addFilledContainer dataContainer d)"

section \<open>Fields to write\<close>

definition copySurfaceLevel ::
    "('d, 't) env \<Rightarrow> 'a ElementType \<Rightarrow> ref \<Rightarrow> nat \<Rightarrow> FieldOptions \<Rightarrow> (('d, 't) world, ref) st" where
  "copySurfaceLevel E T inputField functionSpace atlasOptions =
    bindS (bindS (atlasS (atCreateField E functionSpace atlasOptions)) newField) (\<lambda>copiedField.
    bindS (makeView T copiedField) (\<lambda>_.
    bindS (makeView T inputField) (\<lambda>_.
    bindS (derefS fieldHeap inputField) (\<lambda>field.
    bindS (shapeAt (fieldShape field) eVertical) (\<lambda>vertical.
    bindS (shapeAt (fieldShape field) eHorizontal) (\<lambda>horizontal.
    seqS (forS (idxRange 0 vertical) (\<lambda>j. forS (idxRange 0 horizontal) (\<lambda>i.
        bindS (viewGet T inputField i j) (\<lambda>x. viewSet T copiedField i (j + 1) x))))
   (seqS (forS (idxRange 0 horizontal) (\<lambda>i.
        bindS (viewGet T inputField i 0) (\<lambda>x. viewSet T copiedField i 0 x)))
    (returnS copiedField))))))))"

definition getWriteField ::
    "('d, 't) env \<Rightarrow> ref \<Rightarrow> string \<Rightarrow> bool \<Rightarrow> (('d, 't) world, ref) st" where
  "getWriteField E f writeName noFirst =
    bindS (derefS fieldHeap f) (\<lambda>field.
    seqS (whenS (\<not> codedKind (datatypeOf field))
      (failS E ''AtlasWriter::getWriteField'' ''Data type not coded for''))
   (bindS (shapeAt (fieldShape field) eVertical) (\<lambda>numLevels.
    seqS (whenS (noFirst = True \<and> numLevels = kVerticalFullSize)
      (failS E ''AtlasWriter::getWriteField'' ''Field levels misconfiguration''))
   (if findInVector kMissingVariableNames writeName = False then
      (if noFirst = True \<and> numLevels = kVerticalHalfSize then
        (case datatypeOf field of
          KIND_REAL64 \<Rightarrow> copySurfaceLevel E tDouble f (fieldSpace field)
            \<lparr>optName = writeName, optLevels = kVerticalFullSize, optKind = KIND_REAL64\<rparr>
        | KIND_REAL32 \<Rightarrow> copySurfaceLevel E tFloat f (fieldSpace field)
            \<lparr>optName = writeName, optLevels = kVerticalFullSize, optKind = KIND_REAL32\<rparr>
        | KIND_INT32 \<Rightarrow> copySurfaceLevel E tInt f (fieldSpace field)
            \<lparr>optName = writeName, optLevels = kVerticalFullSize, optKind = KIND_INT32\<rparr>
        | KIND_OTHER \<Rightarrow> returnS f)
       else seqS (setField f (field\<lparr>fieldName := writeName\<rparr>)) (returnS f))
    else failS E ''AtlasWriter::getWriteField'' ''Field write name misconfiguration''))))"

section \<open>File data from a field\<close>

definition populateFileDataWithField ::
    "('d, 't) env \<Rightarrow> nat \<Rightarrow> 't FileData \<Rightarrow> ref \<Rightarrow> FieldMetadata \<Rightarrow> string \<Rightarrow> string \<Rightarrow> bool \<Rightarrow>
     (('d, 't) world, 't FileData) st" where
  "populateFileDataWithField E owner fd f fieldMetadata writeName vertConfigName isLfricConvention =
    onRank owner fd (
    bindS (if isLfricConvention = True then getWriteField E f writeName (noFirstLevel fieldMetadata)
           else returnS f) (\<lambda>writeField.
    bindS (populateMetadataWithField E (fdMetadata fd) writeField fieldMetadata writeName vertConfigName)
      (\<lambda>m.
    bindS (populateDataWithField E owner (fdData fd) writeField (fdLfricAtlasMap fd) writeName) (\<lambda>d.
    returnS (fd\<lparr>fdMetadata := addGlobalAttributes m isLfricConvention, fdData := d\<rparr>)))))"

text \<open>\<open>std::to_string\<close> on a count.\<close>

fun digits :: "nat \<Rightarrow> string" where
  "digits n = (if n < 10 then [char_of (48 + n)] else digits (n div 10) @ [char_of (48 + n mod 10)])"

declare digits.simps [simp del]

definition to_string :: "int32 \<Rightarrow> string" where
  "to_string n = (if sint n < 0 then CHR ''-'' # digits (nat (- sint n)) else digits (nat (sint n)))"

definition createDimensions :: "int32 list \<Rightarrow> Metadata \<times> int32 \<Rightarrow> ('w, Metadata \<times> int32) st" where
  "createDimensions = foldS (\<lambda>dimSize (m, dimCount).
      if getDimensionName m dimSize = kNotFoundError then
        bindS (checkedIdx (sint dimCount + 1)) (\<lambda>dimCount'.
        returnS (addDimension (''dim'' @ to_string dimCount) dimSize m, dimCount'))
      else returnS (m, dimCount))"

definition populateFileDataWithFieldOnly ::
    "('d, 't) env \<Rightarrow> nat \<Rightarrow> AtlasWriter \<Rightarrow> 't FileData \<Rightarrow> ref \<Rightarrow> string \<Rightarrow>
     (('d, 't) world, 't FileData \<times> AtlasWriter) st" where
  "populateFileDataWithFieldOnly E owner aw fd f writeName =
    onRank owner (fd, aw) (
    bindS (derefS fieldHeap f) (\<lambda>field.
    bindS (if fieldGlobal field = False
           then bindS (shapeAt (fieldShape field) 0) (\<lambda>_.
                returnS ((fieldShape field)[0 := getHorizontalSize E field]))
           else returnS (fieldShape field)) (\<lambda>shape.
    bindS (createDimensions shape (fdMetadata fd, awDimCount aw)) (\<lambda>(m, dimCount).
    bindS (populateMetadataWithFieldOnly E m f writeName) (\<lambda>m.
    bindS (getAtlasCoords E f) (\<lambda>atlasLonLat.
    bindS (convertLatLonToContainers atlasLonLat kCoordVarNames) (\<lambda>coordContainers.
    let d = fold addContainer coordContainers (fdData fd) in
    bindS (Variable_new (kCoordVarNames ! eLongitude) eDouble) (\<lambda>lonVar.
    bindS (Variable_new (kCoordVarNames ! eLatitude) eDouble) (\<lambda>latVar.
    let dimName = getDimensionName m (size_to_int (of_nat (length atlasLonLat))) in
    seqS (Variable_addDimension E lonVar dimName (of_nat (length atlasLonLat)))
   (seqS (Variable_addDimension E latVar dimName (of_nat (length atlasLonLat)))
   (let m = addVariable (kCoordVarNames ! eLatitude) latVar
              (addVariable (kCoordVarNames ! eLongitude) lonVar m) in
    bindS (populateDataWithWholeField E owner d f shape) (\<lambda>d.
    returnS (fd\<lparr>fdMetadata := addGlobalAttributes m False, fdData := d\<rparr>,
             aw\<lparr>awDimCount := dimCount\<rparr>)))))))))))))"

section \<open>What the operations keep\<close>

lemma setDataVec_keeps [keeps_intros]: "keepsS I (setDataVec xs k x)"
  unfolding setDataVec_def by (intro keeps_intros)

context world_invariant
begin

lemma addVariableDimensions_kept [keeps_intros]: "keepsS I (addVariableDimensions E f m v n)"
  unfolding addVariableDimensions_def Let_def by (intro keeps_intros)

lemma populateDataVec_kept [keeps_intros]:
  "keepsS I (populateDataVec E T xs f lam)"
  "keepsS I (populateWholeDataVec T xs f dims)"
  unfolding populateDataVec_def populateWholeDataVec_def by (intro keeps_intros)+

lemma populateDataContainer_kept [keeps_intros]:
  "keepsS I (populateDataContainerWithField E owner c f lam n)"
  "keepsS I (populateDataContainerWithWholeField E owner c f dims)"
  unfolding populateDataContainerWithField_def populateDataContainerWithWholeField_def
  by (intro keeps_intros)+

lemma createDimensions_kept [keeps_intros]: "keepsS I (createDimensions shape acc)"
  unfolding createDimensions_def by (intro keeps_intros)

lemma copySurfaceLevel_kept [keeps_intros]: "keepsS I (copySurfaceLevel E T f fs opts)"
  unfolding copySurfaceLevel_def by (intro keeps_intros)

lemma atlas_writer_kept [keeps_intros]:
  "keepsS I (populateMetadataWithField E m f fm n v)"
  "keepsS I (populateMetadataWithFieldOnly E m f n)"
  "keepsS I (populateDataWithField E owner d f lam n)"
  "keepsS I (populateDataWithWholeField E owner d f dims)"
  "keepsS I (getWriteField E f n noFirst)"
  unfolding populateMetadataWithField_def populateMetadataWithFieldOnly_def populateDataWithField_def
    populateDataWithWholeField_def getWriteField_def addFilledContainer_def
  by (intro keeps_intros)+

lemma populateFileData_kept [keeps_intros]:
  "keepsS I (populateFileDataWithField E owner fd f fm n v isLfric)"
  "keepsS I (populateFileDataWithFieldOnly E owner aw fd f n)"
  unfolding populateFileDataWithField_def populateFileDataWithFieldOnly_def Let_def
  by (intro keeps_intros)+

end

section \<open>Where the data go\<close>

lemma fold_assign_nth:
  assumes "\<And>p q. p \<in> set ps \<Longrightarrow> q \<in> set ps \<Longrightarrow> pos p = pos q \<Longrightarrow> val p = val q"
    and "q \<in> set ps" and "pos q < length v"
  shows "fold (\<lambda>p v. v[pos p := val p]) ps v ! pos q = val q"
  using assms
proof (induction ps rule: rev_induct)
  case (snoc p ps)
  have len: "length (fold (\<lambda>p v. v[pos p := val p]) ps v) = length v" for ps
    by (induction ps arbitrary: v) simp_all
  show ?case
  proof (cases "pos p = pos q")
    case True
    then have "val p = val q" using snoc.prems(1) [of p q] snoc.prems(2) by simp
    then show ?thesis using True snoc.prems(3) len by simp
  next
    case False
    then have "q \<in> set ps" using snoc.prems(2) by auto
    moreover have "val p' = val q'" if "p' \<in> set ps" "q' \<in> set ps" "pos p' = pos q'" for p' q'
      using snoc.prems(1) [of p' q'] that by simp
    ultimately have "fold (\<lambda>p v. v[pos p := val p]) ps v ! pos q = val q"
      using snoc.prems(3) by (intro snoc.IH)
    then show ?thesis using False by simp
  qed
qed simp

lemma length_fold_assign [simp]: "length (fold (\<lambda>p v. v[pos p := val p]) ps v) = length v"
  by (induction ps arbitrary: v) simp_all

lemma foldS_assign:
  assumes "\<And>p v. p \<in> set ps \<Longrightarrow> length v = n \<Longrightarrow> step p v w = (Inr (v[pos p := val p]), w)"
    and "length v = n"
  shows "foldS step ps v w = (Inr (fold (\<lambda>p v. v[pos p := val p]) ps v), w)"
  using assms
proof (induction ps arbitrary: v)
  case (Cons p ps)
  have "step p v w = (Inr (v[pos p := val p]), w)" using Cons.prems by simp
  moreover have "foldS step ps (v[pos p := val p]) w =
      (Inr (fold (\<lambda>p v. v[pos p := val p]) ps (v[pos p := val p])), w)"
    using Cons.prems by (intro Cons.IH) simp_all
  ultimately show ?case by (simp add: bindS_Inr)
qed (simp add: returnS_apply)

lemma setDataVec_apply:
  "k < length v \<Longrightarrow> length v \<le> 2 ^ 31 \<Longrightarrow> setDataVec v (of_nat k) x = returnS (v[k := x])"
  using position_unat [of k] by (simp add: setDataVec_def)

lemma set_columns: "set (concat (map (\<lambda>i. map (Pair i) [0..<L]) [0..<n])) = {0..<n} \<times> {0..<L}"
  by auto

abbreviation columnPairs :: "nat \<Rightarrow> nat \<Rightarrow> (nat \<times> nat) list" where
  "columnPairs n L \<equiv> concat (map (\<lambda>i. map (Pair i) [0..<L]) [0..<n])"

lemma fold_columns_nth:
  assumes "isOrderMap lam" and "i < length lam" and "j < L" and "length v = length lam * L"
  shows "fold (\<lambda>p v. v[position lam (fst p) (snd p) := rows ! fst p ! snd p])
    (columnPairs (length lam) L) v ! position lam i j = rows ! i ! j"
proof -
  let ?pos = "\<lambda>p. position lam (fst p) (snd p)"
  let ?val = "\<lambda>p. rows ! fst p ! snd p"
  have "fold (\<lambda>p v. v[?pos p := ?val p]) (columnPairs (length lam) L) v ! ?pos (i, j) = ?val (i, j)"
  proof (rule fold_assign_nth)
    fix p q assume "p \<in> set (columnPairs (length lam) L)" "q \<in> set (columnPairs (length lam) L)"
      and eq: "?pos p = ?pos q"
    then have "fst p < length lam" "fst q < length lam" by auto
    with assms(1) have "fst p = fst q \<and> snd p = snd q" using eq by (rule position_inj)
    then show "?val p = ?val q" by simp
  next
    show "(i, j) \<in> set (columnPairs (length lam) L)" using assms(2,3) by (simp only: set_columns) simp
    show "?pos (i, j) < length v" using position_less [OF assms(1-3)] assms(4) by simp
  qed
  then show ?thesis by simp
qed

lemma populateDataVec_run:
  assumes "lawfulType T" and "hasRows T f rows w" and "isMatrix (length lam) L rows"
    and "fieldShape (fieldHeap w ! f) = [of_nat (length lam), of_nat L]" and "isOrderMap lam"
    and "length lam < 2 ^ 31" and "L < 2 ^ 31" and "length lam * L < 2 ^ 31"
    and "length dataVec = length lam * L"
  shows "populateDataVec E T dataVec f lam w =
    (Inr (fold (\<lambda>p v. v[position lam (fst p) (snd p) := rows ! fst p ! snd p])
      (columnPairs (length lam) L) dataVec), w)"
proof -
  let ?ps = "columnPairs (length lam) L"
  let ?pos = "\<lambda>p. position lam (fst p) (snd p)"
  let ?val = "\<lambda>p. rows ! fst p ! snd p"
  let ?h = "\<lambda>i j dataVec. bindS (viewGet T f (of_nat i) (of_nat j)) (\<lambda>x. setDataVec dataVec
      (size_to_int (lam ! i + int_to_size (of_nat j) * of_nat (length lam))) x)"
  have f: "f < length (fieldHeap w)" using assms(2) by (simp add: hasRows_def)
  have range: "idxRange 0 (of_nat L) = map of_nat [0..<L]"
    using idxRange_of_nat [of 0 L] assms(7) by simp
  have size: "of_nat (length lam) * int_to_size (of_nat L) = (of_nat (length dataVec) :: size_t)"
    using assms(7,9) by (simp add: int_to_size_of_nat)
  have step: "?h (fst p) (snd p) v w = (Inr (v[?pos p := ?val p]), w)"
    if p: "p \<in> set ?ps" and v: "length v = length lam * L" for p v
  proof -
    have ij: "fst p < length lam" "snd p < L" using p by auto
    have less: "?pos p < length lam * L" using assms(5) ij by (rule position_less)
    then have "size_to_int (lam ! fst p + int_to_size (of_nat (snd p)) * of_nat (length lam)) = of_nat (?pos p)"
      using assms(7,8) ij(2) unfolding position_def by (intro position_word) linarith+
    then show ?thesis
      using viewGet_apply [OF assms(1-3) ij assms(6,7)] less v assms(8)
      by (simp add: bindS_Inr returnS_apply setDataVec_apply)
  qed
  have "populateDataVec E T dataVec f lam w =
      foldS (\<lambda>i dataVec. foldS (\<lambda>j dataVec. ?h i j dataVec) [0..<L] dataVec) [0..<length lam] dataVec w"
    using makeView_apply [OF assms(1,2)] f size
    by (simp add: populateDataVec_def st_simps bindS_Inr assms(4) range foldS_map)
  also have "\<dots> = foldS (\<lambda>p. ?h (fst p) (snd p)) ?ps dataVec w"
    by (simp only: foldS_nested)
  also have "\<dots> = (Inr (fold (\<lambda>p v. v[?pos p := ?val p]) ?ps dataVec), w)"
    by (rule foldS_assign [OF _ assms(9)]) (rule step)
  finally show ?thesis .
qed

text \<open>
  C14: for an order map and a vector of the right size, \<open>populateDataVec\<close> puts the element of node
  \<open>i\<close> and level \<open>j\<close> at the mapped position of level \<open>j\<close>, for every node and level.
\<close>

theorem populateDataVec_places:
  assumes "lawfulType T" and "hasRows T f rows w" and "isMatrix (length lam) L rows"
    and "fieldShape (fieldHeap w ! f) = [of_nat (length lam), of_nat L]" and "isOrderMap lam"
    and "length lam < 2 ^ 31" and "L < 2 ^ 31" and "length lam * L < 2 ^ 31"
    and "length dataVec = length lam * L"
  shows "\<exists>vec. populateDataVec E T dataVec f lam w = (Inr vec, w) \<and> length vec = length lam * L \<and>
    (\<forall>i < length lam. \<forall>j < L. vec ! position lam i j = rows ! i ! j)"
  using populateDataVec_run [OF assms] fold_columns_nth [OF assms(5), of _ _ L dataVec rows] assms(9)
  by simp

lemma covers_vec:
  assumes "isOrderMap lam" and "length lam < 2 ^ 31" and "L + s < 2 ^ 31" and "length lam * (L + s) < 2 ^ 31"
    and "length vec = length lam * (L + s)"
  shows "covers lam L s vec"
proof -
  have "unat (lam ! i) + (j + s) * length lam < length vec" if "i < length lam" "j < L" for i j
    using position_less [OF assms(1) that(1), of "j + s" "L + s"] that(2) assms(5)
    by (simp add: position_def)
  then show ?thesis
    using assms by (simp add: covers_def list_all_length)
qed

text \<open>
  C8: the round trip between a field and a data vector: what \<open>populateDataVec\<close> wrote from one
  field, \<open>populateField\<close> puts unchanged into any field of the same shape, for every order map.
\<close>

theorem field_data_round_trip:
  assumes "lawfulType T" and "hasRows T f rows w" and "isMatrix (length lam) L rows"
    and "fieldShape (fieldHeap w ! f) = [of_nat (length lam), of_nat L]" and "isOrderMap lam"
    and "length lam < 2 ^ 31" and "L < 2 ^ 31" and "length lam * L < 2 ^ 31"
    and "length dataVec = length lam * L"
    and "hasRows T g old w" and "isMatrix (length lam) L old"
    and "fieldShape (fieldHeap w ! g) = [of_nat (length lam), of_nat L]"
  shows "\<exists>vec. populateDataVec E T dataVec f lam w = (Inr vec, w) \<and>
    populateField E T g vec lam False isLfric w = (Inr (), setRows T g rows w)"
proof -
  define vec where "vec = fold (\<lambda>p v. v[position lam (fst p) (snd p) := rows ! fst p ! snd p])
      (columnPairs (length lam) L) dataVec"
  have len: "length vec = length lam * L" using assms(9) by (simp add: vec_def)
  have "covers lam L 0 vec" using covers_vec [OF assms(5,6), of L 0] assms(7,8) len by simp
  from populateField_run [OF assms(1,10,11,12) this]
  have "populateField E T g vec lam False isLfric w = (Inr (), setRows T g
      (matrix (length lam) L (\<lambda>i j. vec ! (unat (lam ! i) + j * length lam))) w)" .
  also have "matrix (length lam) L (\<lambda>i j. vec ! (unat (lam ! i) + j * length lam)) = rows"
    using fold_columns_nth [OF assms(5), of _ _ L dataVec rows] assms(9)
    by (intro matrix_eqI [OF isMatrix_matrix assms(3)]) (simp add: position_def vec_def)
  finally show ?thesis using populateDataVec_run [OF assms(1-9)] by (auto simp: vec_def)
qed

section \<open>The surface level\<close>

text \<open>One round of the loops of \<open>copySurfaceLevel\<close>: the level above is the source, level 0 its own.\<close>

definition copyStep :: "'a ElementType \<Rightarrow> ref \<Rightarrow> ref \<Rightarrow> nat \<times> nat \<Rightarrow> (('d, 't) world, unit) st" where
  "copyStep T f g p = bindS (viewGet T f (of_nat (fst p)) (of_nat (snd p - 1)))
    (\<lambda>x. viewSet T g (of_nat (fst p)) (of_nat (snd p)) x)"

abbreviation copiedLevels :: "'a list list \<Rightarrow> nat \<Rightarrow> nat \<Rightarrow> 'a" where
  "copiedLevels rows \<equiv> \<lambda>i j. rows ! i ! (j - 1)"

abbreviation copyAll :: "'a list list \<Rightarrow> (nat \<times> nat) list \<Rightarrow> 'a list list \<Rightarrow> 'a list list" where
  "copyAll rows ps r \<equiv> fold (\<lambda>p. upd2 (fst p) (snd p) (copiedLevels rows (fst p) (snd p))) ps r"

lemma copySteps_apply:
  assumes "lawfulType T" and "f \<noteq> g" and "isMatrix n L rows" and "0 < L" and "n < 2 ^ 31" and "L + 1 < 2 ^ 31"
    and "hasRows T g r w" and "isMatrix n (L + 1) r" and "hasRows T f rows w"
    and "\<forall>p \<in> set ps. fst p < n \<and> snd p < L + 1"
  shows "forS ps (copyStep T f g) w = (Inr (), setRows T g (copyAll rows ps r) w)"
proof (rule forS_assign [where P = "hasRows T f rows" and g = "copiedLevels rows", OF assms(7-9)])
  fix i j r' w'
  assume p: "(i, j) \<in> set ps" and r': "hasRows T g r' w'" "isMatrix n (L + 1) r'" "hasRows T f rows w'"
  then have "i < n" "j < L + 1" "j - 1 < L" using assms(4,10) by auto
  then show "copyStep T f g (i, j) w' = (Inr (), setRows T g (upd2 i j (copiedLevels rows i j) r') w')"
    using viewGet_apply [OF assms(1) r'(3) assms(3), of i "j - 1"] viewSet_apply [OF assms(1) r'(1,2)]
      assms(5,6) by (simp add: copyStep_def bindS_Inr)
next
  show "hasRows T f rows (setRows T g r' w')" if "hasRows T f rows w'" for r' w'
    using that assms(2) by (intro hasRows_setRows_other) simp_all
qed

definition upperPairs :: "nat \<Rightarrow> nat \<Rightarrow> (nat \<times> nat) list" where
  "upperPairs n L = map (\<lambda>p. (fst p, snd p + 1)) (concat (map (\<lambda>j. map (\<lambda>i. (i, j)) [0..<n]) [0..<L]))"

definition surfacePairs :: "nat \<Rightarrow> (nat \<times> nat) list" where
  "surfacePairs n = map (\<lambda>i. (i, 0)) [0..<n]"

lemma set_upper_surface:
  "set (upperPairs n L @ surfacePairs n) = {0..<n} \<times> {0..<L + 1}"
proof -
  have "(i, j) \<in> set (upperPairs n L)" if "i < n" "j < L + 1" "0 < j" for i j
    using that by (auto simp: upperPairs_def image_iff intro!: bexI [of _ "j - 1"])
  moreover have "set (upperPairs n L) \<subseteq> {0..<n} \<times> {0..<L + 1}" by (auto simp: upperPairs_def)
  moreover have "set (surfacePairs n) = {0..<n} \<times> {0}" by (auto simp: surfacePairs_def)
  ultimately show ?thesis by fastforce
qed

lemma upper_loop:
  "forS (map of_nat [0..<L]) (\<lambda>j. forS (map of_nat [0..<n]) (\<lambda>i.
      bindS (viewGet T f i j) (\<lambda>x. viewSet T g i (j + 1) x))) = forS (upperPairs n L) (copyStep T f g)"
  unfolding forS_map upperPairs_def
  by (simp only: forS_nested [where h = "\<lambda>i j. bindS (viewGet T f (of_nat i) (of_nat j))
      (\<lambda>x. viewSet T g (of_nat i) (of_nat j + 1) x)"])
    (simp add: copyStep_def add.commute)

lemma surface_loop:
  "forS (map of_nat [0..<n]) (\<lambda>i. bindS (viewGet T f i 0) (\<lambda>x. viewSet T g i 0 x)) =
    forS (surfacePairs n) (copyStep T f g)"
  unfolding forS_map surfacePairs_def by (simp add: copyStep_def)

lemma copySurfaceLevel_run:
  assumes "lawfulType T" and "hasRows T f rows w" and "isMatrix n L rows"
    and "fieldShape (fieldHeap w ! f) = [of_nat n, of_nat L]"
    and "0 < L" and "n < 2 ^ 31" and "L + 1 < 2 ^ 31"
    and "atCreateField E fs opts (outside w) = (Inr created, d)"
    and "fieldArray created = etArray T old" and "isMatrix n (L + 1) old"
  shows "copySurfaceLevel E T f fs opts w =
    (Inr (length (fieldHeap w)), w\<lparr>outside := d, fieldHeap := fieldHeap w @
      [created\<lparr>fieldArray := etArray T (matrix n (L + 1) (\<lambda>i j. rows ! i ! (j - 1)))\<rparr>]\<rparr>)"
proof -
  define g where "g = length (fieldHeap w)"
  define w1 where "w1 = w\<lparr>outside := d, fieldHeap := fieldHeap w @ [created]\<rparr>"
  have f: "f \<noteq> g" "f < g" using assms(2) by (simp_all add: hasRows_def g_def)
  have rows: "hasRows T g old w1" "hasRows T f rows w1" "fieldShape (fieldHeap w1 ! f) = [of_nat n, of_nat L]"
    using assms(2,4,9) f by (simp_all add: hasRows_def w1_def g_def nth_append)
  have create: "bindS (atlasS (atCreateField E fs opts)) newField w = (Inr g, w1)"
    using assms(8) by (simp add: bindS_Inr callS_Inr newField_def g_def w1_def)
  have range: "idxRange 0 (of_nat L) = map of_nat [0..<L]" "idxRange 0 (of_nat n) = map of_nat [0..<n]"
    using idxRange_of_nat [of 0 L] idxRange_of_nat [of 0 n] assms(6,7) by simp_all
  have bounds: "\<forall>p \<in> set (upperPairs n L @ surfacePairs n). fst p < n \<and> snd p < L + 1"
    unfolding set_upper_surface by auto
  have loops: "forS (upperPairs n L @ surfacePairs n) (copyStep T f g) w1 =
      (Inr (), setRows T g (matrix n (L + 1) (copiedLevels rows)) w1)"
    using copySteps_apply [OF assms(1) f(1) assms(3,5-7) rows(1) assms(10) rows(2) bounds]
      fold_upd2_all [OF assms(10) set_upper_surface, of "copiedLevels rows"] by simp
  have "copySurfaceLevel E T f fs opts w =
      bindS (forS (upperPairs n L @ surfacePairs n) (copyStep T f g)) (\<lambda>_. returnS g) w1"
    using makeView_apply [OF assms(1) rows(1)] makeView_apply [OF assms(1) rows(2)] rows(2,3)
    unfolding copySurfaceLevel_def
      bindS_Inr [where m = "bindS (atlasS (atCreateField E fs opts)) newField" and w = w, OF create]
    by (simp add: bindS_Inr st_simps hasRows_def range upper_loop surface_loop forS_append)
  also have "\<dots> = (Inr g, setRows T g (matrix n (L + 1) (copiedLevels rows)) w1)"
    using loops by (simp add: bindS_def returnS_apply)
  finally show ?thesis by (simp add: setRows_def w1_def g_def)
qed

text \<open>
  \<open>copySurfaceLevel\<close> makes a new field with one more level, whose two lowest levels are both the
  lowest level of the input and whose others are the input's, and leaves the input alone. The
  hypothesis on \<open>createField\<close> is that it makes a field of the requested size.
\<close>

lemma copySurfaceLevel_result:
  assumes "lawfulType T" and "hasRows T f rows w" and "isMatrix n L rows"
    and "fieldShape (fieldHeap w ! f) = [of_nat n, of_nat L]"
    and "0 < L" and "n < 2 ^ 31" and "L + 1 < 2 ^ 31"
    and "atCreateField E fs opts (outside w) = (Inr created, d)"
    and "fieldArray created = etArray T old" and "isMatrix n (L + 1) old"
  shows "copySurfaceLevel E T f fs opts w =
    (Inr (length (fieldHeap w)), w\<lparr>outside := d, fieldHeap := fieldHeap w @
      [created\<lparr>fieldArray := etArray T (matrix n (L + 1) (\<lambda>i j. rows ! i ! (j - 1)))\<rparr>]\<rparr>)"
  by (rule copySurfaceLevel_run [OF assms])

end
