(* ===== verification/Field_Round_Trips.thy ===== *)
theory Field_Round_Trips
  imports Atlas_Writer
begin

text \<open>
  What the order map and the surface level do to a field on its way to a file and back: the pair
  \<open>copySurfaceLevel\<close> and \<open>populateField\<close> on fields without a surface level, the map that
  \<open>createLfricAtlasMap\<close> makes, and the direction in which \<open>populateField\<close> applies it.
\<close>

section \<open>Fields without a surface level\<close>

text \<open>
  C9: a field of 70 levels without a surface level survives being written and read in the LFRic
  convention: after \<open>copySurfaceLevel\<close> to 71 levels and \<open>populateDataVec\<close>, \<open>populateField\<close> puts the
  original elements into any field of the original shape.
\<close>

theorem surface_level_round_trip:
  assumes "lawfulType T" and "hasRows T f rows w" and "isMatrix (length lam) 70 rows"
    and "fieldShape (fieldHeap w ! f) = [of_nat (length lam), of_nat 70]" and "isOrderMap lam"
    and "length lam * 71 < 2 ^ 31"
    and "atCreateField E fs opts (outside w) = (Inr created, d)"
    and "fieldArray created = etArray T old" and "isMatrix (length lam) 71 old"
    and "fieldShape created = [of_nat (length lam), of_nat 71]"
    and "hasRows T h previous w" and "isMatrix (length lam) 70 previous"
    and "fieldShape (fieldHeap w ! h) = [of_nat (length lam), of_nat 70]"
    and "length dataVec = length lam * 71"
  shows "\<exists>g w1 vec. copySurfaceLevel E T f fs opts w = (Inr g, w1) \<and>
    populateDataVec E T dataVec g lam w1 = (Inr vec, w1) \<and>
    populateField E T h vec lam True True w1 = (Inr (), setRows T h rows w1)"
proof -
  let ?n = "length lam"
  let ?copied = "matrix ?n 71 (copiedLevels rows)"
  define g where "g = length (fieldHeap w)"
  define w1 where "w1 = w\<lparr>outside := d, fieldHeap := fieldHeap w @ [created\<lparr>fieldArray := etArray T ?copied\<rparr>]\<rparr>"
  have n: "?n < 2 ^ 31" using assms(6) by simp
  have copy: "copySurfaceLevel E T f fs opts w = (Inr g, w1)"
    using copySurfaceLevel_run [OF assms(1-4) _ n _ assms(7,8)] assms(9) by (simp add: g_def w1_def)
  have g: "hasRows T g ?copied w1" "fieldShape (fieldHeap w1 ! g) = [of_nat ?n, of_nat 71]"
    using assms(10) by (simp_all add: hasRows_def g_def w1_def)
  have h: "hasRows T h previous w1" "fieldShape (fieldHeap w1 ! h) = [of_nat ?n, 70]"
    using assms(11,13) by (simp_all add: hasRows_def w1_def nth_append)
  define vec where "vec = fold (\<lambda>p v. v[position lam (fst p) (snd p) := ?copied ! fst p ! snd p])
      (columnPairs ?n 71) dataVec"
  have len: "length vec = ?n * (70 + 1)" using assms(14) by (simp add: vec_def)
  have written: "populateDataVec E T dataVec g lam w1 = (Inr vec, w1)"
    unfolding vec_def by (rule populateDataVec_run [OF assms(1) g(1) _ g(2) assms(5) n _ assms(6,14)]) simp_all
  have "covers lam 70 1 vec" using covers_vec [OF assms(5) n _ _ len] assms(6) by simp
  from populateField_skip_run [OF assms(1) h(1) assms(12) h(2) this]
  have "populateField E T h vec lam True True w1 = (Inr (), setRows T h
      (matrix ?n 70 (\<lambda>i j. vec ! (unat (lam ! i) + (j + 1) * ?n))) w1)" .
  also have "matrix ?n 70 (\<lambda>i j. vec ! (unat (lam ! i) + (j + 1) * ?n)) = rows"
  proof (rule matrix_eqI [OF isMatrix_matrix assms(3)])
    fix i j assume ij: "i < ?n" "j < (70 :: nat)"
    then have "vec ! position lam i (j + 1) = ?copied ! i ! (j + 1)"
      using fold_columns_nth [OF assms(5), of i "j + 1" 71 dataVec ?copied] assms(14) by (simp add: vec_def)
    then show "matrix ?n 70 (\<lambda>i j. vec ! (unat (lam ! i) + (j + 1) * ?n)) ! i ! j = rows ! i ! j"
      using ij by (simp add: position_def)
  qed
  finally show ?thesis using copy written by blast
qed

section \<open>The order map\<close>

text \<open>The nearest point to a grid point is that point.\<close>

definition closestExact :: "('d, 't) env \<Rightarrow> (double \<times> double) list \<Rightarrow> bool" where
  "closestExact E coords \<longleftrightarrow>
    list_all (\<lambda>i. atClosestPoint E coords (map of_nat [0..<length coords]) (coords ! i) = of_nat i)
      [0..<length coords]"

text \<open>Entry \<open>k\<close> of the map is the grid position of LFRic point \<open>k\<close>.\<close>

definition locates :: "size_t list \<Rightarrow> (double \<times> double) list \<Rightarrow> (double \<times> double) list \<Rightarrow> bool" where
  "locates lam atlasCoords lfricCoords \<longleftrightarrow> length lam = length lfricCoords \<and>
    list_all (\<lambda>k. unat (lam ! k) < length atlasCoords \<and> atlasCoords ! unat (lam ! k) = lfricCoords ! k)
      [0..<length lam]"

lemma locatesD:
  "locates lam atlasCoords lfricCoords \<Longrightarrow> k < length lam \<Longrightarrow>
   unat (lam ! k) < length atlasCoords \<and> atlasCoords ! unat (lam ! k) = lfricCoords ! k"
  by (simp add: locates_def list_all_length)

lemma closestExactD:
  assumes "closestExact E coords" and "p \<in> set coords" and "length coords < 2 ^ 31"
  shows "unat (atClosestPoint E coords (map of_nat [0..<length coords]) p) < length coords \<and>
    coords ! unat (atClosestPoint E coords (map of_nat [0..<length coords]) p) = p"
proof -
  obtain i where i: "i < length coords" "coords ! i = p" using assms(2) by (auto simp: in_set_conv_nth)
  then have "atClosestPoint E coords (map of_nat [0..<length coords]) p = of_nat i"
    using assms(1) by (auto simp: closestExact_def list_all_length)
  moreover have "unat (of_nat i :: size_t) = i" using i(1) assms(3) by (intro unat_of_nat_size) simp
  ultimately show ?thesis using i by simp
qed

lemma locates_isOrderMap:
  assumes "locates lam atlasCoords lfricCoords" and "distinct lfricCoords"
    and "length lfricCoords = length atlasCoords"
  shows "isOrderMap lam"
proof -
  have len: "length lam = length atlasCoords" using assms(1,3) by (simp add: locates_def)
  have "lam ! k \<noteq> lam ! k'" if "k < length lam" "k' < length lam" "k \<noteq> k'" for k k'
  proof
    assume "lam ! k = lam ! k'"
    then have "lfricCoords ! k = lfricCoords ! k'"
      using locatesD [OF assms(1)] that(1,2) by metis
    then show False using that assms(1,2) by (simp add: locates_def nth_eq_iff_index_eq)
  qed
  then show ?thesis
    using locatesD [OF assms(1)] len by (auto simp: isOrderMap_def distinct_conv_nth list_all_length)
qed

text \<open>The map, for a file of as many points as the grid.\<close>

lemma createLfricAtlasMap_run:
  assumes "closestExact E atlasCoords" and "set lfricCoords \<subseteq> set atlasCoords" and "distinct lfricCoords"
    and "length atlasCoords < 2 ^ 31" and "length atlasCoords = length lfricCoords"
  obtains lam where "\<And>w. createLfricAtlasMap E atlasCoords lfricCoords w = (Inr lam, w)"
    and "isOrderMap lam" and "locates lam atlasCoords lfricCoords"
proof -
  let ?lam = "map (\<lambda>p. atClosestPoint E atlasCoords (map of_nat [0..<length atlasCoords]) p) lfricCoords"
  have "unat (?lam ! k) < length atlasCoords \<and> atlasCoords ! unat (?lam ! k) = lfricCoords ! k"
    if k: "k < length lfricCoords" for k
  proof -
    have "lfricCoords ! k \<in> set atlasCoords" using assms(2) k by auto
    from closestExactD [OF assms(1) this assms(4)] show ?thesis using k by simp
  qed
  then have loc: "locates ?lam atlasCoords lfricCoords" by (simp add: locates_def list_all_length)
  show ?thesis
  proof (rule that [OF _ locates_isOrderMap [OF loc] loc])
    show "createLfricAtlasMap E atlasCoords lfricCoords w = (Inr ?lam, w)" for w
      using assms(5) by (simp add: createLfricAtlasMap_def st_simps)
  qed (use assms(3,5) in simp_all)
qed

text \<open>
  C15: on a file whose points are the grid points in another order, and with a search that finds a
  grid point as its own nearest, \<open>createLfricAtlasMap\<close> returns a permutation that sends each LFRic
  point to its position in the grid; a file with another number of points is refused.
\<close>

theorem createLfricAtlasMap_result:
  assumes "closeQuiet E" and "wf_world w"
    and "closestExact E atlasCoords" and "set lfricCoords \<subseteq> set atlasCoords" and "distinct lfricCoords"
    and "length atlasCoords < 2 ^ 31"
  shows "if length atlasCoords = length lfricCoords
    then \<exists>lam. createLfricAtlasMap E atlasCoords lfricCoords w = (Inr lam, w) \<and>
        isOrderMap lam \<and> locates lam atlasCoords lfricCoords
    else \<exists>what w'. createLfricAtlasMap E atlasCoords lfricCoords w =
        (Inl (RuntimeError ''utilsatlas::createLfricAtlasMap'' what), w') \<and> filesClosed w' \<and> aborted w'"
proof (cases "length atlasCoords = length lfricCoords")
  case True
  then show ?thesis
    using createLfricAtlasMap_run [OF assms(3-6) True] by metis
next
  case False
  then show ?thesis
    using failS_quiet [OF assms(1,2), where ?'c = "size_t list" and who = "''utilsatlas::createLfricAtlasMap''"
        and what = "''Configured grid is not compatible with input file''"]
    by (auto simp: createLfricAtlasMap_def st_simps)
qed

section \<open>The direction of the map\<close>

lemma setRows_inject:
  assumes "lawfulType T" and "f < length (fieldHeap w)"
  shows "setRows T f rows w = setRows T f rows' w \<longleftrightarrow> rows = rows'"
proof
  assume "setRows T f rows w = setRows T f rows' w"
  then have "fieldArray (fieldHeap (setRows T f rows w) ! f) = fieldArray (fieldHeap (setRows T f rows' w) ! f)"
    by simp
  then have "etArray T rows = etArray T rows'" using assms(2) by (simp add: setRows_def)
  then have "etView T (etArray T rows) = etView T (etArray T rows')" by simp
  then show "rows = rows'" using assms(1) by simp
qed simp

text \<open>
  C16: \<open>populateField\<close> puts the datum of LFRic point \<open>lam i\<close> at node \<open>i\<close>, although \<open>lam\<close> sends LFRic
  points to nodes. So one level of data given by a function of the point ends up as that function
  of the grid point, at every node, exactly when the map is its own inverse.
\<close>

theorem populateField_direction:
  assumes "lawfulType T" and "hasRows T f rows w" and "isMatrix (length lam) 1 rows"
    and "fieldShape (fieldHeap w ! f) = [of_nat (length lam), of_nat 1]"
    and "locates lam atlasCoords lfricCoords" and "distinct lfricCoords"
    and "length lfricCoords = length atlasCoords" and "length lam < 2 ^ 31"
    and "inj_on val (set lfricCoords)"
  shows "populateField E T f (map val lfricCoords) lam False isLfric w =
      (Inr (), setRows T f (map (\<lambda>p. [val p]) atlasCoords) w) \<longleftrightarrow>
    list_all (\<lambda>i. unat (lam ! unat (lam ! i)) = i) [0..<length lam]"
proof -
  have len: "length lam = length atlasCoords" "length lam = length lfricCoords"
    using assms(5,7) by (simp_all add: locates_def)
  have order: "isOrderMap lam" using locates_isOrderMap [OF assms(5-7)] .
  have "covers lam 1 0 (map val lfricCoords)"
    using covers_vec [OF order assms(8), of 1 0 "map val lfricCoords"] assms(8) len(2) by simp
  from populateField_run [OF assms(1-4) this]
  have run: "populateField E T f (map val lfricCoords) lam False isLfric w =
      (Inr (), setRows T f (matrix (length lam) 1 (\<lambda>i j. map val lfricCoords ! (unat (lam ! i) + j * length lam))) w)" .
  have f: "f < length (fieldHeap w)" using assms(2) by (simp add: hasRows_def)
  have node: "val (lfricCoords ! unat (lam ! i)) = val (atlasCoords ! i) \<longleftrightarrow> unat (lam ! unat (lam ! i)) = i"
    if i: "i < length lam" for i
  proof -
    have mi: "unat (lam ! i) < length lam" using isOrderMap_nth [OF order i] .
    have image: "distinct atlasCoords \<and> set lfricCoords = set atlasCoords"
    proof -
      have "set lfricCoords \<subseteq> set atlasCoords"
        using locatesD [OF assms(5)] len by (auto simp: in_set_conv_nth) (metis nth_mem)
      then have "set lfricCoords = set atlasCoords"
        using assms(6,7) by (metis List.finite_set card_length card_seteq distinct_card)
      then show ?thesis using assms(6,7) by (metis card_distinct distinct_card)
    qed
    have "val (lfricCoords ! unat (lam ! i)) = val (atlasCoords ! i) \<longleftrightarrow>
        lfricCoords ! unat (lam ! i) = atlasCoords ! i"
      using inj_on_eq_iff [OF assms(9)] mi i len image by (metis nth_mem)
    also have "\<dots> \<longleftrightarrow> atlasCoords ! unat (lam ! unat (lam ! i)) = atlasCoords ! i"
      using locatesD [OF assms(5) mi] by simp
    also have "\<dots> \<longleftrightarrow> unat (lam ! unat (lam ! i)) = i"
      using image i len locatesD [OF assms(5) mi]
        nth_eq_iff_index_eq [of atlasCoords "unat (lam ! unat (lam ! i))" i] by simp
    finally show ?thesis .
  qed
  have "matrix (length lam) 1 (\<lambda>i j. map val lfricCoords ! (unat (lam ! i) + j * length lam)) =
      map (\<lambda>i. [val (lfricCoords ! unat (lam ! i))]) [0..<length lam]"
    using isOrderMap_nth [OF order] len by (auto simp: matrix_def)
  moreover have "map (\<lambda>p. [val p]) atlasCoords = map (\<lambda>i. [val (atlasCoords ! i)]) [0..<length lam]"
    using len by (intro nth_equalityI) simp_all
  ultimately show ?thesis
    using node by (auto simp: run setRows_inject [OF assms(1) f] list_all_length)
qed

end
