(* ===== verification/Metadata_Print.thy ===== *)
theory Metadata_Print
  imports Metadatas
begin

text \<open>
  The printing functions of \<open>src/monio/Metadata.cc\<close>, which \<open>File::readMetadata\<close> calls on what it has
  read. What they insert into \<open>oops::Log::debug()\<close>, a stream that is not part of the program, is
  returned as a list of insertions, one constructor per overload of the insertion operator; the
  rest of the program's log messages are not modelled.
\<close>

datatype LogItem = LogText string | LogInt int32 | LogDouble double | LogQuoted string | LogEndl

definition kTabSpace :: string where "kTabSpace = ''    ''"

definition printMap :: "(string, int32) smap \<Rightarrow> LogItem list" where
  "printMap m = concat (map (\<lambda>entry.
    [LogText kTabSpace, LogText (fst entry), LogText '' = '', LogInt (snd entry), LogText '' ;'', LogEndl])
    (entries m))"

text \<open>An integer attribute is printed without the equals sign of the other two.\<close>

fun printGlobalAttr :: "string \<Rightarrow> AttributeBase \<Rightarrow> LogItem list" where
  "printGlobalAttr key (AttributeDouble name value) =
    [LogText kTabSpace, LogText key, LogText '' = '', LogDouble value, LogText '' ;'', LogEndl]"
| "printGlobalAttr key (AttributeInt name value) =
    [LogText kTabSpace, LogText key, LogInt value, LogText '' ;'', LogEndl]"
| "printGlobalAttr key (AttributeString name value) =
    [LogText kTabSpace, LogText key, LogText '' = '', LogQuoted value, LogText '' ;'', LogEndl]"

definition printGlobalAttrs :: "Metadata \<Rightarrow> LogItem list" where
  "printGlobalAttrs m = concat (map (\<lambda>p. printGlobalAttr (fst p) (snd p)) (entries (mdGlobalAttrs m)))"

definition printDimNames :: "string list \<Rightarrow> LogItem list" where
  "printDimNames names =
    (if length names > 0
     then [LogText ''(''] @ concat (map (\<lambda>name. [LogText name, LogText '', '']) (butlast names)) @
       [LogText (last names), LogText '')'', LogEndl]
     else [LogEndl])"

fun printAttrValue :: "AttributeBase \<Rightarrow> LogItem list" where
  "printAttrValue (AttributeDouble name value) = [LogDouble value, LogEndl]"
| "printAttrValue (AttributeInt name value) = [LogInt value, LogText '' ;'', LogEndl]"
| "printAttrValue (AttributeString name value) = [LogQuoted value, LogEndl]"

definition printVarAttr :: "string \<Rightarrow> AttributeBase \<Rightarrow> LogItem list" where
  "printVarAttr name attr =
    [LogText kTabSpace, LogText kTabSpace, LogText name, LogText '':'', LogText (attrName attr), LogText '' = ''] @
    printAttrValue attr"

definition printVariable :: "ref \<Rightarrow> (('d, 't) world, LogItem list) st" where
  "printVariable var =
    bindS (Variable_getType var) (\<lambda>type.
    bindS (case kDataTypeNames type of
        Some typeName \<Rightarrow> returnS typeName
      | None \<Rightarrow> throwS (Undefined ''kDataTypeNames[type]'')) (\<lambda>typeName.
    bindS (Variable_getName var) (\<lambda>name.
    bindS (Variable_getDimensionNames var) (\<lambda>names.
    bindS (Variable_getAttributes var) (\<lambda>varAttrsMap.
    returnS ([LogText kTabSpace, LogText typeName, LogText '' '', LogText name] @ printDimNames names @
      concat (map (\<lambda>p. printVarAttr name (snd p)) (entries varAttrsMap))))))))"

definition printVariables :: "Metadata \<Rightarrow> (('d, 't) world, LogItem list) st" where
  "printVariables m =
    bindS (mapS (\<lambda>varPair. printVariable (snd varPair)) (entries (mdVariables m))) (\<lambda>logs.
    returnS (concat logs))"

definition Metadata_print :: "Metadata \<Rightarrow> (('d, 't) world, LogItem list) st" where
  "Metadata_print m =
    bindS (printVariables m) (\<lambda>variables.
    returnS ([LogText ''dimensions:'', LogEndl] @ printMap (mdDimensions m) @
      [LogText ''variables:'', LogEndl] @ variables @
      [LogText ''attributes:'', LogEndl] @ printGlobalAttrs m))"

section \<open>Printing changes nothing\<close>

lemma keepsS_typeName [keeps_intros]:
  "keepsS I (case kDataTypeNames t of Some n \<Rightarrow> returnS n | None \<Rightarrow> throwS e)"
  by (auto intro: keeps_intros split: option.split)

context world_invariant
begin

lemma Metadata_print_kept [keeps_intros]: "keepsS I (Metadata_print m)"
  unfolding Metadata_print_def printVariables_def printVariable_def by (intro keeps_intros)

end

text \<open>What a variable prints.\<close>

definition variableLog :: "Variable \<Rightarrow> LogItem list" where
  "variableLog v = [LogText kTabSpace, LogText (the (kDataTypeNames (varType v))), LogText '' '', LogText (varName v)] @
    printDimNames (map fst (varDims v)) @ concat (map (\<lambda>p. printVarAttr (varName v) (snd p)) (entries (varAttrs v)))"

lemma printVariable_run:
  assumes "r < length (varHeap w)" and "varType (varHeap w ! r) \<noteq> eNumberOfDataTypes"
  shows "printVariable r w = (Inr (variableLog (varHeap w ! r)), w)"
proof -
  obtain n where "kDataTypeNames (varType (varHeap w ! r)) = Some n"
    using assms(2) by (cases "varType (varHeap w ! r)") simp_all
  then show ?thesis
    using assms(1) by (simp add: printVariable_def variable_defs st_simps variableLog_def)
qed

text \<open>Variables of a metadata that are on the heap and have a data type.\<close>

definition printable :: "Variable list \<Rightarrow> Metadata \<Rightarrow> bool" where
  "printable vs m \<longleftrightarrow>
    list_all (\<lambda>e. snd e < length vs \<and> varType (vs ! snd e) \<noteq> eNumberOfDataTypes) (entries (mdVariables m))"

lemma Metadata_print_run:
  assumes "printable (varHeap w) m"
  shows "\<exists>items. Metadata_print m w = (Inr items, w)"
proof -
  have "mapS (\<lambda>p. printVariable (snd p)) (entries (mdVariables m)) w =
      (Inr (map (\<lambda>p. variableLog (varHeap w ! snd p)) (entries (mdVariables m))), w)"
    using assms by (intro mapS_pure) (auto simp: printable_def list_all_iff printVariable_run)
  then show ?thesis by (simp add: Metadata_print_def printVariables_def st_simps bindS_Inr)
qed

end
