(* ===== verification/Nc_Files.thy ===== *)
theory Nc_Files
  imports Data_Store Metadata_Print
begin

text \<open>
  Reading and writing through an open \<open>File\<close> (\<open>src/monio/File.cc\<close>). Every operation first tests
  the mode of the file and, when it is the wrong one, closes the file and throws. The templates
  over the element type take the NetCDF call of that type as an argument.
\<close>

section \<open>Guards\<close>

text \<open>\<open>close(); utils::throwException(...)\<close>.\<close>

definition File_fail :: "('d, 't) env \<Rightarrow> ref \<Rightarrow> string \<Rightarrow> string \<Rightarrow> (('d, 't) world, 'a) st" where
  "File_fail E r who what = seqS (File_close E r) (throwException who what)"

definition File_reading ::
    "('d, 't) env \<Rightarrow> ref \<Rightarrow> string \<Rightarrow> (('d, 't) world, 'a) st \<Rightarrow> (('d, 't) world, 'a) st" where
  "File_reading E r who body =
    bindS (derefS fileHeap r) (\<lambda>f.
    if fiMode f = nc_read then body
    else File_fail E r who ''Write file accessed for reading'')"

definition File_writing ::
    "('d, 't) env \<Rightarrow> ref \<Rightarrow> string \<Rightarrow> (('d, 't) world, 'a) st \<Rightarrow> (('d, 't) world, 'a) st" where
  "File_writing E r who body =
    bindS (derefS fileHeap r) (\<lambda>f.
    if fiMode f \<noteq> nc_read then body
    else File_fail E r who ''Read file accessed for writing'')"

section \<open>Reading metadata\<close>

definition File_readDimensions ::
    "('d, 't) env \<Rightarrow> ref \<Rightarrow> Metadata \<Rightarrow> (('d, 't) world, Metadata) st" where
  "File_readDimensions E r m = File_reading E r ''File::readDimensions'' (
    bindS (File_getFile r) (\<lambda>h.
    bindS (ncS (ncGetDims E h)) (\<lambda>ncDimsMap.
    foldS (\<lambda>ncDimPair m. returnS (addDimension (fst ncDimPair) (size_to_int (snd ncDimPair)) m))
      ncDimsMap m)))"

text \<open>
  The value of an attribute by its type; \<open>getValues(&value)\<close> stores all the values of a numeric
  attribute into one variable.
\<close>

definition singleValue :: "'a list \<Rightarrow> ('w, 'a) st" where
  "singleValue values =
    (case values of [value] \<Rightarrow> returnS value | _ \<Rightarrow> throwS (Undefined ''getValues(&value)''))"

definition readAttribute ::
    "('d, 't) env \<Rightarrow> ref \<Rightarrow> string \<Rightarrow> NcAtt \<Rightarrow> (('d, 't) world, AttributeBase) st" where
  "readAttribute E r who ncAttr =
    (if attType ncAttr = nc_CHAR \<or> attType ncAttr = nc_STRING
     then returnS (AttributeString (attName ncAttr) (attText ncAttr))
     else if attType ncAttr = nc_INT \<or> attType ncAttr = nc_SHORT
     then bindS (singleValue (attInts ncAttr)) (\<lambda>intValue.
          returnS (AttributeInt (attName ncAttr) intValue))
     else if attType ncAttr = nc_FLOAT \<or> attType ncAttr = nc_DOUBLE
     then bindS (singleValue (attDoubles ncAttr)) (\<lambda>dblValue.
          returnS (AttributeDouble (attName ncAttr) dblValue))
     else File_fail E r who ''attribute data type not coded for'')"

definition File_readVariable ::
    "('d, 't) env \<Rightarrow> ref \<Rightarrow> NcVar \<Rightarrow> Metadata \<Rightarrow> (('d, 't) world, Metadata) st" where
  "File_readVariable E r ncVar m =
    bindS (case ncVarType ncVar of
        nc_DOUBLE \<Rightarrow> Variable_new (ncVarName ncVar) eDouble
      | nc_FLOAT \<Rightarrow> Variable_new (ncVarName ncVar) eFloat
      | nc_INT \<Rightarrow> Variable_new (ncVarName ncVar) eInt
      | _ \<Rightarrow> File_fail E r ''File::readVariable'' ''data type not coded for'') (\<lambda>var.
    seqS (forS (ncVarDims ncVar) (\<lambda>ncVarDim.
        seqS (whenS (isDimDefined m (fst ncVarDim) = False)
               (File_fail E r ''File::readVariable'' (fst ncVarDim)))
        (Variable_addDimension E var (fst ncVarDim) (snd ncVarDim))))
   (seqS (forS (ncVarAtts ncVar) (\<lambda>ncVarAttrPair.
        bindS (readAttribute E r ''File::readVariable'' (snd ncVarAttrPair)) (\<lambda>varAttr.
        Variable_addAttribute E var varAttr)))
   (bindS (Variable_getName var) (\<lambda>name.
    returnS (addVariable name var m)))))"

definition File_readVariables ::
    "('d, 't) env \<Rightarrow> ref \<Rightarrow> Metadata \<Rightarrow> (('d, 't) world, Metadata) st" where
  "File_readVariables E r m = File_reading E r ''File::readVariables'' (
    bindS (File_getFile r) (\<lambda>h.
    bindS (ncS (ncGetVars E h)) (\<lambda>nvVarsMap.
    foldS (\<lambda>ncVarPair m. File_readVariable E r (snd ncVarPair) m) nvVarsMap m)))"

definition File_readTheseVariables ::
    "('d, 't) env \<Rightarrow> ref \<Rightarrow> string list \<Rightarrow> Metadata \<Rightarrow> (('d, 't) world, Metadata) st" where
  "File_readTheseVariables E r variableNames m = File_reading E r ''File::readVariables'' (
    bindS (File_getFile r) (\<lambda>h.
    bindS (ncS (ncGetVars E h)) (\<lambda>nvVarsMap.
    foldS (\<lambda>ncVarPair m.
        if std_find variableNames (ncVarName (snd ncVarPair)) \<noteq> length variableNames
        then File_readVariable E r (snd ncVarPair) m else returnS m) nvVarsMap m)))"

definition File_readAttributes ::
    "('d, 't) env \<Rightarrow> ref \<Rightarrow> Metadata \<Rightarrow> (('d, 't) world, Metadata) st" where
  "File_readAttributes E r m = File_reading E r ''File::readAttributes'' (
    bindS (File_getFile r) (\<lambda>h.
    bindS (ncS (ncGetAtts E h)) (\<lambda>ncAttrMap.
    foldS (\<lambda>ncAttrPair m.
        bindS (readAttribute E r ''File::readAttributes'' (snd ncAttrPair)) (\<lambda>globAttr.
        returnS (addGlobalAttr (attrName globAttr) globAttr m))) ncAttrMap m)))"

definition File_readMetadata ::
    "('d, 't) env \<Rightarrow> ref \<Rightarrow> Metadata \<Rightarrow> (('d, 't) world, Metadata) st" where
  "File_readMetadata E r m = File_reading E r ''File::readMetadata'' (
    bindS (File_readDimensions E r m) (\<lambda>m.
    bindS (File_readVariables E r m) (\<lambda>m.
    bindS (File_readAttributes E r m) (\<lambda>m.
    bindS (Metadata_print m) (\<lambda>_.
    returnS m)))))"

definition File_readMetadataOf ::
    "('d, 't) env \<Rightarrow> ref \<Rightarrow> string list \<Rightarrow> Metadata \<Rightarrow> (('d, 't) world, Metadata) st" where
  "File_readMetadataOf E r varNames m = File_reading E r ''File::readMetadata'' (
    bindS (File_readDimensions E r m) (\<lambda>m.
    bindS (File_readTheseVariables E r varNames m) (\<lambda>m.
    bindS (File_readAttributes E r m) (\<lambda>m.
    bindS (Metadata_print m) (\<lambda>_.
    returnS m)))))"

section \<open>Reading data\<close>

text \<open>NetCDF writes the values through the pointer it is given: more values than the vector has
  elements run past its end, fewer leave its tail.\<close>

definition fillBuffer :: "'a list \<Rightarrow> 'a list \<Rightarrow> ('w, 'a list) st" where
  "fillBuffer dataVec values =
    (if length values \<le> length dataVec then returnS (values @ drop (length values) dataVec)
     else throwS (Undefined ''getVar(dataVec.data())''))"

definition File_readSingleDatum ::
    "(nat \<Rightarrow> string \<Rightarrow> ('d, 'a list) call) \<Rightarrow> ('d, 't) env \<Rightarrow> ref \<Rightarrow> string \<Rightarrow> 'a list \<Rightarrow>
     (('d, 't) world, 'a list) st" where
  "File_readSingleDatum getVar E r name dataVec = File_reading E r ''File::readSingleDatum'' (
    bindS (File_getFile r) (\<lambda>h.
    bindS (ncS (getVar h name)) (\<lambda>values.
    fillBuffer dataVec values)))"

definition File_readFieldDatum ::
    "(nat \<Rightarrow> string \<Rightarrow> size_t list \<Rightarrow> size_t list \<Rightarrow> ('d, 'a list) call) \<Rightarrow> ('d, 't) env \<Rightarrow> ref \<Rightarrow>
     string \<Rightarrow> size_t list \<Rightarrow> size_t list \<Rightarrow> 'a list \<Rightarrow> (('d, 't) world, 'a list) st" where
  "File_readFieldDatum getVar E r name startVec countVec dataVec =
    File_reading E r ''File::readFieldDatum'' (
    bindS (File_getFile r) (\<lambda>h.
    bindS (ncS (getVar h name startVec countVec)) (\<lambda>values.
    fillBuffer dataVec values)))"

section \<open>Writing\<close>

definition File_writeDimensions ::
    "('d, 't) env \<Rightarrow> ref \<Rightarrow> Metadata \<Rightarrow> (('d, 't) world, unit) st" where
  "File_writeDimensions E r m = File_writing E r ''File::writeDimensions'' (
    bindS (File_getFile r) (\<lambda>h.
    bindS (ncS (ncGetDims E h)) (\<lambda>ncDimsMap.
    forS (entries (mdDimensions m)) (\<lambda>dimPair.
      whenS (fst dimPair \<notin> fst ` set ncDimsMap)
        (bindS (File_getFile r) (\<lambda>h.
         ncS (ncAddDim E h (fst dimPair) (int_to_size (snd dimPair)))))))))"

text \<open>The attribute as \<open>putAtt\<close> is given it; the switch over its type has no other case.\<close>

fun putValue :: "AttributeBase \<Rightarrow> PutValue" where
  "putValue (AttributeDouble name value) = PutDouble value"
| "putValue (AttributeInt name value) = PutInt value"
| "putValue (AttributeString name value) = PutText value"

definition File_writeVariables ::
    "('d, 't) env \<Rightarrow> ref \<Rightarrow> Metadata \<Rightarrow> (('d, 't) world, unit) st" where
  "File_writeVariables E r m = File_writing E r ''File::writeVariables'' (
    bindS (File_getFile r) (\<lambda>h.
    bindS (ncS (ncGetVars E h)) (\<lambda>ncVarsMap.
    forS (entries (mdVariables m)) (\<lambda>varPair.
      whenS (fst varPair \<notin> fst ` set ncVarsMap)
        (bindS (File_getFile r) (\<lambda>h.
         bindS (Variable_getName (snd varPair)) (\<lambda>name.
         bindS (Variable_getType (snd varPair)) (\<lambda>type.
         bindS (Variable_getDimensionNames (snd varPair)) (\<lambda>dimNames.
         bindS (case kDataTypeNames type of
             Some typeName \<Rightarrow> returnS typeName
           | None \<Rightarrow> throwS (Undefined ''kDataTypeNames[type]'')) (\<lambda>typeName.
         seqS (ncS (ncAddVar E h name typeName dimNames))
        (bindS (Variable_getAttributes (snd varPair)) (\<lambda>varAttrsMap.
         forS (entries varAttrsMap) (\<lambda>varAttrPair.
           ncS (ncPutAtt E h (Some name) (attrName (snd varAttrPair)) (putValue (snd varAttrPair))))))))))))))))"

definition File_writeAttributes ::
    "('d, 't) env \<Rightarrow> ref \<Rightarrow> Metadata \<Rightarrow> (('d, 't) world, unit) st" where
  "File_writeAttributes E r m = File_writing E r ''File::writeAttributes'' (
    bindS (File_getFile r) (\<lambda>h.
    bindS (ncS (ncGetAtts E h)) (\<lambda>ncAttsMap.
    forS (entries (mdGlobalAttrs m)) (\<lambda>globalAttrPair.
      whenS (fst globalAttrPair \<notin> fst ` set ncAttsMap)
        (bindS (File_getFile r) (\<lambda>h.
         ncS (ncPutAtt E h None (attrName (snd globalAttrPair)) (putValue (snd globalAttrPair)))))))))"

definition File_writeMetadata ::
    "('d, 't) env \<Rightarrow> ref \<Rightarrow> Metadata \<Rightarrow> (('d, 't) world, unit) st" where
  "File_writeMetadata E r m = File_writing E r ''File::writeMetadata'' (
    seqS (File_writeDimensions E r m)
   (seqS (File_writeVariables E r m)
    (File_writeAttributes E r m)))"

text \<open>\<open>putVar(dataVec.data())\<close> reads as many elements as the variable has.\<close>

definition File_writeSingleDatum ::
    "(nat \<Rightarrow> string \<Rightarrow> 'a list \<Rightarrow> ('d, unit) call) \<Rightarrow> ('d, 't) env \<Rightarrow> ref \<Rightarrow> string \<Rightarrow> 'a list \<Rightarrow>
     (('d, 't) world, unit) st" where
  "File_writeSingleDatum putVar E r name dataVec = File_writing E r ''File::writeSingleDatum'' (
    bindS (File_getFile r) (\<lambda>h.
    bindS (ncS (ncVarSize E h name)) (\<lambda>n.
    if n \<le> length dataVec then ncS (putVar h name (take n dataVec))
    else throwS (Undefined ''putVar(dataVec.data())''))))"

section \<open>What the operations keep\<close>

context world_invariant
begin

lemma File_getFile_kept [keeps_intros]: "keepsS I (File_getFile r)"
  unfolding File_getFile_def by (intro keeps_intros)

lemma File_fail_kept [keeps_intros]: "keepsS I (File_fail E r who what)"
  unfolding File_fail_def by (intro keeps_intros)

lemma File_reading_kept [keeps_intros]:
  "keepsS I body \<Longrightarrow> keepsS I (File_reading E r who body)"
  unfolding File_reading_def by (intro keeps_intros)

lemma File_writing_kept [keeps_intros]:
  "keepsS I body \<Longrightarrow> keepsS I (File_writing E r who body)"
  unfolding File_writing_def by (intro keeps_intros)

lemma readAttribute_kept [keeps_intros]: "keepsS I (readAttribute E r who a)"
  unfolding readAttribute_def singleValue_def
  by (intro keeps_intros) (auto intro: keeps_intros split: list.split)

lemma File_readVariable_kept [keeps_intros]: "keepsS I (File_readVariable E r v m)"
  unfolding File_readVariable_def
  by (intro keeps_intros) (auto intro: keeps_intros split: NcType.split)

end

lemma fillBuffer_keeps [keeps_intros]: "keepsS I (fillBuffer buf vals)"
  unfolding fillBuffer_def by (intro keeps_intros)

context world_invariant
begin

lemma file_kept [keeps_intros]:
  "keepsS I (File_readMetadata E r m)"
  "keepsS I (File_readMetadataOf E r ns m)"
  "keepsS I (File_readSingleDatum getVar E r n buf)"
  "keepsS I (File_readFieldDatum getVarAt E r n start count buf)"
  "keepsS I (File_writeMetadata E r m)"
  "keepsS I (File_writeSingleDatum putVar E r n xs)"
  unfolding File_readMetadata_def File_readMetadataOf_def File_readDimensions_def
    File_readVariables_def File_readTheseVariables_def File_readAttributes_def
    File_readSingleDatum_def File_readFieldDatum_def File_writeMetadata_def
    File_writeDimensions_def File_writeVariables_def File_writeAttributes_def
    File_writeSingleDatum_def
  by (intro keeps_intros)+

end

section \<open>Mode guards\<close>

lemma File_fail_quiet:
  assumes "closeQuiet E" and "r < length (fileHeap w)"
  shows "\<exists>w'. File_fail E r who what w = (Inl (RuntimeError who what), w') \<and>
    fiDataFile (fileHeap w' ! r) = None \<and> aborted w'"
proof -
  obtain w1 where close: "File_close E r w = (Inr (), w1)"
    using File_close_quiet [OF assms] by blast
  then show ?thesis
    using File_close_closed [OF close]
    by (auto simp: File_fail_def st_simps bindS_Inr throwException_apply)
qed

text \<open>
  C26: the mode of a file guards every access: reading the metadata of a file opened for writing, or
  writing to one opened for reading, closes the file, aborts, and throws before anything is read or
  written.
\<close>

theorem File_mode_guards:
  assumes "closeQuiet E" and "r < length (fileHeap w)"
  shows "if fiMode (fileHeap w ! r) = nc_read
    then \<exists>w'. File_writeMetadata E r m w =
        (Inl (RuntimeError ''File::writeMetadata'' ''Read file accessed for writing''), w') \<and>
        fiDataFile (fileHeap w' ! r) = None \<and> aborted w'
    else \<exists>w'. File_readMetadata E r m w =
        (Inl (RuntimeError ''File::readMetadata'' ''Write file accessed for reading''), w') \<and>
        fiDataFile (fileHeap w' ! r) = None \<and> aborted w'"
  using assms(2) by (simp add: File_writeMetadata_def File_writing_def File_readMetadata_def
      File_reading_def st_simps File_fail_quiet [OF assms])

section \<open>Reading dimensions\<close>

lemma File_getFile_open:
  "r < length (fileHeap w) \<Longrightarrow> fiDataFile (fileHeap w ! r) = Some h \<Longrightarrow> File_getFile r w = (Inr h, w)"
  by (simp add: File_getFile_def st_simps)

lemma foldS_returnS: "foldS (\<lambda>x a. returnS (g x a)) xs a = returnS (fold g xs a)"
  by (induction xs arbitrary: a) (simp_all add: bindS_returnS)

text \<open>A file open for reading with handle \<open>h\<close>.\<close>

definition readingFrom :: "ref \<Rightarrow> nat \<Rightarrow> ('d, 't) world \<Rightarrow> bool" where
  "readingFrom r h w \<longleftrightarrow> r < length (fileHeap w) \<and> fiMode (fileHeap w ! r) = nc_read \<and>
    fiDataFile (fileHeap w ! r) = Some h"

lemma File_reading_apply: "readingFrom r h w \<Longrightarrow> File_reading E r who body w = body w"
  by (simp add: File_reading_def readingFrom_def st_simps)

lemma readingFrom_getFile: "readingFrom r h w \<Longrightarrow> File_getFile r w = (Inr h, w)"
  by (simp add: readingFrom_def File_getFile_open)

definition readDims :: "(string \<times> size_t) list \<Rightarrow> Metadata \<Rightarrow> Metadata" where
  "readDims ds m = fold (\<lambda>e. addDimension (fst e) (size_to_int (snd e))) ds m"

lemma File_readDimensions_run:
  assumes "readingFrom r h w" and "ncGetDims E h (outside w) = (Inr ds, d)"
  shows "File_readDimensions E r m w = (Inr (readDims ds m), w\<lparr>outside := d\<rparr>)"
  using assms
  by (simp add: File_readDimensions_def File_reading_apply bindS_Inr [OF readingFrom_getFile]
      foldS_returnS bindS_Inr [OF callS_Inr] readDims_def returnS_apply)

lemma readDims_frame [simp]:
  "mdGlobalAttrs (readDims ds m) = mdGlobalAttrs m" "mdVariables (readDims ds m) = mdVariables m"
  unfolding readDims_def by (induction ds arbitrary: m) auto

lemma readDims_find:
  "smap_find (mdDimensions (readDims ds m)) k = (case smap_find (mdDimensions m) k of
    Some s \<Rightarrow> Some s | None \<Rightarrow> map_option size_to_int (map_of ds k))"
proof -
  have "readDims ds m = fold (\<lambda>e. addDimension (fst e) (snd e)) (map (\<lambda>e. (fst e, size_to_int (snd e))) ds) m"
    by (simp add: readDims_def fold_map comp_def)
  then show ?thesis by (simp add: dims.get_adds map_of_values split: option.split)
qed

text \<open>
  Reading the dimensions of an open file gives every dimension name the size, narrowed to
  \<open>int\<close>, of its first entry in the file; names the metadata already had keep their size.
\<close>

lemma File_readDimensions_result:
  assumes "r < length (fileHeap w)" and "fiMode (fileHeap w ! r) = nc_read"
    and "fiDataFile (fileHeap w ! r) = Some h" and "ncGetDims E h (outside w) = (Inr ds, d)"
  shows "\<exists>m'. File_readDimensions E r m w = (Inr m', w\<lparr>outside := d\<rparr>) \<and>
    mdGlobalAttrs m' = mdGlobalAttrs m \<and> mdVariables m' = mdVariables m \<and>
    (\<forall>k. smap_find (mdDimensions m') k = (case smap_find (mdDimensions m) k of
        Some s \<Rightarrow> Some s | None \<Rightarrow> map_option size_to_int (map_of ds k)))"
  using File_readDimensions_run [of r h w E ds d m] assms
  by (simp add: readingFrom_def readDims_find)

end
