(* ===== verification/Readers.thy ===== *)
theory Readers
  imports Nc_Files
begin

text \<open>
  \<open>src/monio/Reader.cc\<close>: reading metadata and data into a \<open>FileData\<close>, on the PE of the owner's
  rank only; on every other PE the operations return at once. The \<open>FileData\<close> an operation is
  given is returned changed.
\<close>

definition Reader_isOwner :: "ref \<Rightarrow> (('d, 't) world, bool) st" where
  "Reader_isOwner r =
    bindS (derefS readerHeap r) (\<lambda>rd. bindS (getS mpiRank) (\<lambda>rank. returnS (rank = rdOwner rd)))"

text \<open>\<open>closeFile(); utils::throwException(...)\<close>.\<close>

definition Reader_fail :: "('d, 't) env \<Rightarrow> ref \<Rightarrow> string \<Rightarrow> string \<Rightarrow> (('d, 't) world, 'a) st" where
  "Reader_fail E r who what = seqS (Reader_closeFile E r) (throwException who what)"

definition Reader_readMetadata ::
    "('d, 't) env \<Rightarrow> ref \<Rightarrow> 't FileData \<Rightarrow> (('d, 't) world, 't FileData) st" where
  "Reader_readMetadata E r fd =
    bindS (Reader_isOwner r) (\<lambda>owner.
    if owner then
      bindS (Reader_getFile r) (\<lambda>f.
      bindS (File_readMetadata E f (fdMetadata fd)) (\<lambda>m.
      returnS (fd\<lparr>fdMetadata := m\<rparr>)))
    else returnS fd)"

section \<open>Finding a time step\<close>

primrec searchTimeStep :: "'t \<Rightarrow> 't list \<Rightarrow> size_t \<Rightarrow> size_t option" where
  "searchTimeStep dateTime [] timeStep = None"
| "searchTimeStep dateTime (t # ts) timeStep =
    (if t = dateTime then Some timeStep else searchTimeStep dateTime ts (timeStep + 1))"

definition Reader_findTimeStep ::
    "('d, 't) env \<Rightarrow> ref \<Rightarrow> 't FileData \<Rightarrow> 't \<Rightarrow> (('d, 't) world, size_t) st" where
  "Reader_findTimeStep E r fd dateTime =
    seqS (whenS (length (fdDateTimes fd) = 0)
      (Reader_fail E r ''Reader::findTimeStep'' ''Date times not initialised''))
    (case searchTimeStep dateTime (fdDateTimes fd) 0 of
      Some timeStep \<Rightarrow> returnS timeStep
    | None \<Rightarrow> Reader_fail E r ''Reader::findTimeStep'' ''DateTime specified not located in file'')"

section \<open>Reading data\<close>

text \<open>The loop over the dimensions of a variable: size without time, start and count vectors.\<close>

primrec timeSlice ::
    "string \<Rightarrow> (string \<times> size_t) list \<Rightarrow> size_t \<times> size_t list \<times> size_t list \<Rightarrow>
     size_t \<times> size_t list \<times> size_t list" where
  "timeSlice timeDimName [] acc = acc"
| "timeSlice timeDimName (dimPair # dims) acc =
    (case acc of (varSizeNoTime, startVec, countVec) \<Rightarrow>
      timeSlice timeDimName dims
        (if fst dimPair \<noteq> timeDimName
         then (varSizeNoTime * snd dimPair, startVec @ [0], countVec @ [snd dimPair])
         else acc))"

definition Reader_readDatumAtTimeStep ::
    "('d, 't) env \<Rightarrow> ref \<Rightarrow> 't FileData \<Rightarrow> string \<Rightarrow> size_t \<Rightarrow> string \<Rightarrow>
     (('d, 't) world, 't FileData) st" where
  "Reader_readDatumAtTimeStep E r fd name timeStep timeDimName =
    bindS (Reader_isOwner r) (\<lambda>owner.
    if owner then
      (if isContainerPresent (fdData fd) name = False then
        bindS (getVariable E (fdMetadata fd) name) (\<lambda>variable.
        bindS (Variable_getType variable) (\<lambda>dataType.
        bindS (Variable_getDimensionsMap variable) (\<lambda>dimensions.
        case timeSlice timeDimName dimensions (1, [timeStep], [1]) of
          (varSizeNoTime, startVec, countVec) \<Rightarrow>
        bindS (case dataType of
            eDouble \<Rightarrow>
              bindS (DataContainerDouble_setSize [] (size_to_int varSizeNoTime)) (\<lambda>dataVec.
              bindS (Reader_getFile r) (\<lambda>f.
              bindS (File_readFieldDatum (ncGetDoubleAt E) E f name startVec countVec dataVec) (\<lambda>dataVec.
              returnS (DataContainerDouble name dataVec))))
          | eFloat \<Rightarrow>
              bindS (DataContainerFloat_setSize [] (size_to_int varSizeNoTime)) (\<lambda>dataVec.
              bindS (Reader_getFile r) (\<lambda>f.
              bindS (File_readFieldDatum (ncGetFloatAt E) E f name startVec countVec dataVec) (\<lambda>dataVec.
              returnS (DataContainerFloat name dataVec))))
          | eInt \<Rightarrow>
              bindS (DataContainerInt_setSize [] (size_to_int varSizeNoTime)) (\<lambda>dataVec.
              bindS (Reader_getFile r) (\<lambda>f.
              bindS (File_readFieldDatum (ncGetIntAt E) E f name startVec countVec dataVec) (\<lambda>dataVec.
              returnS (DataContainerInt name dataVec))))
          | _ \<Rightarrow> Reader_fail E r ''Reader::readDatumAtTime'' ''Data type not coded for'') (\<lambda>dataContainer.
        returnS (fd\<lparr>fdData := addContainer dataContainer (fdData fd)\<rparr>)))))
       else returnS fd)
    else returnS fd)"

definition Reader_readDatumAtTime ::
    "('d, 't) env \<Rightarrow> ref \<Rightarrow> 't FileData \<Rightarrow> string \<Rightarrow> 't \<Rightarrow> string \<Rightarrow>
     (('d, 't) world, 't FileData) st" where
  "Reader_readDatumAtTime E r fd name dateToRead timeDimName =
    bindS (Reader_isOwner r) (\<lambda>owner.
    if owner then
      bindS (Reader_findTimeStep E r fd dateToRead) (\<lambda>timeStep.
      Reader_readDatumAtTimeStep E r fd name timeStep timeDimName)
    else returnS fd)"

definition Reader_readFullDatum ::
    "('d, 't) env \<Rightarrow> ref \<Rightarrow> string \<Rightarrow> 't FileData \<Rightarrow> (('d, 't) world, 't FileData) st" where
  "Reader_readFullDatum E r name fd =
    bindS (Reader_isOwner r) (\<lambda>owner.
    if owner then
      bindS (getVariable E (fdMetadata fd) name) (\<lambda>variable.
      bindS (Variable_getType variable) (\<lambda>dataType.
      bindS (case dataType of
          eDouble \<Rightarrow>
            bindS (Variable_getTotalSize variable) (\<lambda>n.
            bindS (DataContainerDouble_setSize [] (size_to_int n)) (\<lambda>dataVec.
            bindS (Reader_getFile r) (\<lambda>f.
            bindS (File_readSingleDatum (ncGetDouble E) E f name dataVec) (\<lambda>dataVec.
            returnS (DataContainerDouble name dataVec)))))
        | eFloat \<Rightarrow>
            bindS (Variable_getTotalSize variable) (\<lambda>n.
            bindS (DataContainerFloat_setSize [] (size_to_int n)) (\<lambda>dataVec.
            bindS (Reader_getFile r) (\<lambda>f.
            bindS (File_readSingleDatum (ncGetFloat E) E f name dataVec) (\<lambda>dataVec.
            returnS (DataContainerFloat name dataVec)))))
        | eInt \<Rightarrow>
            bindS (Variable_getTotalSize variable) (\<lambda>n.
            bindS (DataContainerInt_setSize [] (size_to_int n)) (\<lambda>dataVec.
            bindS (Reader_getFile r) (\<lambda>f.
            bindS (File_readSingleDatum (ncGetInt E) E f name dataVec) (\<lambda>dataVec.
            returnS (DataContainerInt name dataVec)))))
        | _ \<Rightarrow> Reader_fail E r ''Reader::readFullDatum'' ''Data type not coded for'') (\<lambda>dataContainer.
      returnS (fd\<lparr>fdData := addContainer dataContainer (fdData fd)\<rparr>))))
    else returnS fd)"

definition Reader_readFullData ::
    "('d, 't) env \<Rightarrow> ref \<Rightarrow> 't FileData \<Rightarrow> string list \<Rightarrow> (('d, 't) world, 't FileData) st" where
  "Reader_readFullData E r fd varNames =
    bindS (Reader_isOwner r) (\<lambda>owner.
    if owner then foldS (Reader_readFullDatum E r) varNames fd else returnS fd)"

definition Reader_readAllData ::
    "('d, 't) env \<Rightarrow> ref \<Rightarrow> 't FileData \<Rightarrow> (('d, 't) world, 't FileData) st" where
  "Reader_readAllData E r fd =
    bindS (Reader_isOwner r) (\<lambda>owner.
    if owner then Reader_readFullData E r fd (getVariableNames (fdMetadata fd)) else returnS fd)"

text \<open>The coordinate containers come in the order of the container map, not of \<open>coordNames\<close>.\<close>

definition Reader_getCoordData ::
    "('d, 't) env \<Rightarrow> ref \<Rightarrow> 't FileData \<Rightarrow> string list \<Rightarrow>
     (('d, 't) world, DataContainerBase list) st" where
  "Reader_getCoordData E r fd coordNames =
    (if length coordNames = 2 then
      bindS (Reader_isOwner r) (\<lambda>owner.
      returnS (if owner then
        fold (\<lambda>dataPair coordContainers.
            if findInVector coordNames (fst dataPair) = True
            then coordContainers @ [snd dataPair] else coordContainers)
          (entries (dataContainers (fdData fd))) []
        else []))
     else Reader_fail E r ''Reader::getCoordData'' ''Incorrect number of coordinate axes'')"

section \<open>What the operations keep\<close>

context world_invariant
begin

lemma Reader_isOwner_kept [keeps_intros]: "keepsS I (Reader_isOwner r)"
  unfolding Reader_isOwner_def by (intro keeps_intros)

lemma Reader_getFile_kept [keeps_intros]: "keepsS I (Reader_getFile r)"
  unfolding Reader_getFile_def by (intro keeps_intros)

lemma Reader_fail_kept [keeps_intros]: "keepsS I (Reader_fail E r who what)"
  unfolding Reader_fail_def by (intro keeps_intros)

end

lemma keepsS_eDataTypes:
  assumes "keepsS I a" and "keepsS I b" and "keepsS I c" and "keepsS I d"
  shows "keepsS I (case t of eDouble \<Rightarrow> a | eFloat \<Rightarrow> b | eInt \<Rightarrow> c | _ \<Rightarrow> d)"
  using assms by (cases t) simp_all

context world_invariant
begin

lemma reader_kept [keeps_intros]:
  "keepsS I (Reader_readMetadata E r fd)"
  "keepsS I (Reader_findTimeStep E r fd t)"
  "keepsS I (Reader_readDatumAtTimeStep E r fd n ts dn)"
  "keepsS I (Reader_readFullDatum E r n fd)"
  "keepsS I (Reader_getCoordData E r fd ns)"
  unfolding Reader_readMetadata_def Reader_findTimeStep_def Reader_readDatumAtTimeStep_def
    Reader_readFullDatum_def Reader_getCoordData_def
  by (intro keeps_intros keepsS_eDataTypes)+

lemma reader_loops_kept [keeps_intros]:
  "keepsS I (Reader_readDatumAtTime E r fd n t dn)"
  "keepsS I (Reader_readFullData E r fd ns)"
  "keepsS I (Reader_readAllData E r fd)"
  unfolding Reader_readDatumAtTime_def Reader_readFullData_def Reader_readAllData_def
  by (intro keeps_intros)+

end

section \<open>Only the owner reads\<close>

lemma Reader_isOwner_apply:
  "r < length (readerHeap w) \<Longrightarrow> Reader_isOwner r w = (Inr (mpiRank w = rdOwner (readerHeap w ! r)), w)"
  by (simp add: Reader_isOwner_def st_simps)

lemma bindS_isOwner:
  "r < length (readerHeap w) \<Longrightarrow>
   bindS (Reader_isOwner r) f w = f (mpiRank w = rdOwner (readerHeap w ! r)) w"
  by (simp add: bindS_Inr [OF Reader_isOwner_apply])

text \<open>
  On a PE that is not the owner, no reading operation does anything: the file data comes back
  as it was, no call leaves the program, and no error can arise.
\<close>

lemma Reader_other_ranks:
  assumes "r < length (readerHeap w)" and "mpiRank w \<noteq> rdOwner (readerHeap w ! r)"
  shows "Reader_readMetadata E r fd w = (Inr fd, w) \<and>
    Reader_readDatumAtTime E r fd name t dimName w = (Inr fd, w) \<and>
    Reader_readFullDatum E r name fd w = (Inr fd, w) \<and>
    Reader_readFullData E r fd names w = (Inr fd, w) \<and>
    Reader_readAllData E r fd w = (Inr fd, w)"
  using assms by (simp add: Reader_readMetadata_def Reader_readDatumAtTime_def Reader_readFullDatum_def
      Reader_readFullData_def Reader_readAllData_def bindS_isOwner returnS_apply)

section \<open>Time steps\<close>

lemma searchTimeStep_result:
  "searchTimeStep t ts k = (if t \<in> set ts then Some (k + of_nat (std_find ts t)) else None)"
  by (induction ts arbitrary: k) (auto simp: algebra_simps)

lemma Reader_fail_quiet:
  assumes "closeQuiet E" and "wf_world w" and "r < length (readerHeap w)"
  shows "\<exists>w'. Reader_fail E r who what w = (Inl (RuntimeError who what), w') \<and>
    readerSlot r w' = None \<and> aborted w'"
proof -
  obtain w1 where close: "Reader_closeFile E r w = (Inr (), w1)"
    using Reader_closeFile_quiet [OF assms] by blast
  have "readerSlot r w1 = None"
    using Reader_closeFile_clears [OF assms(2,3) close] .
  with close show ?thesis
    by (auto simp: Reader_fail_def st_simps bindS_Inr throwException_apply readerSlot_def)
qed

lemma Reader_fail_bind [st_simps]: "bindS (Reader_fail E r who what) f = Reader_fail E r who what"
  by (simp add: Reader_fail_def st_simps)

lemma Reader_fail_what:
  assumes "closeQuiet E" and "wf_world w" and "r < length (readerHeap w)"
  shows "\<exists>what' w'. Reader_fail E r who what w = (Inl (RuntimeError who what'), w') \<and>
    readerSlot r w' = None \<and> aborted w'"
  using Reader_fail_quiet [OF assms] by blast

text \<open>
  C18: \<open>findTimeStep\<close> returns the index of the first date-time of the file that equals the wanted one;
  with no such date-time, or none at all, it closes the file, aborts and throws.
\<close>

theorem Reader_findTimeStep_first:
  assumes "closeQuiet E" and "wf_world w" and "r < length (readerHeap w)"
    and "length (fdDateTimes fd) < 2 ^ 31"
  shows "if t \<in> set (fdDateTimes fd)
    then \<exists>k. Reader_findTimeStep E r fd t w = (Inr k, w) \<and> unat k < length (fdDateTimes fd) \<and>
        fdDateTimes fd ! unat k = t \<and> (\<forall>i < unat k. fdDateTimes fd ! i \<noteq> t)
    else \<exists>what w'. Reader_findTimeStep E r fd t w = (Inl (RuntimeError ''Reader::findTimeStep'' what), w') \<and>
        readerSlot r w' = None \<and> aborted w'"
proof (cases "t \<in> set (fdDateTimes fd)")
  case True
  let ?i = "std_find (fdDateTimes fd) t"
  have less: "?i < length (fdDateTimes fd)"
    using True std_find_le [of "fdDateTimes fd" t] by (simp add: std_find_end le_neq_implies_less)
  then have "unat (of_nat ?i :: size_t) = ?i"
    using assms(4) by (intro unat_of_nat_size) simp
  moreover have "Reader_findTimeStep E r fd t w = (Inr (of_nat ?i), w)"
    using True by (cases "fdDateTimes fd = []")
      (simp_all add: Reader_findTimeStep_def st_simps searchTimeStep_result)
  ultimately have "\<exists>k. Reader_findTimeStep E r fd t w = (Inr k, w) \<and> unat k < length (fdDateTimes fd) \<and>
        fdDateTimes fd ! unat k = t \<and> (\<forall>i < unat k. fdDateTimes fd ! i \<noteq> t)"
    using less std_find_nth [OF less] std_find_least [of _ "fdDateTimes fd" t]
    by (intro exI [of _ "of_nat ?i"]) simp
  then show ?thesis using True by simp
next
  case False
  then have "searchTimeStep t (fdDateTimes fd) 0 = None" by (simp add: searchTimeStep_result)
  then show ?thesis
    using False by (cases "fdDateTimes fd = []")
      (simp_all add: Reader_findTimeStep_def st_simps Reader_fail_what [OF assms(1-3)])
qed

section \<open>Reading data\<close>

text \<open>The reader of this PE has an open file with handle \<open>h\<close>.\<close>

definition reading :: "ref \<Rightarrow> nat \<Rightarrow> ('d, 't) world \<Rightarrow> bool" where
  "reading r h w \<longleftrightarrow> r < length (readerHeap w) \<and> mpiRank w = rdOwner (readerHeap w ! r) \<and>
    (case readerSlot r w of
      None \<Rightarrow> False
    | Some f \<Rightarrow> f < length (fileHeap w) \<and> fiMode (fileHeap w ! f) = nc_read \<and>
                fiDataFile (fileHeap w ! f) = Some h)"

lemma readingE:
  assumes "reading r h w"
  obtains f where "Reader_isOwner r w = (Inr True, w)" and "Reader_getFile r w = (Inr f, w)"
    and "f < length (fileHeap w)" and "fiMode (fileHeap w ! f) = nc_read"
    and "fiDataFile (fileHeap w ! f) = Some h"
proof -
  have r: "r < length (readerHeap w)" "mpiRank w = rdOwner (readerHeap w ! r)"
    using assms by (simp_all add: reading_def)
  obtain f where f: "readerSlot r w = Some f" "f < length (fileHeap w)"
      "fiMode (fileHeap w ! f) = nc_read" "fiDataFile (fileHeap w ! f) = Some h"
    using assms by (auto simp: reading_def split: option.splits)
  then have "Reader_getFile r w = (Inr f, w)"
    using r by (simp add: Reader_getFile_def st_simps readerSlot_def)
  then show ?thesis using that f Reader_isOwner_apply [OF r(1)] r(2) by simp
qed

lemma fillBuffer_exact: "length values = length buf \<Longrightarrow> fillBuffer buf values = returnS values"
  by (simp add: fillBuffer_def)

lemma File_readSingleDatum_exact:
  assumes "f < length (fileHeap w)" and "fiMode (fileHeap w ! f) = nc_read"
    and "fiDataFile (fileHeap w ! f) = Some h"
    and "getVar h name (outside w) = (Inr values, d)" and "length values = length buf"
  shows "File_readSingleDatum getVar E f name buf w = (Inr values, w\<lparr>outside := d\<rparr>)"
  using assms by (simp add: File_readSingleDatum_def File_reading_def st_simps
      bindS_Inr [OF File_getFile_open] bindS_Inr [OF callS_Inr] fillBuffer_exact)

lemma File_readFieldDatum_exact:
  assumes "f < length (fileHeap w)" and "fiMode (fileHeap w ! f) = nc_read"
    and "fiDataFile (fileHeap w ! f) = Some h"
    and "getVar h name start count (outside w) = (Inr values, d)" and "length values = length buf"
  shows "File_readFieldDatum getVar E f name start count buf w = (Inr values, w\<lparr>outside := d\<rparr>)"
  using assms by (simp add: File_readFieldDatum_def File_reading_def st_simps
      bindS_Inr [OF File_getFile_open] bindS_Inr [OF callS_Inr] fillBuffer_exact)

lemma totalSize_small:
  assumes "(\<Prod>d\<leftarrow>ds. unat (snd d)) < 2 ^ 31"
  shows "totalSize ds 1 = of_nat (\<Prod>d\<leftarrow>ds. unat (snd d))"
proof -
  have "unat (totalSize ds 1) = (\<Prod>d\<leftarrow>ds. unat (snd d))"
    using assms by (simp add: totalSize_unat)
  then show ?thesis by (metis of_nat_unat ucast_id)
qed

lemma Variable_get_apply:
  assumes "v < length (varHeap w)"
  shows "Variable_getType v w = (Inr (varType (varHeap w ! v)), w)"
    and "Variable_getTotalSize v w = (Inr (totalSize (varDims (varHeap w ! v)) 1), w)"
    and "Variable_getDimensionsMap v w = (Inr (varDims (varHeap w ! v)), w)"
  using assms by (simp_all add: Variable_getType_def Variable_getTotalSize_def
      Variable_getDimensionsMap_def st_simps)

text \<open>The values NetCDF returns, as many as the variable's dimensions give, become the container.\<close>

lemma Reader_readFullDatum_run:
  assumes "reading r h w" and "smap_find (mdVariables (fdMetadata fd)) name = Some v"
    and "v < length (varHeap w)" and "n = (\<Prod>x\<leftarrow>varDims (varHeap w ! v). unat (snd x))" and "n < 2 ^ 31"
  shows "varType (varHeap w ! v) = eDouble \<Longrightarrow> ncGetDouble E h name (outside w) = (Inr ds, d) \<Longrightarrow> length ds = n \<Longrightarrow>
      Reader_readFullDatum E r name fd w =
        (Inr (fd\<lparr>fdData := addContainer (DataContainerDouble name ds) (fdData fd)\<rparr>), w\<lparr>outside := d\<rparr>)"
    and "varType (varHeap w ! v) = eFloat \<Longrightarrow> ncGetFloat E h name (outside w) = (Inr fs, d) \<Longrightarrow> length fs = n \<Longrightarrow>
      Reader_readFullDatum E r name fd w =
        (Inr (fd\<lparr>fdData := addContainer (DataContainerFloat name fs) (fdData fd)\<rparr>), w\<lparr>outside := d\<rparr>)"
    and "varType (varHeap w ! v) = eInt \<Longrightarrow> ncGetInt E h name (outside w) = (Inr ks, d) \<Longrightarrow> length ks = n \<Longrightarrow>
      Reader_readFullDatum E r name fd w =
        (Inr (fd\<lparr>fdData := addContainer (DataContainerInt name ks) (fdData fd)\<rparr>), w\<lparr>outside := d\<rparr>)"
proof -
  obtain f where f: "Reader_isOwner r w = (Inr True, w)" "Reader_getFile r w = (Inr f, w)"
      "f < length (fileHeap w)" "fiMode (fileHeap w ! f) = nc_read" "fiDataFile (fileHeap w ! f) = Some h"
    using assms(1) by (rule readingE)
  have size: "size_to_int (totalSize (varDims (varHeap w ! v)) 1) = of_nat n"
    using assms(4,5) by (simp add: totalSize_small)
  note parts = bindS_Inr getVariable_def Variable_get_apply st_simps
  show "Reader_readFullDatum E r name fd w =
        (Inr (fd\<lparr>fdData := addContainer (DataContainerDouble name ds) (fdData fd)\<rparr>), w\<lparr>outside := d\<rparr>)"
    if "varType (varHeap w ! v) = eDouble" "ncGetDouble E h name (outside w) = (Inr ds, d)" "length ds = n"
    using assms that f size File_readSingleDatum_exact [where getVar = "ncGetDouble E" and E = E and
        buf = "replicate n (FNum 0)", OF f(3-5) that(2)]
    by (simp add: Reader_readFullDatum_def parts)
  show "Reader_readFullDatum E r name fd w =
        (Inr (fd\<lparr>fdData := addContainer (DataContainerFloat name fs) (fdData fd)\<rparr>), w\<lparr>outside := d\<rparr>)"
    if "varType (varHeap w ! v) = eFloat" "ncGetFloat E h name (outside w) = (Inr fs, d)" "length fs = n"
    using assms that f size File_readSingleDatum_exact [where getVar = "ncGetFloat E" and E = E and
        buf = "replicate n (FNum 0)", OF f(3-5) that(2)]
    by (simp add: Reader_readFullDatum_def parts)
  show "Reader_readFullDatum E r name fd w =
        (Inr (fd\<lparr>fdData := addContainer (DataContainerInt name ks) (fdData fd)\<rparr>), w\<lparr>outside := d\<rparr>)"
    if "varType (varHeap w ! v) = eInt" "ncGetInt E h name (outside w) = (Inr ks, d)" "length ks = n"
    using assms that f size File_readSingleDatum_exact [where getVar = "ncGetInt E" and E = E and
        buf = "replicate n 0", OF f(3-5) that(2)]
    by (simp add: Reader_readFullDatum_def parts)
qed

text \<open>
  Reading a whole variable of type double from an open file adds one container, named after the
  variable and holding exactly the values NetCDF returned, when their number is the product of the
  variable's dimensions (below \<open>2\<^sup>3\<^sup>1\<close>).
\<close>

lemma Reader_readFullDatum_double:
  assumes "reading r h w" and "smap_find (mdVariables (fdMetadata fd)) name = Some v"
    and "v < length (varHeap w)" and "varType (varHeap w ! v) = eDouble"
    and "ncGetDouble E h name (outside w) = (Inr values, d)"
    and "length values = (\<Prod>x\<leftarrow>varDims (varHeap w ! v). unat (snd x))" and "length values < 2 ^ 31"
  shows "Reader_readFullDatum E r name fd w =
    (Inr (fd\<lparr>fdData := addContainer (DataContainerDouble name values) (fdData fd)\<rparr>), w\<lparr>outside := d\<rparr>)"
  using Reader_readFullDatum_run(1) [OF assms(1-3,6,7,4,5)] by simp

lemma timeSlice_result:
  "timeSlice dn ds (n, start, count) =
    (n * (\<Prod>d\<leftarrow>filter (\<lambda>d. fst d \<noteq> dn) ds. snd d),
     start @ replicate (length (filter (\<lambda>d. fst d \<noteq> dn) ds)) 0,
     count @ map snd (filter (\<lambda>d. fst d \<noteq> dn) ds))"
  by (induction ds arbitrary: n start count) (simp_all add: mult.assoc)

text \<open>
  Reading one time step of a double variable asks NetCDF for the hyperslab that starts at that
  step and at zero elsewhere, and spans one step and the full extent of every dimension but time;
  the values returned, as many as that extent, become the container.
\<close>

lemma Reader_readDatumAtTimeStep_run:
  assumes "reading r h w" and "smap_find (mdVariables (fdMetadata fd)) name = Some v"
    and "v < length (varHeap w)" and "varType (varHeap w ! v) = eDouble"
    and "smap_find (dataContainers (fdData fd)) name = None"
    and "rest = filter (\<lambda>x. fst x \<noteq> timeDim) (varDims (varHeap w ! v))"
    and "ncGetDoubleAt E h name (ts # replicate (length rest) 0) (1 # map snd rest) (outside w) =
         (Inr values, d)"
    and "length values = (\<Prod>x\<leftarrow>rest. unat (snd x))" and "length values < 2 ^ 31"
  shows "Reader_readDatumAtTimeStep E r fd name ts timeDim w =
    (Inr (fd\<lparr>fdData := addContainer (DataContainerDouble name values) (fdData fd)\<rparr>), w\<lparr>outside := d\<rparr>)"
proof -
  obtain f where f: "Reader_isOwner r w = (Inr True, w)" "Reader_getFile r w = (Inr f, w)"
      "f < length (fileHeap w)" "fiMode (fileHeap w ! f) = nc_read" "fiDataFile (fileHeap w ! f) = Some h"
    using assms(1) by (rule readingE)
  have "(\<Prod>x\<leftarrow>rest. snd x) = of_nat (length values)"
    using totalSize_small [of rest] assms(8,9) by (simp add: totalSize_prod)
  then have slice: "timeSlice timeDim (varDims (varHeap w ! v)) (1, [ts], [1]) =
      (of_nat (length values), ts # replicate (length rest) 0, 1 # map snd rest)"
    by (simp add: timeSlice_result assms(6) [symmetric])
  show ?thesis
    using assms(2-5,9) f File_readFieldDatum_exact [where getVar = "ncGetDoubleAt E" and E = E and
        buf = "replicate (length values) (FNum 0)", OF f(3-5) assms(7)]
    by (simp add: Reader_readDatumAtTimeStep_def bindS_Inr getVariable_def Variable_get_apply st_simps
        isContainerPresent_def slice)
qed

text \<open>
  C37: the start vector of that request has as many entries as the variable has dimensions exactly
  when the time dimension is one of them. For a variable without it the request has one entry too
  many.
\<close>

theorem timeSlice_rank:
  assumes "wf_variable v"
  shows "case timeSlice timeDim (varDims v) (1, [ts], [1]) of (n, start, count) \<Rightarrow>
    length count = length start \<and>
    (length start = length (varDims v) \<longleftrightarrow> timeDim \<in> fst ` set (varDims v))"
proof -
  have "Suc (length (filter (\<lambda>d. fst d \<noteq> timeDim) ds)) = length ds \<longleftrightarrow> timeDim \<in> fst ` set ds"
    if "distinct (map fst ds)" for ds :: "(string \<times> size_t) list"
    using that
  proof (induction ds)
    case (Cons d ds)
    have "length (filter (\<lambda>d. fst d \<noteq> timeDim) ds) = length ds" if "timeDim \<notin> fst ` set ds"
      using that by (intro arg_cong [where f = length] filter_True) (auto simp: image_iff)
    then show ?case using Cons by auto
  qed simp
  then show ?thesis using assms by (simp add: timeSlice_result wf_variable_def)
qed

section \<open>Coordinates\<close>

lemma fold_collect_snd:
  "fold (\<lambda>e acc. if P (fst e) then acc @ [snd e] else acc) es acc = acc @ map snd (filter (P \<circ> fst) es)"
  by (induction es arbitrary: acc) simp_all

lemma Reader_getCoordData_run:
  assumes "r < length (readerHeap w)" and "mpiRank w = rdOwner (readerHeap w ! r)"
    and "smap_find (dataContainers (fdData fd)) ''Mesh2d_face_x'' = Some cx"
    and "smap_find (dataContainers (fdData fd)) ''Mesh2d_face_y'' = Some cy"
  shows "Reader_getCoordData E r fd kLfricCoordVarNames w = (Inr [cx, cy], w)"
proof -
  let ?es = "entries (dataContainers (fdData fd))"
  let ?fs = "filter ((\<lambda>k. k \<in> set kLfricCoordVarNames) \<circ> fst) ?es"
  have "?fs = [(''Mesh2d_face_x'', cx), (''Mesh2d_face_y'', cy)]"
  proof (rule ordered_alist_eqI)
    show "sorted_wrt (<) (map fst ?fs)" by (simp add: sorted_filter_keys sorted_entries)
    have dist: "distinct (map fst ?fs)"
      using sorted_entries [of "dataContainers (fdData fd)"]
      by (simp add: strict_sorted_fst distinct_map_fst_filter)
    have "map_of ?fs k = map_of [(''Mesh2d_face_x'', cx), (''Mesh2d_face_y'', cy)] k" for k
    proof (cases "map_of ?fs k")
      case None
      then show ?thesis
        using assms(3,4) by (auto simp: map_of_eq_None_iff image_iff in_entries_iff kLfricCoordVarNames_def
            kLfricLonVarName_def kLfricLatVarName_def)
    next
      case (Some c)
      then have "(k, c) \<in> set ?fs" by (rule map_of_SomeD)
      then show ?thesis
        using assms(3,4) Some by (auto simp: in_entries_iff kLfricCoordVarNames_def kLfricLonVarName_def
            kLfricLatVarName_def)
    qed
    then show "map_of ?fs = map_of [(''Mesh2d_face_x'', cx), (''Mesh2d_face_y'', cy)]" by (rule ext)
  qed (simp add: less_char_def)
  moreover have "length kLfricCoordVarNames = 2" by (simp add: kLfricCoordVarNames_def)
  ultimately show ?thesis
    using assms(1,2) fold_collect_snd [of "\<lambda>k. k \<in> set kLfricCoordVarNames" ?es "[]"]
    by (simp add: Reader_getCoordData_def bindS_isOwner returnS_apply)
qed


end
