(* ===== verification/Writers.thy ===== *)
theory Writers
  imports Nc_Files
begin

text \<open>
  \<open>src/monio/Writer.cc\<close>: writing the metadata and the data of a \<open>FileData\<close>, on the PE of the
  owner's rank only.
\<close>

definition Writer_writeMetadata ::
    "('d, 't) env \<Rightarrow> ref \<Rightarrow> Metadata \<Rightarrow> (('d, 't) world, unit) st" where
  "Writer_writeMetadata E r m = Writer_onOwner r (
    bindS (Writer_getFile r) (\<lambda>f. File_writeMetadata E f m))"

text \<open>A container is one of three classes, so the switch over its type has no other case.\<close>

definition Writer_writeData ::
    "('d, 't) env \<Rightarrow> ref \<Rightarrow> 't FileData \<Rightarrow> (('d, 't) world, unit) st" where
  "Writer_writeData E r fd = Writer_onOwner r (
    forS (entries (dataContainers (fdData fd))) (\<lambda>dataContainerPair.
      bindS (getVariable E (fdMetadata fd) (fst dataContainerPair)) (\<lambda>_.
      bindS (Writer_getFile r) (\<lambda>f.
      case snd dataContainerPair of
        DataContainerDouble _ dataVec \<Rightarrow>
          File_writeSingleDatum (ncPutDouble E) E f (fst dataContainerPair) dataVec
      | DataContainerFloat _ dataVec \<Rightarrow>
          File_writeSingleDatum (ncPutFloat E) E f (fst dataContainerPair) dataVec
      | DataContainerInt _ dataVec \<Rightarrow>
          File_writeSingleDatum (ncPutInt E) E f (fst dataContainerPair) dataVec))))"

section \<open>Facts\<close>

context world_invariant
begin

lemma Writer_getFile_kept [keeps_intros]: "keepsS I (Writer_getFile r)"
  unfolding Writer_getFile_def by (intro keeps_intros)

lemma Writer_onOwner_kept [keeps_intros]:
  "keepsS I body \<Longrightarrow> keepsS I (Writer_onOwner r body)"
  unfolding Writer_onOwner_def by (intro keeps_intros)

lemma writer_kept [keeps_intros]:
  "keepsS I (Writer_writeMetadata E r m)"
  "keepsS I (Writer_writeData E r fd)"
  unfolding Writer_writeMetadata_def Writer_writeData_def by (intro keeps_intros)+

end

lemma Writer_onOwner_apply:
  "r < length (writerHeap w) \<Longrightarrow>
   Writer_onOwner r body w = (if mpiRank w = wrOwner (writerHeap w ! r) then body w else (Inr (), w))"
  by (simp add: Writer_onOwner_def st_simps)

lemma forS_InrD:
  "forS xs f w = (Inr (), w') \<Longrightarrow> x \<in> set xs \<Longrightarrow> \<exists>w1 w2. f x w1 = (Inr (), w2)"
proof (induction xs arbitrary: w)
  case (Cons y ys)
  from Cons.prems(1) obtain w1 where "f y w = (Inr (), w1)" and "forS ys f w1 = (Inr (), w')"
    by (auto simp: st_simps elim: bindS_InrE)
  then show ?case using Cons by (cases "x = y") auto
qed simp

text \<open>
  \<open>writeData\<close> returns on the owner's PE only when every container it wrote has a variable of its
  name in the metadata; on another PE it does nothing.
\<close>

lemma Writer_writeData_known_variables:
  assumes "r < length (writerHeap w)" and "Writer_writeData E r fd w = (Inr (), w')"
  shows "if mpiRank w = wrOwner (writerHeap w ! r)
    then dom (smap_find (dataContainers (fdData fd))) \<subseteq> dom (smap_find (mdVariables (fdMetadata fd)))
    else w' = w"
proof (cases "mpiRank w = wrOwner (writerHeap w ! r)")
  case True
  have "smap_find (mdVariables (fdMetadata fd)) k \<noteq> None"
    if "smap_find (dataContainers (fdData fd)) k = Some c" for k c
  proof -
    have "(k, c) \<in> set (entries (dataContainers (fdData fd)))"
      using that by (simp add: in_entries_iff)
    with assms True obtain x w1 w2 where "getVariable E (fdMetadata fd) k w1 = (Inr x, w2)"
      by (auto simp: Writer_writeData_def Writer_onOwner_apply elim!: bindS_InrE dest!: forS_InrD)
    then show ?thesis by (auto simp: getVariable_def failS_not_Inr split: option.splits)
  qed
  then show ?thesis using True by auto
qed (use assms in \<open>simp add: Writer_writeData_def Writer_onOwner_apply\<close>)

end
