(* ===== verification/Nc_Contents.thy ===== *)
theory Nc_Contents
  imports Invariants
begin

text \<open>
  What NetCDF's documentation says of a file's metadata, as a hypothesis that theorems can name:
  the contents of the file behind an open handle, what the calls that define dimensions, variables
  and attributes do to them, and what the calls that ask for them return. The lists are in key
  order, as the multimaps of the C++ interface are.
\<close>

record NcContents =
  ctPath :: string
  ctDims :: "(string \<times> size_t) list"
  ctVars :: "(string \<times> NcVar) list"
  ctAtts :: "(string \<times> NcAtt) list"

definition emptyContents :: "string \<Rightarrow> NcContents" where
  "emptyContents path = \<lparr>ctPath = path, ctDims = [], ctVars = [], ctAtts = []\<rparr>"

text \<open>The type a name stands for, for the types the program defines variables with.\<close>

definition typeNamed :: "string \<Rightarrow> NcType option" where
  "typeNamed typeName = (if typeName = ''double'' then Some nc_DOUBLE else if typeName = ''float'' then Some nc_FLOAT
    else if typeName = ''int'' then Some nc_INT else None)"

text \<open>An attribute holds a value when it has its type and the matching \<open>getValues\<close> gives it back.\<close>

primrec attHolds :: "NcAtt \<Rightarrow> PutValue \<Rightarrow> bool" where
  "attHolds a (PutDouble x) \<longleftrightarrow> attType a = nc_DOUBLE \<and> attDoubles a = [x]"
| "attHolds a (PutInt i) \<longleftrightarrow> attType a = nc_INT \<and> attInts a = [i]"
| "attHolds a (PutText t) \<longleftrightarrow> attType a = nc_CHAR \<and> attText a = t"

definition blankVar :: "string \<Rightarrow> NcType \<Rightarrow> string list \<Rightarrow> NcContents \<Rightarrow> NcVar" where
  "blankVar name t dimNames c = \<lparr>ncVarName = name, ncVarType = t,
    ncVarDims = map (\<lambda>n. (n, the (map_of (ctDims c) n))) dimNames, ncVarAtts = []\<rparr>"

text \<open>
  \<open>view h d\<close> are the contents behind handle \<open>h\<close>, and \<open>att name value\<close> the attribute that putting a
  value makes.
\<close>

type_synonym 'd contents_view = "nat \<Rightarrow> 'd \<Rightarrow> NcContents option"

definition asksContents :: "('d, 't) env \<Rightarrow> 'd contents_view \<Rightarrow> bool" where
  "asksContents E view \<longleftrightarrow> (\<forall>h d c. view h d = Some c \<longrightarrow> ncGetDims E h d = (Inr (ctDims c), d) \<and>
    ncGetVars E h d = (Inr (ctVars c), d) \<and> ncGetAtts E h d = (Inr (ctAtts c), d))"

definition addsDims :: "('d, 't) env \<Rightarrow> 'd contents_view \<Rightarrow> bool" where
  "addsDims E view \<longleftrightarrow> (\<forall>h d c name n. view h d = Some c \<longrightarrow> map_of (ctDims c) name = None \<longrightarrow>
    (\<exists>d'. ncAddDim E h name n d = (Inr (), d') \<and>
      view h d' = Some (c\<lparr>ctDims := put_entry name n (ctDims c)\<rparr>)))"

definition addsVars :: "('d, 't) env \<Rightarrow> 'd contents_view \<Rightarrow> bool" where
  "addsVars E view \<longleftrightarrow> (\<forall>h d c name typeName t dimNames. view h d = Some c \<longrightarrow>
    map_of (ctVars c) name = None \<longrightarrow> typeNamed typeName = Some t \<longrightarrow>
    (\<forall>n \<in> set dimNames. map_of (ctDims c) n \<noteq> None) \<longrightarrow>
    (\<exists>d'. ncAddVar E h name typeName dimNames d = (Inr (), d') \<and>
      view h d' = Some (c\<lparr>ctVars := put_entry name (blankVar name t dimNames c) (ctVars c)\<rparr>)))"

definition putsAtts :: "('d, 't) env \<Rightarrow> 'd contents_view \<Rightarrow> (string \<Rightarrow> PutValue \<Rightarrow> NcAtt) \<Rightarrow> bool" where
  "putsAtts E view att \<longleftrightarrow> (\<forall>h d c name val. view h d = Some c \<longrightarrow>
    (\<exists>d'. ncPutAtt E h None name val d = (Inr (), d') \<and>
      view h d' = Some (c\<lparr>ctAtts := put_entry name (att name val) (ctAtts c)\<rparr>)))"

definition putsVarAtts :: "('d, 't) env \<Rightarrow> 'd contents_view \<Rightarrow> (string \<Rightarrow> PutValue \<Rightarrow> NcAtt) \<Rightarrow> bool" where
  "putsVarAtts E view att \<longleftrightarrow> (\<forall>h d c var v name val. view h d = Some c \<longrightarrow> map_of (ctVars c) var = Some v \<longrightarrow>
    (\<exists>d'. ncPutAtt E h (Some var) name val d = (Inr (), d') \<and>
      view h d' = Some (c\<lparr>ctVars := put_entry var
        (v\<lparr>ncVarAtts := put_entry name (att name val) (ncVarAtts v)\<rparr>) (ctVars c)\<rparr>)))"

definition makesAtts :: "(string \<Rightarrow> PutValue \<Rightarrow> NcAtt) \<Rightarrow> bool" where
  "makesAtts att \<longleftrightarrow> (\<forall>name val. attName (att name val) = name \<and> attHolds (att name val) val)"

definition ncStore ::
    "('d, 't) env \<Rightarrow> 'd contents_view \<Rightarrow> (string \<Rightarrow> PutValue \<Rightarrow> NcAtt) \<Rightarrow> bool" where
  "ncStore E view att \<longleftrightarrow> makesAtts att \<and> asksContents E view \<and> addsDims E view \<and> addsVars E view \<and>
    putsAtts E view att \<and> putsVarAtts E view att"

lemma ncStore_att: "ncStore E view att \<Longrightarrow> attName (att name val) = name \<and> attHolds (att name val) val"
  by (simp add: ncStore_def makesAtts_def)

lemma ncStore_get:
  "ncStore E view att \<Longrightarrow> view h d = Some c \<Longrightarrow> ncGetDims E h d = (Inr (ctDims c), d) \<and>
   ncGetVars E h d = (Inr (ctVars c), d) \<and> ncGetAtts E h d = (Inr (ctAtts c), d)"
  by (simp add: ncStore_def asksContents_def)

lemma ncStore_addDim:
  "ncStore E view att \<Longrightarrow> view h d = Some c \<Longrightarrow> map_of (ctDims c) name = None \<Longrightarrow>
   \<exists>d'. ncAddDim E h name n d = (Inr (), d') \<and> view h d' = Some (c\<lparr>ctDims := put_entry name n (ctDims c)\<rparr>)"
  by (simp add: ncStore_def addsDims_def)

lemma ncStore_addVar:
  "ncStore E view att \<Longrightarrow> view h d = Some c \<Longrightarrow> map_of (ctVars c) name = None \<Longrightarrow>
   typeNamed typeName = Some t \<Longrightarrow> \<forall>n \<in> set dimNames. map_of (ctDims c) n \<noteq> None \<Longrightarrow>
   \<exists>d'. ncAddVar E h name typeName dimNames d = (Inr (), d') \<and>
     view h d' = Some (c\<lparr>ctVars := put_entry name (blankVar name t dimNames c) (ctVars c)\<rparr>)"
  unfolding ncStore_def addsVars_def by blast

lemma ncStore_putAtt:
  "ncStore E view att \<Longrightarrow> view h d = Some c \<Longrightarrow>
   \<exists>d'. ncPutAtt E h None name val d = (Inr (), d') \<and>
     view h d' = Some (c\<lparr>ctAtts := put_entry name (att name val) (ctAtts c)\<rparr>)"
  by (simp add: ncStore_def putsAtts_def)

lemma ncStore_putVarAtt:
  "ncStore E view att \<Longrightarrow> view h d = Some c \<Longrightarrow> map_of (ctVars c) var = Some v \<Longrightarrow>
   \<exists>d'. ncPutAtt E h (Some var) name val d = (Inr (), d') \<and>
     view h d' = Some (c\<lparr>ctVars := put_entry var
       (v\<lparr>ncVarAtts := put_entry name (att name val) (ncVarAtts v)\<rparr>) (ctVars c)\<rparr>)"
  by (simp add: ncStore_def putsVarAtts_def)

section \<open>Data\<close>

text \<open>
  The values of the variables: \<open>vals h d\<close> are those behind handle \<open>h\<close>. A variable has as many as the
  product of its dimensions; writing them all replaces them and changes nothing else; reading
  returns them. Closing a file and opening it again for reading finds what was written.
\<close>

datatype NcValues = NcDoubles "double list" | NcFloats "float32 list" | NcInts "int32 list"

type_synonym 'd values_view = "nat \<Rightarrow> 'd \<Rightarrow> string \<Rightarrow> NcValues option"

definition varExtent :: "NcVar \<Rightarrow> nat" where
  "varExtent v = (\<Prod>d\<leftarrow>ncVarDims v. unat (snd d))"

definition sizesVars :: "('d, 't) env \<Rightarrow> 'd contents_view \<Rightarrow> bool" where
  "sizesVars E view \<longleftrightarrow> (\<forall>h d c var v. view h d = Some c \<longrightarrow> map_of (ctVars c) var = Some v \<longrightarrow>
    ncVarSize E h var d = (Inr (varExtent v), d))"

definition putsData ::
    "(nat \<Rightarrow> string \<Rightarrow> 'a list \<Rightarrow> ('d, unit) call) \<Rightarrow> NcType \<Rightarrow> ('a list \<Rightarrow> NcValues) \<Rightarrow>
     'd contents_view \<Rightarrow> 'd values_view \<Rightarrow> bool" where
  "putsData put t mk view vals \<longleftrightarrow> (\<forall>h d c var v xs. view h d = Some c \<longrightarrow> map_of (ctVars c) var = Some v \<longrightarrow>
    ncVarType v = t \<longrightarrow> length xs = varExtent v \<longrightarrow>
    (\<exists>d'. put h var xs d = (Inr (), d') \<and> view h d' = Some c \<and> vals h d' = (vals h d)(var \<mapsto> mk xs)))"

definition getsData ::
    "(nat \<Rightarrow> string \<Rightarrow> ('d, 'a list) call) \<Rightarrow> ('a list \<Rightarrow> NcValues) \<Rightarrow> 'd contents_view \<Rightarrow>
     'd values_view \<Rightarrow> bool" where
  "getsData get mk view vals \<longleftrightarrow> (\<forall>h d c var xs. view h d = Some c \<longrightarrow> vals h d var = Some (mk xs) \<longrightarrow>
    get h var d = (Inr xs, d))"

definition reopens :: "('d, 't) env \<Rightarrow> 'd contents_view \<Rightarrow> 'd values_view \<Rightarrow> bool" where
  "reopens E view vals \<longleftrightarrow> (\<forall>h d c. view h d = Some c \<longrightarrow>
    (\<exists>d1 h' d2. ncClose E h d = (Inr (), d1) \<and> ncOpen E (ctPath c) nc_read d1 = (Inr h', d2) \<and>
      view h' d2 = Some c \<and> vals h' d2 = vals h d))"

definition ncData :: "('d, 't) env \<Rightarrow> 'd contents_view \<Rightarrow> 'd values_view \<Rightarrow> bool" where
  "ncData E view vals \<longleftrightarrow> sizesVars E view \<and> reopens E view vals \<and>
    putsData (ncPutDouble E) nc_DOUBLE NcDoubles view vals \<and> getsData (ncGetDouble E) NcDoubles view vals \<and>
    putsData (ncPutFloat E) nc_FLOAT NcFloats view vals \<and> getsData (ncGetFloat E) NcFloats view vals \<and>
    putsData (ncPutInt E) nc_INT NcInts view vals \<and> getsData (ncGetInt E) NcInts view vals"

lemma ncData_size:
  "ncData E view vals \<Longrightarrow> view h d = Some c \<Longrightarrow> map_of (ctVars c) var = Some v \<Longrightarrow>
   ncVarSize E h var d = (Inr (varExtent v), d)"
  by (simp add: ncData_def sizesVars_def)

lemma putsDataE:
  assumes "putsData put t mk view vals" and "view h d = Some c" and "map_of (ctVars c) var = Some v"
    and "ncVarType v = t" and "length xs = varExtent v"
  obtains d' where "put h var xs d = (Inr (), d')" and "view h d' = Some c"
    and "vals h d' = (vals h d)(var \<mapsto> mk xs)"
  using assms unfolding putsData_def by blast

lemma getsDataD:
  "getsData get mk view vals \<Longrightarrow> view h d = Some c \<Longrightarrow> vals h d var = Some (mk xs) \<Longrightarrow> get h var d = (Inr xs, d)"
  by (simp add: getsData_def)

lemma reopensE:
  assumes "ncData E view vals" and "view h d = Some c"
  obtains d1 h' d2 where "ncClose E h d = (Inr (), d1)" and "ncOpen E (ctPath c) nc_read d1 = (Inr h', d2)"
    and "view h' d2 = Some c" and "vals h' d2 = vals h d"
  using assms unfolding ncData_def reopens_def by blast

text \<open>Definitions do not change values, except that a new variable has some.\<close>

definition definesOnly :: "('d, 't) env \<Rightarrow> 'd values_view \<Rightarrow> bool" where
  "definesOnly E vals \<longleftrightarrow>
    (\<forall>h name n d d'. ncAddDim E h name n d = (Inr (), d') \<longrightarrow> vals h d' = vals h d) \<and>
    (\<forall>h name t ds d d' k. ncAddVar E h name t ds d = (Inr (), d') \<longrightarrow> k \<noteq> name \<longrightarrow> vals h d' k = vals h d k) \<and>
    (\<forall>h var name val d d'. ncPutAtt E h var name val d = (Inr (), d') \<longrightarrow> vals h d' = vals h d)"

text \<open>
  A file that is open for reading can be opened for reading once more, and the first handle closed:
  the second finds the same contents. \<open>isRead h d\<close> says that \<open>h\<close> was opened for reading.
\<close>

definition opensAgain ::
    "('d, 't) env \<Rightarrow> 'd contents_view \<Rightarrow> 'd values_view \<Rightarrow> (nat \<Rightarrow> 'd \<Rightarrow> bool) \<Rightarrow> bool" where
  "opensAgain E view vals isRead \<longleftrightarrow>
    (\<forall>p d h d'. ncOpen E p nc_read d = (Inr h, d') \<longrightarrow> isRead h d') \<and>
    (\<forall>h d c. isRead h d \<longrightarrow> view h d = Some c \<longrightarrow>
      (\<exists>h' d1 d2. ncOpen E (ctPath c) nc_read d = (Inr h', d1) \<and> ncClose E h d1 = (Inr (), d2) \<and>
        isRead h' d2 \<and> view h' d2 = Some c \<and> vals h' d2 = vals h d))"

section \<open>Parts of the data\<close>

text \<open>The elements of a hyperslab, in row-major order.\<close>

fun slab :: "nat list \<Rightarrow> nat list \<Rightarrow> nat list \<Rightarrow> 'a list \<Rightarrow> 'a list" where
  "slab (n # ns) (s # ss) (c # cs) xs =
    concat (map (\<lambda>i. slab ns ss cs (take (prod_list ns) (drop (i * prod_list ns) xs))) [s..<s + c])"
| "slab _ _ _ xs = xs"

text \<open>Reading a hyperslab within the bounds of a variable returns its elements.\<close>

definition getsSlabs ::
    "(nat \<Rightarrow> string \<Rightarrow> size_t list \<Rightarrow> size_t list \<Rightarrow> ('d, 'a list) call) \<Rightarrow> ('a list \<Rightarrow> NcValues) \<Rightarrow>
     'd contents_view \<Rightarrow> 'd values_view \<Rightarrow> bool" where
  "getsSlabs get mk view vals \<longleftrightarrow> (\<forall>h d c var v xs start count. view h d = Some c \<longrightarrow>
    map_of (ctVars c) var = Some v \<longrightarrow> vals h d var = Some (mk xs) \<longrightarrow>
    length start = length (ncVarDims v) \<longrightarrow> length count = length (ncVarDims v) \<longrightarrow>
    list_all (\<lambda>(n, s, c). s + c \<le> n)
      (zip (map (\<lambda>x. unat (snd x)) (ncVarDims v)) (zip (map unat start) (map unat count))) \<longrightarrow>
    get h var start count d =
      (Inr (slab (map (\<lambda>x. unat (snd x)) (ncVarDims v)) (map unat start) (map unat count) xs), d))"

definition ncSlabs :: "('d, 't) env \<Rightarrow> 'd contents_view \<Rightarrow> 'd values_view \<Rightarrow> bool" where
  "ncSlabs E view vals \<longleftrightarrow> getsSlabs (ncGetDoubleAt E) NcDoubles view vals \<and>
    getsSlabs (ncGetFloatAt E) NcFloats view vals \<and> getsSlabs (ncGetIntAt E) NcInts view vals"

lemma blocks: "m * P \<le> length xs \<Longrightarrow> concat (map (\<lambda>i. take P (drop (i * P) xs)) [0..<m]) = take (m * P) xs"
proof (induction m)
  case (Suc m)
  have "take (Suc m * P) xs = take (m * P) xs @ take P (drop (m * P) xs)"
    by (simp only: mult_Suc add.commute [of P] take_add)
  then show ?case using Suc by simp
qed simp

lemma slab_whole:
  "length xs = prod_list ns \<Longrightarrow> slab ns (replicate (length ns) 0) ns xs = xs"
proof (induction ns arbitrary: xs)
  case (Cons n ns)
  let ?P = "prod_list ns"
  have "slab (n # ns) (replicate (length (n # ns)) 0) (n # ns) xs = concat (map (\<lambda>i. take ?P (drop (i * ?P) xs)) [0..<n])"
  proof -
    have "slab ns (replicate (length ns) 0) ns (take ?P (drop (i * ?P) xs)) = take ?P (drop (i * ?P) xs)" if "i < n" for i
    proof (rule Cons.IH)
      have "Suc i * ?P \<le> n * ?P" using that by (intro mult_le_mono1) simp
      then show "length (take ?P (drop (i * ?P) xs)) = ?P" using Cons.prems by simp
    qed
    then show ?thesis by (auto intro!: arg_cong [where f = concat])
  qed
  then show ?case using blocks [of n ?P xs] Cons.prems by simp
qed simp

text \<open>One step of the first dimension.\<close>

lemma slab_step:
  assumes "length xs = T * prod_list ns" and "t < T"
  shows "slab (T # ns) (t # replicate (length ns) 0) (1 # ns) xs = take (prod_list ns) (drop (t * prod_list ns) xs)"
proof -
  have "Suc t * prod_list ns \<le> T * prod_list ns" using assms(2) by (intro mult_le_mono1) simp
  then have "length (take (prod_list ns) (drop (t * prod_list ns) xs)) = prod_list ns" using assms(1) by simp
  then show ?thesis by (simp add: slab_whole)
qed

section \<open>Loops that act outside\<close>

text \<open>A loop whose rounds change nothing but \<open>outside\<close>.\<close>

lemma forS_outside:
  assumes "P [] (outside w)"
    and "\<And>ys x zs d. xs = ys @ x # zs \<Longrightarrow> P ys d \<Longrightarrow>
      \<exists>d'. f x (w\<lparr>outside := d\<rparr>) = (Inr (), w\<lparr>outside := d'\<rparr>) \<and> P (ys @ [x]) d'"
  shows "\<exists>d. forS xs f w = (Inr (), w\<lparr>outside := d\<rparr>) \<and> P xs d"
proof -
  let ?Q = "\<lambda>ys w'. \<exists>d. w' = w\<lparr>outside := d\<rparr> \<and> P ys d"
  have "w = w\<lparr>outside := outside w\<rparr>" by simp
  then have "?Q [] w" using assms(1) by blast
  then have "\<exists>w'. forS xs f w = (Inr (), w') \<and> ?Q xs w'"
    by (rule forS_rounds) (use assms(2) in blast)
  then show ?thesis by blast
qed

end
