(* ===== verification/Metadata_Round_Trip.thy ===== *)
theory Metadata_Round_Trip
  imports Nc_Files Nc_Contents
begin

text \<open>
  Writing the metadata of a file and reading it back: what \<open>File::writeMetadata\<close> leaves in an empty
  file, and what \<open>File::readMetadata\<close> makes of such contents, under NetCDF's documented behaviour
  \<open>ncStore\<close>.
\<close>

section \<open>What is written\<close>

fun ncTypeOf :: "eDataTypes \<Rightarrow> NcType option" where
  "ncTypeOf eDouble = Some nc_DOUBLE"
| "ncTypeOf eFloat = Some nc_FLOAT"
| "ncTypeOf eInt = Some nc_INT"
| "ncTypeOf _ = None"

definition attsOf :: "(string \<Rightarrow> PutValue \<Rightarrow> NcAtt) \<Rightarrow> (string, AttributeBase) smap \<Rightarrow> (string \<times> NcAtt) list" where
  "attsOf att as = map (\<lambda>e. (fst e, att (fst e) (putValue (snd e)))) (entries as)"

definition ncVarOf :: "(string \<Rightarrow> PutValue \<Rightarrow> NcAtt) \<Rightarrow> Variable \<Rightarrow> NcVar" where
  "ncVarOf att v = \<lparr>ncVarName = varName v, ncVarType = the (ncTypeOf (varType v)), ncVarDims = varDims v,
    ncVarAtts = attsOf att (varAttrs v)\<rparr>"

definition contentsOf :: "string \<Rightarrow> (string \<Rightarrow> PutValue \<Rightarrow> NcAtt) \<Rightarrow> Variable list \<Rightarrow> Metadata \<Rightarrow> NcContents" where
  "contentsOf p att vs m = \<lparr>ctPath = p,
    ctDims = map (\<lambda>e. (fst e, int_to_size (snd e))) (entries (mdDimensions m)),
    ctVars = map (\<lambda>e. (fst e, ncVarOf att (vs ! snd e))) (entries (mdVariables m)),
    ctAtts = attsOf att (mdGlobalAttrs m)\<rparr>"

text \<open>
  Metadata a file can hold: attributes and variables under their own names, variables of the three
  types that are read, over dimensions of the metadata with their sizes.
\<close>

definition storableVar :: "Metadata \<Rightarrow> Variable \<Rightarrow> bool" where
  "storableVar m v \<longleftrightarrow> wf_variable v \<and> ncTypeOf (varType v) \<noteq> None \<and>
    list_all (\<lambda>d. map_option int_to_size (smap_find (mdDimensions m) (fst d)) = Some (snd d)) (varDims v)"

definition storable :: "Variable list \<Rightarrow> Metadata \<Rightarrow> bool" where
  "storable vs m \<longleftrightarrow>
    list_all (\<lambda>e. attrName (snd e) = fst e) (entries (mdGlobalAttrs m)) \<and>
    list_all (\<lambda>e. snd e < length vs \<and> varName (vs ! snd e) = fst e \<and> storableVar m (vs ! snd e))
      (entries (mdVariables m))"

text \<open>The first part of a map, before a given entry.\<close>

lemma entries_before: "entries m = ys @ x # zs \<Longrightarrow> \<forall>y \<in> set ys. fst y < fst x"
  using sorted_entries [of m] by (auto simp: sorted_wrt_append)

lemma put_mapped_last:
  assumes "entries m = ys @ x # zs" and "\<And>y. fst (enc y) = fst y"
  shows "put_entry (fst x) b (map enc ys) = map enc ys @ [(fst x, b)]"
    and "put_entry (fst x) b (map enc ys @ [(fst x, b')]) = map enc ys @ [(fst x, b)]"
  using entries_before [OF assms(1)] assms(2) by (simp_all add: put_entry_last)

lemma absent_mapped:
  assumes "entries m = ys @ x # zs" and "\<And>y. fst (enc y) = fst y"
  shows "map_of (map enc ys) (fst x) = None"
  using entries_before [OF assms(1)] assms(2) by (fastforce simp: map_of_eq_None_iff)

section \<open>Writing\<close>

text \<open>The world \<open>w\<close> with a file open for writing, at any state of what is outside.\<close>

definition writingTo :: "ref \<Rightarrow> nat \<Rightarrow> ('d, 't) world \<Rightarrow> bool" where
  "writingTo r h w \<longleftrightarrow> r < length (fileHeap w) \<and> fiMode (fileHeap w ! r) \<noteq> nc_read \<and>
    fiDataFile (fileHeap w ! r) = Some h"

lemma writingTo_outside [simp]: "writingTo r h (w\<lparr>outside := d\<rparr>) = writingTo r h w"
  by (simp add: writingTo_def)

lemma File_writing_apply: "writingTo r h w \<Longrightarrow> File_writing E r who body w = body w"
  by (simp add: File_writing_def writingTo_def st_simps)

lemma writingTo_getFile: "writingTo r h w \<Longrightarrow> File_getFile r w = (Inr h, w)"
  by (simp add: writingTo_def File_getFile_open)

lemma callS_outside: "f d = (Inr x, d') \<Longrightarrow> callS err f (w\<lparr>outside := d\<rparr>) = (Inr x, w\<lparr>outside := d'\<rparr>)"
  by (simp add: callS_def)

text \<open>
  What is written goes to a file that may have some of it already, which is left as it is.
  \<open>definesKeep\<close> collects the properties \<open>Q\<close> of what is outside that the definitions keep.
\<close>

definition sortedContents :: "NcContents \<Rightarrow> bool" where
  "sortedContents c \<longleftrightarrow> sorted_wrt (<) (map fst (ctDims c)) \<and> sorted_wrt (<) (map fst (ctVars c)) \<and>
    sorted_wrt (<) (map fst (ctAtts c))"

definition mergeContents :: "NcContents \<Rightarrow> NcContents \<Rightarrow> NcContents" where
  "mergeContents c c' = c\<lparr>ctDims := merge_entries (ctDims c) (ctDims c'), ctVars := merge_entries (ctVars c) (ctVars c'),
    ctAtts := merge_entries (ctAtts c) (ctAtts c')\<rparr>"

lemma sorted_mapped: "(\<And>e. fst (enc e) = fst e) \<Longrightarrow> sorted_wrt (<) (map fst (map enc (entries M)))"
  using sorted_entries [of M] by (simp add: comp_def)

lemma contentsOf_sorted: "sortedContents (contentsOf p att vs m)"
  by (simp add: sortedContents_def contentsOf_def attsOf_def sorted_mapped del: map_map)

lemma emptyContents_sorted: "sortedContents (emptyContents p)"
  by (simp add: sortedContents_def emptyContents_def)

lemma mergeContents_empty: "mergeContents (emptyContents p) (contentsOf p att vs m) = contentsOf p att vs m"
  using contentsOf_sorted [of p att vs m]
  by (simp add: mergeContents_def emptyContents_def sortedContents_def merge_entries_Nil) (simp add: contentsOf_def)

definition definesKeep :: "('d, 't) env \<Rightarrow> nat \<Rightarrow> string set \<Rightarrow> ('d \<Rightarrow> bool) \<Rightarrow> bool" where
  "definesKeep E h K Q \<longleftrightarrow>
    (\<forall>name n d d'. ncAddDim E h name n d = (Inr (), d') \<longrightarrow> Q d \<longrightarrow> Q d') \<and>
    (\<forall>name t ds d d'. name \<notin> K \<longrightarrow> ncAddVar E h name t ds d = (Inr (), d') \<longrightarrow> Q d \<longrightarrow> Q d') \<and>
    (\<forall>var name val d d'. ncPutAtt E h var name val d = (Inr (), d') \<longrightarrow> Q d \<longrightarrow> Q d')"

lemma definesKeep_nothing: "definesKeep E h K (\<lambda>d. True)"
  by (simp add: definesKeep_def)

lemma definesKeep_values:
  assumes "definesOnly E vals"
  shows "definesKeep E h K (\<lambda>d. \<forall>k \<in> K. vals h d k = vals h d0 k)"
proof -
  note only = assms [unfolded definesOnly_def]
  have "vals h d' = vals h d" if "ncAddDim E h name n d = (Inr (), d')" for name n d d'
    using only that by blast
  moreover have "\<forall>k \<in> K. vals h d' k = vals h d k" if "ncAddVar E h name t ds d = (Inr (), d')" "name \<notin> K" for name t ds d d'
  proof
    fix k assume "k \<in> K"
    then have "k \<noteq> name" using that(2) by blast
    then show "vals h d' k = vals h d k" using only that(1) by blast
  qed
  moreover have "vals h d' = vals h d" if "ncPutAtt E h var name val d = (Inr (), d')" for var name val d d'
    using only that by blast
  ultimately show ?thesis unfolding definesKeep_def by (intro conjI allI impI) (metis | simp)+
qed

text \<open>The loop over a map that adds each entry that is not there.\<close>

lemma addEntries_loop:
  assumes "sorted_wrt (<) (map fst es0)" and "\<And>y. fst (enc y) = fst y"
    and "view h (outside w) = Some (upd es0)" and "Q (outside w)"
    and "\<And>x es d. x \<in> set (entries M) \<Longrightarrow> fst x \<notin> fst ` set es0 \<Longrightarrow> map_of es (fst x) = None \<Longrightarrow>
      sorted_wrt (<) (map fst es) \<Longrightarrow> view h d = Some (upd es) \<Longrightarrow> Q d \<Longrightarrow>
      \<exists>d'. f x (w\<lparr>outside := d\<rparr>) = (Inr (), w\<lparr>outside := d'\<rparr>) \<and>
        view h d' = Some (upd (put_entry (fst x) (snd (enc x)) es)) \<and> Q d'"
  shows "\<exists>d. forS (entries M) (\<lambda>x. whenS (fst x \<notin> fst ` set es0) (f x)) w = (Inr (), w\<lparr>outside := d\<rparr>) \<and>
    view h d = Some (upd (merge_entries es0 (map enc (entries M)))) \<and> Q d"
proof -
  let ?P = "\<lambda>ys d. view h d = Some (upd (merge_entries es0 (map enc ys))) \<and> Q d"
  show ?thesis
  proof (rule forS_outside [where P = ?P])
    show "?P [] (outside w)" using assms(3,4) by simp
  next
    fix ys x zs d assume split: "entries M = ys @ x # zs" and P: "?P ys d"
    let ?es = "merge_entries es0 (map enc ys)"
    have x: "x \<in> set (entries M)" using split by simp
    have "fst x \<notin> fst ` set (map enc ys)" using entries_before [OF split] assms(2) by auto
    then have keys: "fst x \<in> fst ` set ?es \<longleftrightarrow> fst x \<in> fst ` set es0" by (simp add: keys_merge_entries)
    have sorted: "sorted_wrt (<) (map fst ?es)" by (rule sorted_merge_entries [OF assms(1)])
    have next1: "merge_entries es0 (map enc (ys @ [x])) = ins_entry (fst x) (snd (enc x)) ?es" using assms(2) by simp
    show "\<exists>d'. whenS (fst x \<notin> fst ` set es0) (f x) (w\<lparr>outside := d\<rparr>) = (Inr (), w\<lparr>outside := d'\<rparr>) \<and> ?P (ys @ [x]) d'"
    proof (cases "fst x \<in> fst ` set es0")
      case True
      then have "?P (ys @ [x]) d" unfolding next1 using P keys sorted by (simp add: ins_entry_present)
      then show ?thesis using True by (intro exI [of _ d]) (simp add: st_simps returnS_apply)
    next
      case False
      then have "map_of ?es (fst x) = None" using keys by (simp add: map_of_eq_None_iff)
      then obtain d' where d': "f x (w\<lparr>outside := d\<rparr>) = (Inr (), w\<lparr>outside := d'\<rparr>)"
          "view h d' = Some (upd (put_entry (fst x) (snd (enc x)) ?es))" "Q d'"
        using assms(5) [OF x False _ sorted] P by blast
      have "?P (ys @ [x]) d'" unfolding next1 using d'(2,3) False keys by (simp add: ins_entry_absent)
      moreover have "whenS (fst x \<notin> fst ` set es0) (f x) (w\<lparr>outside := d\<rparr>) = (Inr (), w\<lparr>outside := d'\<rparr>)"
        using False d'(1) by (simp add: st_simps)
      ultimately show ?thesis by blast
    qed
  qed
qed

lemma File_writeDimensions_contents:
  assumes "ncStore E view att" and "writingTo r h w" and "view h (outside w) = Some c"
    and "sorted_wrt (<) (map fst (ctDims c))" and "definesKeep E h K Q" and "Q (outside w)"
  shows "\<exists>d. File_writeDimensions E r m w = (Inr (), w\<lparr>outside := d\<rparr>) \<and>
    view h d = Some (c\<lparr>ctDims := merge_entries (ctDims c) (ctDims (contentsOf p att vs m))\<rparr>) \<and> Q d"
proof -
  let ?enc = "\<lambda>e :: string \<times> int32. (fst e, int_to_size (snd e))"
  let ?add = "\<lambda>e. bindS (File_getFile r) (\<lambda>h. ncS (ncAddDim E h (fst e) (int_to_size (snd e))))"
  have "\<exists>d. forS (entries (mdDimensions m)) (\<lambda>e. whenS (fst e \<notin> fst ` set (ctDims c)) (?add e)) w = (Inr (), w\<lparr>outside := d\<rparr>) \<and>
      view h d = Some (c\<lparr>ctDims := merge_entries (ctDims c) (map ?enc (entries (mdDimensions m)))\<rparr>) \<and> Q d"
  proof (rule addEntries_loop [where upd = "\<lambda>es. c\<lparr>ctDims := es\<rparr>"])
    fix x :: "string \<times> int32" and es d assume "map_of es (fst x) = None" and now: "view h d = Some (c\<lparr>ctDims := es\<rparr>)" and "Q d"
    then obtain d' where "ncAddDim E h (fst x) (int_to_size (snd x)) d = (Inr (), d')"
      and "view h d' = Some (c\<lparr>ctDims := put_entry (fst x) (int_to_size (snd x)) es\<rparr>)"
      using ncStore_addDim [OF assms(1) now, of "fst x" "int_to_size (snd x)"] by auto
    then show "\<exists>d'. ?add x (w\<lparr>outside := d\<rparr>) = (Inr (), w\<lparr>outside := d'\<rparr>) \<and>
        view h d' = Some (c\<lparr>ctDims := put_entry (fst x) (snd (?enc x)) es\<rparr>) \<and> Q d'"
      using assms(2,5) \<open>Q d\<close> by (auto simp: bindS_Inr writingTo_getFile [of r h] callS_outside definesKeep_def)
  qed (use assms(3,4,6) in \<open>simp_all add: contentsOf_def\<close>)
  then show ?thesis
    using assms(2) ncStore_get [OF assms(1,3)]
    by (simp add: File_writeDimensions_def File_writing_apply bindS_Inr writingTo_getFile [of r h] callS_Inr contentsOf_def)
qed

lemma File_writeAttributes_contents:
  assumes "ncStore E view att" and "writingTo r h w" and "view h (outside w) = Some c"
    and "sorted_wrt (<) (map fst (ctAtts c))" and "definesKeep E h K Q" and "Q (outside w)"
    and "list_all (\<lambda>e. attrName (snd e) = fst e) (entries (mdGlobalAttrs m))"
  shows "\<exists>d. File_writeAttributes E r m w = (Inr (), w\<lparr>outside := d\<rparr>) \<and>
    view h d = Some (c\<lparr>ctAtts := merge_entries (ctAtts c) (ctAtts (contentsOf p att vs m))\<rparr>) \<and> Q d"
proof -
  let ?enc = "\<lambda>e. (fst e, att (fst e) (putValue (snd e)))"
  let ?add = "\<lambda>e. bindS (File_getFile r) (\<lambda>h. ncS (ncPutAtt E h None (attrName (snd e)) (putValue (snd e))))"
  have "\<exists>d. forS (entries (mdGlobalAttrs m)) (\<lambda>e. whenS (fst e \<notin> fst ` set (ctAtts c)) (?add e)) w = (Inr (), w\<lparr>outside := d\<rparr>) \<and>
      view h d = Some (c\<lparr>ctAtts := merge_entries (ctAtts c) (map ?enc (entries (mdGlobalAttrs m)))\<rparr>) \<and> Q d"
  proof (rule addEntries_loop [where upd = "\<lambda>es. c\<lparr>ctAtts := es\<rparr>"])
    fix x es d assume x: "x \<in> set (entries (mdGlobalAttrs m))" and now: "view h d = Some (c\<lparr>ctAtts := es\<rparr>)" and "Q d"
    have name: "attrName (snd x) = fst x" using assms(7) x by (simp add: list_all_iff)
    obtain d' where "ncPutAtt E h None (fst x) (putValue (snd x)) d = (Inr (), d')"
      and "view h d' = Some (c\<lparr>ctAtts := put_entry (fst x) (snd (?enc x)) es\<rparr>)"
      using ncStore_putAtt [OF assms(1) now, of "fst x" "putValue (snd x)"] by auto
    then show "\<exists>d'. ?add x (w\<lparr>outside := d\<rparr>) = (Inr (), w\<lparr>outside := d'\<rparr>) \<and>
        view h d' = Some (c\<lparr>ctAtts := put_entry (fst x) (snd (?enc x)) es\<rparr>) \<and> Q d'"
      using assms(2,5) \<open>Q d\<close> by (auto simp: bindS_Inr writingTo_getFile [of r h] callS_outside name definesKeep_def)
  qed (use assms(3,4,6) in \<open>simp_all add: contentsOf_def attsOf_def\<close>)
  then show ?thesis
    using assms(2) ncStore_get [OF assms(1,3)]
    by (simp add: File_writeAttributes_def File_writing_apply bindS_Inr writingTo_getFile [of r h] callS_Inr contentsOf_def
        attsOf_def)
qed

text \<open>The attributes of a variable that was just added.\<close>

lemma put_entry_again: "put_entry k v (put_entry k v' es) = put_entry k v es"
  by (induction es) auto

lemma putVarAtts_contents:
  assumes "ncStore E view att" and "view h (outside w) = Some (c\<lparr>ctVars := put_entry k v es\<rparr>)" and "ncVarAtts v = []"
    and "sorted_wrt (<) (map fst es)"
    and "list_all (\<lambda>e. attrName (snd e) = fst e) (entries as)" and "definesKeep E h K Q" and "Q (outside w)"
  shows "\<exists>d. forS (entries as) (\<lambda>e. ncS (ncPutAtt E h (Some k) (attrName (snd e)) (putValue (snd e)))) w =
      (Inr (), w\<lparr>outside := d\<rparr>) \<and>
    view h d = Some (c\<lparr>ctVars := put_entry k (v\<lparr>ncVarAtts := attsOf att as\<rparr>) es\<rparr>) \<and> Q d"
proof -
  let ?enc = "\<lambda>e. (fst e, att (fst e) (putValue (snd e)))"
  let ?P = "\<lambda>ys d. view h d = Some (c\<lparr>ctVars := put_entry k (v\<lparr>ncVarAtts := map ?enc ys\<rparr>) es\<rparr>) \<and> Q d"
  have "\<exists>d. forS (entries as) (\<lambda>e. ncS (ncPutAtt E h (Some k) (attrName (snd e)) (putValue (snd e)))) w =
      (Inr (), w\<lparr>outside := d\<rparr>) \<and> ?P (entries as) d"
  proof (rule forS_outside [where P = ?P])
    show "?P [] (outside w)" using assms(2,3,7) by (cases v) simp
  next
    fix ys x zs d
    assume split: "entries as = ys @ x # zs" and P: "?P ys d"
    have now: "view h d = Some (c\<lparr>ctVars := put_entry k (v\<lparr>ncVarAtts := map ?enc ys\<rparr>) es\<rparr>)" using P by blast
    have name: "attrName (snd x) = fst x" using assms(5) split by simp
    have "map_of (ctVars (c\<lparr>ctVars := put_entry k v' es\<rparr>)) k = Some v'" for v'
      using assms(4) by (simp add: map_of_put_entry)
    with ncStore_putVarAtt [OF assms(1) now, of k _ "fst x" "putValue (snd x)"] put_mapped_last(1) [OF split, of ?enc]
    obtain d' where "ncPutAtt E h (Some k) (fst x) (putValue (snd x)) d = (Inr (), d')"
      and "view h d' = Some (c\<lparr>ctVars := put_entry k (v\<lparr>ncVarAtts := map ?enc (ys @ [x])\<rparr>) es\<rparr>)"
      by (fastforce simp: put_entry_again)
    then show "\<exists>d'. ncS (ncPutAtt E h (Some k) (attrName (snd x)) (putValue (snd x))) (w\<lparr>outside := d\<rparr>) =
        (Inr (), w\<lparr>outside := d'\<rparr>) \<and> ?P (ys @ [x]) d'"
      using P assms(6) by (auto simp: callS_outside name definesKeep_def)
  qed
  then show ?thesis by (simp add: attsOf_def)
qed

lemma ncTypeOf_named: "ncTypeOf t \<noteq> None \<Longrightarrow> \<exists>tn. kDataTypeNames t = Some tn \<and> typeNamed tn = ncTypeOf t"
  by (cases t) (simp_all add: typeNamed_def)

lemma blankVar_dims:
  assumes "list_all (\<lambda>d. map_of (ctDims c) (fst d) = Some (snd d)) ds"
  shows "ncVarDims (blankVar n t (map fst ds) c) = ds" and "\<forall>n \<in> set (map fst ds). map_of (ctDims c) n \<noteq> None"
  using assms by (auto simp: blankVar_def list_all_iff comp_def intro!: map_idI)

lemma File_writeVariables_contents:
  assumes "ncStore E view att" and "writingTo r h w" and "view h (outside w) = Some c"
    and "sorted_wrt (<) (map fst (ctVars c))"
    and "definesKeep E h (fst ` set (ctVars c)) Q" and "Q (outside w)"
    and "\<forall>k n. smap_find (mdDimensions m) k = Some n \<longrightarrow> map_of (ctDims c) k = Some (int_to_size n)" and "storable (varHeap w) m"
  shows "\<exists>d. File_writeVariables E r m w = (Inr (), w\<lparr>outside := d\<rparr>) \<and>
    view h d = Some (c\<lparr>ctVars := merge_entries (ctVars c) (ctVars (contentsOf p att (varHeap w) m))\<rparr>) \<and> Q d"
proof -
  let ?enc = "\<lambda>e. (fst e, ncVarOf att (varHeap w ! snd e))"
  let ?add = "\<lambda>e. bindS (File_getFile r) (\<lambda>h.
      bindS (Variable_getName (snd e)) (\<lambda>name.
      bindS (Variable_getType (snd e)) (\<lambda>type.
      bindS (Variable_getDimensionNames (snd e)) (\<lambda>dimNames.
      bindS (case kDataTypeNames type of Some typeName \<Rightarrow> returnS typeName
        | None \<Rightarrow> throwS (Undefined ''kDataTypeNames[type]'')) (\<lambda>typeName.
      bindS (ncS (ncAddVar E h name typeName dimNames)) (\<lambda>_.
      bindS (Variable_getAttributes (snd e)) (\<lambda>varAttrsMap.
      forS (entries varAttrsMap) (\<lambda>a. ncS (ncPutAtt E h (Some name) (attrName (snd a)) (putValue (snd a)))))))))))"
  have "\<exists>d. forS (entries (mdVariables m)) (\<lambda>e. whenS (fst e \<notin> fst ` set (ctVars c)) (?add e)) w = (Inr (), w\<lparr>outside := d\<rparr>) \<and>
      view h d = Some (c\<lparr>ctVars := merge_entries (ctVars c) (map ?enc (entries (mdVariables m)))\<rparr>) \<and> Q d"
  proof (rule addEntries_loop [where upd = "\<lambda>es. c\<lparr>ctVars := es\<rparr>"])
    fix x es d assume entry: "x \<in> set (entries (mdVariables m))" and new: "fst x \<notin> fst ` set (ctVars c)"
      and absent: "map_of es (fst x) = None" and sorted: "sorted_wrt (<) (map fst es)"
      and now: "view h d = Some (c\<lparr>ctVars := es\<rparr>)" and "Q d"
    let ?v = "varHeap w ! snd x"
    have x: "snd x < length (varHeap w)" "varName ?v = fst x" "storableVar m ?v"
      using assms(8) entry by (simp_all add: storable_def list_all_iff)
    obtain tn where tn: "kDataTypeNames (varType ?v) = Some tn" "typeNamed tn = Some (the (ncTypeOf (varType ?v)))"
      using ncTypeOf_named [of "varType ?v"] x(3) by (auto simp: storableVar_def)
    let ?c = "c\<lparr>ctVars := es\<rparr>"
    let ?b = "blankVar (fst x) (the (ncTypeOf (varType ?v))) (map fst (varDims ?v)) ?c"
    have sizes: "list_all (\<lambda>d. map_of (ctDims ?c) (fst d) = Some (snd d)) (varDims ?v)"
      using x(3) assms(7) by (auto simp: storableVar_def list_all_iff)
    have named: "list_all (\<lambda>e. attrName (snd e) = fst e) (entries (varAttrs ?v))"
      using x(3) by (simp add: storableVar_def wf_variable_def)
    from ncStore_addVar [OF assms(1) now _ tn(2) blankVar_dims(2) [OF sizes], of "fst x"] absent
    obtain d1 where d1: "ncAddVar E h (fst x) tn (map fst (varDims ?v)) d = (Inr (), d1)"
        "view h d1 = Some (c\<lparr>ctVars := put_entry (fst x) ?b es\<rparr>)" by auto
    have Q1: "Q d1" using assms(5) new d1(1) \<open>Q d\<close> unfolding definesKeep_def by blast
    have "?b\<lparr>ncVarAtts := attsOf att (varAttrs ?v)\<rparr> = ncVarOf att ?v"
      using blankVar_dims(1) [OF sizes, of "fst x" "the (ncTypeOf (varType ?v))"] x(2)
      by (simp add: blankVar_def ncVarOf_def)
    with putVarAtts_contents [OF assms(1) _ _ sorted named assms(5), where w = "w\<lparr>outside := d1\<rparr>" and c = c and v = ?b
        and k = "fst x"] d1(2) Q1
    obtain d2 where d2: "forS (entries (varAttrs ?v))
          (\<lambda>a. ncS (ncPutAtt E h (Some (fst x)) (attrName (snd a)) (putValue (snd a)))) (w\<lparr>outside := d1\<rparr>) =
        (Inr (), w\<lparr>outside := d2\<rparr>)" "view h d2 = Some (c\<lparr>ctVars := put_entry (fst x) (snd (?enc x)) es\<rparr>)" "Q d2"
      by (auto simp: blankVar_def)
    have "?add x (w\<lparr>outside := d\<rparr>) = (Inr (), w\<lparr>outside := d2\<rparr>)"
      using assms(2) x(1,2) tn(1) d1(1) d2(1)
      by (simp add: bindS_Inr writingTo_getFile [of r h] callS_outside variable_defs st_simps)
    with d2(2,3) show "\<exists>d'. ?add x (w\<lparr>outside := d\<rparr>) = (Inr (), w\<lparr>outside := d'\<rparr>) \<and>
        view h d' = Some (c\<lparr>ctVars := put_entry (fst x) (snd (?enc x)) es\<rparr>) \<and> Q d'" by blast
  qed (use assms(3,4,6) in \<open>simp_all add: contentsOf_def\<close>)
  then show ?thesis
    using assms(2) ncStore_get [OF assms(1,3)]
    by (simp add: File_writeVariables_def File_writing_apply bindS_Inr writingTo_getFile [of r h] callS_Inr seqS_eq contentsOf_def)
qed

text \<open>All of it: the file then has what it had and the contents of the metadata.\<close>

lemma File_writeMetadata_merge:
  assumes "ncStore E view att" and "writingTo r h w" and "view h (outside w) = Some c" and "sortedContents c"
    and "\<forall>k n. smap_find (mdDimensions m) k = Some n \<longrightarrow>
      map_of (merge_entries (ctDims c) (ctDims (contentsOf p att (varHeap w) m))) k = Some (int_to_size n)"
    and "storable (varHeap w) m" and "definesKeep E h (fst ` set (ctVars c)) Q" and "Q (outside w)"
  shows "\<exists>d. File_writeMetadata E r m w = (Inr (), w\<lparr>outside := d\<rparr>) \<and>
    view h d = Some (mergeContents c (contentsOf p att (varHeap w) m)) \<and> Q d"
proof -
  let ?c = "contentsOf p att (varHeap w) m"
  let ?c1 = "c\<lparr>ctDims := merge_entries (ctDims c) (ctDims ?c)\<rparr>"
  let ?c2 = "?c1\<lparr>ctVars := merge_entries (ctVars c) (ctVars ?c)\<rparr>"
  note sorted = assms(4) [unfolded sortedContents_def]
  obtain d1 where d1: "File_writeDimensions E r m w = (Inr (), w\<lparr>outside := d1\<rparr>)" "view h d1 = Some ?c1" "Q d1"
    using File_writeDimensions_contents [OF assms(1-3) _ assms(7,8)] sorted by blast
  obtain d2 where d2: "File_writeVariables E r m (w\<lparr>outside := d1\<rparr>) = (Inr (), w\<lparr>outside := d2\<rparr>)" "view h d2 = Some ?c2" "Q d2"
    using File_writeVariables_contents [OF assms(1), of r h "w\<lparr>outside := d1\<rparr>" ?c1 Q m p] assms(2,5-7) d1(2,3) sorted by auto
  obtain d3 where d3: "File_writeAttributes E r m (w\<lparr>outside := d2\<rparr>) = (Inr (), w\<lparr>outside := d3\<rparr>)"
      "view h d3 = Some (?c2\<lparr>ctAtts := merge_entries (ctAtts c) (ctAtts ?c)\<rparr>)" "Q d3"
    using File_writeAttributes_contents [OF assms(1), of r h "w\<lparr>outside := d2\<rparr>" ?c2 _ Q m p "varHeap w"] assms(2,6,7) d2(2,3) sorted
    by (auto simp: storable_def)
  have "File_writeMetadata E r m w = (Inr (), w\<lparr>outside := d3\<rparr>)"
    using assms(2) d1(1) d2(1) d3(1)
    by (simp add: File_writeMetadata_def File_writing_apply seqS_eq bindS_Inr)
  moreover have "?c2\<lparr>ctAtts := merge_entries (ctAtts c) (ctAtts ?c)\<rparr> = mergeContents c ?c"
    by (simp add: mergeContents_def)
  ultimately show ?thesis using d3(2,3) by auto
qed

lemma contentsOf_dims:
  "smap_find (mdDimensions m) k = Some n \<Longrightarrow> map_of (ctDims (contentsOf p att vs m)) k = Some (int_to_size n)"
  by (simp add: contentsOf_def map_of_values map_of_entries)

lemma empty_sizes:
  "\<forall>k n. smap_find (mdDimensions m) k = Some n \<longrightarrow>
    map_of (merge_entries (ctDims (emptyContents p)) (ctDims (contentsOf p att vs m))) k = Some (int_to_size n)"
proof -
  have "sorted_wrt (<) (map fst (ctDims (contentsOf p att vs m)))"
    using contentsOf_sorted [of p att vs m] by (simp add: sortedContents_def)
  then show ?thesis by (simp add: emptyContents_def merge_entries_Nil contentsOf_dims)
qed

lemma File_writeMetadata_contents:
  assumes "ncStore E view att" and "writingTo r h w" and "view h (outside w) = Some (emptyContents p)"
    and "storable (varHeap w) m"
  shows "\<exists>d. File_writeMetadata E r m w = (Inr (), w\<lparr>outside := d\<rparr>) \<and>
    view h d = Some (contentsOf p att (varHeap w) m)"
  using File_writeMetadata_merge [OF assms(1-3) emptyContents_sorted empty_sizes assms(4) definesKeep_nothing TrueI]
  by (simp add: mergeContents_empty)

section \<open>Reading\<close>

lemma readAttribute_att:
  assumes "ncStore E view att" and "attrName a = name"
  shows "readAttribute E r who (att name (putValue a)) = returnS a"
  using ncStore_att [OF assms(1), of name "putValue a"] assms(2)
  by (cases a) (simp_all add: readAttribute_def singleValue_def bindS_returnS)

text \<open>A variable under construction is the last of the heap.\<close>

definition building :: "Variable list \<Rightarrow> Variable \<Rightarrow> ('d, 't) world \<Rightarrow> ('d, 't) world" where
  "building vs v w = w\<lparr>varHeap := vs @ [v]\<rparr>"

lemma building_addDimension:
  "n \<notin> fst ` set (varDims v) \<Longrightarrow> Variable_addDimension E (length vs) n s (building vs v w) =
    (Inr (), building vs (v\<lparr>varDims := varDims v @ [(n, s)]\<rparr>) w)"
  by (simp add: Variable_addDimension_def building_def st_simps find_None_notin)

lemma building_addAttribute:
  "smap_find (varAttrs v) (attrName a) = None \<Longrightarrow> Variable_addAttribute E (length vs) a (building vs v w) =
    (Inr (), building vs (v\<lparr>varAttrs := smap_insert (attrName a) a (varAttrs v)\<rparr>) w)"
  by (simp add: Variable_addAttribute_def building_def st_simps)

lemma readDims_loop:
  assumes "distinct (map fst ds)" and "\<forall>d \<in> set ds. isDimDefined m (fst d)" and "varDims v = []"
  shows "forS ds (\<lambda>d. seqS (whenS (isDimDefined m (fst d) = False) (File_fail E r who (fst d)))
      (Variable_addDimension E (length vs) (fst d) (snd d))) (building vs v w) =
    (Inr (), building vs (v\<lparr>varDims := ds\<rparr>) w)"
proof -
  let ?step = "\<lambda>d. seqS (whenS (isDimDefined m (fst d) = False) (File_fail E r who (fst d)))
      (Variable_addDimension E (length vs) (fst d) (snd d))"
  let ?Q = "\<lambda>ys w'. w' = building vs (v\<lparr>varDims := ys\<rparr>) w"
  have "\<exists>w'. forS ds ?step (building vs v w) = (Inr (), w') \<and> ?Q ds w'"
  proof (rule forS_rounds [where Q = ?Q])
    show "?Q [] (building vs v w)" using assms(3) by (simp add: building_def)
  next
    fix ys x zs w' assume split: "ds = ys @ x # zs" and w': "?Q ys w'"
    have "fst x \<notin> fst ` set ys" "isDimDefined m (fst x)" using assms(1,2) split by auto
    then show "\<exists>w''. ?step x w' = (Inr (), w'') \<and> ?Q (ys @ [x]) w''"
      using building_addDimension [of "fst x" "v\<lparr>varDims := ys\<rparr>" E vs "snd x" w] w'
      by (simp add: st_simps)
  qed
  then show ?thesis by simp
qed

text \<open>Inserting the entries of a map one by one gives the map.\<close>

definition inserted :: "(string \<times> 'v) list \<Rightarrow> (string, 'v) smap" where
  "inserted es = fold (\<lambda>e. smap_insert (fst e) (snd e)) es smap_empty"

lemma inserted_find: "smap_find (inserted es) k = map_of es k"
  unfolding inserted_def by (rule std_map.store.get_adds_fresh) simp

lemma inserted_entries: "inserted (entries m) = m"
  by (rule smap_eqI) (simp add: inserted_find map_of_entries)

lemma inserted_snoc: "inserted (es @ [e]) = smap_insert (fst e) (snd e) (inserted es)"
  by (simp add: inserted_def)

lemma readAtts_loop:
  assumes "ncStore E view att" and "list_all (\<lambda>e. attrName (snd e) = fst e) (entries as)" and "varAttrs v = smap_empty"
  shows "forS (attsOf att as) (\<lambda>p. bindS (readAttribute E r who (snd p)) (\<lambda>a.
      Variable_addAttribute E (length vs) a)) (building vs v w) =
    (Inr (), building vs (v\<lparr>varAttrs := as\<rparr>) w)"
proof -
  let ?step = "\<lambda>e. bindS (readAttribute E r who (att (fst e) (putValue (snd e)))) (\<lambda>a.
      Variable_addAttribute E (length vs) a)"
  let ?Q = "\<lambda>ys w'. w' = building vs (v\<lparr>varAttrs := inserted ys\<rparr>) w"
  have "\<exists>w'. forS (entries as) ?step (building vs v w) = (Inr (), w') \<and> ?Q (entries as) w'"
  proof (rule forS_rounds [where Q = ?Q])
    show "?Q [] (building vs v w)" using assms(3) by (simp add: building_def inserted_def)
  next
    fix ys x zs w' assume split: "entries as = ys @ x # zs" and w': "?Q ys w'"
    have name: "attrName (snd x) = fst x" using assms(2) split by simp
    have "smap_find (inserted ys) (fst x) = None"
      using absent_mapped [OF split, of id] by (simp add: inserted_find)
    then show "\<exists>w''. ?step x w' = (Inr (), w'') \<and> ?Q (ys @ [x]) w''"
      using building_addAttribute [of "v\<lparr>varAttrs := inserted ys\<rparr>" "snd x" E vs w] w' name
      by (simp add: readAttribute_att [OF assms(1) name] st_simps inserted_snoc)
  qed
  then show ?thesis by (simp add: attsOf_def forS_map inserted_entries)
qed

lemma File_readVariable_result:
  assumes "ncStore E view att" and "storableVar m0 v" and "\<forall>d \<in> set (varDims v). isDimDefined m (fst d)"
  shows "File_readVariable E r (ncVarOf att v) m w =
    (Inr (addVariable (varName v) (length (varHeap w)) m), w\<lparr>varHeap := varHeap w @ [v]\<rparr>)"
proof -
  let ?vs = "varHeap w"
  let ?v0 = "\<lparr>varName = varName v, varType = varType v, varDims = [], varAttrs = smap_empty\<rparr>"
  have wf: "wf_variable v" using assms(2) by (simp add: storableVar_def)
  have whole: "\<lparr>varName = varName v, varType = varType v, varDims = varDims v, varAttrs = varAttrs v\<rparr> = v"
    by (cases v) simp
  have new: "(case the (ncTypeOf (varType v)) of
        nc_DOUBLE \<Rightarrow> Variable_new (varName v) eDouble
      | nc_FLOAT \<Rightarrow> Variable_new (varName v) eFloat
      | nc_INT \<Rightarrow> Variable_new (varName v) eInt
      | _ \<Rightarrow> File_fail E r ''File::readVariable'' ''data type not coded for'') w = (Inr (length ?vs), building ?vs ?v0 w)"
    using assms(2) by (cases "varType v") (simp_all add: storableVar_def Variable_new_def building_def st_simps)
  have ds: "forS (varDims v) (\<lambda>d. seqS (whenS (isDimDefined m (fst d) = False)
        (File_fail E r ''File::readVariable'' (fst d))) (Variable_addDimension E (length ?vs) (fst d) (snd d)))
      (building ?vs ?v0 w) = (Inr (), building ?vs (?v0\<lparr>varDims := varDims v\<rparr>) w)"
    using wf assms(3) by (intro readDims_loop) (simp_all add: wf_variable_def)
  have as: "forS (attsOf att (varAttrs v)) (\<lambda>p. bindS (readAttribute E r ''File::readVariable'' (snd p)) (\<lambda>a.
        Variable_addAttribute E (length ?vs) a)) (building ?vs (?v0\<lparr>varDims := varDims v\<rparr>) w) =
      (Inr (), building ?vs v w)"
    using readAtts_loop [OF assms(1), of "varAttrs v" "?v0\<lparr>varDims := varDims v\<rparr>"] wf
    by (simp add: wf_variable_def whole)
  have name: "Variable_getName (length ?vs) (building ?vs v w) = (Inr (varName v), building ?vs v w)"
    by (simp add: Variable_getName_def building_def st_simps)
  show ?thesis
    unfolding File_readVariable_def ncVarOf_def NcVar.select_convs
    using new ds as name by (simp add: seqS_eq bindS_Inr returnS_apply building_def)
qed

text \<open>The variables of a file in order, each new on the heap.\<close>

definition readVars :: "nat \<Rightarrow> string list \<Rightarrow> Metadata \<Rightarrow> Metadata" where
  "readVars n names m = fold (\<lambda>e. addVariable (fst e) (snd e)) (zip names [n..<n + length names]) m"

lemma readVars_frame [simp]:
  "mdDimensions (readVars n names m) = mdDimensions m" "mdGlobalAttrs (readVars n names m) = mdGlobalAttrs m"
proof -
  have "mdDimensions (fold (\<lambda>e. addVariable (fst e) (snd e)) es m) = mdDimensions m \<and>
      mdGlobalAttrs (fold (\<lambda>e. addVariable (fst e) (snd e)) es m) = mdGlobalAttrs m" for es
    by (induction es arbitrary: m) auto
  then show "mdDimensions (readVars n names m) = mdDimensions m" "mdGlobalAttrs (readVars n names m) = mdGlobalAttrs m"
    by (simp_all add: readVars_def)
qed

lemma readVars_snoc:
  "readVars n (names @ [k]) m = addVariable k (n + length names) (readVars n names m)"
  by (simp add: readVars_def)

lemma readVars_entries:
  assumes "sorted_wrt (<) names" and "mdVariables m = smap_empty"
  shows "entries (mdVariables (readVars n names m)) = zip names [n..<n + length names]"
proof (rule ordered_alist_eqI)
  show "map_of (entries (mdVariables (readVars n names m))) = map_of (zip names [n..<n + length names])"
    using assms(2) by (simp add: fun_eq_iff map_of_entries readVars_def vars.get_adds_fresh)
qed (use assms(1) in \<open>simp_all add: sorted_entries\<close>)

lemma File_readVariables_result:
  assumes "ncStore E view att" and "readingFrom r h w" and "view h (outside w) = Some c"
    and "ctVars c = map (\<lambda>e. (fst e, ncVarOf att (vs ! snd e))) (entries (mdVariables m0))"
    and "storable vs m0" and "mdDimensions m = mdDimensions m0"
  shows "File_readVariables E r m w =
    (Inr (readVars (length (varHeap w)) (smap_keys (mdVariables m0)) m), w\<lparr>varHeap := varHeap w @ variablesOf vs m0\<rparr>)"
proof -
  let ?es = "entries (mdVariables m0)"
  let ?step = "\<lambda>e m. File_readVariable E r (ncVarOf att (vs ! snd e)) m"
  let ?Q = "\<lambda>ys m' w'. m' = readVars (length (varHeap w)) (map fst ys) m \<and>
      w' = w\<lparr>varHeap := varHeap w @ map (\<lambda>e. vs ! snd e) ys\<rparr>"
  have "\<exists>m' w'. foldS ?step ?es m w = (Inr m', w') \<and> ?Q ?es m' w'"
  proof (rule foldS_rounds [where Q = ?Q])
    show "?Q [] m w" by (simp add: readVars_def)
  next
    fix ys x zs m' w' assume split: "?es = ys @ x # zs" and Q: "?Q ys m' w'"
    have x: "varName (vs ! snd x) = fst x" "storableVar m0 (vs ! snd x)"
      using assms(5) split by (simp_all add: storable_def)
    have "\<forall>d \<in> set (varDims (vs ! snd x)). isDimDefined m' (fst d)"
      using x(2) Q assms(6) by (auto simp: storableVar_def isDimDefined_def list_all_iff)
    from File_readVariable_result [OF assms(1) x(2) this, of r w'] Q x(1)
    show "\<exists>m'' w''. ?step x m' w' = (Inr m'', w'') \<and> ?Q (ys @ [x]) m'' w''"
      by (simp add: readVars_snoc)
  qed
  then have "foldS ?step ?es m w = (Inr (readVars (length (varHeap w)) (smap_keys (mdVariables m0)) m),
      w\<lparr>varHeap := varHeap w @ variablesOf vs m0\<rparr>)"
    by (simp add: variablesOf_def smap_keys_def)
  then show ?thesis
    using readingFrom_getFile [OF assms(2)] ncStore_get [OF assms(1,3)]
    by (simp add: File_readVariables_def File_reading_apply [OF assms(2)] bindS_Inr callS_Inr assms(4) foldS_map)
qed

definition readAtts :: "(string, AttributeBase) smap \<Rightarrow> Metadata \<Rightarrow> Metadata" where
  "readAtts as m = fold (\<lambda>e. addGlobalAttr (fst e) (snd e)) (entries as) m"

lemma readAtts_frame [simp]:
  "mdDimensions (readAtts as m) = mdDimensions m" "mdVariables (readAtts as m) = mdVariables m"
proof -
  have "mdDimensions (fold (\<lambda>e. addGlobalAttr (fst e) (snd e)) es m) = mdDimensions m \<and>
      mdVariables (fold (\<lambda>e. addGlobalAttr (fst e) (snd e)) es m) = mdVariables m" for es
    by (induction es arbitrary: m) auto
  then show "mdDimensions (readAtts as m) = mdDimensions m" "mdVariables (readAtts as m) = mdVariables m"
    by (simp_all add: readAtts_def)
qed

lemma readAtts_all: "mdGlobalAttrs m = smap_empty \<Longrightarrow> mdGlobalAttrs (readAtts as m) = as"
  by (rule smap_eqI) (simp add: readAtts_def globalAttrs.get_adds_fresh map_of_entries)

lemma File_readAttributes_result:
  assumes "ncStore E view att" and "readingFrom r h w" and "view h (outside w) = Some c"
    and "ctAtts c = attsOf att as" and "list_all (\<lambda>e. attrName (snd e) = fst e) (entries as)"
  shows "File_readAttributes E r m w = (Inr (readAtts as m), w)"
proof -
  have "foldS (\<lambda>e m. bindS (readAttribute E r ''File::readAttributes'' (att (fst e) (putValue (snd e)))) (\<lambda>a.
      returnS (addGlobalAttr (attrName a) a m))) (entries as) m w = (Inr (readAtts as m), w)"
    unfolding readAtts_def using assms(5)
    by (intro foldS_pure) (auto simp: list_all_iff readAttribute_att [OF assms(1)] st_simps)
  then show ?thesis
    using readingFrom_getFile [OF assms(2)] ncStore_get [OF assms(1,3)]
    by (simp add: File_readAttributes_def File_reading_apply [OF assms(2)] bindS_Inr callS_Inr assms(4)
        attsOf_def foldS_map)
qed

section \<open>The round trip\<close>

definition sameContents :: "Variable list \<Rightarrow> Metadata \<Rightarrow> Variable list \<Rightarrow> Metadata \<Rightarrow> bool" where
  "sameContents vs m vs' m' \<longleftrightarrow> mdDimensions m' = mdDimensions m \<and> mdGlobalAttrs m' = mdGlobalAttrs m \<and>
    smap_keys (mdVariables m') = smap_keys (mdVariables m) \<and> variablesOf vs' m' = variablesOf vs m"

lemma File_readMetadata_contents:
  assumes "ncStore E view att" and "readingFrom r h w" and "view h (outside w) = Some (contentsOf p att vs m)"
    and "storable vs m"
  shows "\<exists>m'. File_readMetadata E r Metadata_new w = (Inr m', w\<lparr>varHeap := varHeap w @ variablesOf vs m\<rparr>) \<and>
    sameContents vs m (varHeap w @ variablesOf vs m) m' \<and> metadata_on (varHeap w @ variablesOf vs m) m'"
proof -
  let ?c = "contentsOf p att vs m"
  let ?w1 = "w\<lparr>varHeap := varHeap w @ variablesOf vs m\<rparr>"
  let ?keys = "smap_keys (mdVariables m)"
  let ?n = "length (varHeap w)"
  define m1 where "m1 = readDims (ctDims ?c) Metadata_new"
  define m2 where "m2 = readVars ?n ?keys m1"
  define m3 where "m3 = readAtts (mdGlobalAttrs m) m2"
  have dims: "mdDimensions m1 = mdDimensions m"
    by (rule smap_eqI) (simp add: m1_def readDims_find contentsOf_def map_of_values map_of_entries Metadata_new_def
        option.map_comp comp_def option.map_ident)
  have fresh: "mdVariables m1 = smap_empty" "mdGlobalAttrs m1 = smap_empty"
    by (simp_all add: m1_def Metadata_new_def)
  have d: "File_readDimensions E r Metadata_new w = (Inr m1, w)"
    using File_readDimensions_run [OF assms(2)] ncStore_get [OF assms(1,3)] by (simp add: m1_def)
  have v: "File_readVariables E r m1 w = (Inr m2, ?w1)"
    using File_readVariables_result [OF assms(1-3) _ assms(4) dims]
    by (simp add: m2_def contentsOf_def)
  have a: "File_readAttributes E r m2 ?w1 = (Inr m3, ?w1)"
    unfolding m3_def
  proof (rule File_readAttributes_result [OF assms(1)])
    show "readingFrom r h ?w1" using assms(2) by (simp add: readingFrom_def)
    show "view h (outside ?w1) = Some ?c" using assms(3) by simp
  qed (use assms(4) in \<open>simp_all add: contentsOf_def storable_def\<close>)
  have len: "length ?keys = length (variablesOf vs m)" by (simp add: smap_keys_def variablesOf_def)
  have entries: "entries (mdVariables m3) = zip ?keys [?n..<?n + length ?keys]"
    using readVars_entries [OF sorted_keys fresh(1)] by (simp add: m3_def m2_def)
  have "varType v \<noteq> eNumberOfDataTypes" if "v \<in> set (variablesOf vs m)" for v
    using that assms(4) by (auto simp: variablesOf_def storable_def storableVar_def list_all_iff)
  then have "printable (varHeap ?w1) m3"
    using len by (auto simp: printable_def entries list_all_iff set_zip nth_append)
  then obtain items where print: "Metadata_print m3 ?w1 = (Inr items, ?w1)"
    using Metadata_print_run by blast
  have run: "File_readMetadata E r Metadata_new w = (Inr m3, ?w1)"
    by (simp add: File_readMetadata_def File_reading_apply [OF assms(2)] bindS_def d v a print returnS_apply)
  have "map (\<lambda>e. (varHeap w @ variablesOf vs m) ! snd e) (zip ?keys [?n..<?n + length ?keys]) = variablesOf vs m"
    using len by (intro nth_equalityI) (simp_all add: nth_append)
  then have "variablesOf (varHeap w @ variablesOf vs m) m3 = variablesOf vs m"
    by (simp only: variablesOf_def [of _ m3] entries)
  moreover have "smap_keys (mdVariables m3) = ?keys"
    by (simp only: smap_keys_def [of "mdVariables m3"] entries) simp
  moreover have "mdDimensions m3 = mdDimensions m" "mdGlobalAttrs m3 = mdGlobalAttrs m"
    using dims fresh(2) by (simp_all add: m3_def m2_def readAtts_all)
  ultimately have "sameContents vs m (varHeap w @ variablesOf vs m) m3" by (simp add: sameContents_def)
  moreover have "metadata_on (varHeap w @ variablesOf vs m) m3"
    using len by (auto simp: metadata_on_def entries list_all_iff set_zip)
  ultimately show ?thesis using run by blast
qed


end
