(* ===== verification/Data_Round_Trip.thy ===== *)
theory Data_Round_Trip
  imports Readers Writers Metadata_Round_Trip
begin

text \<open>
  The whole way of a \<open>FileData\<close> to disk and back, at the level of \<open>Writer\<close> and \<open>Reader\<close>: open, write
  metadata and data, close, open for reading, read metadata and data. NetCDF's documented behaviour
  (\<open>ncStore\<close>, \<open>ncData\<close>) is a hypothesis; that every step returns is part of the result.
\<close>

section \<open>Data a file can hold\<close>

primrec valuesIn :: "DataContainerBase \<Rightarrow> NcValues" where
  "valuesIn (DataContainerDouble name xs) = NcDoubles xs"
| "valuesIn (DataContainerFloat name xs) = NcFloats xs"
| "valuesIn (DataContainerInt name xs) = NcInts xs"

primrec containerLength :: "DataContainerBase \<Rightarrow> nat" where
  "containerLength (DataContainerDouble name xs) = length xs"
| "containerLength (DataContainerFloat name xs) = length xs"
| "containerLength (DataContainerInt name xs) = length xs"

text \<open>A container of the variable's name and type, with a value for every combination of indices, and
  of a size that an \<open>int\<close> can hold.\<close>

definition fitting :: "Variable \<Rightarrow> DataContainerBase \<Rightarrow> bool" where
  "fitting v c \<longleftrightarrow> containerName c = varName v \<and> containerType c = varType v \<and>
    containerLength c = (\<Prod>d\<leftarrow>varDims v. unat (snd d)) \<and> containerLength c < 2 ^ 31"

definition storableData :: "Variable list \<Rightarrow> 't FileData \<Rightarrow> bool" where
  "storableData vs fd \<longleftrightarrow> storable vs (fdMetadata fd) \<and>
    getVariableNames (fdMetadata fd) = getDataContainerNames (fdData fd) \<and>
    list_all (\<lambda>e. fitting (vs ! the (smap_find (mdVariables (fdMetadata fd)) (fst e))) (snd e))
      (entries (dataContainers (fdData fd)))"

lemma storableD:
  assumes "storable vs m" and "smap_find (mdVariables m) k = Some r"
  shows "r < length vs \<and> varName (vs ! r) = k \<and> storableVar m (vs ! r)"
proof -
  have "(k, r) \<in> set (entries (mdVariables m))" using assms(2) by (simp add: in_entries_iff)
  then show ?thesis using assms(1) by (auto simp: storable_def list_all_iff)
qed

lemma storableDataE:
  assumes "storableData vs fd" and "smap_find (dataContainers (fdData fd)) k = Some c"
  obtains r where "smap_find (mdVariables (fdMetadata fd)) k = Some r" and "r < length vs"
    and "varName (vs ! r) = k" and "storableVar (fdMetadata fd) (vs ! r)" and "fitting (vs ! r) c"
proof -
  have "k \<in> set (smap_keys (mdVariables (fdMetadata fd)))"
    using assms by (auto simp: storableData_def getVariableNames_def getDataContainerNames_def extractKeys_eq set_keys)
  then obtain r where r: "smap_find (mdVariables (fdMetadata fd)) k = Some r" by (auto simp: set_keys)
  have "(k, c) \<in> set (entries (dataContainers (fdData fd)))" using assms(2) by (simp add: in_entries_iff)
  then have "fitting (vs ! r) c" using assms(1) r by (auto simp: storableData_def list_all_iff)
  then show ?thesis
    using that [OF r] storableD [OF _ r, of vs] assms(1) by (auto simp: storableData_def)
qed

section \<open>Writing the data\<close>

lemma File_writeSingleDatum_run:
  assumes "ncData E view vals" and "writingTo f h w" and "view h (outside w) = Some c"
    and "map_of (ctVars c) n = Some v" and "putsData put t mk view vals" and "ncVarType v = t"
    and "length xs = varExtent v"
  shows "\<exists>d. File_writeSingleDatum put E f n xs w = (Inr (), w\<lparr>outside := d\<rparr>) \<and> view h d = Some c \<and>
    vals h d = (vals h (outside w))(n \<mapsto> mk xs)"
proof -
  obtain d where d: "put h n xs (outside w) = (Inr (), d)" "view h d = Some c"
      "vals h d = (vals h (outside w))(n \<mapsto> mk xs)"
    using putsDataE [OF assms(5,3,4,6,7)] .
  have "File_writeSingleDatum put E f n xs w = (Inr (), w\<lparr>outside := d\<rparr>)"
    using assms(2,7) d(1) ncData_size [OF assms(1,3,4)]
    by (simp add: File_writeSingleDatum_def File_writing_apply bindS_Inr writingTo_getFile [of f h] callS_Inr)
  with d(2,3) show ?thesis by blast
qed

text \<open>The writer of this PE has file \<open>f\<close> open, with handle \<open>h\<close>.\<close>

definition writingWith :: "ref \<Rightarrow> ref \<Rightarrow> nat \<Rightarrow> ('d, 't) world \<Rightarrow> bool" where
  "writingWith r f h w \<longleftrightarrow> r < length (writerHeap w) \<and> mpiRank w = wrOwner (writerHeap w ! r) \<and>
    writerSlot r w = Some f \<and> writingTo f h w"

lemma writingWith_outside [simp]: "writingWith r f h (w\<lparr>outside := d\<rparr>) = writingWith r f h w"
  by (simp add: writingWith_def writerSlot_def)

lemma writingWith_getFile: "writingWith r f h w \<Longrightarrow> Writer_getFile r w = (Inr f, w)"
  by (simp add: writingWith_def Writer_getFile_def writerSlot_def st_simps split: if_splits)

text \<open>One round of the loop of \<open>writeData\<close>.\<close>

definition writeContainer :: "('d, 't) env \<Rightarrow> ref \<Rightarrow> string \<Rightarrow> DataContainerBase \<Rightarrow> (('d, 't) world, unit) st" where
  "writeContainer E f n c = (case c of
      DataContainerDouble _ dataVec \<Rightarrow> File_writeSingleDatum (ncPutDouble E) E f n dataVec
    | DataContainerFloat _ dataVec \<Rightarrow> File_writeSingleDatum (ncPutFloat E) E f n dataVec
    | DataContainerInt _ dataVec \<Rightarrow> File_writeSingleDatum (ncPutInt E) E f n dataVec)"

lemma writeContainer_run:
  assumes "ncData E view vals" and "writingTo f h w" and "view h (outside w) = Some c"
    and "map_of (ctVars c) n = Some (ncVarOf att v)" and "fitting v x"
  shows "\<exists>d. writeContainer E f n x w = (Inr (), w\<lparr>outside := d\<rparr>) \<and> view h d = Some c \<and>
    vals h d = (vals h (outside w))(n \<mapsto> valuesIn x)"
proof -
  note put = File_writeSingleDatum_run [OF assms(1-4)]
  have data: "putsData (ncPutDouble E) nc_DOUBLE NcDoubles view vals" "putsData (ncPutFloat E) nc_FLOAT NcFloats view vals"
      "putsData (ncPutInt E) nc_INT NcInts view vals"
    using assms(1) by (simp_all add: ncData_def)
  show ?thesis
    using assms(5) put [OF data(1)] put [OF data(2)] put [OF data(3)]
    by (cases x) (simp_all add: writeContainer_def fitting_def ncVarOf_def varExtent_def)
qed

lemma contentsOf_var:
  assumes "smap_find (mdVariables m) k = Some r"
  shows "map_of (ctVars (contentsOf p att vs m)) k = Some (ncVarOf att (vs ! r))"
  using assms map_of_values [of "\<lambda>r. ncVarOf att (vs ! r)" "entries (mdVariables m)" k]
  by (simp add: contentsOf_def map_of_entries)

text \<open>Every container has its variable, in the metadata and in the file.\<close>

definition dataFor :: "(string \<Rightarrow> PutValue \<Rightarrow> NcAtt) \<Rightarrow> NcContents \<Rightarrow> 't FileData \<Rightarrow> bool" where
  "dataFor att c fd \<longleftrightarrow> (\<forall>k x. smap_find (dataContainers (fdData fd)) k = Some x \<longrightarrow>
    smap_find (mdVariables (fdMetadata fd)) k \<noteq> None \<and> (\<exists>v. map_of (ctVars c) k = Some (ncVarOf att v) \<and> fitting v x))"

lemma storableData_for:
  assumes "storableData vs fd"
  shows "dataFor att (contentsOf p att vs (fdMetadata fd)) fd"
  unfolding dataFor_def
proof (intro allI impI)
  fix k x assume "smap_find (dataContainers (fdData fd)) k = Some x"
  then obtain r where "smap_find (mdVariables (fdMetadata fd)) k = Some r" "fitting (vs ! r) x"
    using storableDataE [OF assms] by metis
  then show "smap_find (mdVariables (fdMetadata fd)) k \<noteq> None \<and>
      (\<exists>v. map_of (ctVars (contentsOf p att vs (fdMetadata fd))) k = Some (ncVarOf att v) \<and> fitting v x)"
    using contentsOf_var by blast
qed

lemma Writer_writeData_contents:
  assumes "ncData E view vals" and "writingWith r f h w" and "view h (outside w) = Some c" and "dataFor att c fd"
  shows "\<exists>d. Writer_writeData E r fd w = (Inr (), w\<lparr>outside := d\<rparr>) \<and> view h d = Some c \<and>
    (\<forall>e \<in> set (entries (dataContainers (fdData fd))). vals h d (fst e) = Some (valuesIn (snd e))) \<and>
    (\<forall>k. k \<notin> fst ` set (entries (dataContainers (fdData fd))) \<longrightarrow> vals h d k = vals h (outside w) k)"
proof -
  let ?es = "entries (dataContainers (fdData fd))"
  let ?P = "\<lambda>ys d. view h d = Some c \<and> (\<forall>e \<in> set ys. vals h d (fst e) = Some (valuesIn (snd e))) \<and>
    (\<forall>k. k \<notin> fst ` set ys \<longrightarrow> vals h d k = vals h (outside w) k)"
  let ?step = "\<lambda>e. bindS (getVariable E (fdMetadata fd) (fst e)) (\<lambda>_. bindS (Writer_getFile r) (\<lambda>f.
      writeContainer E f (fst e) (snd e)))"
  have "\<exists>d. forS ?es ?step w = (Inr (), w\<lparr>outside := d\<rparr>) \<and> ?P ?es d"
  proof (rule forS_outside [where P = ?P])
    fix ys x zs d
    assume split: "?es = ys @ x # zs" and P: "?P ys d"
    have "smap_find (dataContainers (fdData fd)) (fst x) = Some (snd x)"
      using split by (simp add: in_entries_iff [symmetric])
    then obtain r' v where v: "smap_find (mdVariables (fdMetadata fd)) (fst x) = Some r'"
        "map_of (ctVars c) (fst x) = Some (ncVarOf att v)" "fitting v (snd x)"
      using assms(4) unfolding dataFor_def by blast
    have w: "writingTo f h (w\<lparr>outside := d\<rparr>)" using assms(2) by (simp add: writingWith_def)
    obtain d' where d': "writeContainer E f (fst x) (snd x) (w\<lparr>outside := d\<rparr>) = (Inr (), w\<lparr>outside := d'\<rparr>)"
        "view h d' = Some c" "vals h d' = (vals h d)(fst x \<mapsto> valuesIn (snd x))"
      using writeContainer_run [OF assms(1) w _ v(2,3)] P by auto
    have "?step x (w\<lparr>outside := d\<rparr>) = (Inr (), w\<lparr>outside := d'\<rparr>)"
      using d'(1) v(1) writingWith_getFile [of r f h "w\<lparr>outside := d\<rparr>"] assms(2)
      by (simp add: getVariable_def st_simps bindS_Inr)
    moreover have "?P (ys @ [x]) d'"
      using d'(2,3) P entries_before [OF split] by auto
    ultimately show "\<exists>d'. ?step x (w\<lparr>outside := d\<rparr>) = (Inr (), w\<lparr>outside := d'\<rparr>) \<and> ?P (ys @ [x]) d'" by blast
  qed (use assms(3) in simp)
  then show ?thesis
    using assms(2) by (simp add: Writer_writeData_def Writer_onOwner_apply writingWith_def writeContainer_def)
qed

section \<open>Reading the data\<close>

lemma readContainer:
  assumes "ncData E view vals" and "reading r h w" and "view h (outside w) = Some c"
    and "smap_find (mdVariables (fdMetadata fd)) n = Some v" and "v < length (varHeap w)"
    and "fitting (varHeap w ! v) x" and "varName (varHeap w ! v) = n" and "vals h (outside w) n = Some (valuesIn x)"
  shows "Reader_readFullDatum E r n fd w = (Inr (fd\<lparr>fdData := addContainer x (fdData fd)\<rparr>), w)"
proof -
  have data: "getsData (ncGetDouble E) NcDoubles view vals" "getsData (ncGetFloat E) NcFloats view vals"
      "getsData (ncGetInt E) NcInts view vals"
    using assms(1) by (simp_all add: ncData_def)
  note run = Reader_readFullDatum_run [OF assms(2,4,5) refl]
  show ?thesis
  proof (cases x)
    case (DataContainerDouble k xs)
    then show ?thesis using run(1) [where ds = xs and d = "outside w" and E = E] getsDataD [OF data(1) assms(3)] assms(6-8)
      by (simp add: fitting_def)
  next
    case (DataContainerFloat k xs)
    then show ?thesis using run(2) [where fs = xs and d = "outside w" and E = E] getsDataD [OF data(2) assms(3)] assms(6-8)
      by (simp add: fitting_def)
  next
    case (DataContainerInt k xs)
    then show ?thesis using run(3) [where ks = xs and d = "outside w" and E = E] getsDataD [OF data(3) assms(3)] assms(6-8)
      by (simp add: fitting_def)
  qed
qed

lemma zip_maps: "zip (map f es) (map g es) = map (\<lambda>e. (f e, g e)) es"
  by (induction es) simp_all

text \<open>The variables of two metadata with the same contents are the same, name by name.\<close>

lemma sameContents_var:
  assumes "sameContents vs m vs' m'" and "smap_find (mdVariables m) k = Some r"
  shows "\<exists>r'. smap_find (mdVariables m') k = Some r' \<and> vs' ! r' = vs ! r"
proof -
  let ?es = "entries (mdVariables m)" and ?es' = "entries (mdVariables m')"
  have "zip (map fst ?es') (map (\<lambda>e. vs' ! snd e) ?es') = zip (map fst ?es) (map (\<lambda>e. vs ! snd e) ?es)"
    using assms(1) by (simp add: sameContents_def smap_keys_def variablesOf_def)
  then have "map (\<lambda>e. (fst e, vs' ! snd e)) ?es' = map (\<lambda>e. (fst e, vs ! snd e)) ?es"
    by (simp only: zip_maps)
  then have "map_of (map (\<lambda>e. (fst e, vs' ! snd e)) ?es') k = map_of (map (\<lambda>e. (fst e, vs ! snd e)) ?es) k"
    by (rule arg_cong)
  then have "map_option ((!) vs') (smap_find (mdVariables m') k) = map_option ((!) vs) (smap_find (mdVariables m) k)"
    using map_of_values [of "(!) vs'" ?es' k] map_of_values [of "(!) vs" ?es k] by (simp add: map_of_entries)
  with assms(2) show ?thesis by auto
qed

text \<open>
  A reader has the file open that holds the data of \<open>F\<close> over the variables \<open>vs\<close>, and \<open>m\<close> is the
  metadata read from it.
\<close>

definition fileBehind ::
    "'d contents_view \<Rightarrow> 'd values_view \<Rightarrow> ref \<Rightarrow> nat \<Rightarrow> Variable list \<Rightarrow> 't FileData \<Rightarrow> Metadata \<Rightarrow>
     ('d, 't) world \<Rightarrow> bool" where
  "fileBehind view vals r h vs F m w \<longleftrightarrow> reading r h w \<and> view h (outside w) \<noteq> None \<and> storableData vs F \<and>
    (\<forall>e \<in> set (entries (dataContainers (fdData F))). vals h (outside w) (fst e) = Some (valuesIn (snd e))) \<and>
    sameContents vs (fdMetadata F) (varHeap w) m \<and> metadata_on (varHeap w) m"

text \<open>The containers of \<open>d\<close> are those of \<open>D\<close> with a name in \<open>S\<close>.\<close>

definition partOf :: "string set \<Rightarrow> Data \<Rightarrow> Data \<Rightarrow> bool" where
  "partOf S D d \<longleftrightarrow> (\<forall>k. smap_find (dataContainers d) k = (if k \<in> S then smap_find (dataContainers D) k else None))"

lemma partOf_new: "partOf {} D Data_new"
  by (simp add: partOf_def Data_new_def)

lemma partOf_all:
  assumes "partOf S D d" and "dom (smap_find (dataContainers D)) \<subseteq> S"
  shows "d = D"
proof -
  have "dataContainers d = dataContainers D"
    using assms by (intro smap_eqI) (metis partOf_def domIff in_mono)
  then show ?thesis by simp
qed

lemma Reader_readFullDatum_part:
  assumes "ncData E view vals" and "fileBehind view vals r h vs F m w" and "fdMetadata fd = m"
    and "smap_find (dataContainers (fdData F)) k \<noteq> None" and "partOf S (fdData F) (fdData fd)"
  shows "\<exists>d. Reader_readFullDatum E r k fd w = (Inr (fd\<lparr>fdData := d\<rparr>), w) \<and> partOf (insert k S) (fdData F) d"
proof -
  note behind = assms(2) [unfolded fileBehind_def]
  obtain c where c: "view h (outside w) = Some c" using behind by auto
  obtain x where x: "smap_find (dataContainers (fdData F)) k = Some x" using assms(4) by auto
  obtain v where v: "smap_find (mdVariables (fdMetadata F)) k = Some v" "varName (vs ! v) = k" "fitting (vs ! v) x"
    using storableDataE [OF _ x, of vs] behind by metis
  obtain v' where v': "smap_find (mdVariables m) k = Some v'" "varHeap w ! v' = vs ! v"
    using sameContents_var [OF _ v(1)] behind by blast
  have "v' < length (varHeap w)"
    using behind v'(1) by (auto simp: metadata_on_def list_all_iff in_entries_iff [symmetric])
  moreover have "vals h (outside w) k = Some (valuesIn x)"
    using behind x by (auto simp: in_entries_iff [symmetric])
  ultimately have "Reader_readFullDatum E r k fd w = (Inr (fd\<lparr>fdData := addContainer x (fdData fd)\<rparr>), w)"
    using readContainer [OF assms(1) _ c, of r fd k v' x] behind v' v assms(3) by simp
  moreover have "partOf (insert k S) (fdData F) (addContainer x (fdData fd))"
    using assms(5) x v(2,3) by (auto simp: partOf_def fitting_def)
  ultimately show ?thesis by blast
qed

lemma Reader_readFullData_part:
  assumes "ncData E view vals" and "fileBehind view vals r h vs F m w" and "fdMetadata fd = m"
    and "set names \<subseteq> dom (smap_find (dataContainers (fdData F)))" and "partOf S (fdData F) (fdData fd)"
  shows "\<exists>d. Reader_readFullData E r fd names w = (Inr (fd\<lparr>fdData := d\<rparr>), w) \<and>
    partOf (S \<union> set names) (fdData F) d"
proof -
  let ?Q = "\<lambda>ys fd' w'. w' = w \<and> (\<exists>d. fd' = fd\<lparr>fdData := d\<rparr> \<and> partOf (S \<union> set ys) (fdData F) d)"
  have "\<exists>fd' w'. foldS (Reader_readFullDatum E r) names fd w = (Inr fd', w') \<and> ?Q names fd' w'"
  proof (rule foldS_rounds [where Q = ?Q])
    show "?Q [] fd w" using assms(5) by (intro conjI refl exI [of _ "fdData fd"]) simp_all
  next
    fix ys k zs fd' w' assume split: "names = ys @ k # zs" and Q: "?Q ys fd' w'"
    then obtain d where d: "fd' = fd\<lparr>fdData := d\<rparr>" "w' = w" "partOf (S \<union> set ys) (fdData F) d" by blast
    have "smap_find (dataContainers (fdData F)) k \<noteq> None" using assms(4) split by auto
    then obtain d' where "Reader_readFullDatum E r k fd' w = (Inr (fd'\<lparr>fdData := d'\<rparr>), w)"
        "partOf (insert k (S \<union> set ys)) (fdData F) d'"
      using Reader_readFullDatum_part [OF assms(1,2), of fd' k "S \<union> set ys"] assms(3) d by auto
    then show "\<exists>fd'' w''. Reader_readFullDatum E r k fd' w' = (Inr fd'', w'') \<and> ?Q (ys @ [k]) fd'' w''"
      using d(1,2) by auto
  qed
  moreover obtain f where "Reader_isOwner r w = (Inr True, w)"
    using assms(2) by (auto simp: fileBehind_def elim: readingE)
  ultimately show ?thesis by (auto simp: Reader_readFullData_def bindS_Inr)
qed

lemma Reader_readAllData_contents:
  assumes "ncData E view vals" and "fileBehind view vals r h vs F m w"
  shows "Reader_readAllData E r (FileData_new\<lparr>fdMetadata := m\<rparr>) w =
    (Inr (FileData_new\<lparr>fdMetadata := m, fdData := fdData F\<rparr>), w)"
proof -
  have names: "set (getVariableNames m) = dom (smap_find (dataContainers (fdData F)))"
    using assms(2) by (auto simp: fileBehind_def storableData_def sameContents_def getVariableNames_def
        getDataContainerNames_def extractKeys_eq set_keys)
  have "partOf {} (fdData F) (fdData (FileData_new\<lparr>fdMetadata := m\<rparr>))"
    by (simp add: FileData_new_def partOf_new)
  then obtain d where "Reader_readFullData E r (FileData_new\<lparr>fdMetadata := m\<rparr>) (getVariableNames m) w =
      (Inr (FileData_new\<lparr>fdMetadata := m, fdData := d\<rparr>), w)" "partOf (set (getVariableNames m)) (fdData F) d"
    using Reader_readFullData_part [OF assms, of "FileData_new\<lparr>fdMetadata := m\<rparr>" "getVariableNames m" "{}"] names
    by auto
  moreover from this have "d = fdData F" using partOf_all names by blast
  moreover obtain f where "Reader_isOwner r w = (Inr True, w)"
    using assms(2) by (auto simp: fileBehind_def elim: readingE)
  ultimately show ?thesis by (simp add: Reader_readAllData_def bindS_Inr)
qed

lemma Reader_readMetadata_contents:
  fixes E :: "('d, 't) env" and F :: "'t FileData"
  assumes "ncStore E view att" and "reading r h w" and "view h (outside w) = Some (contentsOf p att vs (fdMetadata F))"
    and "storableData vs F"
    and "\<forall>e \<in> set (entries (dataContainers (fdData F))). vals h (outside w) (fst e) = Some (valuesIn (snd e))"
  shows "\<exists>m w'. Reader_readMetadata E r FileData_new w = (Inr (FileData_new\<lparr>fdMetadata := m\<rparr>), w') \<and>
    w' = w\<lparr>varHeap := varHeap w @ variablesOf vs (fdMetadata F)\<rparr> \<and> fileBehind view vals r h vs F m w'"
proof -
  obtain f where f: "Reader_isOwner r w = (Inr True, w)" "Reader_getFile r w = (Inr f, w)" "readingFrom f h w"
    using assms(2) by (auto simp: readingFrom_def elim: readingE)
  let ?w = "w\<lparr>varHeap := varHeap w @ variablesOf vs (fdMetadata F)\<rparr>"
  obtain m where m: "File_readMetadata E f Metadata_new w = (Inr m, ?w)"
      "sameContents vs (fdMetadata F) (varHeap ?w) m" "metadata_on (varHeap ?w) m"
    using File_readMetadata_contents [OF assms(1) f(3) assms(3)] assms(4) by (auto simp: storableData_def)
  have "Reader_readMetadata E r FileData_new w = (Inr (FileData_new\<lparr>fdMetadata := m\<rparr>), ?w)"
    using m(1) f(1,2) by (simp add: Reader_readMetadata_def bindS_Inr FileData_new_def returnS_apply)
  moreover have "reading r h ?w"
    using assms(2) by (auto simp: reading_def readerSlot_def split: if_splits option.splits)
  ultimately show ?thesis using assms(3-5) m(2,3) by (auto simp: fileBehind_def)
qed

section \<open>The whole way\<close>

lemma ctPath_contentsOf [simp]: "ctPath (contentsOf p att vs m) = p"
  by (simp add: contentsOf_def)

text \<open>\<open>storeFile\<close> is what the writing entry points do with a \<open>FileData\<close>, \<open>loadFile\<close> what a reader does
  with the path of a file.\<close>

definition storeFile :: "('d, 't) env \<Rightarrow> ref \<Rightarrow> string \<Rightarrow> 't FileData \<Rightarrow> (('d, 't) world, unit) st" where
  "storeFile E r p fd =
    seqS (Writer_openFile E r p)
   (seqS (Writer_writeMetadata E r (fdMetadata fd))
   (seqS (Writer_writeData E r fd)
   (Writer_closeFile E r)))"

definition loadFile :: "('d, 't) env \<Rightarrow> ref \<Rightarrow> string \<Rightarrow> (('d, 't) world, 't FileData) st" where
  "loadFile E q p =
    seqS (Reader_openFile E q p)
   (bindS (Reader_readMetadata E q FileData_new) (\<lambda>fd.
    Reader_readAllData E q fd))"

lemma Writer_openFile_run:
  assumes "r < length (writerHeap w)" and "p \<noteq> []" and "mpiRank w = wrOwner (writerHeap w ! r)"
    and "writerSlot r w = None" and "ncOpen E p nc_replace (outside w) = (Inr h, d)"
  shows "Writer_openFile E r p w = (Inr (), w\<lparr>outside := d,
      fileHeap := fileHeap w @ [\<lparr>fiPath = p, fiMode = nc_replace, fiDataFile = Some h\<rparr>],
      writerHeap := (writerHeap w)[r := (writerHeap w ! r)\<lparr>wrFile := Some (length (fileHeap w))\<rparr>]\<rparr>)"
  using assms by (simp add: Writer_openFile_owner bindS_def File_new_apply Writer_resetFile_apply writerSlot_def
      returnS_def)

lemma Reader_openFile_run:
  assumes "q < length (readerHeap w)" and "p \<noteq> []" and "mpiRank w = rdOwner (readerHeap w ! q)"
    and "readerSlot q w = None" and "ncOpen E p nc_read (outside w) = (Inr h, d)"
  shows "Reader_openFile E q p w = (Inr (), w\<lparr>outside := d,
      fileHeap := fileHeap w @ [\<lparr>fiPath = p, fiMode = nc_read, fiDataFile = Some h\<rparr>],
      readerHeap := (readerHeap w)[q := (readerHeap w ! q)\<lparr>rdFile := Some (length (fileHeap w))\<rparr>]\<rparr>)"
  using assms by (simp add: Reader_openFile_owner bindS_def File_new_apply Reader_resetFile_apply readerSlot_def
      returnS_def)

lemma Writer_openFile_writing:
  assumes "r < length (writerHeap w)" and "p \<noteq> []" and "mpiRank w = wrOwner (writerHeap w ! r)"
    and "writerSlot r w = None" and "ncOpen E p nc_replace (outside w) = (Inr h, d)"
  shows "\<exists>f fs ws. Writer_openFile E r p w = (Inr (), w\<lparr>outside := d, fileHeap := fs, writerHeap := ws\<rparr>) \<and>
    writingWith r f h (w\<lparr>outside := d, fileHeap := fs, writerHeap := ws\<rparr>)"
  using Writer_openFile_run [OF assms] assms(1,3) by (force simp: writingWith_def writerSlot_def writingTo_def)

lemma Writer_write_more:
  assumes "ncStore E view att" and "ncData E view vals" and "writingWith r f h w"
    and "view h (outside w) = Some c" and "sortedContents c"
    and "\<forall>k n. smap_find (mdDimensions (fdMetadata fd)) k = Some n \<longrightarrow>
      map_of (merge_entries (ctDims c) (ctDims (contentsOf p att (varHeap w) (fdMetadata fd)))) k = Some (int_to_size n)"
    and "storable (varHeap w) (fdMetadata fd)"
    and "definesKeep E h (fst ` set (ctVars c)) Q" and "Q (outside w)"
    and "dataFor att (mergeContents c (contentsOf p att (varHeap w) (fdMetadata fd))) fd"
  obtains da d where "Writer_writeMetadata E r (fdMetadata fd) w = (Inr (), w\<lparr>outside := da\<rparr>)"
    and "Writer_writeData E r fd (w\<lparr>outside := da\<rparr>) = (Inr (), w\<lparr>outside := d\<rparr>)"
    and "view h d = Some (mergeContents c (contentsOf p att (varHeap w) (fdMetadata fd)))"
    and "\<forall>e \<in> set (entries (dataContainers (fdData fd))). vals h d (fst e) = Some (valuesIn (snd e))"
    and "\<forall>k. k \<notin> fst ` set (entries (dataContainers (fdData fd))) \<longrightarrow> vals h d k = vals h da k" and "Q da"
proof -
  let ?c = "mergeContents c (contentsOf p att (varHeap w) (fdMetadata fd))"
  obtain da where metadata: "File_writeMetadata E f (fdMetadata fd) w = (Inr (), w\<lparr>outside := da\<rparr>)" "view h da = Some ?c" "Q da"
    using File_writeMetadata_merge [OF assms(1) _ assms(4-9), of f] assms(3) by (auto simp: writingWith_def)
  then have "Writer_writeMetadata E r (fdMetadata fd) w = (Inr (), w\<lparr>outside := da\<rparr>)"
    using assms(3) writingWith_getFile [OF assms(3)]
    by (simp add: Writer_writeMetadata_def Writer_onOwner_apply writingWith_def bindS_Inr)
  moreover obtain db where "Writer_writeData E r fd (w\<lparr>outside := da\<rparr>) = (Inr (), w\<lparr>outside := db\<rparr>)" "view h db = Some ?c"
      "\<forall>e \<in> set (entries (dataContainers (fdData fd))). vals h db (fst e) = Some (valuesIn (snd e))"
      "\<forall>k. k \<notin> fst ` set (entries (dataContainers (fdData fd))) \<longrightarrow> vals h db k = vals h da k"
    using Writer_writeData_contents [OF assms(2), of r f h "w\<lparr>outside := da\<rparr>" ?c att fd] assms(3,10) metadata(2) by auto
  ultimately show ?thesis using metadata(3) by (intro that) assumption+
qed

lemma Writer_write_run:
  assumes "ncStore E view att" and "ncData E view vals" and "writingWith r f h w"
    and "view h (outside w) = Some (emptyContents p)" and "storableData (varHeap w) fd"
  obtains da d where "Writer_writeMetadata E r (fdMetadata fd) w = (Inr (), w\<lparr>outside := da\<rparr>)"
    and "Writer_writeData E r fd (w\<lparr>outside := da\<rparr>) = (Inr (), w\<lparr>outside := d\<rparr>)"
    and "view h d = Some (contentsOf p att (varHeap w) (fdMetadata fd))"
    and "\<forall>e \<in> set (entries (dataContainers (fdData fd))). vals h d (fst e) = Some (valuesIn (snd e))"
proof -
  have storable: "storable (varHeap w) (fdMetadata fd)" using assms(5) by (simp add: storableData_def)
  obtain da d where "Writer_writeMetadata E r (fdMetadata fd) w = (Inr (), w\<lparr>outside := da\<rparr>)"
      "Writer_writeData E r fd (w\<lparr>outside := da\<rparr>) = (Inr (), w\<lparr>outside := d\<rparr>)"
      "view h d = Some (mergeContents (emptyContents p) (contentsOf p att (varHeap w) (fdMetadata fd)))"
      "\<forall>e \<in> set (entries (dataContainers (fdData fd))). vals h d (fst e) = Some (valuesIn (snd e))"
    by (rule Writer_write_more [OF assms(1-4) emptyContents_sorted empty_sizes storable definesKeep_nothing TrueI])
      (simp_all add: mergeContents_empty storableData_for assms(5))
  then show ?thesis by (intro that) (simp_all add: mergeContents_empty)
qed

lemma Writer_closeFile_run:
  assumes "ncData E view vals" and "wf_world w" and "writingWith r f h w" and "view h (outside w) = Some c"
  obtains d1 h' d2 fs ws where
    "Writer_closeFile E r w = (Inr (), w\<lparr>outside := d1, fileHeap := fs, writerHeap := ws\<rparr>)"
    and "ncOpen E (ctPath c) nc_read d1 = (Inr h', d2)" and "view h' d2 = Some c"
    and "vals h' d2 = vals h (outside w)"
proof -
  obtain d1 h' d2 where close: "ncClose E h (outside w) = (Inr (), d1)" "ncOpen E (ctPath c) nc_read d1 = (Inr h', d2)"
      "view h' d2 = Some c" "vals h' d2 = vals h (outside w)"
    using reopensE [OF assms(1,4)] .
  have slot: "writerSlot r w = Some f" using assms(3) by (simp add: writingWith_def)
  have "File_close E f w = (Inr (), w\<lparr>outside := d1,
      fileHeap := (fileHeap w)[f := (fileHeap w ! f)\<lparr>fiDataFile := None\<rparr>]\<rparr>)"
    using close(1) assms(3) by (simp add: File_close_apply writingWith_def writingTo_def)
  then obtain fs ws where "Writer_closeFile E r w = (Inr (), w\<lparr>outside := d1, fileHeap := fs, writerHeap := ws\<rparr>)"
    using Writer_closeFile_open [OF assms(2) slot, of E] by simp
  then show ?thesis using close(2-4) by (rule that)
qed

lemma storeFile_run:
  assumes "ncStore E view att" and "ncData E view vals" and "wf_world w"
    and "r < length (writerHeap w)" and "p \<noteq> []" and "mpiRank w = wrOwner (writerHeap w ! r)"
    and "writerSlot r w = None" and "ncOpen E p nc_replace (outside w) = (Inr h, d0)"
    and "view h d0 = Some (emptyContents p)" and "storableData (varHeap w) fd"
  obtains d1 h' d2 fs ws where
    "storeFile E r p fd w = (Inr (), w\<lparr>outside := d1, fileHeap := fs, writerHeap := ws\<rparr>)"
    and "ncOpen E p nc_read d1 = (Inr h', d2)" and "view h' d2 = Some (contentsOf p att (varHeap w) (fdMetadata fd))"
    and "\<forall>e \<in> set (entries (dataContainers (fdData fd))). vals h' d2 (fst e) = Some (valuesIn (snd e))"
proof -
  obtain f fs0 ws0 where opened: "Writer_openFile E r p w = (Inr (), w\<lparr>outside := d0, fileHeap := fs0, writerHeap := ws0\<rparr>)"
      "writingWith r f h (w\<lparr>outside := d0, fileHeap := fs0, writerHeap := ws0\<rparr>)"
    using Writer_openFile_writing [OF assms(4-8)] by blast
  let ?w1 = "w\<lparr>outside := d0, fileHeap := fs0, writerHeap := ws0\<rparr>"
  have "view h (outside ?w1) = Some (emptyContents p)" "storableData (varHeap ?w1) fd"
    using assms(9,10) by simp_all
  from Writer_write_run [OF assms(1,2) opened(2) this]
  obtain da db where written: "Writer_writeMetadata E r (fdMetadata fd) ?w1 = (Inr (), ?w1\<lparr>outside := da\<rparr>)"
      "Writer_writeData E r fd (?w1\<lparr>outside := da\<rparr>) = (Inr (), ?w1\<lparr>outside := db\<rparr>)"
      "view h db = Some (contentsOf p att (varHeap w) (fdMetadata fd))"
      "\<forall>e \<in> set (entries (dataContainers (fdData fd))). vals h db (fst e) = Some (valuesIn (snd e))"
    by auto
  have "wf_world ?w1" using keepsS_snd [OF Writer_openFile_wf assms(3), of E r p] opened(1) by simp
  then have wf: "wf_world (?w1\<lparr>outside := db\<rparr>)" by (simp only: wf_world_outside)
  let ?c = "contentsOf p att (varHeap w) (fdMetadata fd)"
  have open_still: "writingWith r f h (?w1\<lparr>outside := db\<rparr>)" "view h (outside (?w1\<lparr>outside := db\<rparr>)) = Some ?c"
    using opened(2) written(3) by (simp_all only: writingWith_outside) simp
  obtain d1 h' d2 fs ws where close: "Writer_closeFile E r (?w1\<lparr>outside := db\<rparr>) =
        (Inr (), ?w1\<lparr>outside := db, outside := d1, fileHeap := fs, writerHeap := ws\<rparr>)"
      "ncOpen E (ctPath ?c) nc_read d1 = (Inr h', d2)" "view h' d2 = Some ?c"
      "vals h' d2 = vals h (outside (?w1\<lparr>outside := db\<rparr>))"
    by (rule Writer_closeFile_run [OF assms(2) wf open_still])
  have "storeFile E r p fd w = (Inr (), w\<lparr>outside := d1, fileHeap := fs, writerHeap := ws\<rparr>)"
    using opened(1) written(1,2) close(1) by (simp add: storeFile_def seqS_eq bindS_Inr)
  then show ?thesis
    using close(2-4) written(4) by (intro that [where h' = h' and ?d2.0 = d2]) simp_all
qed

text \<open>
  Opening \<open>p\<close> in a reader gives handle \<open>h\<close> and leaves \<open>d\<close> outside. A reader that has a file open
  replaces it: the new file is opened first, then the old one is destroyed and thereby closed.
\<close>

definition opensReader :: "('d, 't) env \<Rightarrow> ref \<Rightarrow> string \<Rightarrow> nat \<Rightarrow> 'd \<Rightarrow> ('d, 't) world \<Rightarrow> bool" where
  "opensReader E q p h d w \<longleftrightarrow> (\<exists>d1. ncOpen E p nc_read (outside w) = (Inr h, d1) \<and>
    (case readerSlot q w of
      None \<Rightarrow> d = d1
    | Some f \<Rightarrow> f < length (fileHeap w) \<and>
        (\<exists>h0. fiDataFile (fileHeap w ! f) = Some h0 \<and> ncClose E h0 d1 = (Inr (), d))))"

lemma opensReader_idle:
  "readerSlot q w = None \<Longrightarrow> opensReader E q p h d w \<longleftrightarrow> ncOpen E p nc_read (outside w) = (Inr h, d)"
  by (auto simp: opensReader_def)

lemma Reader_openFile_opens:
  assumes "q < length (readerHeap w)" and "p \<noteq> []" and "mpiRank w = rdOwner (readerHeap w ! q)"
    and "opensReader E q p h d w"
  shows "\<exists>fs rs. Reader_openFile E q p w = (Inr (), w\<lparr>outside := d, fileHeap := fs, readerHeap := rs\<rparr>) \<and>
    reading q h (w\<lparr>outside := d, fileHeap := fs, readerHeap := rs\<rparr>) \<and> length rs = length (readerHeap w)"
proof (cases "readerSlot q w")
  case None
  then show ?thesis
    using Reader_openFile_run [OF assms(1-3) None, of E h d] assms(1,3,4)
    by (force simp: opensReader_idle reading_def readerSlot_def)
next
  case (Some f)
  then obtain d1 h0 where opened: "ncOpen E p nc_read (outside w) = (Inr h, d1)" "f < length (fileHeap w)"
      "fiDataFile (fileHeap w ! f) = Some h0" "ncClose E h0 d1 = (Inr (), d)"
    using assms(4) by (auto simp: opensReader_def)
  let ?rs = "(readerHeap w)[q := (readerHeap w ! q)\<lparr>rdFile := Some (length (fileHeap w))\<rparr>]"
  let ?fs = "fileHeap w @ [\<lparr>fiPath = p, fiMode = nc_read, fiDataFile = Some h\<rparr>]"
  let ?fs' = "?fs[f := (fileHeap w ! f)\<lparr>fiDataFile := None\<rparr>]"
  have "File_delete E f (w\<lparr>outside := d1, fileHeap := ?fs, readerHeap := ?rs\<rparr>) =
      (Inr (), w\<lparr>outside := d, fileHeap := ?fs', readerHeap := ?rs\<rparr>)"
    using opened(2-4) by (simp add: File_delete_def catchNc_def File_close_apply nth_append)
  then have "Reader_openFile E q p w = (Inr (), w\<lparr>outside := d, fileHeap := ?fs', readerHeap := ?rs\<rparr>)"
    using assms(1-3) Some opened(1)
    by (simp add: Reader_openFile_owner bindS_def File_new_apply Reader_resetFile_apply readerSlot_def returnS_def)
  moreover have "reading q h (w\<lparr>outside := d, fileHeap := ?fs', readerHeap := ?rs\<rparr>)"
    using assms(1,3) opened(2) by (simp add: reading_def readerSlot_def nth_append)
  ultimately show ?thesis by (intro exI [of _ ?fs'] exI [of _ ?rs]) simp
qed

lemma Reader_openFile_reading:
  assumes "q < length (readerHeap w)" and "p \<noteq> []" and "mpiRank w = rdOwner (readerHeap w ! q)"
    and "readerSlot q w = None" and "ncOpen E p nc_read (outside w) = (Inr h, d)"
  shows "\<exists>fs rs. Reader_openFile E q p w = (Inr (), w\<lparr>outside := d, fileHeap := fs, readerHeap := rs\<rparr>) \<and>
    reading q h (w\<lparr>outside := d, fileHeap := fs, readerHeap := rs\<rparr>) \<and> length rs = length (readerHeap w)"
  using Reader_openFile_opens [OF assms(1-3)] assms(4,5) by (simp add: opensReader_idle)

lemma loadFile_run:
  fixes E :: "('d, 't) env" and F :: "'t FileData"
  assumes "ncStore E view att" and "ncData E view vals"
    and "q < length (readerHeap w)" and "p \<noteq> []" and "mpiRank w = rdOwner (readerHeap w ! q)"
    and "readerSlot q w = None" and "ncOpen E p nc_read (outside w) = (Inr h, d)"
    and "view h d = Some (contentsOf p att vs (fdMetadata F))"
    and "\<forall>e \<in> set (entries (dataContainers (fdData F))). vals h d (fst e) = Some (valuesIn (snd e))"
    and "storableData vs F"
  obtains m w' where "loadFile E q p w = (Inr (FileData_new\<lparr>fdMetadata := m, fdData := fdData F\<rparr>), w')"
    and "varHeap w' = varHeap w @ variablesOf vs (fdMetadata F)"
    and "sameContents vs (fdMetadata F) (varHeap w') m" and "metadata_on (varHeap w') m"
proof -
  obtain fs rs where opened: "Reader_openFile E q p w = (Inr (), w\<lparr>outside := d, fileHeap := fs, readerHeap := rs\<rparr>)"
      "reading q h (w\<lparr>outside := d, fileHeap := fs, readerHeap := rs\<rparr>)"
    using Reader_openFile_reading [OF assms(3-7)] by blast
  let ?w1 = "w\<lparr>outside := d, fileHeap := fs, readerHeap := rs\<rparr>"
  obtain m w2 where m: "Reader_readMetadata E q FileData_new ?w1 = (Inr (FileData_new\<lparr>fdMetadata := m\<rparr>), w2)"
      "w2 = ?w1\<lparr>varHeap := varHeap ?w1 @ variablesOf vs (fdMetadata F)\<rparr>" "fileBehind view vals q h vs F m w2"
    using Reader_readMetadata_contents [OF assms(1) opened(2) _ assms(10), of p vals] assms(8,9) by auto
  have "loadFile E q p w = (Inr (FileData_new\<lparr>fdMetadata := m, fdData := fdData F\<rparr>), w2)"
    using Reader_readAllData_contents [OF assms(2) m(3)]
    by (simp add: loadFile_def seqS_eq opened(1) m(1) bindS_Inr)
  then show ?thesis using m(2,3) by (intro that [of m w2]) (simp_all add: fileBehind_def)
qed


end
