(* ===== verification/Monio_Core.thy ===== *)
theory Monio_Core
  imports Readers Writers Field_Round_Trips
begin

text \<open>
  \<open>src/monio/Monio.cc\<close>: the class the host program calls, through \<open>Monio::get()\<close>. It keeps a
  \<open>FileData\<close> per grid name (\<open>filesData_\<close>) and moves data between files and fields: gather a field
  to the owner's PE, read or write it there, scatter it. The entry points catch NetCDF exceptions
  and leave through \<open>failS\<close>.
\<close>

section \<open>The file data of a grid\<close>

definition setMonio :: "('t Monio \<Rightarrow> 't Monio) \<Rightarrow> (('d, 't) world, unit) st" where
  "setMonio f = modifyS (\<lambda>w. w\<lparr>theMonio := map_option f (theMonio w)\<rparr>)"

definition createFileData :: "string \<Rightarrow> string \<Rightarrow> (('d, 't) world, unit) st" where
  "createFileData gridName filePath =
    setMonio (\<lambda>this.
      let filesData = (if smap_find (moFilesData this) gridName \<noteq> None
                       then smap_erase gridName (moFilesData this) else moFilesData this)
      in this\<lparr>moFilesData := smap_insert gridName FileData_new filesData\<rparr>)"

definition getFileData :: "string \<Rightarrow> (('d, 't) world, 't FileData) st" where
  "getFileData gridName =
    bindS Monio_get (\<lambda>this.
    returnS (case smap_find (moFilesData this) gridName of
      Some fd \<Rightarrow> fd
    | None \<Rightarrow> FileData_new))"

text \<open>An operation on the reference that \<open>createFileData\<close> returned.\<close>

definition updateFileData ::
    "string \<Rightarrow> ('t FileData \<Rightarrow> (('d, 't) world, 't FileData) st) \<Rightarrow> (('d, 't) world, unit) st" where
  "updateFileData gridName op =
    bindS Monio_get (\<lambda>this.
    case smap_find (moFilesData this) gridName of
      Some fd \<Rightarrow> bindS (op fd) (\<lambda>fd'.
        setMonio (\<lambda>this. this\<lparr>moFilesData := smap_put gridName fd' (moFilesData this)\<rparr>))
    | None \<Rightarrow> throwS (Undefined ''FileData reference''))"

section \<open>Order map and date-times\<close>

definition Monio_createLfricAtlasMap ::
    "('d, 't) env \<Rightarrow> 't Monio \<Rightarrow> string \<Rightarrow> 't FileData \<Rightarrow> (('d, 't) world, 't FileData) st" where
  "Monio_createLfricAtlasMap E this grid fd =
    onRank (moOwner this) fd (
    if length (fdLfricAtlasMap fd) = 0 then
      bindS (Reader_readFullData E (moReader this) fd kLfricCoordVarNames) (\<lambda>fd.
      bindS (Reader_getCoordData E (moReader this) fd kLfricCoordVarNames) (\<lambda>coordData.
      bindS (getLfricCoords E coordData) (\<lambda>lfricCoords.
      bindS (createLfricAtlasMap E (getGridCoords E grid) lfricCoords) (\<lambda>lfricAtlasMap.
      returnS (setLfricAtlasMap lfricAtlasMap fd)))))
    else returnS fd)"

text \<open>\<open>dateTimeSplit[0]\<close> and \<open>dateTimeSplit[1]\<close> of a text with fewer than two words do not exist.\<close>

definition convertToAtlasDateTimeStr :: "string \<Rightarrow> ('w, string) st" where
  "convertToAtlasDateTimeStr lfricDateTimeStr =
    (case strToWords lfricDateTimeStr (CHR '' '') of
      date # time # _ \<Rightarrow> returnS (date @ ''T'' @ time @ ''Z'')
    | _ \<Rightarrow> throwS (Undefined ''dateTimeSplit[1]''))"

text \<open>\<open>static_cast<uint64_t>(std::round(x))\<close>: halves away from zero; no value outside the range.\<close>

definition std_round :: "rat \<Rightarrow> int" where
  "std_round x = (if 0 \<le> x then \<lfloor>x + 1 / 2\<rfloor> else - \<lfloor>1 / 2 - x\<rfloor>)"

fun toSeconds :: "double \<Rightarrow> ('w, size_t) st" where
  "toSeconds (FNum x) =
    (if 0 \<le> std_round x \<and> std_round x < 2 ^ 64 then returnS (word_of_int (std_round x))
     else throwS (Undefined ''static_cast<uint64_t>''))"
| "toSeconds FNaN = throwS (Undefined ''static_cast<uint64_t>'')"
| "toSeconds (FInf sign) = throwS (Undefined ''static_cast<uint64_t>'')"

definition createDateTimes ::
    "('d, 't) env \<Rightarrow> 't Monio \<Rightarrow> string \<Rightarrow> string \<Rightarrow> 't FileData \<Rightarrow>
     (('d, 't) world, 't FileData) st" where
  "createDateTimes E this timeVarName timeOriginName fd =
    onRank (moOwner this) fd (
    if length (fdDateTimes fd) = 0 then
      bindS (getVariable E (fdMetadata fd) timeVarName) (\<lambda>timeVar.
      bindS (getContainer E (fdData fd) timeVarName) (\<lambda>timeDataBase.
      case timeDataBase of
        DataContainerDouble _ timeData \<Rightarrow>
          bindS (Variable_getStrAttr E timeVar timeOriginName) (\<lambda>timeOrigin.
          bindS (convertToAtlasDateTimeStr timeOrigin) (\<lambda>timeAtlasOrigin.
          bindS (atlasS (dateTimeOf E timeAtlasOrigin)) (\<lambda>originDateTime.
          bindS (Variable_getTotalSize timeVar) (\<lambda>total.
          bindS (mapS (\<lambda>index.
              bindS (DataContainerDouble_getDatum E timeData (of_nat index)) (\<lambda>datum.
              bindS (toSeconds datum) (\<lambda>duration.
              returnS (addDuration E originDateTime duration)))) [0..<unat total]) (\<lambda>dateTimes.
          returnS (setDateTimes dateTimes fd))))))
      | _ \<Rightarrow> failS E ''Monio::createDateTimes'' ''Time data not stored as double''))
    else returnS fd)"

definition initialiseFile ::
    "('d, 't) env \<Rightarrow> string \<Rightarrow> string \<Rightarrow> bool \<Rightarrow> (('d, 't) world, int32) st" where
  "initialiseFile E grid filePath doCreateDateTimes =
    bindS Monio_get (\<lambda>this.
    let rd = moReader this; update = updateFileData grid in
    onRank (moOwner this) eLfricConvention (
    seqS (createFileData grid filePath)
   (seqS (Reader_openFile E rd filePath)
   (seqS (update (Reader_readMetadata E rd))
   (seqS (update (\<lambda>fd. Reader_readFullData E rd fd (findVariableNames (fdMetadata fd) kLfricMeshTerm)))
   (seqS (update (Reader_readFullDatum E rd kVerticalFullName))
   (seqS (update (Reader_readFullDatum E rd kVerticalHalfName))
   (seqS (update (Monio_createLfricAtlasMap E this grid))
   (seqS (whenS (doCreateDateTimes = True)
      (seqS (update (Reader_readFullDatum E rd kTimeVarName))
       (update (createDateTimes E this kTimeVarName kTimeOriginName))))
   (bindS (getFileData grid) (\<lambda>fd.
    getVariableConvention (fdMetadata fd))))))))))))"

section \<open>File data to write\<close>

definition cleanFileData ::
    "('d, 't) env \<Rightarrow> 't Monio \<Rightarrow> 't FileData \<Rightarrow> (('d, 't) world, 't FileData) st" where
  "cleanFileData E this fd =
    onRank (moOwner this) fd (
    let m = clearGlobalAttributes (fdMetadata fd) in
    bindS (deleteDimension kTimeDimName m) (\<lambda>m.
    bindS (deleteDimension kTileDimName m) (\<lambda>m.
    let d = deleteContainer kTileVarName (deleteContainer kTimeVarName (fdData fd));
        metadataVarNames = getVariableNames m;
        dataContainerNames = getDataContainerNames d in
    bindS (foldS (\<lambda>metadataVarName m.
        if std_find dataContainerNames metadataVarName = length dataContainerNames
        then deleteVariable E metadataVarName m else returnS m) metadataVarNames m) (\<lambda>m.
    returnS (fd\<lparr>fdMetadata := m, fdData := d\<rparr>)))))"

text \<open>\<open>std::iota\<close> from \<open>first\<close> by ones.\<close>

definition iota :: "nat \<Rightarrow> rat \<Rightarrow> double list" where
  "iota n first = map (\<lambda>i. FNum (first + of_nat i)) [0..<n]"

definition addJediData :: "('d, 't) env \<Rightarrow> 't FileData \<Rightarrow> (('d, 't) world, 't FileData) st" where
  "addJediData E fd =
    (let m = addDimension kVertHalfWithTopName kVertHalfWithTopSize
               (addDimension kVertFullNoSurfName kVertFullNoSurfSize (fdMetadata fd)) in
     bindS (Variable_new kVertFullNoSurfName eDouble) (\<lambda>vertFullNoSurfVar.
     bindS (Variable_new kVertHalfWithTopName eDouble) (\<lambda>vertHalfWithTopVar.
     seqS (Variable_addDimension E vertFullNoSurfVar kVertFullNoSurfName (int_to_size kVertFullNoSurfSize))
    (seqS (Variable_addDimension E vertHalfWithTopVar kVertHalfWithTopName (int_to_size kVertHalfWithTopSize))
    (seqS (Variable_addAttribute E vertFullNoSurfVar (AttributeString ''name'' kVertFullNoSurfName))
    (seqS (Variable_addAttribute E vertHalfWithTopVar (AttributeString ''name'' kVertHalfWithTopName))
    (let m = addVariable kVertHalfWithTopName vertHalfWithTopVar
               (addVariable kVertFullNoSurfName vertFullNoSurfVar m);
         vertFullNoSurfValues = iota (unat kVertFullNoSurfSize) kVerticalFullInc;
         vertHalfWithTopValues = iota (unat kVertHalfWithTopSize) kVerticalHalfInc;
         d = addContainer (DataContainerDouble kVertHalfWithTopName vertHalfWithTopValues)
               (addContainer (DataContainerDouble kVertFullNoSurfName vertFullNoSurfValues) (fdData fd)) in
     returnS (fd\<lparr>fdMetadata := m, fdData := d\<rparr>))))))))"

section \<open>Reading\<close>

definition gridOf :: "('d, 't) env \<Rightarrow> ref \<Rightarrow> (('d, 't) world, string) st" where
  "gridOf E f = bindS (derefS fieldHeap f) (\<lambda>field. returnS (atGridName E (fieldSpace field)))"

text \<open>\<open>functionSpace.scatter(globalField, localField); localField.haloExchange();\<close>\<close>

definition scatterField :: "('d, 't) env \<Rightarrow> ref \<Rightarrow> ref \<Rightarrow> (('d, 't) world, unit) st" where
  "scatterField E globalField localField =
    bindS (derefS fieldHeap globalField) (\<lambda>g.
    bindS (derefS fieldHeap localField) (\<lambda>l.
    bindS (atlasS (atScatter E (fieldSpace g) g l)) (\<lambda>scattered.
    seqS (setField localField scattered)
   (bindS (atlasS (atHaloExchange E scattered)) (\<lambda>exchanged.
    setField localField exchanged)))))"

text \<open>The checks around the \<open>try\<close> block, and its handler.\<close>

definition entryPoint ::
    "('d, 't) env \<Rightarrow> string \<Rightarrow> FieldSet \<Rightarrow> string \<Rightarrow> (('d, 't) world, unit) st \<Rightarrow>
     (('d, 't) world, unit) st \<Rightarrow> (('d, 't) world, unit) st" where
  "entryPoint E who localFieldSet filePath noPath body =
    seqS (whenS (length (fsFields localFieldSet) = 0) (failS E who ''localFieldSet has zero fields''))
    (if length filePath \<noteq> 0 then catchNc body (\<lambda>exceptionMessage. failS E who exceptionMessage)
     else noPath)"

definition readStateField ::
    "('d, 't) env \<Rightarrow> 't Monio \<Rightarrow> FieldSet \<Rightarrow> string \<Rightarrow> 't \<Rightarrow> FieldMetadata \<Rightarrow>
     (('d, 't) world, unit) st" where
  "readStateField E this localFieldSet filePath dateTime fieldMetadata =
    bindS (fieldNamed localFieldSet (jediName fieldMetadata)) (\<lambda>localField.
    bindS (getGlobalField E localField) (\<lambda>globalField.
    seqS (onRank (moOwner this) () (
      bindS (gridOf E globalField) (\<lambda>grid.
      bindS (initialiseFile E grid filePath True) (\<lambda>variableConvention.
      bindS (getFileData grid) (\<lambda>fd.
      let readName = (if variableConvention = eJediConvention then jediName fieldMetadata
                      else lfricReadName fieldMetadata) in
      whenS (findInVector kMissingVariableNames readName = False) (
        bindS (Reader_readDatumAtTime E (moReader this) fd readName dateTime kTimeDimName) (\<lambda>fd.
        populateFieldWithFileData E (moOwner this) globalField fd fieldMetadata readName
          (variableConvention = eLfricConvention))))))))
    (scatterField E globalField localField)))"

definition readState ::
    "('d, 't) env \<Rightarrow> FieldSet \<Rightarrow> FieldMetadata list \<Rightarrow> string \<Rightarrow> 't \<Rightarrow> (('d, 't) world, unit) st" where
  "readState E localFieldSet fieldMetadataVec filePath dateTime =
    bindS Monio_get (\<lambda>this.
    seqS (whenS (length (fsFields localFieldSet) = 0)
      (failS E ''Monio::readState'' ''localFieldSet has zero fields''))
    (if length filePath \<noteq> 0 then
      bindS (fileExists E filePath) (\<lambda>present.
      if present then
        catchNc
          (seqS (forS fieldMetadataVec (readStateField E this localFieldSet filePath dateTime))
           (Reader_closeFile E (moReader this)))
          (\<lambda>exceptionMessage. failS E ''Monio::readState'' exceptionMessage)
      else failS E ''Monio::readState'' (''File '' @ filePath @ '' does not exist''))
     else failS E ''Monio::readState'' ''No file path supplied''))"

definition readIncrementsField ::
    "('d, 't) env \<Rightarrow> 't Monio \<Rightarrow> FieldSet \<Rightarrow> string \<Rightarrow> FieldMetadata \<Rightarrow> (('d, 't) world, unit) st" where
  "readIncrementsField E this localFieldSet filePath fieldMetadata =
    bindS (fieldNamed localFieldSet (jediName fieldMetadata)) (\<lambda>localField.
    bindS (getGlobalField E localField) (\<lambda>globalField.
    seqS (onRank (moOwner this) () (
      bindS (gridOf E globalField) (\<lambda>grid.
      bindS (initialiseFile E grid filePath False) (\<lambda>variableConvention.
      bindS (getFileData grid) (\<lambda>fd.
      let readName = (if variableConvention = eJediConvention then jediName fieldMetadata
                      else lfricReadName fieldMetadata) in
      bindS (Reader_readFullDatum E (moReader this) readName fd) (\<lambda>fd.
      populateFieldWithFileData E (moOwner this) globalField fd fieldMetadata readName
        (variableConvention = eLfricConvention)))))))
    (scatterField E globalField localField)))"

definition readIncrements ::
    "('d, 't) env \<Rightarrow> FieldSet \<Rightarrow> FieldMetadata list \<Rightarrow> string \<Rightarrow> (('d, 't) world, unit) st" where
  "readIncrements E localFieldSet fieldMetadataVec filePath =
    bindS Monio_get (\<lambda>this.
    seqS (whenS (length (fsFields localFieldSet) = 0)
      (failS E ''Monio::readIncrements'' ''localFieldSet has zero fields''))
    (if length filePath \<noteq> 0 then
      bindS (fileExists E filePath) (\<lambda>present.
      if present then
        catchNc
          (seqS (forS fieldMetadataVec (readIncrementsField E this localFieldSet filePath))
           (Reader_closeFile E (moReader this)))
          (\<lambda>exceptionMessage. failS E ''Monio::readIncrements'' exceptionMessage)
      else failS E ''Monio::readIncrements'' (''File '' @ filePath @ '' does not exist''))
     else failS E ''Monio::readIncrements'' ''No file path supplied''))"

section \<open>Writing\<close>

text \<open>The body of the loop of \<open>writeIncrements\<close> and \<open>writeState\<close>, which differ in the name they
  give a field in an LFRic file.\<close>

definition writeField ::
    "('d, 't) env \<Rightarrow> 't Monio \<Rightarrow> string \<Rightarrow> (FieldMetadata \<Rightarrow> string) \<Rightarrow> FieldSet \<Rightarrow> bool \<Rightarrow>
     FieldMetadata \<Rightarrow> 't FileData \<Rightarrow> (('d, 't) world, 't FileData) st" where
  "writeField E this who lfricName localFieldSet isLfricConvention fieldMetadata fd =
    bindS (fieldNamed localFieldSet (jediName fieldMetadata)) (\<lambda>localField.
    bindS (getGlobalField E localField) (\<lambda>globalField.
    onRank (moOwner this) fd (
      bindS (derefS fieldHeap globalField) (\<lambda>field.
      bindS (if isLfricConvention = True
             then returnS (lfricName fieldMetadata, lfricVertConfig fieldMetadata)
             else if isLfricConvention = False \<and> jediName fieldMetadata = fieldName field
             then returnS (jediName fieldMetadata, jediVertConfig fieldMetadata)
             else failS E who ''Field metadata configuration error'') (\<lambda>(writeName, verticalConfigName).
      bindS (populateFileDataWithField E (moOwner this) fd globalField fieldMetadata writeName
        verticalConfigName isLfricConvention) (\<lambda>fd.
      seqS (Writer_writeMetadata E (moWriter this) (fdMetadata fd))
     (seqS (Writer_writeData E (moWriter this) fd)
      (returnS (clearData fd)))))))))"

definition writeFields ::
    "('d, 't) env \<Rightarrow> 't Monio \<Rightarrow> string \<Rightarrow> (FieldMetadata \<Rightarrow> string) \<Rightarrow> FieldSet \<Rightarrow>
     FieldMetadata list \<Rightarrow> string \<Rightarrow> bool \<Rightarrow> (('d, 't) world, unit) st" where
  "writeFields E this who lfricName localFieldSet fieldMetadataVec filePath isLfricConvention =
    bindS (gridOf E (fsFields localFieldSet ! 0)) (\<lambda>grid.
    bindS (getFileData grid) (\<lambda>fd.
    bindS (cleanFileData E this fd) (\<lambda>fd.
    bindS (if isLfricConvention = False then addJediData E fd else returnS fd) (\<lambda>fd.
    seqS (Writer_openFile E (moWriter this) filePath)
   (bindS (foldS (writeField E this who lfricName localFieldSet isLfricConvention) fieldMetadataVec fd) (\<lambda>fd.
    Writer_closeFile E (moWriter this)))))))"

definition writeIncrements ::
    "('d, 't) env \<Rightarrow> FieldSet \<Rightarrow> FieldMetadata list \<Rightarrow> string \<Rightarrow> bool \<Rightarrow> (('d, 't) world, unit) st" where
  "writeIncrements E localFieldSet fieldMetadataVec filePath isLfricConvention =
    bindS Monio_get (\<lambda>this.
    entryPoint E ''Monio::writeIncrements'' localFieldSet filePath (returnS ())
      (writeFields E this ''Monio::writeIncrements'' lfricWriteName localFieldSet fieldMetadataVec
        filePath isLfricConvention))"

definition writeState ::
    "('d, 't) env \<Rightarrow> FieldSet \<Rightarrow> FieldMetadata list \<Rightarrow> string \<Rightarrow> bool \<Rightarrow> (('d, 't) world, unit) st" where
  "writeState E localFieldSet fieldMetadataVec filePath isLfricConvention =
    bindS Monio_get (\<lambda>this.
    entryPoint E ''Monio::writeState'' localFieldSet filePath (returnS ())
      (writeFields E this ''Monio::writeState'' lfricReadName localFieldSet fieldMetadataVec
        filePath isLfricConvention))"

definition writeFieldSetField ::
    "('d, 't) env \<Rightarrow> 't Monio \<Rightarrow> ref \<Rightarrow> 't FileData \<Rightarrow> (('d, 't) world, 't FileData) st" where
  "writeFieldSetField E this localField fd =
    bindS (getGlobalField E localField) (\<lambda>globalField.
    onRank (moOwner this) fd (
      bindS (derefS fieldHeap globalField) (\<lambda>field.
      bindS Monio_get (\<lambda>now.
      bindS (populateFileDataWithFieldOnly E (moOwner this) (moAtlasWriter now) fd globalField
        (fieldName field)) (\<lambda>(fd, aw).
      seqS (setMonio (\<lambda>this. this\<lparr>moAtlasWriter := aw\<rparr>))
     (seqS (Writer_writeMetadata E (moWriter this) (fdMetadata fd))
     (seqS (Writer_writeData E (moWriter this) fd)
      (returnS (clearData fd)))))))))"

definition writeFieldSet ::
    "('d, 't) env \<Rightarrow> FieldSet \<Rightarrow> string \<Rightarrow> (('d, 't) world, unit) st" where
  "writeFieldSet E localFieldSet filePath =
    bindS Monio_get (\<lambda>this.
    entryPoint E ''Monio::writeFieldSet'' localFieldSet filePath (returnS ())
      (seqS (Writer_openFile E (moWriter this) filePath)
      (bindS (foldS (writeFieldSetField E this) (fsFields localFieldSet) FileData_new) (\<lambda>fd.
       Writer_closeFile E (moWriter this)))))"

section \<open>What the operations keep\<close>

context world_invariant
begin

lemma setMonio_kept:
  assumes "\<And>m. moOwner (f m) = moOwner m" and "\<And>m. moReader (f m) = moReader m"
    and "\<And>m. moWriter (f m) = moWriter m"
  shows "keepsS I (setMonio f)"
  unfolding setMonio_def
proof (rule keepsS_modifyS)
  fix w assume I: "I w"
  show "I (w\<lparr>theMonio := map_option f (theMonio w)\<rparr>)"
  proof (cases "theMonio w")
    case None
    then have "w\<lparr>theMonio := map_option f (theMonio w)\<rparr> = w" by simp
    then show ?thesis using I by simp
  qed (use I in \<open>auto simp: assms theMonio_kept\<close>)
qed

lemma createFileData_kept [keeps_intros]: "keepsS I (createFileData g p)"
  unfolding createFileData_def by (rule setMonio_kept) (simp_all add: Let_def)

lemma getFileData_kept [keeps_intros]: "keepsS I (getFileData g)"
  unfolding getFileData_def by (intro keeps_intros)

lemma updateFileData_kept [keeps_intros]:
  "(\<And>fd. keepsS I (op fd)) \<Longrightarrow> keepsS I (updateFileData g op)"
  unfolding updateFileData_def by (intro keeps_intros setMonio_kept) simp_all

end

lemma toSeconds_keeps [keeps_intros]: "keepsS I (toSeconds x)"
  by (cases x) (auto intro: keeps_intros)

context world_invariant
begin

lemma getDatum_kept [keeps_intros]: "keepsS I (DataContainerDouble_getDatum E xs i)"
  unfolding DataContainerDouble_getDatum_def container_getDatum_def by (intro keeps_intros)

end

lemma convertToAtlasDateTimeStr_keeps [keeps_intros]: "keepsS I (convertToAtlasDateTimeStr s)"
  unfolding convertToAtlasDateTimeStr_def by (auto intro: keeps_intros split: list.split)

context world_invariant
begin

lemma monio_parts_kept [keeps_intros]:
  "keepsS I (Monio_createLfricAtlasMap E this g fd)"
  "keepsS I (createDateTimes E this n t fd)"
  "keepsS I (cleanFileData E this fd)"
  "keepsS I (addJediData E fd)"
  "keepsS I (gridOf E f)"
  "keepsS I (scatterField E f l)"
  unfolding Monio_createLfricAtlasMap_def createDateTimes_def cleanFileData_def addJediData_def
    gridOf_def scatterField_def Let_def
  by (intro keeps_intros)+

lemma entryPoint_kept [keeps_intros]:
  "keepsS I noPath \<Longrightarrow> keepsS I body \<Longrightarrow> keepsS I (entryPoint E who fs p noPath body)"
  unfolding entryPoint_def by (intro keeps_intros)

end

text \<open>Reading opens the reader's file, writing the writer's.\<close>

locale reading_invariant = world_invariant +
  assumes Reader_openFile_kept [keeps_intros]: "keepsS I (Reader_openFile E r p)"
begin

lemma initialiseFile_kept [keeps_intros]: "keepsS I (initialiseFile E g p b)"
  unfolding initialiseFile_def Let_def by (intro keeps_intros)

lemma read_loops_kept [keeps_intros]:
  "keepsS I (readStateField E this fs p t fm)"
  "keepsS I (readIncrementsField E this fs p fm)"
  unfolding readStateField_def readIncrementsField_def Let_def by (intro keeps_intros)+

lemma reads_kept [keeps_intros]:
  "keepsS I (readState E fs fms p t)"
  "keepsS I (readIncrements E fs fms p)"
  unfolding readState_def readIncrements_def by (intro keeps_intros)+

end

locale writing_invariant = world_invariant +
  assumes Writer_openFile_kept [keeps_intros]: "keepsS I (Writer_openFile E r p)"
begin

lemma writeField_kept [keeps_intros]: "keepsS I (writeField E this who name fs b fm fd)"
  unfolding writeField_def by (intro keeps_intros)

lemma writeFieldSetField_kept [keeps_intros]: "keepsS I (writeFieldSetField E this f fd)"
  unfolding writeFieldSetField_def by (intro keeps_intros setMonio_kept) simp_all

lemma writeFields_kept [keeps_intros]: "keepsS I (writeFields E this who name fs fms p b)"
  unfolding writeFields_def by (intro keeps_intros)

lemma writes_kept [keeps_intros]:
  "keepsS I (writeState E fs fms p b)"
  "keepsS I (writeIncrements E fs fms p b)"
  "keepsS I (writeFieldSet E fs p)"
  unfolding writeState_def writeIncrements_def writeFieldSet_def by (intro keeps_intros)+

end

interpretation wf: reading_invariant wf_world E for E :: "('d, 't) env"
  by unfold_locales (rule Reader_openFile_wf)

interpretation wf: writing_invariant wf_world E for E :: "('d, 't) env"
  by unfold_locales (rule Writer_openFile_wf)

text \<open>
  C24: every entry point of the library keeps the ownership invariant, on every path out of it: the
  readers and writers of the state hold only files that exist, and only on the PE that owns them.
\<close>

theorem entry_points_keep_wf_world:
  "keepsS wf_world (readState E fs fms p t) \<and>
   keepsS wf_world (readIncrements E fs fms p) \<and>
   keepsS wf_world (writeState E fs fms p b) \<and>
   keepsS wf_world (writeIncrements E fs fms p b) \<and>
   keepsS wf_world (writeFieldSet E fs p)"
  by (intro conjI keeps_intros)

section \<open>Errors and open files at the entry points\<close>

lemma failS_bad_exit:
  assumes "closeQuiet E" and "wf_world w"
  shows "\<exists>what' w'. failS E who what w = (Inl (RuntimeError who what'), w') \<and> filesClosed w' \<and> aborted w'"
  using failS_quiet [OF assms] by blast

lemma failS_fst:
  assumes "closeQuiet E" and "wf_world w"
  shows "fst (failS E who what w) = Inl (RuntimeError who what)"
  using failS_quiet [OF assms, of who what, where ?'c = 'c] by auto

lemma handler_translates:
  assumes "closeQuiet E" and "wf_world w" and "keepsS wf_world body"
  shows "fst (catchNc body (failS E who) w) \<noteq> Inl (NcException s)"
proof (cases "body w")
  case (Pair r w1)
  then have "wf_world w1" using keepsS_snd [OF assms(3,2)] by simp
  then show ?thesis
    using Pair by (auto simp: catchNc_def failS_fst [OF assms(1)] split: sum.split error.split)
qed

lemma fileExists_apply: "fileExists E p w = (Inr (osFileExists E p (outside w)), w)"
  by (simp add: fileExists_def getS_apply)

text \<open>
  C22: reading from an empty field set, from an empty path, or from a file that does not exist
  closes the files, aborts, and throws the exception of the entry point.
\<close>

theorem read_guards:
  assumes "closeQuiet E" and "wf_world w"
    and "fsFields fs = [] \<or> p = [] \<or> \<not> osFileExists E p (outside w)"
  shows "(\<exists>what w'. readState E fs fms p t w = (Inl (RuntimeError ''Monio::readState'' what), w') \<and>
      filesClosed w' \<and> aborted w') \<and>
    (\<exists>what w'. readIncrements E fs fms p w = (Inl (RuntimeError ''Monio::readIncrements'' what), w') \<and>
      filesClosed w' \<and> aborted w')"
proof -
  obtain this w1 where get: "Monio_get w = (Inr this, w1)" "wf_world w1" "outside w1 = outside w"
    using assms(2) by (rule Monio_get_ok)
  note exit = failS_bad_exit [OF assms(1) get(2)] and start = bindS_Inr [where m = Monio_get, OF get(1)]
  show ?thesis
  proof (cases "fsFields fs = []")
    case True
    then show ?thesis
      by (simp add: readState_def readIncrements_def start st_simps exit)
  next
    case False
    then show ?thesis
      using assms(3) get(3) by (cases "p = []")
        (simp_all add: readState_def readIncrements_def start st_simps exit
          bindS_Inr [OF fileExists_apply])
  qed
qed


lemma closed_after:
  assumes "wf_world w" and "keepsS wf_world body"
    and "bindS body (\<lambda>_. Reader_closeFile E r) w = (Inr (), w')"
  shows "readerSlot r w' = None"
proof -
  obtain x w1 where "body w = (Inr x, w1)" and close: "Reader_closeFile E r w1 = (Inr (), w')"
    using assms(3) by (rule bindS_InrE)
  moreover have "wf_world w1" using keepsS_snd [OF assms(2,1)] calculation(1) by simp
  moreover have "r < length (readerHeap w1)"
    using close by (rule contrapos_pp) (simp add: Reader_closeFile_bad)
  ultimately show ?thesis by (intro Reader_closeFile_clears [OF _ _ close])
qed

lemma closed_after_writing:
  assumes "wf_world w" and "keepsS wf_world body"
    and "bindS body (\<lambda>_. Writer_closeFile E r) w = (Inr (), w')"
  shows "writerSlot r w' = None"
proof -
  obtain x w1 where "body w = (Inr x, w1)" and close: "Writer_closeFile E r w1 = (Inr (), w')"
    using assms(3) by (rule bindS_InrE)
  moreover have "wf_world w1" using keepsS_snd [OF assms(2,1)] calculation(1) by simp
  moreover have "r < length (writerHeap w1)"
    using close by (rule contrapos_pp) (simp add: Writer_closeFile_bad)
  ultimately show ?thesis by (intro Writer_closeFile_clears [OF _ _ close])
qed

lemma catchNc_failS_Inr:
  assumes "catchNc body (failS E who) w = (Inr x, w')"
  shows "body w = (Inr x, w')"
  using assms by (auto simp: catchNc_def failS_not_Inr split: prod.splits sum.splits error.splits)

lemma guarded_Inr:
  assumes "seqS (whenS b (failS E who what)) m w = (Inr (), w')"
  shows "\<not> b \<and> m w = (Inr (), w')"
  using assms by (cases b) (simp_all add: st_simps failS_not_Inr)

lemma read_entry_closes:
  assumes "wf_world w" and "keepsS wf_world body"
    and "seqS (whenS b (failS E who what)) (if p then bindS (fileExists E path) (\<lambda>present.
        if present then catchNc (seqS body (Reader_closeFile E r)) (failS E who)
        else failS E who what') else failS E who what'') w = (Inr (), w')"
  shows "readerSlot r w' = None"
proof -
  have "bindS body (\<lambda>_. Reader_closeFile E r) w = (Inr (), w')"
    using guarded_Inr [OF assms(3)]
    by (auto simp: bindS_Inr [OF fileExists_apply] failS_not_Inr st_simps
        dest!: catchNc_failS_Inr split: if_splits)
  then show ?thesis by (rule closed_after [OF assms(1,2)])
qed

lemma write_entry_closes:
  assumes "wf_world w" and "keepsS wf_world body" and "p \<noteq> []"
    and "entryPoint E who fs p noPath (bindS body (\<lambda>_. Writer_closeFile E r)) w = (Inr (), w')"
  shows "writerSlot r w' = None"
proof -
  have "bindS body (\<lambda>_. Writer_closeFile E r) w = (Inr (), w')"
    using guarded_Inr [OF assms(4) [unfolded entryPoint_def]] assms(3)
    by (auto dest!: catchNc_failS_Inr)
  then show ?thesis by (rule closed_after_writing [OF assms(1,2)])
qed

lemma entry_points_close:
  assumes "wf_world w" and "Monio_get w = (Inr this, w1)"
  shows "(readState E fs fms p t w = (Inr (), w') \<longrightarrow> readerSlot (moReader this) w' = None) \<and>
    (readIncrements E fs fms p w = (Inr (), w') \<longrightarrow> readerSlot (moReader this) w' = None) \<and>
    (p \<noteq> [] \<and> writeState E fs fms p b w = (Inr (), w') \<longrightarrow> writerSlot (moWriter this) w' = None) \<and>
    (p \<noteq> [] \<and> writeIncrements E fs fms p b w = (Inr (), w') \<longrightarrow> writerSlot (moWriter this) w' = None) \<and>
    (p \<noteq> [] \<and> writeFieldSet E fs p w = (Inr (), w') \<longrightarrow> writerSlot (moWriter this) w' = None)"
proof -
  note start = bindS_Inr [where m = Monio_get, OF assms(2)]
  have wf1: "wf_world w1" using keepsS_snd [OF Monio_get_wf assms(1)] assms(2) by simp
  have fields: "writeFields E this who name fs fms p b = bindS
      (bindS (gridOf E (fsFields fs ! 0)) (\<lambda>grid. bindS (getFileData grid) (\<lambda>fd.
       bindS (cleanFileData E this fd) (\<lambda>fd. bindS (if b = False then addJediData E fd else returnS fd) (\<lambda>fd.
       seqS (Writer_openFile E (moWriter this) p)
        (foldS (writeField E this who name fs b) fms fd))))))
      (\<lambda>_. Writer_closeFile E (moWriter this))" for who name
    by (simp add: writeFields_def st_simps)
  have fieldSet: "seqS (Writer_openFile E (moWriter this) p)
        (bindS (foldS (writeFieldSetField E this) (fsFields fs) FileData_new)
          (\<lambda>fd. Writer_closeFile E (moWriter this))) =
      bindS (seqS (Writer_openFile E (moWriter this) p)
        (foldS (writeFieldSetField E this) (fsFields fs) FileData_new))
      (\<lambda>_. Writer_closeFile E (moWriter this))"
    by (simp add: st_simps)
  show ?thesis
    unfolding readState_def readIncrements_def writeState_def writeIncrements_def writeFieldSet_def
      start fields fieldSet
    by (intro conjI impI; (elim conjE)?;
        (rule read_entry_closes [OF wf1, rotated] write_entry_closes [OF wf1, rotated], assumption?)?)
      (auto intro!: keeps_intros)
qed

text \<open>
  C20: when a read returns, the file of the reader is closed; when a write to a path returns, the
  file of the writer is closed.
\<close>

theorem entry_points_close_files:
  assumes "wf_world w" and "Monio_get w = (Inr this, w1)"
  shows "(readState E fs fms p t w = (Inr (), w') \<longrightarrow> readerSlot (moReader this) w' = None) \<and>
    (readIncrements E fs fms p w = (Inr (), w') \<longrightarrow> readerSlot (moReader this) w' = None) \<and>
    (p \<noteq> [] \<and> writeState E fs fms p b w = (Inr (), w') \<longrightarrow> writerSlot (moWriter this) w' = None) \<and>
    (p \<noteq> [] \<and> writeIncrements E fs fms p b w = (Inr (), w') \<longrightarrow> writerSlot (moWriter this) w' = None) \<and>
    (p \<noteq> [] \<and> writeFieldSet E fs p w = (Inr (), w') \<longrightarrow> writerSlot (moWriter this) w' = None)"
  by (rule entry_points_close [OF assms])

end
