(* ===== verification/Monio_Facts.thy ===== *)
theory Monio_Facts
  imports Monio_Core
begin

text \<open>
  What the parts of \<open>Monio\<close> compute: the copy of the file data that is written, the date-times of
  a state file, the guards of the writing entry points, the dimensions of a written field, and the
  field that a read without a surface level fills.
\<close>

section \<open>Writing without a file\<close>

text \<open>
  C23: a writing entry point refuses an empty field set; given fields but no path it returns having
  done nothing but make the singleton.
\<close>

theorem write_guards:
  assumes "closeQuiet E" and "wf_world w" and "Monio_get w = (Inr this, w1)"
  shows "(fsFields fs = [] \<longrightarrow>
      (\<exists>what w'. writeState E fs fms p b w = (Inl (RuntimeError ''Monio::writeState'' what), w') \<and>
        filesClosed w' \<and> aborted w') \<and>
      (\<exists>what w'. writeIncrements E fs fms p b w = (Inl (RuntimeError ''Monio::writeIncrements'' what), w') \<and>
        filesClosed w' \<and> aborted w') \<and>
      (\<exists>what w'. writeFieldSet E fs p w = (Inl (RuntimeError ''Monio::writeFieldSet'' what), w') \<and>
        filesClosed w' \<and> aborted w')) \<and>
    (fsFields fs \<noteq> [] \<and> p = [] \<longrightarrow> writeState E fs fms p b w = (Inr (), w1) \<and>
      writeIncrements E fs fms p b w = (Inr (), w1) \<and> writeFieldSet E fs p w = (Inr (), w1))"
proof -
  have "wf_world w1" using keepsS_snd [OF Monio_get_wf assms(2)] assms(3) by simp
  note exit = failS_bad_exit [OF assms(1) this] and start = bindS_Inr [where m = Monio_get, OF assms(3)]
  show ?thesis
    by (cases "fsFields fs = []")
      (simp_all add: writeState_def writeIncrements_def writeFieldSet_def start entryPoint_def st_simps exit)
qed

section \<open>The file data to write\<close>

text \<open>Erasing two dimensions from the variables of a metadata.\<close>

lemma eraseDims_twice_nth:
  assumes "wf_vars vs" and "i < length vs"
  shows "eraseDims n rs (eraseDims n' rs vs) ! i = (if i \<in> rs
    then (vs ! i)\<lparr>varDims := filter (\<lambda>d. fst d \<noteq> n' \<and> fst d \<noteq> n) (varDims (vs ! i))\<rparr> else vs ! i)"
  using assms by (simp add: eraseDims_filter_nth wf_eraseDims)

lemma cleanFileData_run:
  assumes "mpiRank w = moOwner this" and "wf_vars (varHeap w)" and "metadata_on (varHeap w) (fdMetadata fd)"
  shows "\<exists>m' d' w'. cleanFileData E this fd w = (Inr (fd\<lparr>fdMetadata := m', fdData := d'\<rparr>), w') \<and>
    mdGlobalAttrs m' = smap_empty \<and>
    (\<forall>k. smap_find (mdDimensions m') k =
      (if k \<in> {kTimeDimName, kTileDimName} then None else smap_find (mdDimensions (fdMetadata fd)) k)) \<and>
    (\<forall>k. smap_find (dataContainers d') k =
      (if k \<in> {kTimeVarName, kTileVarName} then None else smap_find (dataContainers (fdData fd)) k)) \<and>
    (\<forall>k. smap_find (mdVariables m') k =
      (if smap_find (dataContainers d') k = None then None else smap_find (mdVariables (fdMetadata fd)) k)) \<and>
    w' = w\<lparr>varHeap := varHeap w'\<rparr> \<and> length (varHeap w') = length (varHeap w) \<and>
    (\<forall>i < length (varHeap w). varHeap w' ! i = (if i \<in> snd ` set (entries (mdVariables (fdMetadata fd)))
      then (varHeap w ! i)\<lparr>varDims := filter (\<lambda>d. fst d \<noteq> kTimeDimName \<and> fst d \<noteq> kTileDimName)
             (varDims (varHeap w ! i))\<rparr>
      else varHeap w ! i))"
proof -
  let ?m = "clearGlobalAttributes (fdMetadata fd)"
  let ?rs = "snd ` set (entries (mdVariables (fdMetadata fd)))"
  let ?m1 = "?m\<lparr>mdDimensions := smap_erase kTimeDimName (mdDimensions ?m)\<rparr>"
  let ?m2 = "?m1\<lparr>mdDimensions := smap_erase kTileDimName (mdDimensions ?m1)\<rparr>"
  let ?w1 = "w\<lparr>varHeap := eraseDims kTimeDimName ?rs (varHeap w)\<rparr>"
  let ?w2 = "?w1\<lparr>varHeap := eraseDims kTileDimName ?rs (varHeap ?w1)\<rparr>"
  let ?d = "deleteContainer kTileVarName (deleteContainer kTimeVarName (fdData fd))"
  let ?names = "getDataContainerNames ?d"
  have d1: "deleteDimension kTimeDimName ?m w = (Inr ?m1, ?w1)"
    using deleteDimension_run [of w ?m kTimeDimName] assms(2,3)
    by (simp add: clearGlobalAttributes_def metadata_on_def)
  have d2: "deleteDimension kTileDimName ?m1 ?w1 = (Inr ?m2, ?w2)"
    using deleteDimension_run [of ?w1 ?m1 kTileDimName] assms(2,3)
    by (simp add: clearGlobalAttributes_def metadata_on_def wf_eraseDims)
  have names: "set ?names = dom (smap_find (dataContainers ?d))"
    by (simp add: getDataContainerNames_def extractKeys_eq set_keys)
  have loop: "(\<lambda>k m. if std_find ?names k = length ?names then deleteVariable E k m else returnS m) =
      (\<lambda>k m. if k \<in> set ?names then returnS m else deleteVariable E k m)"
    by (auto simp: fun_eq_iff std_find_end)
  let ?m3 = "?m2\<lparr>mdVariables := fold (\<lambda>k vs. if k \<in> set ?names then vs else smap_erase k vs)
      (smap_keys (mdVariables ?m2)) (mdVariables ?m2)\<rparr>"
  have "cleanFileData E this fd w = (Inr (fd\<lparr>fdMetadata := ?m3, fdData := ?d\<rparr>), ?w2)"
    using assms(1) d1 d2
    by (simp add: cleanFileData_def onRank_def st_simps bindS_Inr Let_def loop getVariableNames_def
        extractKeys_eq retainVariables [where m = ?m2, simplified])
  moreover have "smap_find (mdVariables ?m3) k = (if smap_find (dataContainers ?d) k = None then None
      else smap_find (mdVariables (fdMetadata fd)) k)" for k
    using names by (auto simp: std_map.lookup_retain clearGlobalAttributes_def domIff)
  moreover have "smap_find (dataContainers ?d) k = (if k \<in> {kTimeVarName, kTileVarName} then None
      else smap_find (dataContainers (fdData fd)) k)" for k
    by (auto simp: deleteContainer_def)
  ultimately show ?thesis
    by (intro exI [of _ ?m3] exI [of _ ?d] exI [of _ ?w2] conjI allI)
      (simp_all add: clearGlobalAttributes_def eraseDims_twice_nth [OF assms(2)])
qed

text \<open>
  C25: on the owner's PE \<open>cleanFileData\<close> never fails. It drops the global attributes, the time and
  tile dimensions, the containers of their variables, and every variable that has no container
  left. The dimensions go from the variables themselves, which the file data kept for the grid
  shares with the copy that is cleaned.
\<close>

theorem cleanFileData_result:
  assumes "mpiRank w = moOwner this" and "wf_vars (varHeap w)" and "metadata_on (varHeap w) (fdMetadata fd)"
  shows "\<exists>m' d' w'. cleanFileData E this fd w = (Inr (fd\<lparr>fdMetadata := m', fdData := d'\<rparr>), w') \<and>
    mdGlobalAttrs m' = smap_empty \<and>
    (\<forall>k. smap_find (mdDimensions m') k =
      (if k \<in> {kTimeDimName, kTileDimName} then None else smap_find (mdDimensions (fdMetadata fd)) k)) \<and>
    (\<forall>k. smap_find (dataContainers d') k =
      (if k \<in> {kTimeVarName, kTileVarName} then None else smap_find (dataContainers (fdData fd)) k)) \<and>
    (\<forall>k. smap_find (mdVariables m') k =
      (if smap_find (dataContainers d') k = None then None else smap_find (mdVariables (fdMetadata fd)) k)) \<and>
    w' = w\<lparr>varHeap := varHeap w'\<rparr> \<and> length (varHeap w') = length (varHeap w) \<and>
    (\<forall>i < length (varHeap w). varHeap w' ! i = (if i \<in> snd ` set (entries (mdVariables (fdMetadata fd)))
      then (varHeap w ! i)\<lparr>varDims := filter (\<lambda>d. fst d \<noteq> kTimeDimName \<and> fst d \<noteq> kTileDimName)
             (varDims (varHeap w ! i))\<rparr>
      else varHeap w ! i))"
  by (rule cleanFileData_run [OF assms])

section \<open>Date-times\<close>

text \<open>The origin of the time axis, as NetCDF has it and as Atlas wants it.\<close>

lemma convert_origin:
  "convertToAtlasDateTimeStr s w = (case strToWords s (CHR '' '') of
      date # time # _ \<Rightarrow> (Inr (date @ ''T'' @ time @ ''Z''), w)
    | _ \<Rightarrow> (Inl (Undefined ''dateTimeSplit[1]''), w))"
  by (simp add: convertToAtlasDateTimeStr_def st_simps split: list.split)

text \<open>A whole number of seconds.\<close>

definition wholeSeconds :: "double \<Rightarrow> bool" where
  "wholeSeconds x = (case x of FNum r \<Rightarrow> 0 \<le> std_round r \<and> std_round r < 2 ^ 64 | _ \<Rightarrow> False)"

definition secondsOf :: "double \<Rightarrow> size_t" where
  "secondsOf x = (case x of FNum r \<Rightarrow> word_of_int (std_round r) | _ \<Rightarrow> 0)"

lemma toSeconds_apply: "wholeSeconds x \<Longrightarrow> toSeconds x w = (Inr (secondsOf x), w)"
  by (cases x) (simp_all add: wholeSeconds_def secondsOf_def returnS_apply)

lemma getDatum_apply:
  "i < length xs \<Longrightarrow> length xs < 2 ^ 31 \<Longrightarrow>
   DataContainerDouble_getDatum E xs (of_nat i) w = (Inr (xs ! i), w)"
  by (simp add: DataContainerDouble_getDatum_def container_getDatum_def unat_of_nat_size word_less_nat_alt st_simps)

lemma createDateTimes_run:
  assumes "mpiRank w = moOwner this" and "fdDateTimes fd = []"
    and "smap_find (mdVariables (fdMetadata fd)) timeVar = Some v" and "v < length (varHeap w)"
    and "smap_find (dataContainers (fdData fd)) timeVar = Some (DataContainerDouble n values)"
    and "smap_find (varAttrs (varHeap w ! v)) originName = Some (AttributeString a origin)"
    and "strToWords origin (CHR '' '') = date # time # rest"
    and "dateTimeOf E (date @ ''T'' @ time @ ''Z'') (outside w) = (Inr t0, d)"
    and "(\<Prod>x\<leftarrow>varDims (varHeap w ! v). unat (snd x)) = length values" and "length values < 2 ^ 31"
    and "list_all wholeSeconds values"
  shows "createDateTimes E this timeVar originName fd w =
    (Inr (fd\<lparr>fdDateTimes := map (\<lambda>x. addDuration E t0 (secondsOf x)) values\<rparr>), w\<lparr>outside := d\<rparr>)"
proof -
  let ?w1 = "w\<lparr>outside := d\<rparr>"
  have total: "unat (totalSize (varDims (varHeap w ! v)) 1) = length values"
    using assms(9,10) by (simp add: totalSize_unat)
  have loop: "mapS (\<lambda>index. bindS (DataContainerDouble_getDatum E values (of_nat index)) (\<lambda>datum.
        bindS (toSeconds datum) (\<lambda>duration. returnS (addDuration E t0 duration)))) [0..<length values] ?w1 =
      (Inr (map (\<lambda>i. addDuration E t0 (secondsOf (values ! i))) [0..<length values]), ?w1)"
    using assms(10,11) by (intro mapS_pure)
      (simp add: bindS_Inr getDatum_apply toSeconds_apply list_all_length returnS_apply)
  have "map (\<lambda>i. addDuration E t0 (secondsOf (values ! i))) [0..<length values] =
      map (\<lambda>x. addDuration E t0 (secondsOf x)) values"
    by (intro nth_equalityI) simp_all
  with loop show ?thesis
    using assms(1-8) total
    by (simp add: createDateTimes_def onRank_def st_simps getVariable_def getContainer_def
        Variable_getStrAttr_def convertToAtlasDateTimeStr_def bindS_Inr callS_Inr Variable_getTotalSize_def
        setDateTimes_def)
qed

text \<open>
  C19: on the owner's PE, and when none are there yet, \<open>createDateTimes\<close> makes one date-time per time
  value: the origin named by the variable's string attribute plus the value, rounded to seconds.
\<close>

theorem createDateTimes_result:
  assumes "mpiRank w = moOwner this" and "fdDateTimes fd = []"
    and "smap_find (mdVariables (fdMetadata fd)) timeVar = Some v" and "v < length (varHeap w)"
    and "smap_find (dataContainers (fdData fd)) timeVar = Some (DataContainerDouble n values)"
    and "smap_find (varAttrs (varHeap w ! v)) originName = Some (AttributeString a origin)"
    and "strToWords origin (CHR '' '') = date # time # rest"
    and "dateTimeOf E (date @ ''T'' @ time @ ''Z'') (outside w) = (Inr t0, d)"
    and "(\<Prod>x\<leftarrow>varDims (varHeap w ! v). unat (snd x)) = length values" and "length values < 2 ^ 31"
    and "list_all wholeSeconds values"
  shows "createDateTimes E this timeVar originName fd w =
    (Inr (fd\<lparr>fdDateTimes := map (\<lambda>x. addDuration E t0 (secondsOf x)) values\<rparr>), w\<lparr>outside := d\<rparr>)"
  by (rule createDateTimes_run [OF assms])

section \<open>The dimensions of a written field\<close>


section \<open>The field that is filled\<close>

definition fieldSame :: "ref \<Rightarrow> Field \<Rightarrow> ('d, 't) world \<Rightarrow> bool" where
  "fieldSame f F w \<longleftrightarrow> f < length (fieldHeap w) \<and> fieldHeap w ! f = F"

lemma fieldSame_free [intro, simp]: "handle_free (fieldSame f F)"
  by (simp add: handle_free_def fieldSame_def)

lemma viewSet_other: "g \<noteq> f \<Longrightarrow> keepsS (fieldSame f F) (viewSet T g i j x)"
  unfolding viewSet_def setField_def by (intro keeps_intros) (simp add: fieldSame_def)

lemma populateDatum_other: "g \<noteq> f \<Longrightarrow> keepsS (fieldSame f F) (populateDatum E T g xs k i j)"
  unfolding populateDatum_def Let_def by (intro keeps_intros viewSet_other) simp_all

lemma populateField_other: "g \<noteq> f \<Longrightarrow> keepsS (fieldSame f F) (populateField E T g xs lam noFirst isLfric)"
  unfolding populateField_def by (intro keeps_intros populateDatum_other) simp_all

lemma populateFieldWithDataContainer_other:
  "g \<noteq> f \<Longrightarrow> keepsS (fieldSame f F) (populateFieldWithDataContainer E owner g c lam noFirst isLfric)"
  unfolding populateFieldWithDataContainer_def
  by (cases c) (auto intro!: keeps_intros populateField_other)

lemma getContainer_same: "keepsS (fieldSame f F) (getContainer E d n)"
  unfolding getContainer_def by (intro keeps_intros) simp


end
