(* ===== verification/Initialise.thy ===== *)
theory Initialise
  imports Data_Round_Trip Monio_Facts
begin

text \<open>
  \<open>Monio::initialiseFile\<close> on a valid LFRic file: every step returns, and the file data kept for the grid
  is the file's metadata, its mesh and level variables, and the order map of the grid.
\<close>

section \<open>The file data kept for a grid\<close>

text \<open>The state in which the instance keeps \<open>fd\<close> for the grid.\<close>

definition keeping :: "string \<Rightarrow> 't Monio \<Rightarrow> 't FileData \<Rightarrow> ('d, 't) world \<Rightarrow> ('d, 't) world" where
  "keeping grid this fd w = w\<lparr>theMonio := Some (this\<lparr>moFilesData := smap_put grid fd (moFilesData this)\<rparr>)\<rparr>"

lemma keeping_simps [simp]:
  "theMonio (keeping grid this fd w) = Some (this\<lparr>moFilesData := smap_put grid fd (moFilesData this)\<rparr>)"
  "mpiRank (keeping grid this fd w) = mpiRank w" "varHeap (keeping grid this fd w) = varHeap w"
  "fieldHeap (keeping grid this fd w) = fieldHeap w" "readerHeap (keeping grid this fd w) = readerHeap w"
  "fileHeap (keeping grid this fd w) = fileHeap w" "outside (keeping grid this fd w) = outside w"
  "readerSlot r (keeping grid this fd w) = readerSlot r w"
  "keeping grid this fd' (keeping grid this fd w) = keeping grid this fd' w"
  "(keeping grid this fd w)\<lparr>outside := d\<rparr> = keeping grid this fd (w\<lparr>outside := d\<rparr>)"
  "(keeping grid this fd w)\<lparr>varHeap := vs\<rparr> = keeping grid this fd (w\<lparr>varHeap := vs\<rparr>)"
  "(keeping grid this fd w)\<lparr>fileHeap := fs\<rparr> = keeping grid this fd (w\<lparr>fileHeap := fs\<rparr>)"
  "(keeping grid this fd w)\<lparr>readerHeap := rs\<rparr> = keeping grid this fd (w\<lparr>readerHeap := rs\<rparr>)"
  by (simp_all add: keeping_def readerSlot_def)

lemma opensReader_keeping [simp]: "opensReader E q p h d (keeping grid this fd w) = opensReader E q p h d w"
  by (simp add: opensReader_def cong: option.case_cong)

lemma reading_keeping [simp]: "reading r h (keeping grid this fd w) = reading r h w"
  by (simp add: reading_def split: option.split)

lemma fileBehind_keeping [simp]:
  "fileBehind view vals r h vs F m (keeping grid this fd w) = fileBehind view vals r h vs F m w"
  by (simp add: fileBehind_def)

lemma createFileData_run:
  assumes "theMonio w = Some this"
  shows "createFileData grid p w = (Inr (), keeping grid this FileData_new w)"
  using assms by (simp add: createFileData_def setMonio_def Let_def keeping_def st_simps insert_new)

lemma updateFileData_run:
  assumes "op fd (keeping grid this fd w) = (Inr fd', keeping grid this fd w')"
  shows "updateFileData grid op (keeping grid this fd w) = (Inr (), keeping grid this fd' w')"
  using assms by (simp add: updateFileData_def bindS_Inr [OF Monio_get_Some] bindS_Inr setMonio_def st_simps)
    (simp add: keeping_def)

lemma getFileData_run: "getFileData grid (keeping grid this fd w) = (Inr fd, keeping grid this fd w)"
  by (simp add: getFileData_def bindS_Inr [OF Monio_get_Some] returnS_apply)


section \<open>Coordinates and order map\<close>

lemma pairCoords_zip: "length lons = length lats \<Longrightarrow> pairCoords lons lats w = (Inr (zip lons lats), w)"
  by (induction lons lats rule: list_induct2) (simp_all add: returnS_apply bindS_Inr)

lemma getLfricCoords_zip:
  "length xs = length ys \<Longrightarrow>
   getLfricCoords E [DataContainerFloat nx xs, DataContainerFloat ny ys] w = (Inr (zip xs ys), w)"
  by (simp add: getLfricCoords_def st_simps pairCoords_zip)

lemma coordNames_Mesh: "set kLfricCoordVarNames = {''Mesh2d_face_x'', ''Mesh2d_face_y''}"
  by (auto simp: kLfricCoordVarNames_def kLfricLonVarName_def kLfricLatVarName_def)

text \<open>The coordinates of the file's points, in the order of the file.\<close>

definition fileCoords :: "Data \<Rightarrow> (double \<times> double) list option" where
  "fileCoords D = (case (smap_find (dataContainers D) ''Mesh2d_face_x'', smap_find (dataContainers D) ''Mesh2d_face_y'') of
      (Some (DataContainerFloat _ xs), Some (DataContainerFloat _ ys)) \<Rightarrow>
        (if length xs = length ys then Some (zip xs ys) else None)
    | _ \<Rightarrow> None)"

lemma fileCoordsE:
  assumes "fileCoords D = Some coords"
  obtains nx xs ny ys where "smap_find (dataContainers D) ''Mesh2d_face_x'' = Some (DataContainerFloat nx xs)"
    and "smap_find (dataContainers D) ''Mesh2d_face_y'' = Some (DataContainerFloat ny ys)"
    and "length xs = length ys" and "coords = zip xs ys"
  using assms by (auto simp: fileCoords_def split: option.splits DataContainerBase.splits if_splits)

lemma coordNames_found:
  assumes "fileCoords D = Some coords" and "k \<in> set kLfricCoordVarNames"
  shows "k \<in> dom (smap_find (dataContainers D)) \<and> (\<exists>a b. k = a @ kLfricMeshTerm @ b)"
proof -
  have "\<exists>b. k = [] @ kLfricMeshTerm @ b" using assms(2) by (auto simp: coordNames_Mesh kLfricMeshTerm_def)
  then have "\<exists>a b. k = a @ kLfricMeshTerm @ b" by blast
  moreover obtain nx xs ny ys where "smap_find (dataContainers D) ''Mesh2d_face_x'' = Some (DataContainerFloat nx xs)"
      "smap_find (dataContainers D) ''Mesh2d_face_y'' = Some (DataContainerFloat ny ys)"
    using assms(1) by (rule fileCoordsE)
  ultimately show ?thesis using assms(2) by (auto simp: coordNames_Mesh)
qed

text \<open>A grid whose points are those of the file, in another order.\<close>

definition sameGrid :: "('d, 't) env \<Rightarrow> string \<Rightarrow> (double \<times> double) list \<Rightarrow> bool" where
  "sameGrid E grid coords \<longleftrightarrow> closestExact E (atGridLonLat E grid) \<and> distinct coords \<and>
    set coords \<subseteq> set (atGridLonLat E grid) \<and> length (atGridLonLat E grid) = length coords \<and> length coords < 2 ^ 31"

lemma Monio_createLfricAtlasMap_run:
  assumes "ncData E view vals" and "fileBehind view vals (moReader this) h vs F m w" and "fdMetadata fd = m"
    and "fdLfricAtlasMap fd = []" and "mpiRank w = moOwner this" and "partOf S (fdData F) (fdData fd)"
    and "fileCoords (fdData F) = Some coords" and "sameGrid E grid coords"
  shows "\<exists>d lam. Monio_createLfricAtlasMap E this grid fd w = (Inr (fd\<lparr>fdData := d, fdLfricAtlasMap := lam\<rparr>), w) \<and>
    partOf (S \<union> set kLfricCoordVarNames) (fdData F) d \<and>
    isOrderMap lam \<and> locates lam (atGridLonLat E grid) coords"
proof -
  obtain nx xs ny ys where coords: "smap_find (dataContainers (fdData F)) ''Mesh2d_face_x'' = Some (DataContainerFloat nx xs)"
      "smap_find (dataContainers (fdData F)) ''Mesh2d_face_y'' = Some (DataContainerFloat ny ys)"
      "length xs = length ys" "coords = zip xs ys"
    using assms(7) by (rule fileCoordsE)
  obtain d where d: "Reader_readFullData E (moReader this) fd kLfricCoordVarNames w = (Inr (fd\<lparr>fdData := d\<rparr>), w)"
      "partOf (S \<union> set kLfricCoordVarNames) (fdData F) d"
    using Reader_readFullData_part [OF assms(1-3) _ assms(6), of kLfricCoordVarNames] coords(1,2)
    by (auto simp: coordNames_Mesh)
  have r: "moReader this < length (readerHeap w)" "mpiRank w = rdOwner (readerHeap w ! moReader this)"
    using assms(2) by (simp_all add: fileBehind_def reading_def)
  have order: "Reader_getCoordData E (moReader this) (fd\<lparr>fdData := d\<rparr>) kLfricCoordVarNames w =
      (Inr [DataContainerFloat nx xs, DataContainerFloat ny ys], w)"
    using Reader_getCoordData_run [OF r, of "fd\<lparr>fdData := d\<rparr>"] d(2) coords(1,2)
    by (simp add: partOf_def coordNames_Mesh)
  obtain lam where lam: "\<And>w. createLfricAtlasMap E (atGridLonLat E grid) coords w = (Inr lam, w)"
      "isOrderMap lam" "locates lam (atGridLonLat E grid) coords"
    using assms(8) by (auto simp: sameGrid_def intro: createLfricAtlasMap_run)
  have "Monio_createLfricAtlasMap E this grid fd w = (Inr (fd\<lparr>fdData := d, fdLfricAtlasMap := lam\<rparr>), w)"
    using assms(4,5) d(1) order getLfricCoords_zip [OF coords(3), where E = E and nx = nx and ny = ny and w = w] lam(1)
    by (simp add: Monio_createLfricAtlasMap_def onRank_def st_simps bindS_Inr getGridCoords_def coords(4)
        setLfricAtlasMap_def)
  then show ?thesis using d(2) lam(2,3) by blast
qed


section \<open>Initialising a file\<close>

text \<open>
  On the owner's PE the reader of the instance can open \<open>p\<close>, and the file there is an LFRic file over
  the grid, with the contents of \<open>F\<close>; \<open>h\<close> and \<open>d\<close> are what opening it gives.
\<close>

definition readyToRead ::
    "('d, 't) env \<Rightarrow> 'd contents_view \<Rightarrow> 'd values_view \<Rightarrow> (string \<Rightarrow> PutValue \<Rightarrow> NcAtt) \<Rightarrow> string \<Rightarrow> string \<Rightarrow>
     Variable list \<Rightarrow> 't FileData \<Rightarrow> 't Monio \<Rightarrow> nat \<Rightarrow> 'd \<Rightarrow> ('d, 't) world \<Rightarrow> bool" where
  "readyToRead E view vals att grid p vs F this h d w \<longleftrightarrow>
    theMonio w = Some this \<and> mpiRank w = moOwner this \<and> moReader this < length (readerHeap w) \<and>
    mpiRank w = rdOwner (readerHeap w ! moReader this) \<and> p \<noteq> [] \<and>
    opensReader E (moReader this) p h d w \<and> view h d = Some (contentsOf p att vs (fdMetadata F)) \<and>
    (\<forall>e \<in> set (entries (dataContainers (fdData F))). vals h d (fst e) = Some (valuesIn (snd e))) \<and>
    storableData vs F \<and> kVerticalFullName \<in> dom (smap_find (dataContainers (fdData F))) \<and>
    kVerticalHalfName \<in> dom (smap_find (dataContainers (fdData F))) \<and>
    (case fileCoords (fdData F) of None \<Rightarrow> False | Some coords \<Rightarrow> sameGrid E grid coords)"

definition initialNames :: "Data \<Rightarrow> string set" where
  "initialNames D = {k \<in> dom (smap_find (dataContainers D)). \<exists>a b. k = a @ kLfricMeshTerm @ b} \<union>
    {kVerticalFullName, kVerticalHalfName}"

lemma meshNames:
  assumes "storableData vs F" and "sameContents vs (fdMetadata F) vs' m"
  shows "set (findVariableNames m kLfricMeshTerm) =
    {k \<in> dom (smap_find (dataContainers (fdData F))). \<exists>a b. k = a @ kLfricMeshTerm @ b}"
proof -
  have "set (smap_keys (mdVariables m)) = dom (smap_find (dataContainers (fdData F)))"
    using assms by (simp add: storableData_def sameContents_def getVariableNames_def getDataContainerNames_def
        extractKeys_eq set_keys [symmetric])
  then show ?thesis by (auto simp: findVariableNames_eq)
qed

lemma initialiseFile_run:
  fixes E :: "('d, 't) env"
  assumes "ncStore E view att" and "ncData E view vals"
    and "readyToRead E view vals att grid p vs F this h d w" and "fileCoords (fdData F) = Some coords"
  shows "\<exists>m dt lam w' fs rs. initialiseFile E grid p b w =
      seqS (whenS (b = True)
          (seqS (updateFileData grid (Reader_readFullDatum E (moReader this) kTimeVarName))
           (updateFileData grid (createDateTimes E this kTimeVarName kTimeOriginName))))
        (bindS (getFileData grid) (\<lambda>fd. getVariableConvention (fdMetadata fd)))
        (keeping grid this (FileData_new\<lparr>fdMetadata := m, fdData := dt, fdLfricAtlasMap := lam\<rparr>) w') \<and>
    w' = w\<lparr>outside := d, fileHeap := fs, readerHeap := rs, varHeap := varHeap w @ variablesOf vs (fdMetadata F)\<rparr> \<and>
    length rs = length (readerHeap w) \<and>
    fileBehind view vals (moReader this) h vs F m w' \<and> partOf (initialNames (fdData F)) (fdData F) dt \<and>
    isOrderMap lam \<and> locates lam (atGridLonLat E grid) coords"
proof -
  let ?rd = "moReader this" and ?D = "fdData F"
  note ready = assms(3) [unfolded readyToRead_def assms(4) option.case]
  have here: "theMonio w = Some this" "mpiRank w = moOwner this" using ready by simp_all
  obtain fs rs where opened: "Reader_openFile E ?rd p (keeping grid this FileData_new w) =
        (Inr (), (keeping grid this FileData_new w)\<lparr>outside := d, fileHeap := fs, readerHeap := rs\<rparr>)"
      "reading ?rd h ((keeping grid this FileData_new w)\<lparr>outside := d, fileHeap := fs, readerHeap := rs\<rparr>)"
      "length rs = length (readerHeap w)"
    using Reader_openFile_opens [of ?rd "keeping grid this FileData_new w" p E h d] ready by auto
  let ?w1 = "w\<lparr>outside := d, fileHeap := fs, readerHeap := rs\<rparr>"
  let ?w2 = "?w1\<lparr>varHeap := varHeap w @ variablesOf vs (fdMetadata F)\<rparr>"
  obtain m where m: "Reader_readMetadata E ?rd FileData_new (keeping grid this FileData_new ?w1) =
        (Inr (FileData_new\<lparr>fdMetadata := m\<rparr>), keeping grid this FileData_new ?w2)"
      "fileBehind view vals ?rd h vs F m ?w2"
    using Reader_readMetadata_contents [OF assms(1), of ?rd h "keeping grid this FileData_new ?w1" p vs F vals]
      opened(2) ready by auto
  let ?fd = "FileData_new\<lparr>fdMetadata := m\<rparr> :: 't FileData"
  let ?mesh = "findVariableNames m kLfricMeshTerm"
  have mesh: "set ?mesh = {k \<in> dom (smap_find (dataContainers ?D)). \<exists>a b. k = a @ kLfricMeshTerm @ b}"
    by (rule meshNames) (use m(2) in \<open>auto simp: fileBehind_def\<close>)
  have behind: "fileBehind view vals ?rd h vs F m (keeping grid this fd' ?w2)" for fd' using m(2) by simp
  have "partOf {} ?D (fdData ?fd)" by (simp add: FileData_new_def partOf_new)
  then obtain d1 where d1: "Reader_readFullData E ?rd ?fd ?mesh (keeping grid this ?fd ?w2) =
        (Inr (FileData_new\<lparr>fdMetadata := m, fdData := d1\<rparr>), keeping grid this ?fd ?w2)" "partOf (set ?mesh) ?D d1"
    using Reader_readFullData_part [OF assms(2) behind, of ?fd ?mesh "{}" ?fd] mesh by auto
  let ?fd1 = "FileData_new\<lparr>fdMetadata := m, fdData := d1\<rparr>"
  obtain d2 where d2: "Reader_readFullDatum E ?rd kVerticalFullName ?fd1 (keeping grid this ?fd1 ?w2) =
        (Inr (FileData_new\<lparr>fdMetadata := m, fdData := d2\<rparr>), keeping grid this ?fd1 ?w2)" "partOf (insert kVerticalFullName (set ?mesh)) ?D d2"
    using Reader_readFullDatum_part [OF assms(2) behind, of ?fd1 kVerticalFullName "set ?mesh" ?fd1] d1(2) ready by auto
  let ?fd2 = "FileData_new\<lparr>fdMetadata := m, fdData := d2\<rparr>"
  obtain d3 where d3: "Reader_readFullDatum E ?rd kVerticalHalfName ?fd2 (keeping grid this ?fd2 ?w2) =
        (Inr (FileData_new\<lparr>fdMetadata := m, fdData := d3\<rparr>), keeping grid this ?fd2 ?w2)"
      "partOf (insert kVerticalHalfName (insert kVerticalFullName (set ?mesh))) ?D d3"
    using Reader_readFullDatum_part [OF assms(2) behind, of ?fd2 kVerticalHalfName "insert kVerticalFullName (set ?mesh)" ?fd2]
      d2(2) ready by auto
  let ?fd3 = "FileData_new\<lparr>fdMetadata := m, fdData := d3\<rparr>"
  obtain d4 lam where d4: "Monio_createLfricAtlasMap E this grid ?fd3 (keeping grid this ?fd3 ?w2) =
        (Inr (FileData_new\<lparr>fdMetadata := m, fdData := d4, fdLfricAtlasMap := lam\<rparr>), keeping grid this ?fd3 ?w2)"
      "partOf (insert kVerticalHalfName (insert kVerticalFullName (set ?mesh)) \<union> set kLfricCoordVarNames) ?D d4"
      "isOrderMap lam" "locates lam (atGridLonLat E grid) coords"
    using Monio_createLfricAtlasMap_run [where fd = ?fd3 and grid = grid and
        S = "insert kVerticalHalfName (insert kVerticalFullName (set ?mesh))", OF assms(2) behind [of ?fd3] _ _ _ _ assms(4)]
      d3(2) here ready
    by (auto simp: FileData_new_def)
  have "set kLfricCoordVarNames \<subseteq> set ?mesh"
    using coordNames_found [OF assms(4)] by (simp only: mesh) blast
  then have names: "insert kVerticalHalfName (insert kVerticalFullName (set ?mesh)) \<union> set kLfricCoordVarNames =
      initialNames ?D"
    by (auto simp: initialNames_def mesh)
  let ?fd4 = "FileData_new\<lparr>fdMetadata := m, fdData := d4, fdLfricAtlasMap := lam\<rparr>"
  let ?rest = "seqS (whenS (b = True)
          (seqS (updateFileData grid (Reader_readFullDatum E ?rd kTimeVarName))
           (updateFileData grid (createDateTimes E this kTimeVarName kTimeOriginName))))
        (bindS (getFileData grid) (\<lambda>fd. getVariableConvention (fdMetadata fd)))"
  have u0: "updateFileData grid (Reader_readMetadata E ?rd) (keeping grid this FileData_new ?w1) =
      (Inr (), keeping grid this ?fd ?w2)"
    by (rule updateFileData_run) (rule m(1))
  have u1: "updateFileData grid (\<lambda>fd. Reader_readFullData E ?rd fd (findVariableNames (fdMetadata fd) kLfricMeshTerm))
      (keeping grid this ?fd ?w2) = (Inr (), keeping grid this ?fd1 ?w2)"
    by (rule updateFileData_run) (use d1(1) in simp)
  note u2 = updateFileData_run [where op = "Reader_readFullDatum E ?rd kVerticalFullName", OF d2(1)]
  note u3 = updateFileData_run [where op = "Reader_readFullDatum E ?rd kVerticalHalfName", OF d3(1)]
  note u4 = updateFileData_run [where op = "Monio_createLfricAtlasMap E this grid", OF d4(1)]
  have "initialiseFile E grid p b w = ?rest (keeping grid this ?fd4 ?w2)"
    using here(2) opened(1)
    by (simp add: initialiseFile_def Let_def bindS_Inr Monio_get_Some [OF here(1)] onRank_def bindS_getS seqS_eq
        createFileData_run [OF here(1)] u0 u1 u2 u3 u4 del: not_None_eq)
  then show ?thesis
    using d4(2-4) m(2) opened(3) names by force
qed


text \<open>The naming convention of a file, when its attribute is a string.\<close>

definition fileConvention :: "Metadata \<Rightarrow> int32 option" where
  "fileConvention m = (case smap_find (mdGlobalAttrs m) ''variable_convention'' of
      None \<Rightarrow> Some eLfricConvention
    | Some (AttributeString _ s) \<Rightarrow> Some (if s = ''JEDI'' then eJediConvention else eLfricConvention)
    | Some _ \<Rightarrow> None)"

lemma initialiseFile_increments:
  assumes "ncStore E view att" and "ncData E view vals"
    and "readyToRead E view vals att grid p vs F this h d w" and "fileCoords (fdData F) = Some coords"
    and "fileConvention (fdMetadata F) = Some conv"
  shows "\<exists>m dt lam w' fs rs. initialiseFile E grid p False w =
      (Inr conv, keeping grid this (FileData_new\<lparr>fdMetadata := m, fdData := dt, fdLfricAtlasMap := lam\<rparr>) w') \<and>
    w' = w\<lparr>outside := d, fileHeap := fs, readerHeap := rs, varHeap := varHeap w @ variablesOf vs (fdMetadata F)\<rparr> \<and>
    fileBehind view vals (moReader this) h vs F m w' \<and> partOf (initialNames (fdData F)) (fdData F) dt \<and>
    isOrderMap lam \<and> locates lam (atGridLonLat E grid) coords"
proof -
  obtain m dt lam w' fs rs where run: "initialiseFile E grid p False w =
      bindS (getFileData grid) (\<lambda>fd. getVariableConvention (fdMetadata fd))
        (keeping grid this (FileData_new\<lparr>fdMetadata := m, fdData := dt, fdLfricAtlasMap := lam\<rparr>) w')"
    "w' = w\<lparr>outside := d, fileHeap := fs, readerHeap := rs, varHeap := varHeap w @ variablesOf vs (fdMetadata F)\<rparr>"
    "fileBehind view vals (moReader this) h vs F m w'" "partOf (initialNames (fdData F)) (fdData F) dt"
    "isOrderMap lam" "locates lam (atGridLonLat E grid) coords"
    using initialiseFile_run [OF assms(1-4), of False] by (auto simp: st_simps)
  have "mdGlobalAttrs m = mdGlobalAttrs (fdMetadata F)" using run(3) by (simp add: fileBehind_def sameContents_def)
  then have "getVariableConvention m w1 = (Inr conv, w1)" for w1 :: "('a, 'b) world"
    using assms(5) by (auto simp: getVariableConvention_run fileConvention_def split: option.splits AttributeBase.splits)
  then have "initialiseFile E grid p False w =
      (Inr conv, keeping grid this (FileData_new\<lparr>fdMetadata := m, fdData := dt, fdLfricAtlasMap := lam\<rparr>) w')"
    by (simp add: run(1) bindS_Inr [where m = "getFileData grid", OF getFileData_run])
  then show ?thesis using run(2-6) by blast
qed


end
