(* ===== verification/Read_Increments.thy ===== *)
theory Read_Increments
  imports Initialise
begin

text \<open>
  \<open>readIncrements\<close> from the call to the return: for each field gathering, reading the
  file, filling the global field, scattering and closing.
\<close>

section \<open>Fields on the way\<close>

text \<open>Atlas calls that do not fail: what they return, as functions of the fields they are given.\<close>

definition atlasCalls ::
    "('d, 't) env \<Rightarrow> (nat \<Rightarrow> FieldOptions \<Rightarrow> Field) \<Rightarrow> (Field \<Rightarrow> Field \<Rightarrow> Field) \<Rightarrow> (Field \<Rightarrow> Field \<Rightarrow> Field) \<Rightarrow>
     (Field \<Rightarrow> Field) \<Rightarrow> bool" where
  "atlasCalls E created gathered scattered exchanged \<longleftrightarrow>
    (\<forall>space opts d. atCreateField E space opts d = (Inr (created space opts), d)) \<and>
    (\<forall>space from to d. atGather E space from to d = (Inr (gathered from to), d)) \<and>
    (\<forall>space from to d. atScatter E space from to d = (Inr (scattered from to), d)) \<and>
    (\<forall>field d. atHaloExchange E field d = (Inr (exchanged field), d))"

text \<open>The global field made for a local one.\<close>

definition globalFieldOf ::
    "(nat \<Rightarrow> FieldOptions \<Rightarrow> Field) \<Rightarrow> (Field \<Rightarrow> Field \<Rightarrow> Field) \<Rightarrow> (Field \<Rightarrow> Field) \<Rightarrow> Field \<Rightarrow> Field" where
  "globalFieldOf created gathered exchanged l = gathered (exchanged l)
    (created (fieldSpace l) \<lparr>optName = fieldName l, optLevels = fieldShape l ! 1, optKind = datatypeOf l\<rparr>)"

lemma getGlobalField_run:
  assumes "atlasCalls E created gathered scattered exchanged" and "f < length (fieldHeap w)"
    and "fieldGlobal (fieldHeap w ! f) = False" and "length (fieldShape (fieldHeap w ! f)) = 2"
    and "codedKind (datatypeOf (fieldHeap w ! f))"
  shows "getGlobalField E f w = (Inr (length (fieldHeap w)), w\<lparr>fieldHeap :=
    (fieldHeap w)[f := exchanged (fieldHeap w ! f)] @ [globalFieldOf created gathered exchanged (fieldHeap w ! f)]\<rparr>)"
proof -
  have calls: "\<And>space opts d. atCreateField E space opts d = (Inr (created space opts), d)"
      "\<And>space from to d. atGather E space from to d = (Inr (gathered from to), d)"
      "\<And>field d. atHaloExchange E field d = (Inr (exchanged field), d)"
    using assms(1) by (simp_all add: atlasCalls_def)
  show ?thesis
    using assms(2-5) by (simp add: getGlobalField_def st_simps bindS_Inr callS_Inr calls shapeAt_def newField_def
        globalFieldOf_def list_update_append)
qed

lemma scatterField_run:
  assumes "atlasCalls E created gathered scattered exchanged" and "f < length (fieldHeap w)" and "g < length (fieldHeap w)"
  shows "scatterField E g f w = (Inr (), w\<lparr>fieldHeap :=
    (fieldHeap w)[f := exchanged (scattered (fieldHeap w ! g) (fieldHeap w ! f))]\<rparr>)"
proof -
  have calls: "\<And>space from to d. atScatter E space from to d = (Inr (scattered from to), d)"
      "\<And>field d. atHaloExchange E field d = (Inr (exchanged field), d)"
    using assms(1) by (simp_all add: atlasCalls_def)
  show ?thesis
    using assms(2,3) by (simp add: scatterField_def st_simps bindS_Inr callS_Inr calls)
qed


text \<open>The local field and the global field made for it, at the sizes of the order map.\<close>

definition localField ::
    "(nat \<Rightarrow> FieldOptions \<Rightarrow> Field) \<Rightarrow> (Field \<Rightarrow> Field \<Rightarrow> Field) \<Rightarrow> (Field \<Rightarrow> Field) \<Rightarrow> nat \<Rightarrow> nat \<Rightarrow>
     Field \<Rightarrow> Field \<Rightarrow> double list list \<Rightarrow> bool" where
  "localField created gathered exchanged n L F G rows \<longleftrightarrow>
    fieldGlobal F = False \<and> length (fieldShape F) = 2 \<and> datatypeOf F = KIND_REAL64 \<and>
    globalFieldOf created gathered exchanged F = G \<and> fieldGlobal G = True \<and>
    fieldShape G = [of_nat n, of_nat L] \<and> fieldArray G = ArrDouble rows \<and> isMatrix n L rows"

lemma readyToRead_fields [simp]:
  "readyToRead E view vals att grid p vs F this h d (w\<lparr>fieldHeap := fs\<rparr>) =
   readyToRead E view vals att grid p vs F this h d w"
  by (simp add: readyToRead_def opensReader_def readerSlot_def cong: option.case_cong)

lemma covers_whole:
  assumes "isOrderMap lam" and "length data = length lam * (levels + s)" and "length data < 2 ^ 31"
    and "length lam < 2 ^ 31" and "levels + s < 2 ^ 31"
  shows "covers lam levels s data"
  using assms position_less [OF assms(1), of _ "_ + s" "levels + s"]
  by (auto simp: covers_def list_all_length position_def)

section \<open>One field\<close>

text \<open>
  The data of a field in a file: its name, its levels (one more than the field has, when the surface
  level is skipped), and the rows they become.
\<close>

definition nameInFile :: "int32 \<Rightarrow> FieldMetadata \<Rightarrow> string" where
  "nameInFile conv fm = (if conv = eJediConvention then jediName fm else lfricReadName fm)"

definition skipped :: "int32 \<Rightarrow> FieldMetadata \<Rightarrow> nat \<Rightarrow> nat" where
  "skipped conv fm levels = skippedLevels (noFirstLevel fm) (conv = eLfricConvention) levels"

definition fieldData :: "int32 \<Rightarrow> FieldMetadata \<Rightarrow> nat \<Rightarrow> nat \<Rightarrow> double list \<Rightarrow> bool" where
  "fieldData conv fm n levels data \<longleftrightarrow> length data = n * (levels + skipped conv fm levels) \<and>
    length data < 2 ^ 31 \<and> levels < 2 ^ 31 \<and> \<not> (noFirstLevel fm \<and> levels = 71)"

definition inFile :: "Data \<Rightarrow> int32 \<Rightarrow> FieldMetadata \<Rightarrow> nat \<Rightarrow> nat \<Rightarrow> double list \<Rightarrow> bool" where
  "inFile D conv fm n levels data \<longleftrightarrow> fieldData conv fm n levels data \<and>
    (\<exists>cn. smap_find (dataContainers D) (nameInFile conv fm) = Some (DataContainerDouble cn data))"

definition rowsRead :: "size_t list \<Rightarrow> nat \<Rightarrow> nat \<Rightarrow> nat \<Rightarrow> double list \<Rightarrow> double list list" where
  "rowsRead lam n levels s data = matrix n levels (\<lambda>i j. data ! position lam i (j + s))"

lemma populateFieldWithFileData_run:
  assumes "mpiRank w = owner" and "g < length (fieldHeap w)"
    and "smap_find (dataContainers (fdData fd)) name = Some (DataContainerDouble cn data)"
    and "fdLfricAtlasMap fd = lam" and "isOrderMap lam" and "length lam < 2 ^ 31"
    and "fieldData conv fm (length lam) levels data"
    and "fieldShape (fieldHeap w ! g) = [of_nat (length lam), of_nat levels]"
    and "fieldArray (fieldHeap w ! g) = ArrDouble rows" and "isMatrix (length lam) levels rows"
  shows "populateFieldWithFileData E owner g fd fm name (conv = eLfricConvention) w = (Inr (),
    setRows tDouble g (rowsRead lam (length lam) levels (skipped conv fm levels) data) w)"
proof -
  note data = assms(7) [unfolded fieldData_def]
  have "hasRows tDouble g rows w" using assms(2,9) by (simp add: hasRows_def tDouble_def)
  moreover have "levels + skipped conv fm levels < 2 ^ 31"
    using data by (auto simp: skipped_def skippedLevels_def)
  then have "covers lam levels (skipped conv fm levels) data"
    using data assms(5,6) by (intro covers_whole) simp_all
  ultimately have fill: "populateField E tDouble g data lam (noFirstLevel fm) (conv = eLfricConvention) w = (Inr (),
      setRows tDouble g (rowsRead lam (length lam) levels (skipped conv fm levels) data) w)"
    using assms(8,10) data unfolding rowsRead_def skipped_def by (intro populateField_levels) simp_all
  have "sint (of_nat levels :: int32) = int levels" using data by (intro sint_of_nat_small) simp
  then have tall: "(of_nat levels :: int32) = 71 \<longleftrightarrow> levels = 71" by auto
  have field: "getReadField E g (noFirstLevel fm) w = (Inr g, w)"
    using assms(2,8) data by (simp add: getReadField_def st_simps shapeAt_def bindS_Inr tall)
  have container: "getContainer E (fdData fd) name w = (Inr (DataContainerDouble cn data), w)"
    using assms(3) by (simp add: getContainer_def returnS_apply)
  show ?thesis
    using assms(1,4) fill
    by (simp add: populateFieldWithFileData_def bindS_Inr [where m = "getReadField E g (noFirstLevel fm)", OF field]
        bindS_Inr [where m = "getContainer E (fdData fd) name", OF container] populateFieldWithDataContainer_def onRank_def bindS_getS)
qed

text \<open>
  Filling the global field, the last in the heap, and scattering it. Nothing but the fields changes.
\<close>

definition fieldReadFrom ::
    "(Field \<Rightarrow> Field \<Rightarrow> Field) \<Rightarrow> (Field \<Rightarrow> Field) \<Rightarrow> Field \<Rightarrow> Field \<Rightarrow> double list list \<Rightarrow> Field" where
  "fieldReadFrom scattered exchanged L G rows = exchanged (scattered (G\<lparr>fieldArray := ArrDouble rows\<rparr>) (exchanged L))"

lemma fillAndScatter_run:
  assumes "atlasCalls E created gathered scattered exchanged" and "f < length H"
    and "fieldHeap W = H[f := exchanged L] @ [G]" and "mpiRank W = owner"
    and "smap_find (dataContainers (fdData fd)) name = Some (DataContainerDouble cn data)"
    and "fdLfricAtlasMap fd = lam" and "isOrderMap lam" and "length lam = n" and "n < 2 ^ 31"
    and "fieldData conv fm n levels data" and "localField created gathered exchanged n levels L G rows"
  shows "\<exists>W2 rest. populateFieldWithFileData E owner (length H) fd fm name (conv = eLfricConvention) W = (Inr (), W2) \<and>
    scatterField E (length H) f W2 = (Inr (), W\<lparr>fieldHeap :=
      H[f := fieldReadFrom scattered exchanged L G (rowsRead lam n levels (skipped conv fm levels) data)] @ rest\<rparr>)"
proof -
  let ?g = "length H"
  let ?rows = "rowsRead lam n levels (skipped conv fm levels) data"
  let ?G = "G\<lparr>fieldArray := ArrDouble ?rows\<rparr>"
  let ?W2 = "W\<lparr>fieldHeap := H[f := exchanged L] @ [?G]\<rparr>"
  note local = assms(11) [unfolded localField_def]
  have "populateFieldWithFileData E owner ?g fd fm name (conv = eLfricConvention) W =
      (Inr (), setRows tDouble ?g (rowsRead lam (length lam) levels (skipped conv fm levels) data) W)"
    using assms(3-10) local
    by (intro populateFieldWithFileData_run [where cn = cn and rows = rows]) (simp_all add: nth_append)
  moreover have "setRows tDouble ?g (rowsRead lam (length lam) levels (skipped conv fm levels) data) W = ?W2"
    unfolding setRows_def assms(3) by (simp add: assms(8) tDouble_def list_update_append nth_append)
  moreover have "scatterField E ?g f ?W2 = (Inr (), ?W2\<lparr>fieldHeap := H[f := exchanged (scattered ?G (exchanged L))] @ [?G]\<rparr>)"
    using scatterField_run [OF assms(1), of f ?W2 ?g] assms(2) by (simp add: nth_append list_update_append)
  ultimately show ?thesis
    unfolding fieldReadFrom_def by (intro exI [of _ ?W2] exI [of _ "[?G]"]) simp
qed

text \<open>What a round of the loop leaves: the reader has the file open, and the instance keeps file data.\<close>

definition afterReading :: "'t Monio \<Rightarrow> nat \<Rightarrow> 'd \<Rightarrow> ('d, 't) world \<Rightarrow> bool" where
  "afterReading this h d w \<longleftrightarrow> mpiRank w = moOwner this \<and> reading (moReader this) h w \<and> outside w = d \<and>
    (\<exists>files. theMonio w = Some (this\<lparr>moFilesData := files\<rparr>))"

lemma afterReading_keeping:
  assumes "fileBehind view vals (moReader this) h vs F m w" and "mpiRank w = moOwner this" and "outside w = d"
  shows "afterReading this h d ((keeping grid this fd w)\<lparr>fieldHeap := H\<rparr>)"
  using assms by (auto simp: afterReading_def fileBehind_def reading_def readerSlot_def keeping_def cong: option.case_cong)

text \<open>Then the file can be opened once more.\<close>

lemma readyToRead_again:
  assumes "opensAgain E view vals isRead" and "readyToRead E view vals att grid p vs F this h d w" and "isRead h d"
    and "afterReading this h d w'"
  obtains this' h' d' where "readyToRead E view vals att grid p vs F this' h' d' w'" and "isRead h' d'"
    and "moOwner this' = moOwner this" and "moReader this' = moReader this"
proof -
  note ready = assms(2) [unfolded readyToRead_def] and after = assms(4) [unfolded afterReading_def]
  obtain files where files: "theMonio w' = Some (this\<lparr>moFilesData := files\<rparr>)" using after by blast
  have view: "view h d = Some (contentsOf p att vs (fdMetadata F))" using ready by blast
  obtain h' d1 d2 where again: "ncOpen E p nc_read d = (Inr h', d1)" "ncClose E h d1 = (Inr (), d2)" "isRead h' d2"
      "view h' d2 = Some (contentsOf p att vs (fdMetadata F))" "vals h' d2 = vals h d"
    using assms(1,3) view unfolding opensAgain_def by (metis ctPath_contentsOf)
  obtain f where f: "readerSlot (moReader this) w' = Some f" "f < length (fileHeap w')"
      "fiDataFile (fileHeap w' ! f) = Some h"
    using after by (auto simp: reading_def split: option.splits)
  have "opensReader E (moReader this) p h' d2 w'" using again(1,2) f after by (simp add: opensReader_def)
  then have "readyToRead E view vals att grid p vs F (this\<lparr>moFilesData := files\<rparr>) h' d2 w'"
    using ready after files again(4,5) by (simp add: readyToRead_def reading_def)
  then show ?thesis by (rule that [OF _ again(3)]) simp_all
qed

lemma readIncrementsField_run:
  assumes "ncStore E view att" and "ncData E view vals"
    and "atlasCalls E created gathered scattered exchanged"
    and "smap_find (fsIndex fs) (jediName fm) = Some f" and "f < length (fieldHeap w)" and "fieldHeap w ! f = L"
    and "localField created gathered exchanged (length coords) levels L G rows"
    and "readyToRead E view vals att (atGridName E (fieldSpace G)) p vs F this h d w"
    and "fileCoords (fdData F) = Some coords" and "fileConvention (fdMetadata F) = Some conv"
    and "smap_find (dataContainers (fdData F)) (nameInFile conv fm) = Some (DataContainerDouble cn data)"
    and "fieldData conv fm (length coords) levels data"
  shows "\<exists>lam w' rest. readIncrementsField E this fs p fm w = (Inr (), w') \<and>
    isOrderMap lam \<and> locates lam (atGridLonLat E (atGridName E (fieldSpace G))) coords \<and> afterReading this h d w' \<and>
    fieldHeap w' = (fieldHeap w)[f := fieldReadFrom scattered exchanged L G
      (rowsRead lam (length coords) levels (skipped conv fm levels) data)] @ rest"
proof -
  let ?g = "length (fieldHeap w)" and ?grid = "atGridName E (fieldSpace G)" and ?name = "nameInFile conv fm"
  let ?w1 = "w\<lparr>fieldHeap := (fieldHeap w)[f := exchanged L] @ [G]\<rparr>"
  have global: "getGlobalField E f w = (Inr ?g, ?w1)"
    using getGlobalField_run [OF assms(3,5)] assms(6,7) by (simp add: codedKind_def localField_def)
  have ready: "readyToRead E view vals att ?grid p vs F this h d ?w1" using assms(8) by simp
  obtain m dt lam w2 fh rs where init: "initialiseFile E ?grid p False ?w1 =
      (Inr conv, keeping ?grid this (FileData_new\<lparr>fdMetadata := m, fdData := dt, fdLfricAtlasMap := lam\<rparr>) w2)"
    "w2 = ?w1\<lparr>outside := d, fileHeap := fh, readerHeap := rs, varHeap := varHeap ?w1 @ variablesOf vs (fdMetadata F)\<rparr>"
    "fileBehind view vals (moReader this) h vs F m w2" "partOf (initialNames (fdData F)) (fdData F) dt"
    "isOrderMap lam" "locates lam (atGridLonLat E ?grid) coords"
    using initialiseFile_increments [OF assms(1,2) ready assms(9,10)] by blast
  let ?fd = "FileData_new\<lparr>fdMetadata := m, fdData := dt, fdLfricAtlasMap := lam\<rparr>"
  let ?W = "keeping ?grid this ?fd w2"
  have rank: "mpiRank w = moOwner this" using assms(8) by (simp add: readyToRead_def)
  have len: "length lam = length coords" using init(6) by (simp add: locates_def)
  have small: "length coords < 2 ^ 31" using assms(8,9) by (simp add: readyToRead_def sameGrid_def)
  obtain dt' where read: "Reader_readFullDatum E (moReader this) ?name ?fd ?W = (Inr (?fd\<lparr>fdData := dt'\<rparr>), ?W)"
      "partOf (insert ?name (initialNames (fdData F))) (fdData F) dt'"
    using Reader_readFullDatum_part [OF assms(2), of "moReader this" h vs F m ?W ?fd ?name "initialNames (fdData F)"]
      init(3,4) assms(11) by auto
  have found: "smap_find (dataContainers dt') ?name = Some (DataContainerDouble cn data)"
    using read(2) assms(11) by (simp only: partOf_def) simp
  have heap: "fieldHeap ?W = (fieldHeap w)[f := exchanged L] @ [G]" by (simp add: init(2))
  have rank2: "mpiRank w2 = moOwner this" using init(2) rank by simp
  obtain W2 rest where fill: "populateFieldWithFileData E (moOwner this) ?g (?fd\<lparr>fdData := dt'\<rparr>) fm ?name
        (conv = eLfricConvention) ?W = (Inr (), W2)"
    and spread: "scatterField E ?g f W2 = (Inr (), ?W\<lparr>fieldHeap := (fieldHeap w)[f := fieldReadFrom scattered exchanged L G
      (rowsRead lam (length coords) levels (skipped conv fm levels) data)] @ rest\<rparr>)"
    using fillAndScatter_run [OF assms(3,5) heap, of "moOwner this" "?fd\<lparr>fdData := dt'\<rparr>" ?name cn data lam "length coords"
        conv fm levels rows] found rank2 init(5) len small assms(7,12) by auto
  have "readIncrementsField E this fs p fm w = scatterField E ?g f W2"
    using assms(4) global rank init(1) read(1) fill
    by (simp add: readIncrementsField_def fieldNamed_def st_simps bindS_Inr onRank_def gridOf_def Let_def nth_append
        getFileData_run nameInFile_def del: if_split)
  then show ?thesis
    using init(5,6) spread afterReading_keeping [OF init(3) rank2] init(2)
    by (intro exI [of _ lam] exI [of _ "?W\<lparr>fieldHeap := _\<rparr>"] exI [of _ rest]) simp
qed


section \<open>All fields\<close>

text \<open>
  A loop each of whose rounds replaces one field and adds fields behind the others: if the rounds are
  for different fields, each finds its field as it was at the start.
\<close>

lemma forS_fields:
  fixes body :: "'a \<Rightarrow> (('d, 't) world, unit) st"
  assumes "\<And>x w. x \<in> set xs \<Longrightarrow> I w \<Longrightarrow> idx x < length (fieldHeap w) \<Longrightarrow> fieldHeap w ! idx x = old x \<Longrightarrow>
      \<exists>w' new rest. body x w = (Inr (), w') \<and> I w' \<and> R x new \<and> fieldHeap w' = (fieldHeap w)[idx x := new] @ rest"
    and "I w" and "\<forall>x \<in> set xs. idx x < length (fieldHeap w) \<and> fieldHeap w ! idx x = old x"
    and "distinct (map idx xs)"
  shows "\<exists>w'. forS xs body w = (Inr (), w') \<and> I w' \<and> length (fieldHeap w) \<le> length (fieldHeap w') \<and>
    (\<forall>x \<in> set xs. R x (fieldHeap w' ! idx x)) \<and>
    (\<forall>k < length (fieldHeap w). k \<notin> idx ` set xs \<longrightarrow> fieldHeap w' ! k = fieldHeap w ! k)"
  using assms
proof (induction xs arbitrary: w)
  case Nil
  then show ?case by (intro exI [of _ w]) (simp add: st_simps)
next
  case (Cons y ys)
  obtain w1 new rest where step: "body y w = (Inr (), w1)" "I w1" "R y new" "fieldHeap w1 = (fieldHeap w)[idx y := new] @ rest"
    using Cons.prems(1) [of y w] Cons.prems(2,3) by auto
  have this_one: "idx y \<notin> idx ` set ys" using Cons.prems(4) by simp
  then have others: "\<forall>x \<in> set ys. idx x \<noteq> idx y" by (auto simp: image_iff)
  have heap: "idx x < length (fieldHeap w1) \<and> fieldHeap w1 ! idx x = old x" if "x \<in> set ys" for x
    using Cons.prems(3) that others step(4) by (auto simp: nth_append)
  obtain w2 where rest: "forS ys body w1 = (Inr (), w2)" "I w2" "length (fieldHeap w1) \<le> length (fieldHeap w2)"
      "\<forall>x \<in> set ys. R x (fieldHeap w2 ! idx x)"
      "\<forall>k < length (fieldHeap w1). k \<notin> idx ` set ys \<longrightarrow> fieldHeap w2 ! k = fieldHeap w1 ! k"
    using Cons.IH [of w1] Cons.prems(1,4) step(2) heap by auto
  have y: "idx y < length (fieldHeap w)" using Cons.prems(3) by simp
  then have "fieldHeap w2 ! idx y = new"
    using rest(5) this_one step(4) by (simp add: nth_append)
  moreover have "fieldHeap w2 ! k = fieldHeap w ! k" if "k < length (fieldHeap w)" "k \<notin> idx ` set (y # ys)" for k
    using rest(5) step(4) that by (simp add: nth_append)
  ultimately show ?case
    using step(1,3,4) rest(1-4) by (intro exI [of _ w2]) (simp add: st_simps bindS_Inr)
qed

text \<open>
  A field of the set that can be read: its place in the heap, the local field \<open>L\<close>, its global field
  \<open>G\<close> over the grid, and its data in the file.
\<close>

definition fieldToRead ::
    "('d, 't) env \<Rightarrow> (nat \<Rightarrow> FieldOptions \<Rightarrow> Field) \<Rightarrow> (Field \<Rightarrow> Field \<Rightarrow> Field) \<Rightarrow> (Field \<Rightarrow> Field) \<Rightarrow> string \<Rightarrow>
     FieldSet \<Rightarrow> Field list \<Rightarrow> nat \<Rightarrow> FieldMetadata \<Rightarrow> ref \<Rightarrow> Field \<Rightarrow> Field \<Rightarrow> nat \<Rightarrow> bool" where
  "fieldToRead E created gathered exchanged grid fs H n fm f L G levels \<longleftrightarrow>
    smap_find (fsIndex fs) (jediName fm) = Some f \<and> f < length H \<and> H ! f = L \<and> atGridName E (fieldSpace G) = grid \<and>
    (\<exists>rows. localField created gathered exchanged n levels L G rows)"

lemma readIncrementsField_same:
  assumes "moOwner this' = moOwner this" and "moReader this' = moReader this"
  shows "readIncrementsField E this' fs p fm = readIncrementsField E this fs p fm"
  using assms by (simp add: readIncrementsField_def)

text \<open>The instance of the call: it keeps other file data in each round, its reader and owner stay.\<close>

definition stillReady ::
    "('d, 't) env \<Rightarrow> 'd contents_view \<Rightarrow> 'd values_view \<Rightarrow> (string \<Rightarrow> PutValue \<Rightarrow> NcAtt) \<Rightarrow> (nat \<Rightarrow> 'd \<Rightarrow> bool) \<Rightarrow>
     string \<Rightarrow> string \<Rightarrow> Variable list \<Rightarrow> 't FileData \<Rightarrow> 't Monio \<Rightarrow> ('d, 't) world \<Rightarrow> bool" where
  "stillReady E view vals att isRead grid p vs F this w \<longleftrightarrow>
    (\<exists>this' h d. readyToRead E view vals att grid p vs F this' h d w \<and> isRead h d \<and>
      moOwner this' = moOwner this \<and> moReader this' = moReader this)"

lemma stillReady_again:
  assumes "opensAgain E view vals isRead" and "readyToRead E view vals att grid p vs F this' h d w" and "isRead h d"
    and "moOwner this' = moOwner this" and "moReader this' = moReader this" and "afterReading this' h d w'"
  shows "stillReady E view vals att isRead grid p vs F this w'"
  using readyToRead_again [OF assms(1-3,6)] assms(4,5) unfolding stillReady_def by metis

section \<open>The entry point\<close>

text \<open>Closing after the last field.\<close>

lemma closes_and_keeps:
  assumes "closeQuiet E" and "wf_world w" and "r < length (readerHeap w)"
  shows "\<exists>w'. Reader_closeFile E r w = (Inr (), w') \<and> fieldHeap w' = fieldHeap w"
proof -
  obtain w' where close: "Reader_closeFile E r w = (Inr (), w')"
    using Reader_closeFile_quiet [OF assms] by blast
  then show ?thesis
    using keepsS_snd [OF Reader_closeFile_free [OF handle_free_fieldHeap, of "\<lambda>h. h = fieldHeap w"], of w E r] by simp
qed

lemma readIncrements_close:
  assumes "closeQuiet E" and "wf_world w" and "theMonio w = Some this" and "fsFields fs \<noteq> []" and "p \<noteq> []"
    and "osFileExists E p (outside w)" and "forS fms (readIncrementsField E this fs p) w = (Inr (), w1)"
    and "moReader this < length (readerHeap w1)"
  shows "\<exists>w'. readIncrements E fs fms p w = (Inr (), w') \<and> fieldHeap w' = fieldHeap w1 \<and> readerSlot (moReader this) w' = None"
proof -
  have get: "Monio_get w = (Inr this, w)" using assms(3) by (simp add: Monio_get_Some)
  have keeps: "keepsS wf_world (forS fms (readIncrementsField E this fs p))" by (intro keeps_intros wf.read_loops_kept)
  have "wf_world w1" using keepsS_snd [where m = "forS fms (readIncrementsField E this fs p)", OF keeps assms(2)] assms(7) by simp
  then obtain w2 where close: "Reader_closeFile E (moReader this) w1 = (Inr (), w2)" "fieldHeap w2 = fieldHeap w1"
    using closes_and_keeps [OF assms(1) _ assms(8)] by blast
  then have run: "readIncrements E fs fms p w = (Inr (), w2)"
    using get assms(4-7) by (simp add: readIncrements_def bindS_Inr st_simps fileExists_apply catchNc_def)
  then show ?thesis using entry_points_close [OF assms(2) get] close(2) by blast
qed

text \<open>The loop over the fields.\<close>

lemma readIncrements_loop:
  assumes "ncStore E view att" and "ncData E view vals" and "opensAgain E view vals isRead"
    and "atlasCalls E created gathered scattered exchanged"
    and "readyToRead E view vals att grid p vs F this h d w" and "isRead h d"
    and "fileCoords (fdData F) = Some coords" and "fileConvention (fdMetadata F) = Some conv"
    and "\<forall>fm \<in> set fms.
      fieldToRead E created gathered exchanged grid fs (fieldHeap w) (length coords) fm (f fm) (L fm) (G fm) (levels fm) \<and>
      inFile (fdData F) conv fm (length coords) (levels fm) (data fm)"
    and "distinct (map f fms)"
  shows "\<exists>w'. forS fms (readIncrementsField E this fs p) w = (Inr (), w') \<and>
    (\<forall>fm \<in> set fms. \<exists>lam. isOrderMap lam \<and> locates lam (atGridLonLat E grid) coords \<and>
      fieldHeap w' ! f fm = fieldReadFrom scattered exchanged (L fm) (G fm)
        (rowsRead lam (length coords) (levels fm) (skipped conv fm (levels fm)) (data fm))) \<and>
    (\<forall>k < length (fieldHeap w). k \<notin> f ` set fms \<longrightarrow> fieldHeap w' ! k = fieldHeap w ! k) \<and>
    moReader this < length (readerHeap w')"
proof -
  let ?I = "stillReady E view vals att isRead grid p vs F this"
  let ?R = "\<lambda>fm x. \<exists>lam. isOrderMap lam \<and> locates lam (atGridLonLat E grid) coords \<and>
    x = fieldReadFrom scattered exchanged (L fm) (G fm)
      (rowsRead lam (length coords) (levels fm) (skipped conv fm (levels fm)) (data fm))"
  have step: "\<exists>w2 new rest. readIncrementsField E this fs p fm w1 = (Inr (), w2) \<and> ?I w2 \<and> ?R fm new \<and>
      fieldHeap w2 = (fieldHeap w1)[f fm := new] @ rest"
    if fm: "fm \<in> set fms" and "?I w1" and f: "f fm < length (fieldHeap w1)" "fieldHeap w1 ! f fm = L fm" for fm w1
  proof -
    obtain this' h' d' where ready: "readyToRead E view vals att grid p vs F this' h' d' w1" "isRead h' d'"
        "moOwner this' = moOwner this" "moReader this' = moReader this"
      using \<open>?I w1\<close> unfolding stillReady_def by blast
    obtain rows cn where field: "smap_find (fsIndex fs) (jediName fm) = Some (f fm)" "atGridName E (fieldSpace (G fm)) = grid"
        "localField created gathered exchanged (length coords) (levels fm) (L fm) (G fm) rows"
        "smap_find (dataContainers (fdData F)) (nameInFile conv fm) = Some (DataContainerDouble cn (data fm))"
        "fieldData conv fm (length coords) (levels fm) (data fm)"
      using assms(9) fm unfolding fieldToRead_def inFile_def by blast
    obtain lam w2 rest where run: "readIncrementsField E this' fs p fm w1 = (Inr (), w2)" "isOrderMap lam"
        "locates lam (atGridLonLat E grid) coords" "afterReading this' h' d' w2"
        "fieldHeap w2 = (fieldHeap w1)[f fm := fieldReadFrom scattered exchanged (L fm) (G fm)
          (rowsRead lam (length coords) (levels fm) (skipped conv fm (levels fm)) (data fm))] @ rest"
      using readIncrementsField_run [OF assms(1,2,4) field(1) f field(3), of p vs F this' h' d' conv cn "data fm"]
        ready(1) field(2,4,5) assms(7,8) by blast
    then show ?thesis
      using stillReady_again [OF assms(3) ready run(4)] readIncrementsField_same [OF ready(3,4), of E fs p fm] by auto
  qed
  have "?I w" using assms(5,6) unfolding stillReady_def by blast
  moreover have "\<forall>fm \<in> set fms. f fm < length (fieldHeap w) \<and> fieldHeap w ! f fm = L fm"
    using assms(9) by (simp add: fieldToRead_def)
  ultimately obtain w1 where loop: "forS fms (readIncrementsField E this fs p) w = (Inr (), w1)" "?I w1"
      "\<forall>fm \<in> set fms. ?R fm (fieldHeap w1 ! f fm)"
      "\<forall>k < length (fieldHeap w). k \<notin> f ` set fms \<longrightarrow> fieldHeap w1 ! k = fieldHeap w ! k"
    using forS_fields [where body = "readIncrementsField E this fs p" and I = ?I and R = ?R and idx = f and old = L and xs = fms,
        OF step _ _ assms(10)] by blast
  moreover have "moReader this < length (readerHeap w1)" using loop(2) by (auto simp: stillReady_def readyToRead_def)
  ultimately show ?thesis using loop(1,3,4) by blast
qed


end
