(* ===== verification/Read_State.thy ===== *)
theory Read_State
  imports Read_Increments
begin

text \<open>
  \<open>readState\<close> from the call to the return: the time axis of the file, the step of the wanted date-time,
  and one time slice of the data of each field.
\<close>

section \<open>The time axis\<close>

text \<open>The origin of the time axis, as it is handed to \<open>util::DateTime\<close>, and the seconds after it.\<close>

definition timeAxis :: "Variable list \<Rightarrow> 't FileData \<Rightarrow> (string \<times> size_t list) option" where
  "timeAxis vs F =
    (case (smap_find (mdVariables (fdMetadata F)) kTimeVarName, smap_find (dataContainers (fdData F)) kTimeVarName) of
      (Some r, Some (DataContainerDouble _ values)) \<Rightarrow>
        (case smap_find (varAttrs (vs ! r)) kTimeOriginName of
          Some (AttributeString _ origin) \<Rightarrow>
            (case strToWords origin (CHR '' '') of
              date # time # _ \<Rightarrow>
                if list_all wholeSeconds values then Some (date @ ''T'' @ time @ ''Z'', map secondsOf values) else None
            | _ \<Rightarrow> None)
        | _ \<Rightarrow> None)
    | _ \<Rightarrow> None)"

lemma timeAxisE:
  assumes "timeAxis vs F = Some (base, seconds)"
  obtains r n xs a origin date time rest where "smap_find (mdVariables (fdMetadata F)) kTimeVarName = Some r"
    and "smap_find (dataContainers (fdData F)) kTimeVarName = Some (DataContainerDouble n xs)"
    and "smap_find (varAttrs (vs ! r)) kTimeOriginName = Some (AttributeString a origin)"
    and "strToWords origin (CHR '' '') = date # time # rest" and "list_all wholeSeconds xs"
    and "base = date @ ''T'' @ time @ ''Z''" and "seconds = map secondsOf xs"
  using assms by (auto simp: timeAxis_def split: option.splits DataContainerBase.splits AttributeBase.splits
      list.splits if_splits)

text \<open>The date-times of a file whose origin is \<open>t0\<close>.\<close>

definition fileTimes :: "('d, 't) env \<Rightarrow> Variable list \<Rightarrow> 't FileData \<Rightarrow> 't \<Rightarrow> 't list option" where
  "fileTimes E vs F t0 = map_option (\<lambda>axis. map (addDuration E t0) (snd axis)) (timeAxis vs F)"

definition originAt :: "('d, 't) env \<Rightarrow> Variable list \<Rightarrow> 't FileData \<Rightarrow> 't \<Rightarrow> bool" where
  "originAt E vs F t0 \<longleftrightarrow> (\<forall>axis d. timeAxis vs F = Some axis \<longrightarrow> dateTimeOf E (fst axis) d = (Inr t0, d))"

lemma createDateTimes_file:
  assumes "fileBehind view vals r h vs F m w" and "mpiRank w = moOwner this" and "fdDateTimes fd = []" and "fdMetadata fd = m"
    and "partOf S (fdData F) (fdData fd)" and "kTimeVarName \<in> S"
    and "fileTimes E vs F t0 = Some ts" and "originAt E vs F t0"
  shows "createDateTimes E this kTimeVarName kTimeOriginName fd w = (Inr (fd\<lparr>fdDateTimes := ts\<rparr>), w)"
proof -
  obtain base seconds where axis: "timeAxis vs F = Some (base, seconds)" "ts = map (addDuration E t0) seconds"
    using assms(7) by (auto simp: fileTimes_def)
  obtain v n xs a origin date time rest where t: "smap_find (mdVariables (fdMetadata F)) kTimeVarName = Some v"
      "smap_find (dataContainers (fdData F)) kTimeVarName = Some (DataContainerDouble n xs)"
      "smap_find (varAttrs (vs ! v)) kTimeOriginName = Some (AttributeString a origin)"
      "strToWords origin (CHR '' '') = date # time # rest" "list_all wholeSeconds xs"
      "base = date @ ''T'' @ time @ ''Z''" "seconds = map secondsOf xs"
    using timeAxisE [OF axis(1)] .
  note behind = assms(1) [unfolded fileBehind_def]
  obtain v' where v': "smap_find (mdVariables m) kTimeVarName = Some v'" "varHeap w ! v' = vs ! v"
    using sameContents_var [OF _ t(1)] behind by blast
  have "v' < length (varHeap w)"
    using behind v'(1) by (auto simp: metadata_on_def list_all_iff in_entries_iff [symmetric])
  moreover have "fitting (vs ! v) (DataContainerDouble n xs)"
    using storableDataE [OF _ t(2), of vs] behind t(1) by (metis option.inject)
  moreover have "smap_find (dataContainers (fdData fd)) kTimeVarName = Some (DataContainerDouble n xs)"
    using assms(5,6) t(2) by (simp add: partOf_def)
  moreover have "dateTimeOf E (date @ ''T'' @ time @ ''Z'') (outside w) = (Inr t0, outside w)"
    using assms(8) axis(1) t(6) by (simp add: originAt_def)
  ultimately have "createDateTimes E this kTimeVarName kTimeOriginName fd w =
      (Inr (fd\<lparr>fdDateTimes := map (\<lambda>x. addDuration E t0 (secondsOf x)) xs\<rparr>), w\<lparr>outside := outside w\<rparr>)"
    using assms(2-4) v' t(3-5) by (intro createDateTimes_run [where v = v' and a = a]) (simp_all add: fitting_def)
  then show ?thesis by (simp add: axis(2) t(7) comp_def)
qed

lemma initialiseFile_times:
  fixes E :: "('d, 't) env"
  assumes "ncStore E view att" and "ncData E view vals"
    and "readyToRead E view vals att grid p vs F this h d w" and "fileCoords (fdData F) = Some coords"
    and "fileConvention (fdMetadata F) = Some conv" and "fileTimes E vs F t0 = Some ts" and "originAt E vs F t0"
  shows "\<exists>m dt lam w' fs rs. initialiseFile E grid p True w =
      (Inr conv, keeping grid this
        (FileData_new\<lparr>fdMetadata := m, fdData := dt, fdLfricAtlasMap := lam, fdDateTimes := ts\<rparr>) w') \<and>
    w' = w\<lparr>outside := d, fileHeap := fs, readerHeap := rs, varHeap := varHeap w @ variablesOf vs (fdMetadata F)\<rparr> \<and>
    fileBehind view vals (moReader this) h vs F m w' \<and> partOf (insert kTimeVarName (initialNames (fdData F))) (fdData F) dt \<and>
    isOrderMap lam \<and> locates lam (atGridLonLat E grid) coords"
proof -
  obtain m dt lam w' fs rs where run: "initialiseFile E grid p True w =
      seqS (seqS (updateFileData grid (Reader_readFullDatum E (moReader this) kTimeVarName))
           (updateFileData grid (createDateTimes E this kTimeVarName kTimeOriginName)))
        (bindS (getFileData grid) (\<lambda>fd. getVariableConvention (fdMetadata fd)))
        (keeping grid this (FileData_new\<lparr>fdMetadata := m, fdData := dt, fdLfricAtlasMap := lam\<rparr>) w')"
    "w' = w\<lparr>outside := d, fileHeap := fs, readerHeap := rs, varHeap := varHeap w @ variablesOf vs (fdMetadata F)\<rparr>"
    "fileBehind view vals (moReader this) h vs F m w'" "partOf (initialNames (fdData F)) (fdData F) dt"
    "isOrderMap lam" "locates lam (atGridLonLat E grid) coords"
    using initialiseFile_run [OF assms(1-4), of True] by (auto simp: whenS_True)
  let ?fd = "FileData_new\<lparr>fdMetadata := m, fdData := dt, fdLfricAtlasMap := lam\<rparr> :: 't FileData"
  obtain base seconds where axis: "timeAxis vs F = Some (base, seconds)" using assms(6) by (auto simp: fileTimes_def)
  have "smap_find (dataContainers (fdData F)) kTimeVarName \<noteq> None" using timeAxisE [OF axis] by blast
  then obtain dt' where read: "Reader_readFullDatum E (moReader this) kTimeVarName ?fd (keeping grid this ?fd w') =
        (Inr (?fd\<lparr>fdData := dt'\<rparr>), keeping grid this ?fd w')" "partOf (insert kTimeVarName (initialNames (fdData F))) (fdData F) dt'"
    using Reader_readFullDatum_part [OF assms(2), of "moReader this" h vs F m "keeping grid this ?fd w'" ?fd kTimeVarName
        "initialNames (fdData F)"] run(3,4) by auto
  let ?fd1 = "?fd\<lparr>fdData := dt'\<rparr>"
  have rank: "mpiRank w' = moOwner this" using assms(3) run(2) by (simp add: readyToRead_def)
  have times: "createDateTimes E this kTimeVarName kTimeOriginName ?fd1 (keeping grid this ?fd1 w') =
      (Inr (?fd1\<lparr>fdDateTimes := ts\<rparr>), keeping grid this ?fd1 w')"
    using run(3) rank read(2) assms(6,7) by (intro createDateTimes_file [where S = "insert kTimeVarName (initialNames (fdData F))"]) (simp_all add: FileData_new_def)
  note u1 = updateFileData_run [where op = "Reader_readFullDatum E (moReader this) kTimeVarName", OF read(1)]
  note u2 = updateFileData_run [where op = "createDateTimes E this kTimeVarName kTimeOriginName", OF times]
  have "mdGlobalAttrs m = mdGlobalAttrs (fdMetadata F)" using run(3) by (simp add: fileBehind_def sameContents_def)
  then have convention: "getVariableConvention m w1 = (Inr conv, w1)" for w1 :: "('d, 't) world"
    using assms(5) by (auto simp: getVariableConvention_run fileConvention_def split: option.splits AttributeBase.splits)
  have "initialiseFile E grid p True w = (Inr conv, keeping grid this
      (FileData_new\<lparr>fdMetadata := m, fdData := dt', fdLfricAtlasMap := lam, fdDateTimes := ts\<rparr>) w')"
    using u1 u2 convention
    by (simp add: run(1) seqS_eq bindS_assoc bindS_Inr bindS_Inr [where m = "getFileData grid", OF getFileData_run])
      (simp add: FileData_new_def)
  then show ?thesis using run(2,3,5,6) read(2) by blast
qed

section \<open>One time step\<close>

lemma Reader_findTimeStep_run:
  assumes "t < length (fdDateTimes fd)" and "fdDateTimes fd ! t = dateTime" and "\<forall>i < t. fdDateTimes fd ! i \<noteq> dateTime"
  shows "Reader_findTimeStep E r fd dateTime w = (Inr (of_nat t), w)"
proof -
  let ?i = "std_find (fdDateTimes fd) dateTime"
  have "\<not> t < ?i" using std_find_least [of t "fdDateTimes fd" dateTime] assms(2) by blast
  moreover have "\<not> ?i < t" using std_find_nth [of "fdDateTimes fd" dateTime] assms(1,3) by auto
  ultimately have "?i = t" by simp
  moreover have "dateTime \<in> set (fdDateTimes fd)" using assms(1,2) by auto
  ultimately show ?thesis
    using assms(1) by (cases "fdDateTimes fd = []") (auto simp: Reader_findTimeStep_def st_simps searchTimeStep_result)
qed

lemma getsSlabs_step:
  assumes "getsSlabs get mk view vals" and "view h d = Some c" and "map_of (ctVars c) k = Some v"
    and "ncVarDims v = (tn, of_nat T) # rest" and "vals h d k = Some (mk xs)"
    and "length xs = T * (\<Prod>x\<leftarrow>rest. unat (snd x))" and "t < T" and "T < 2 ^ 31"
  shows "get h k (of_nat t # replicate (length rest) 0) (1 # map snd rest) d =
    (Inr (take (\<Prod>x\<leftarrow>rest. unat (snd x)) (drop (t * (\<Prod>x\<leftarrow>rest. unat (snd x))) xs)), d)"
proof -
  let ?ns = "map (\<lambda>x. unat (snd x)) rest"
  have small: "unat (of_nat t :: size_t) = t" "unat (of_nat T :: size_t) = T"
    using assms(7,8) by (simp_all add: unat_of_nat_size)
  have request: "map unat (of_nat t # replicate (length rest) 0 :: size_t list) = t # replicate (length rest) 0"
      "map unat (1 # map snd rest) = 1 # ?ns" "map (\<lambda>x. unat (snd x)) (ncVarDims v) = T # ?ns"
    using small assms(4) by simp_all
  have "list_all (\<lambda>(n, s, c). s + c \<le> n) (zip (map f rest) (zip (replicate (length rest) 0) (map f rest)))"
    for f :: "string \<times> size_t \<Rightarrow> nat"
    by (induction rest) simp_all
  then have bounds: "list_all (\<lambda>(n, s, c). s + c \<le> n) (zip (T # ?ns) (zip (t # replicate (length rest) 0) (1 # ?ns)))"
    using assms(7) by simp
  have "get h k (of_nat t # replicate (length rest) 0) (1 # map snd rest) d =
      (Inr (slab (T # ?ns) (t # replicate (length rest) 0) (1 # ?ns) xs), d)"
    using assms(1) [unfolded getsSlabs_def, rule_format, OF assms(2,3,5), of "of_nat t # replicate (length rest) 0"
        "1 # map snd rest"] assms(4) bounds by (simp only: request) (simp del: slab.simps add: small)
  then show ?thesis
    using slab_step [of xs T ?ns t] assms(6,7) by simp
qed

lemma Reader_readDatumAtTime_part:
  assumes "ncSlabs E view vals" and "fileBehind view vals r h vs F m w" and "fdMetadata fd = m"
    and "view h (outside w) = Some (contentsOf p att vs (fdMetadata F))"
    and "smap_find (dataContainers (fdData F)) name = Some (DataContainerDouble cn xs)"
    and "smap_find (mdVariables (fdMetadata F)) name = Some v" and "varDims (vs ! v) = (kTimeDimName, of_nat T) # rest"
    and "t < T" and "T < 2 ^ 31" and "fdDateTimes fd ! t = dateTime" and "\<forall>i < t. fdDateTimes fd ! i \<noteq> dateTime"
    and "t < length (fdDateTimes fd)"
    and "partOf S (fdData F) (fdData fd)" and "name \<notin> S" and "len = (\<Prod>x\<leftarrow>rest. unat (snd x))"
  shows "Reader_readDatumAtTime E r fd name dateTime kTimeDimName w =
    (Inr (fd\<lparr>fdData := addContainer (DataContainerDouble name (take len (drop (t * len) xs))) (fdData fd)\<rparr>), w)"
proof -
  note behind = assms(2) [unfolded fileBehind_def]
  obtain v2 where v2: "smap_find (mdVariables (fdMetadata F)) name = Some v2" "wf_variable (vs ! v2)"
      "fitting (vs ! v2) (DataContainerDouble cn xs)"
    using storableDataE [OF _ assms(5), of vs] behind by (metis storableVar_def)
  then have v: "wf_variable (vs ! v)" "fitting (vs ! v) (DataContainerDouble cn xs)" using assms(6) by simp_all
  obtain v' where v': "smap_find (mdVariables m) name = Some v'" "varHeap w ! v' = vs ! v"
    using sameContents_var [OF _ assms(6)] behind by blast
  have on: "v' < length (varHeap w)"
    using behind v'(1) by (auto simp: metadata_on_def list_all_iff in_entries_iff [symmetric])
  have vals: "vals h (outside w) name = Some (NcDoubles xs)"
    using behind assms(5) by (auto simp: in_entries_iff [symmetric])
  have size: "length xs = T * len" "length xs < 2 ^ 31"
    using v(2) assms(7,9,15) by (simp_all add: fitting_def unat_of_nat_size)
  have rest: "filter (\<lambda>x. fst x \<noteq> kTimeDimName) (varDims (varHeap w ! v')) = rest"
  proof -
    have "kTimeDimName \<notin> set (map fst rest)" using v(1) assms(7) by (simp add: wf_variable_def)
    then have "filter (\<lambda>x. fst x \<noteq> kTimeDimName) rest = rest" by (force intro!: filter_True)
    then show ?thesis using v'(2) assms(7) by simp
  qed
  have "Suc t * len \<le> T * len" using assms(8) by (intro mult_le_mono1) simp
  then have part: "length (take len (drop (t * len) xs)) = len" "len < 2 ^ 31"
    using size assms(8) by simp_all
  have "ncGetDoubleAt E h name (of_nat t # replicate (length rest) 0) (1 # map snd rest) (outside w) =
      (Inr (take len (drop (t * len) xs)), outside w)"
    using getsSlabs_step [of "ncGetDoubleAt E" NcDoubles view vals h "outside w" _ name "ncVarOf att (vs ! v)" kTimeDimName T rest xs t]
      assms(1,4,7,8,9,15) contentsOf_var [OF assms(6), of p att vs] vals size(1)
    by (simp add: ncSlabs_def ncVarOf_def)
  then have "Reader_readDatumAtTimeStep E r fd name (of_nat t) kTimeDimName w =
      (Inr (fd\<lparr>fdData := addContainer (DataContainerDouble name (take len (drop (t * len) xs))) (fdData fd)\<rparr>),
       w\<lparr>outside := outside w\<rparr>)"
    using behind v v' on assms(3,13-15) rest part
    by (intro Reader_readDatumAtTimeStep_run [where v = v' and rest = rest and h = h])
      (simp_all add: fitting_def partOf_def)
  moreover have "Reader_isOwner r w = (Inr True, w)"
    using behind by (auto simp: reading_def Reader_isOwner_apply)
  ultimately show ?thesis
    using Reader_findTimeStep_run [OF assms(12,10,11), of E r w]
    by (simp add: Reader_readDatumAtTime_def bindS_Inr)
qed

text \<open>
  The file holds the variable over a time axis of \<open>T\<close> steps, \<open>len\<close> values for each, as one vector;
  \<open>initialiseFile\<close> does not read it.
\<close>

definition timeSeries :: "Variable list \<Rightarrow> 't FileData \<Rightarrow> string \<Rightarrow> nat \<Rightarrow> nat \<Rightarrow> double list \<Rightarrow> bool" where
  "timeSeries vs F name T len xs \<longleftrightarrow> T < 2 ^ 31 \<and> name \<notin> insert kTimeVarName (initialNames (fdData F)) \<and>
    (case (smap_find (mdVariables (fdMetadata F)) name, smap_find (dataContainers (fdData F)) name) of
      (Some v, Some (DataContainerDouble _ ys)) \<Rightarrow> ys = xs \<and> varDims (vs ! v) \<noteq> [] \<and>
        hd (varDims (vs ! v)) = (kTimeDimName, of_nat T) \<and> (\<Prod>x\<leftarrow>tl (varDims (vs ! v)). unat (snd x)) = len
    | _ \<Rightarrow> False)"

lemma timeSeriesE:
  assumes "timeSeries vs F name T len xs"
  obtains v n rest where "smap_find (mdVariables (fdMetadata F)) name = Some v"
    and "smap_find (dataContainers (fdData F)) name = Some (DataContainerDouble n xs)"
    and "varDims (vs ! v) = (kTimeDimName, of_nat T) # rest" and "len = (\<Prod>x\<leftarrow>rest. unat (snd x))"
proof -
  obtain v n where v: "smap_find (mdVariables (fdMetadata F)) name = Some v"
      "smap_find (dataContainers (fdData F)) name = Some (DataContainerDouble n xs)" "varDims (vs ! v) \<noteq> []"
      "hd (varDims (vs ! v)) = (kTimeDimName, of_nat T)" "(\<Prod>x\<leftarrow>tl (varDims (vs ! v)). unat (snd x)) = len"
    using assms by (auto simp: timeSeries_def split: option.splits DataContainerBase.splits)
  then show ?thesis by (intro that [of v n "tl (varDims (vs ! v))"]) (use list.collapse [OF v(3)] in simp_all)
qed

lemma timeSeries_length:
  assumes "storableData vs F" and "timeSeries vs F name T len xs"
  shows "length xs = T * len" and "length xs < 2 ^ 31"
proof -
  obtain v n rest where v: "smap_find (mdVariables (fdMetadata F)) name = Some v"
      "smap_find (dataContainers (fdData F)) name = Some (DataContainerDouble n xs)"
      "varDims (vs ! v) = (kTimeDimName, of_nat T) # rest" "len = (\<Prod>x\<leftarrow>rest. unat (snd x))"
    using timeSeriesE [OF assms(2)] .
  have "fitting (vs ! v) (DataContainerDouble n xs)"
    using storableDataE [OF assms(1) v(2)] v(1) by (metis option.inject)
  moreover have "T < 2 ^ 31" using assms(2) by (simp add: timeSeries_def)
  ultimately show "length xs = T * len" "length xs < 2 ^ 31"
    using v(3,4) by (simp_all add: fitting_def unat_of_nat_size)
qed

text \<open>The step that is read.\<close>

definition sliceAt :: "nat \<Rightarrow> nat \<Rightarrow> 'a list \<Rightarrow> 'a list" where
  "sliceAt t len xs = take len (drop (t * len) xs)"

definition seriesToRead :: "Variable list \<Rightarrow> 't FileData \<Rightarrow> int32 \<Rightarrow> FieldMetadata \<Rightarrow> nat \<Rightarrow> nat \<Rightarrow> nat \<Rightarrow> nat \<Rightarrow> double list \<Rightarrow> bool" where
  "seriesToRead vs F conv fm n levels t T xs \<longleftrightarrow> t < T \<and> levels < 2 ^ 31 \<and> \<not> (noFirstLevel fm \<and> levels = 71) \<and>
    timeSeries vs F (nameInFile conv fm) T (n * (levels + skipped conv fm levels)) xs"

lemma seriesToRead_data:
  assumes "storableData vs F" and "seriesToRead vs F conv fm n levels t T xs"
  shows "fieldData conv fm n levels (sliceAt t (n * (levels + skipped conv fm levels)) xs)"
proof -
  let ?len = "n * (levels + skipped conv fm levels)"
  have series: "timeSeries vs F (nameInFile conv fm) T ?len xs" "t < T" using assms(2) by (simp_all add: seriesToRead_def)
  have "Suc t * ?len \<le> T * ?len" using series(2) by (intro mult_le_mono1) simp
  then have "t * ?len + ?len \<le> length xs" "length xs < 2 ^ 31" using timeSeries_length [OF assms(1) series(1)] by simp_all
  then show ?thesis using assms(2) by (simp add: fieldData_def sliceAt_def seriesToRead_def)
qed

section \<open>One field\<close>

text \<open>A field whose name in the file stands for a missing variable is not read: it is scattered as it was gathered.\<close>

lemma readStateField_missing:
  fixes E :: "('d, 't) env"
  assumes "ncStore E view att" and "ncData E view vals" and "atlasCalls E created gathered scattered exchanged"
    and "smap_find (fsIndex fs) (jediName fm) = Some f" and "f < length (fieldHeap w)" and "fieldHeap w ! f = L"
    and "localField created gathered exchanged (length coords) levels L G rows"
    and "readyToRead E view vals att (atGridName E (fieldSpace G)) p vs F this h d w"
    and "fileCoords (fdData F) = Some coords" and "fileConvention (fdMetadata F) = Some conv"
    and "fileTimes E vs F t0 = Some ts" and "originAt E vs F t0"
    and "nameInFile conv fm \<in> set kMissingVariableNames"
  shows "\<exists>w' rest. readStateField E this fs p dateTime fm w = (Inr (), w') \<and> afterReading this h d w' \<and>
    fieldHeap w' = (fieldHeap w)[f := exchanged (scattered G (exchanged L))] @ rest"
proof -
  let ?g = "length (fieldHeap w)" and ?grid = "atGridName E (fieldSpace G)"
  let ?w1 = "w\<lparr>fieldHeap := (fieldHeap w)[f := exchanged L] @ [G]\<rparr>"
  have global: "getGlobalField E f w = (Inr ?g, ?w1)"
    using getGlobalField_run [OF assms(3,5)] assms(6,7) by (simp add: codedKind_def localField_def)
  have ready: "readyToRead E view vals att ?grid p vs F this h d ?w1" using assms(8) by simp
  obtain m dt lam w2 fh rs where init: "initialiseFile E ?grid p True ?w1 =
      (Inr conv, keeping ?grid this (FileData_new\<lparr>fdMetadata := m, fdData := dt, fdLfricAtlasMap := lam, fdDateTimes := ts\<rparr>) w2)"
    "w2 = ?w1\<lparr>outside := d, fileHeap := fh, readerHeap := rs, varHeap := varHeap ?w1 @ variablesOf vs (fdMetadata F)\<rparr>"
    "fileBehind view vals (moReader this) h vs F m w2"
    using initialiseFile_times [OF assms(1,2) ready assms(9-12)] by (elim exE conjE) (rule that)
  let ?fd = "FileData_new\<lparr>fdMetadata := m, fdData := dt, fdLfricAtlasMap := lam, fdDateTimes := ts\<rparr> :: 't FileData"
  let ?W = "keeping ?grid this ?fd w2"
  have rank: "mpiRank w = moOwner this" using assms(8) by (simp add: readyToRead_def)
  have rank2: "mpiRank w2 = moOwner this" using init(2) rank by simp
  have "scatterField E ?g f ?W = (Inr (), ?W\<lparr>fieldHeap := (fieldHeap w)[f := exchanged (scattered G (exchanged L))] @ [G]\<rparr>)"
    using scatterField_run [OF assms(3), of f ?W ?g] assms(5) by (simp add: init(2) nth_append list_update_append)
  moreover have "readStateField E this fs p dateTime fm w = scatterField E ?g f ?W"
    using assms(4,13) global rank init(1)
    by (simp add: readStateField_def fieldNamed_def st_simps bindS_Inr onRank_def gridOf_def Let_def nth_append
        getFileData_run nameInFile_def del: if_split)
  ultimately show ?thesis
    using afterReading_keeping [OF init(3) rank2] init(2)
    by (intro exI [of _ "?W\<lparr>fieldHeap := _\<rparr>"] exI [of _ "[G]"]) simp
qed

lemma readStateField_run:
  fixes E :: "('d, 't) env"
  assumes "ncStore E view att" and "ncData E view vals" and "ncSlabs E view vals"
    and "atlasCalls E created gathered scattered exchanged"
    and "smap_find (fsIndex fs) (jediName fm) = Some f" and "f < length (fieldHeap w)" and "fieldHeap w ! f = L"
    and "localField created gathered exchanged (length coords) levels L G rows"
    and "readyToRead E view vals att (atGridName E (fieldSpace G)) p vs F this h d w"
    and "fileCoords (fdData F) = Some coords" and "fileConvention (fdMetadata F) = Some conv"
    and "fileTimes E vs F t0 = Some ts" and "originAt E vs F t0"
    and "t < length ts" and "ts ! t = dateTime" and "\<forall>i < t. ts ! i \<noteq> dateTime"
    and "nameInFile conv fm \<notin> set kMissingVariableNames"
    and "seriesToRead vs F conv fm (length coords) levels t T xs"
  shows "\<exists>lam w' rest. readStateField E this fs p dateTime fm w = (Inr (), w') \<and>
    isOrderMap lam \<and> locates lam (atGridLonLat E (atGridName E (fieldSpace G))) coords \<and> afterReading this h d w' \<and>
    fieldHeap w' = (fieldHeap w)[f := fieldReadFrom scattered exchanged L G (rowsRead lam (length coords) levels
      (skipped conv fm levels) (sliceAt t (length coords * (levels + skipped conv fm levels)) xs))] @ rest"
proof -
  let ?g = "length (fieldHeap w)" and ?grid = "atGridName E (fieldSpace G)" and ?name = "nameInFile conv fm"
  let ?len = "length coords * (levels + skipped conv fm levels)"
  let ?w1 = "w\<lparr>fieldHeap := (fieldHeap w)[f := exchanged L] @ [G]\<rparr>"
  let ?S = "insert kTimeVarName (initialNames (fdData F))"
  have global: "getGlobalField E f w = (Inr ?g, ?w1)"
    using getGlobalField_run [OF assms(4,6)] assms(7,8) by (simp add: codedKind_def localField_def)
  have ready: "readyToRead E view vals att ?grid p vs F this h d ?w1" using assms(9) by simp
  obtain m dt lam w2 fh rs where init: "initialiseFile E ?grid p True ?w1 =
      (Inr conv, keeping ?grid this (FileData_new\<lparr>fdMetadata := m, fdData := dt, fdLfricAtlasMap := lam, fdDateTimes := ts\<rparr>) w2)"
    "w2 = ?w1\<lparr>outside := d, fileHeap := fh, readerHeap := rs, varHeap := varHeap ?w1 @ variablesOf vs (fdMetadata F)\<rparr>"
    "fileBehind view vals (moReader this) h vs F m w2" "partOf ?S (fdData F) dt"
    "isOrderMap lam" "locates lam (atGridLonLat E ?grid) coords"
    using initialiseFile_times [OF assms(1,2) ready assms(10-13)] by (elim exE conjE) (rule that)
  let ?fd = "FileData_new\<lparr>fdMetadata := m, fdData := dt, fdLfricAtlasMap := lam, fdDateTimes := ts\<rparr> :: 't FileData"
  let ?W = "keeping ?grid this ?fd w2"
  have onDisk: "storableData vs F" "view h (outside ?W) = Some (contentsOf p att vs (fdMetadata F))" "mpiRank w = moOwner this"
    using assms(9) init(2) by (simp_all add: readyToRead_def)
  have rank2: "mpiRank w2 = moOwner this" using init(2) onDisk(3) by simp
  have len: "length lam = length coords" using init(6) by (simp add: locates_def)
  have small: "length coords < 2 ^ 31" using assms(9,10) by (simp add: readyToRead_def sameGrid_def)
  have series: "timeSeries vs F ?name T ?len xs" "t < T" using assms(18) by (simp_all add: seriesToRead_def)
  obtain v cn rest where v: "smap_find (mdVariables (fdMetadata F)) ?name = Some v"
      "smap_find (dataContainers (fdData F)) ?name = Some (DataContainerDouble cn xs)"
      "varDims (vs ! v) = (kTimeDimName, of_nat T) # rest" "?len = (\<Prod>x\<leftarrow>rest. unat (snd x))"
    using timeSeriesE [OF series(1)] .
  have T: "T < 2 ^ 31" "?name \<notin> ?S" using series(1) by (simp_all add: timeSeries_def)
  let ?fd2 = "?fd\<lparr>fdData := addContainer (DataContainerDouble ?name (sliceAt t ?len xs)) dt\<rparr>"
  have read: "Reader_readDatumAtTime E (moReader this) ?fd ?name dateTime kTimeDimName ?W = (Inr ?fd2, ?W)"
    using Reader_readDatumAtTime_part [OF assms(3) _ _ onDisk(2) v(2,1,3) series(2) T(1), of "moReader this" m ?fd dateTime ?S]
      init(3,4) assms(14-16) T(2) v(4) by (simp add: sliceAt_def)
  have found: "smap_find (dataContainers (fdData ?fd2)) ?name = Some (DataContainerDouble ?name (sliceAt t ?len xs))"
    using init(4) T(2) by (simp add: partOf_def)
  have heap: "fieldHeap ?W = (fieldHeap w)[f := exchanged L] @ [G]" by (simp add: init(2))
  obtain W2 rest where fill: "populateFieldWithFileData E (moOwner this) ?g ?fd2 fm ?name (conv = eLfricConvention) ?W = (Inr (), W2)"
    and spread: "scatterField E ?g f W2 = (Inr (), ?W\<lparr>fieldHeap := (fieldHeap w)[f := fieldReadFrom scattered exchanged L G
      (rowsRead lam (length coords) levels (skipped conv fm levels) (sliceAt t ?len xs))] @ rest\<rparr>)"
    using fillAndScatter_run [OF assms(4,6) heap _ found, of "moOwner this" lam "length coords" conv fm levels rows]
      rank2 init(5) len small assms(8) seriesToRead_data [OF onDisk(1) assms(18)] by auto
  have "readStateField E this fs p dateTime fm w = scatterField E ?g f W2"
    using assms(5,17) global onDisk(3) init(1) read fill
    by (simp add: readStateField_def fieldNamed_def st_simps bindS_Inr onRank_def gridOf_def Let_def nth_append
        getFileData_run nameInFile_def del: if_split)
  then show ?thesis
    using init(5,6) spread afterReading_keeping [OF init(3) rank2] init(2)
    by (intro exI [of _ lam] exI [of _ "?W\<lparr>fieldHeap := _\<rparr>"] exI [of _ rest]) simp
qed

lemma readStateField_same:
  assumes "moOwner this' = moOwner this" and "moReader this' = moReader this"
  shows "readStateField E this' fs p dateTime fm = readStateField E this fs p dateTime fm"
  using assms by (simp add: readStateField_def)

section \<open>The entry point\<close>

lemma readState_close:
  assumes "closeQuiet E" and "wf_world w" and "theMonio w = Some this" and "fsFields fs \<noteq> []" and "p \<noteq> []"
    and "osFileExists E p (outside w)" and "forS fms (readStateField E this fs p dateTime) w = (Inr (), w1)"
    and "moReader this < length (readerHeap w1)"
  shows "\<exists>w'. readState E fs fms p dateTime w = (Inr (), w') \<and> fieldHeap w' = fieldHeap w1 \<and>
    readerSlot (moReader this) w' = None"
proof -
  have get: "Monio_get w = (Inr this, w)" using assms(3) by (simp add: Monio_get_Some)
  have keeps: "keepsS wf_world (forS fms (readStateField E this fs p dateTime))" by (intro keeps_intros wf.read_loops_kept)
  have "wf_world w1" using keepsS_snd [where m = "forS fms (readStateField E this fs p dateTime)", OF keeps assms(2)] assms(7) by simp
  then obtain w2 where close: "Reader_closeFile E (moReader this) w1 = (Inr (), w2)" "fieldHeap w2 = fieldHeap w1"
    using closes_and_keeps [OF assms(1) _ assms(8)] by blast
  then have run: "readState E fs fms p dateTime w = (Inr (), w2)"
    using get assms(4-7) by (simp add: readState_def bindS_Inr st_simps fileExists_apply catchNc_def)
  then show ?thesis using entry_points_close [OF assms(2) get] close(2) by blast
qed


end
