(* ===== verification/Memory_Env.thy ===== *)
theory Memory_Env
  imports Nc_Contents
begin

text \<open>
  A concrete instance of the calls of \<open>Services\<close>, to run the program on: files held in memory with
  NetCDF's rules (a file is replaced or must exist, a dimension or variable is defined once, a
  variable is defined over defined dimensions, a hyperslab lies inside the variable), one PE, and a
  grid of three points on which every field is global. It is an example of what the theorems'
  hypotheses on the calls can be instantiated with; no theorem about the program assumes it.
\<close>

section \<open>Files\<close>

record MemFile =
  mfDims :: "(string \<times> size_t) list"
  mfVars :: "(string \<times> NcVar) list"
  mfAtts :: "(string \<times> NcAtt) list"
  mfData :: "(string \<times> NcValues) list"

record MemDisk =
  dkFiles :: "(string \<times> MemFile) list"
  dkOpen :: "string list"

definition emptyFile :: MemFile where
  "emptyFile = \<lparr>mfDims = [], mfVars = [], mfAtts = [], mfData = []\<rparr>"

definition memFile :: "nat \<Rightarrow> MemDisk \<Rightarrow> MemFile option" where
  "memFile h d = (if h < length (dkOpen d) then map_of (dkFiles d) (dkOpen d ! h) else None)"

definition askFile :: "(MemFile \<Rightarrow> string + 'a) \<Rightarrow> nat \<Rightarrow> (MemDisk, 'a) call" where
  "askFile f h d = (case memFile h d of
      None \<Rightarrow> (Inl ''NetCDF: Not a valid ID'', d)
    | Some file \<Rightarrow> (f file, d))"

definition editFile :: "(MemFile \<Rightarrow> string + MemFile) \<Rightarrow> nat \<Rightarrow> (MemDisk, unit) call" where
  "editFile f h d = (case memFile h d of
      None \<Rightarrow> (Inl ''NetCDF: Not a valid ID'', d)
    | Some file \<Rightarrow> (case f file of
        Inl e \<Rightarrow> (Inl e, d)
      | Inr file' \<Rightarrow> (Inr (), d\<lparr>dkFiles := put_entry (dkOpen d ! h) file' (dkFiles d)\<rparr>)))"

definition openHandle :: "string \<Rightarrow> (MemDisk, nat) call" where
  "openHandle path d = (Inr (length (dkOpen d)), d\<lparr>dkOpen := dkOpen d @ [path]\<rparr>)"

definition memOpen :: "string \<Rightarrow> FileMode \<Rightarrow> (MemDisk, nat) call" where
  "memOpen path mode d =
    (if mode = nc_replace \<or> mode = nc_newFile \<and> map_of (dkFiles d) path = None
     then openHandle path (d\<lparr>dkFiles := put_entry path emptyFile (dkFiles d)\<rparr>)
     else if mode \<noteq> nc_newFile \<and> map_of (dkFiles d) path \<noteq> None then openHandle path d
     else (Inl ''NetCDF: Unknown file format'', d))"

section \<open>Definitions and values\<close>

definition memAddDim :: "nat \<Rightarrow> string \<Rightarrow> size_t \<Rightarrow> (MemDisk, unit) call" where
  "memAddDim h name n = editFile (\<lambda>file.
    if map_of (mfDims file) name \<noteq> None then Inl ''NetCDF: String match to name in use''
    else Inr (file\<lparr>mfDims := put_entry name n (mfDims file)\<rparr>)) h"

definition dimsTotal :: "(string \<times> size_t) list \<Rightarrow> nat" where
  "dimsTotal ds = (\<Prod>d\<leftarrow>ds. unat (snd d))"

definition blankValues :: "NcType \<Rightarrow> nat \<Rightarrow> NcValues" where
  "blankValues t n = (if t = nc_DOUBLE then NcDoubles (replicate n (FNum 0))
    else if t = nc_FLOAT then NcFloats (replicate n (FNum 0)) else NcInts (replicate n 0))"

definition memAddVar :: "nat \<Rightarrow> string \<Rightarrow> string \<Rightarrow> string list \<Rightarrow> (MemDisk, unit) call" where
  "memAddVar h name typeName dimNames = editFile (\<lambda>file.
    if map_of (mfVars file) name \<noteq> None then Inl ''NetCDF: String match to name in use''
    else if list_ex (\<lambda>n. map_of (mfDims file) n = None) dimNames then Inl ''NetCDF: Invalid dimension ID or name''
    else (case typeNamed typeName of
        None \<Rightarrow> Inl ''NetCDF: Not a valid data type''
      | Some t \<Rightarrow>
          let ds = map (\<lambda>n. (n, the (map_of (mfDims file) n))) dimNames in
          Inr (file\<lparr>mfVars := put_entry name \<lparr>ncVarName = name, ncVarType = t, ncVarDims = ds, ncVarAtts = []\<rparr>
                      (mfVars file),
                    mfData := put_entry name (blankValues t (dimsTotal ds)) (mfData file)\<rparr>))) h"

primrec attOf :: "string \<Rightarrow> PutValue \<Rightarrow> NcAtt" where
  "attOf name (PutDouble x) = \<lparr>attName = name, attType = nc_DOUBLE, attText = [], attInts = [], attDoubles = [x]\<rparr>"
| "attOf name (PutInt i) =
    \<lparr>attName = name, attType = nc_INT, attText = [], attInts = [i], attDoubles = [FNum (of_int (sint i))]\<rparr>"
| "attOf name (PutText t) = \<lparr>attName = name, attType = nc_CHAR, attText = t, attInts = [], attDoubles = []\<rparr>"

definition memPutAtt :: "nat \<Rightarrow> string option \<Rightarrow> string \<Rightarrow> PutValue \<Rightarrow> (MemDisk, unit) call" where
  "memPutAtt h target name val = editFile (\<lambda>file. case target of
      None \<Rightarrow> Inr (file\<lparr>mfAtts := put_entry name (attOf name val) (mfAtts file)\<rparr>)
    | Some var \<Rightarrow> (case map_of (mfVars file) var of
        None \<Rightarrow> Inl ''NetCDF: Variable not found''
      | Some v \<Rightarrow> Inr (file\<lparr>mfVars := put_entry var
          (v\<lparr>ncVarAtts := put_entry name (attOf name val) (ncVarAtts v)\<rparr>) (mfVars file)\<rparr>))) h"

definition memVarSize :: "nat \<Rightarrow> string \<Rightarrow> (MemDisk, nat) call" where
  "memVarSize h name = askFile (\<lambda>file. case map_of (mfVars file) name of
      None \<Rightarrow> Inl ''NetCDF: Variable not found''
    | Some v \<Rightarrow> Inr (dimsTotal (ncVarDims v))) h"

primrec asDoubles :: "NcValues \<Rightarrow> double list option" where
  "asDoubles (NcDoubles xs) = Some xs"
| "asDoubles (NcFloats xs) = None"
| "asDoubles (NcInts xs) = None"

primrec asFloats :: "NcValues \<Rightarrow> float32 list option" where
  "asFloats (NcDoubles xs) = None"
| "asFloats (NcFloats xs) = Some xs"
| "asFloats (NcInts xs) = None"

primrec asInts :: "NcValues \<Rightarrow> int32 list option" where
  "asInts (NcDoubles xs) = None"
| "asInts (NcFloats xs) = None"
| "asInts (NcInts xs) = Some xs"

definition valuesOf :: "(NcValues \<Rightarrow> 'a list option) \<Rightarrow> MemFile \<Rightarrow> string \<Rightarrow> string + 'a list" where
  "valuesOf as file name = (case map_of (mfData file) name of
      None \<Rightarrow> Inl ''NetCDF: Variable not found''
    | Some v \<Rightarrow> (case as v of None \<Rightarrow> Inl ''NetCDF: Not a valid data type'' | Some xs \<Rightarrow> Inr xs))"

definition memGet :: "(NcValues \<Rightarrow> 'a list option) \<Rightarrow> nat \<Rightarrow> string \<Rightarrow> (MemDisk, 'a list) call" where
  "memGet as h name = askFile (\<lambda>file. valuesOf as file name) h"

definition memGetAt ::
    "(NcValues \<Rightarrow> 'a list option) \<Rightarrow> nat \<Rightarrow> string \<Rightarrow> size_t list \<Rightarrow> size_t list \<Rightarrow> (MemDisk, 'a list) call" where
  "memGetAt as h name start count = askFile (\<lambda>file. case map_of (mfVars file) name of
      None \<Rightarrow> Inl ''NetCDF: Variable not found''
    | Some v \<Rightarrow>
        let ns = map (\<lambda>d. unat (snd d)) (ncVarDims v); ss = map unat start; cs = map unat count in
        if length ss = length ns \<and> length cs = length ns \<and>
          list_all (\<lambda>(n, s, c). s + c \<le> n) (zip ns (zip ss cs))
        then map_sum id (slab ns ss cs) (valuesOf as file name)
        else Inl ''NetCDF: Start+count exceeds dimension bound'') h"

definition memPut :: "('a list \<Rightarrow> NcValues) \<Rightarrow> NcType \<Rightarrow> nat \<Rightarrow> string \<Rightarrow> 'a list \<Rightarrow> (MemDisk, unit) call" where
  "memPut mk t h name xs = editFile (\<lambda>file. case map_of (mfVars file) name of
      None \<Rightarrow> Inl ''NetCDF: Variable not found''
    | Some v \<Rightarrow>
        if ncVarType v = t \<and> length xs = dimsTotal (ncVarDims v)
        then Inr (file\<lparr>mfData := put_entry name (mk xs) (mfData file)\<rparr>)
        else Inl ''NetCDF: Not a valid data type'') h"

section \<open>Grid and fields\<close>

definition memGrid :: "(double \<times> double) list" where
  "memGrid = [(FNum 0, FNum 10), (FNum 90, FNum 20), (FNum 180, FNum 30)]"

definition blankArray :: "DataKind \<Rightarrow> nat \<Rightarrow> nat \<Rightarrow> FieldArray" where
  "blankArray k n L = (case k of
      KIND_REAL64 \<Rightarrow> ArrDouble (replicate n (replicate L (FNum 0)))
    | KIND_REAL32 \<Rightarrow> ArrFloat (replicate n (replicate L (FNum 0)))
    | KIND_INT32 \<Rightarrow> ArrInt (replicate n (replicate L 0))
    | KIND_OTHER \<Rightarrow> ArrOther)"

definition memCreateField :: "nat \<Rightarrow> FieldOptions \<Rightarrow> (MemDisk, Field) call" where
  "memCreateField space opts d =
    (Inr \<lparr>fieldName = optName opts, fieldSpace = space, fieldGlobal = True,
          fieldShape = [of_nat (length memGrid), optLevels opts],
          fieldArray = blankArray (optKind opts) (length memGrid) (unat (optLevels opts))\<rparr>, d)"

definition memCopy :: "nat \<Rightarrow> Field \<Rightarrow> Field \<Rightarrow> (MemDisk, Field) call" where
  "memCopy space from to d = (Inr (to\<lparr>fieldArray := fieldArray from\<rparr>), d)"

definition memClosest :: "(double \<times> double) list \<Rightarrow> size_t list \<Rightarrow> double \<times> double \<Rightarrow> size_t" where
  "memClosest coords indices p =
    (case List.find (\<lambda>i. coords ! i = p) [0..<length coords] of Some i \<Rightarrow> indices ! i | None \<Rightarrow> 0)"

definition memDateTime :: "string \<Rightarrow> (MemDisk, string \<times> size_t) call" where
  "memDateTime text d = (if length text = 20 then Inr (text, 0) else Inl ''Bad date'', d)"

definition memFieldSetAdd :: "FieldSet \<Rightarrow> string \<Rightarrow> ref \<Rightarrow> FieldSet" where
  "memFieldSetAdd fs name f = \<lparr>fsFields = fsFields fs @ [f], fsIndex = smap_put name f (fsIndex fs)\<rparr>"

section \<open>The instance\<close>

definition memEnv :: "(MemDisk, string \<times> size_t) env" where
  "memEnv = \<lparr>
    ncOpen = memOpen,
    ncClose = (\<lambda>h d. (Inr (), d)),
    ncGetDims = askFile (\<lambda>file. Inr (mfDims file)),
    ncGetVars = askFile (\<lambda>file. Inr (mfVars file)),
    ncGetAtts = askFile (\<lambda>file. Inr (mfAtts file)),
    ncAddDim = memAddDim,
    ncAddVar = memAddVar,
    ncPutAtt = memPutAtt,
    ncVarSize = memVarSize,
    ncGetDouble = memGet asDoubles,
    ncGetFloat = memGet asFloats,
    ncGetInt = memGet asInts,
    ncGetDoubleAt = memGetAt asDoubles,
    ncGetFloatAt = memGetAt asFloats,
    ncGetIntAt = memGetAt asInts,
    ncPutDouble = memPut NcDoubles nc_DOUBLE,
    ncPutFloat = memPut NcFloats nc_FLOAT,
    ncPutInt = memPut NcInts nc_INT,
    osFileExists = (\<lambda>path d. map_of (dkFiles d) path \<noteq> None),
    osCommandOutput = (\<lambda>command d. (Inr (command @ [CHR 0x0A]), d)),
    dateTimeOf = memDateTime,
    addDuration = (\<lambda>t n. (fst t, snd t + n)),
    atCreateField = memCreateField,
    atGather = memCopy,
    atScatter = memCopy,
    atHaloExchange = (\<lambda>f d. (Inr f, d)),
    atFieldSetAdd = memFieldSetAdd,
    atGhost = (\<lambda>space. replicate (length memGrid) 0),
    atLonLat = (\<lambda>space. memGrid),
    atGridName = (\<lambda>space. ''F3''),
    atGridLonLat = (\<lambda>grid. memGrid),
    atClosestPoint = memClosest\<rparr>"

lemma memEnv_quiet [simp]: "closeQuiet memEnv"
  by (simp add: closeQuiet_def memEnv_def)

lemma memEnv_simps [simp]:
  "osFileExists memEnv path d \<longleftrightarrow> map_of (dkFiles d) path \<noteq> None"
  "ncClose memEnv h d = (Inr (), d)"
  by (simp_all add: memEnv_def)

section \<open>The documented behaviour\<close>

definition memView :: "MemDisk contents_view" where
  "memView h d = map_option (\<lambda>file. \<lparr>ctPath = dkOpen d ! h, ctDims = mfDims file, ctVars = mfVars file, ctAtts = mfAtts file\<rparr>) (memFile h d)"

lemma put_entry_same: "map_of (put_entry k v es) k = Some v"
  by (induction es) auto

lemma memFile_edited:
  "memFile h d = Some file \<Longrightarrow>
   memFile h (d\<lparr>dkFiles := put_entry (dkOpen d ! h) file' (dkFiles d)\<rparr>) = Some file'"
  by (auto simp: memFile_def put_entry_same split: if_splits)

lemma attOf_holds: "attName (attOf name val) = name \<and> attHolds (attOf name val) val"
  by (cases val) simp_all

lemma memEnv_ncStore: "ncStore memEnv memView attOf"
  unfolding ncStore_def
proof (intro conjI)
  show "makesAtts attOf" by (simp add: makesAtts_def attOf_holds)
  show "asksContents memEnv memView"
    by (auto simp: asksContents_def memEnv_def memView_def askFile_def)
  show "addsDims memEnv memView"
    by (auto simp: addsDims_def memEnv_def memView_def memAddDim_def editFile_def memFile_edited)
  show "addsVars memEnv memView"
    by (auto simp: addsVars_def memEnv_def memView_def memAddVar_def editFile_def memFile_edited Let_def
        list_ex_iff blankVar_def)
  show "putsAtts memEnv memView attOf"
    by (auto simp: putsAtts_def memEnv_def memView_def memPutAtt_def editFile_def memFile_edited)
  show "putsVarAtts memEnv memView attOf"
    by (auto simp: putsVarAtts_def memEnv_def memView_def memPutAtt_def editFile_def memFile_edited)
qed

definition memVals :: "MemDisk values_view" where
  "memVals h d name = (case memFile h d of None \<Rightarrow> None | Some file \<Rightarrow> map_of (mfData file) name)"

lemma put_entry_map_of: "map_of (put_entry k v es) = (map_of es)(k \<mapsto> v)"
proof (rule ext)
  fix j show "map_of (put_entry k v es) j = ((map_of es)(k \<mapsto> v)) j" by (induction es) auto
qed

lemma memPut_putsData: "putsData (memPut mk t) t mk memView memVals"
  by (auto simp: putsData_def memView_def memPut_def editFile_def memFile_edited memVals_def varExtent_def
      dimsTotal_def put_entry_map_of fun_eq_iff)

lemma memGet_getsData:
  assumes "\<And>xs. as (mk xs) = Some xs"
  shows "getsData (memGet as) mk memView memVals"
  using assms by (auto simp: getsData_def memView_def memGet_def askFile_def memVals_def valuesOf_def
      split: option.splits)

lemma memGetAt_getsSlabs:
  assumes "\<And>xs. as (mk xs) = Some xs"
  shows "getsSlabs (memGetAt as) mk memView memVals"
  using assms by (auto simp: getsSlabs_def memView_def memGetAt_def askFile_def memVals_def valuesOf_def Let_def
      split: option.splits)

lemma memEnv_ncSlabs: "ncSlabs memEnv memView memVals"
  by (simp add: ncSlabs_def memEnv_def memGetAt_getsSlabs)

lemma memEnv_definesOnly: "definesOnly memEnv memVals"
  unfolding definesOnly_def
proof (intro conjI allI impI)
  fix h name n d d' assume "ncAddDim memEnv h name n d = (Inr (), d')"
  then show "memVals h d' = memVals h d"
    by (auto simp: memEnv_def memAddDim_def editFile_def memVals_def memFile_edited fun_eq_iff split: option.splits sum.splits if_splits)
next
  fix h name t ds d d' k assume "ncAddVar memEnv h name t ds d = (Inr (), d')" and "k \<noteq> name"
  then show "memVals h d' k = memVals h d k"
    by (auto simp: memEnv_def memAddVar_def editFile_def memVals_def memFile_edited put_entry_map_of Let_def
        split: option.splits sum.splits if_splits)
next
  fix h var name val d d' assume "ncPutAtt memEnv h var name val d = (Inr (), d')"
  then show "memVals h d' = memVals h d"
    by (auto simp: memEnv_def memPutAtt_def editFile_def memVals_def memFile_edited fun_eq_iff split: option.splits sum.splits if_splits)
qed

lemma memEnv_opensAgain: "opensAgain memEnv memView memVals (\<lambda>h d. True)"
  by (auto simp: opensAgain_def memEnv_def memView_def memOpen_def openHandle_def memFile_def memVals_def fun_eq_iff
      split: if_splits)

lemma memEnv_ncData: "ncData memEnv memView memVals"
  unfolding ncData_def
proof (intro conjI)
  show "sizesVars memEnv memView"
    by (auto simp: sizesVars_def memEnv_def memView_def memVarSize_def askFile_def dimsTotal_def varExtent_def)
  show "reopens memEnv memView memVals"
    by (auto simp: reopens_def memEnv_def memView_def memOpen_def openHandle_def memFile_def memVals_def fun_eq_iff
        split: if_splits)
qed (simp_all add: memEnv_def memPut_putsData memGet_getsData)

section \<open>A file and a process that has it open\<close>

definition sampleFile :: MemFile where
  "sampleFile = \<lparr>
    mfDims = [(''node'', 3), (''time_counter'', 2)],
    mfVars = [(''theta'', \<lparr>ncVarName = ''theta'', ncVarType = nc_DOUBLE,
                 ncVarDims = [(''time_counter'', 2), (''node'', 3)], ncVarAtts = []\<rparr>)],
    mfAtts = [],
    mfData = [(''theta'', NcDoubles [FNum 1, FNum 2, FNum 3, FNum 4, FNum 5, FNum 6])]\<rparr>"

definition sampleDisk :: MemDisk where
  "sampleDisk = \<lparr>dkFiles = [(''in.nc'', sampleFile), (''out.nc'', emptyFile)], dkOpen = [''in.nc'', ''out.nc'']\<rparr>"

definition thetaVar :: Variable where
  "thetaVar = \<lparr>varName = ''theta'', varType = eDouble,
    varDims = [(''time_counter'', 2), (''node'', 3)], varAttrs = smap_empty\<rparr>"

definition sampleMonio :: "(string \<times> size_t) Monio" where
  "sampleMonio = \<lparr>moOwner = 0, moReader = 0, moWriter = 0, moAtlasWriter = \<lparr>awDimCount = 0\<rparr>,
    moFilesData = smap_empty\<rparr>"

text \<open>A field of three nodes and two levels, and one of three nodes and one level.\<close>

definition sampleField :: Field where
  "sampleField = \<lparr>fieldName = ''theta'', fieldSpace = 0, fieldGlobal = True, fieldShape = [3, 2],
    fieldArray = ArrDouble [[FNum 1, FNum 2], [FNum 3, FNum 4], [FNum 5, FNum 6]]\<rparr>"

definition otherField :: Field where
  "otherField = \<lparr>fieldName = ''other'', fieldSpace = 0, fieldGlobal = True, fieldShape = [3, 2],
    fieldArray = ArrDouble [[FNum 0, FNum 0], [FNum 0, FNum 0], [FNum 0, FNum 0]]\<rparr>"

definition sampleWorld :: "(MemDisk, string \<times> size_t) world" where
  "sampleWorld = \<lparr>mpiRank = 0, aborted = False, varHeap = [thetaVar],
    fieldHeap = [sampleField, otherField],
    fileHeap = [\<lparr>fiPath = ''in.nc'', fiMode = nc_read, fiDataFile = Some 0\<rparr>,
                \<lparr>fiPath = ''out.nc'', fiMode = nc_replace, fiDataFile = Some 1\<rparr>],
    readerHeap = [\<lparr>rdOwner = 0, rdFile = Some 0\<rparr>],
    writerHeap = [\<lparr>wrOwner = 0, wrFile = Some 1\<rparr>],
    theMonio = Some sampleMonio,
    outside = sampleDisk\<rparr>"

lemma sampleWorld_wf [simp]: "wf_world sampleWorld"
  by (simp add: wf_world_def sampleWorld_def sampleMonio_def)

lemma sampleWorld_simps [simp]:
  "mpiRank sampleWorld = 0" "varHeap sampleWorld = [thetaVar]"
  "fieldHeap sampleWorld = [sampleField, otherField]"
  "readerHeap sampleWorld = [\<lparr>rdOwner = 0, rdFile = Some 0\<rparr>]"
  "writerHeap sampleWorld = [\<lparr>wrOwner = 0, wrFile = Some 1\<rparr>]"
  "theMonio sampleWorld = Some sampleMonio" "outside sampleWorld = sampleDisk"
  by (simp_all add: sampleWorld_def)

lemma sampleDisk_files [simp]: "memFile 0 sampleDisk = Some sampleFile"
  by (simp add: memFile_def sampleDisk_def)

end
