(* ===== verification/Concrete_Runs.thy ===== *)
theory Concrete_Runs
  imports Monio_Facts Metadata_Round_Trip Memory_Env
begin

text \<open>
  The properties of the other theories on concrete runs: each theorem below applies one of them to
  the instance of \<open>Memory_Env\<close>, where its hypotheses hold, and states what it says there.
\<close>

section \<open>Containers, metadata and data\<close>

theorem getDatum_outcomes_witness:
  "DataContainerDouble_getDatum memEnv [FNum 4, FNum 5] 1 sampleWorld = (Inr (FNum 5), sampleWorld) \<and>
   DataContainerDouble_getDatum memEnv [FNum 4, FNum 5] 2 sampleWorld =
     (Inl (Undefined ''dataVector_[index]''), sampleWorld) \<and>
   (\<exists>w'. DataContainerDouble_getDatum memEnv [FNum 4, FNum 5] 3 sampleWorld =
     (Inl (RuntimeError ''DataContainerDouble::getDatum'' ''''), w') \<and> filesClosed w' \<and> aborted w')"
  using getDatum_outcomes [of memEnv sampleWorld 1 "[FNum 4, FNum 5]"]
    getDatum_outcomes [of memEnv sampleWorld 2 "[FNum 4, FNum 5]"]
    getDatum_outcomes [of memEnv sampleWorld 3 "[FNum 4, FNum 5]"] by simp

definition sampleMetadata :: Metadata where
  "sampleMetadata = \<lparr>mdDimensions = smap_insert ''node'' 3 (smap_insert ''time_counter'' 2 smap_empty),
    mdGlobalAttrs = smap_empty, mdVariables = smap_insert ''theta'' 0 smap_empty\<rparr>"

lemma thetaVar_wf [simp]: "wf_vars [thetaVar]" "\<not> hasNaN thetaVar"
  by (simp_all add: wf_vars_def wf_variable_def thetaVar_def hasNaN_def)

lemma thetaVar_dims [simp]: "varDims thetaVar = [(''time_counter'', 2), (''node'', 3)]"
  "varType thetaVar = eDouble"
  by (simp_all add: thetaVar_def)

lemma sampleMetadata_vars [simp]:
  "entries (mdVariables sampleMetadata) = [(''theta'', 0)]"
  "smap_find (mdVariables sampleMetadata) ''theta'' = Some 0"
  by (simp_all add: sampleMetadata_def)

lemma sampleMetadata_on [simp]: "metadata_on [thetaVar] sampleMetadata"
  by (simp add: metadata_on_def)

theorem Metadata_eq_iff_witness:
  "Metadata_eq [thetaVar] sampleMetadata sampleMetadata \<and>
   \<not> Metadata_eq [thetaVar] sampleMetadata
       (sampleMetadata\<lparr>mdDimensions := smap_insert ''node'' 4 (smap_insert ''time_counter'' 2 smap_empty)\<rparr>)"
  using Metadata_eq_iff [of "[thetaVar]" sampleMetadata sampleMetadata]
    Metadata_eq_iff [of "[thetaVar]" sampleMetadata
      "sampleMetadata\<lparr>mdDimensions := smap_insert ''node'' 4 (smap_insert ''time_counter'' 2 smap_empty)\<rparr>"]
  by (simp add: metadata_on_def sampleMetadata_def variablesOf_def smap_size_def)

theorem Metadata_eq_blind_to_dimension_witness:
  "Metadata_eq [thetaVar] sampleMetadata (addDimension ''height'' 71 sampleMetadata) \<and>
   addDimension ''height'' 71 sampleMetadata \<noteq> sampleMetadata"
  using Metadata_eq_blind_to_dimension [of "[thetaVar]" sampleMetadata "''height''" 71]
  by (simp add: metadata_on_def sampleMetadata_def variablesOf_def)

lemma getDimensionName_example:
  "getDimensionName (addDimension ''edge'' 3 sampleMetadata) 3 \<le> ''node'' \<and>
   getDimensionName sampleMetadata 5 = ''NOT_FOUND''"
  using getDimensionName_char [where m = "addDimension ''edge'' 3 sampleMetadata" and v = 3]
    getDimensionName_char [where m = sampleMetadata and v = 5]
  by (auto simp: sampleMetadata_def addDimension_def split: if_splits)

lemma removeAllButTheseVariables_restricts_example:
  "\<exists>m'. removeAllButTheseVariables memEnv [''rho''] sampleMetadata sampleWorld = (Inr m', sampleWorld) \<and>
    smap_find (mdVariables m') ''theta'' = None"
  using removeAllButTheseVariables_restricts [of memEnv "[''rho'']" sampleMetadata sampleWorld] by auto

theorem deleteDimension_effect_witness:
  "\<exists>w'. deleteDimension ''time_counter'' sampleMetadata sampleWorld =
      (Inr (sampleMetadata\<lparr>mdDimensions := smap_erase ''time_counter'' (mdDimensions sampleMetadata)\<rparr>), w') \<and>
    varDims (varHeap w' ! 0) = [(''node'', 3)]"
  using deleteDimension_effect [of sampleWorld sampleMetadata "''time_counter''"]
  by auto

theorem Data_eq_iff_witness:
  "\<not> Data_eq (addContainer (DataContainerDouble ''x'' [FNaN]) Data_new)
     (addContainer (DataContainerDouble ''x'' [FNaN]) Data_new)"
  using Data_eq_iff [of "addContainer (DataContainerDouble ''x'' [FNaN]) Data_new"
      "addContainer (DataContainerDouble ''x'' [FNaN]) Data_new"]
  by (simp add: wf_data_def addContainer_def Data_new_def)

section \<open>Files, reader and writer\<close>

theorem File_mode_guards_witness:
  "\<exists>w'. File_writeMetadata memEnv 0 sampleMetadata sampleWorld =
      (Inl (RuntimeError ''File::writeMetadata'' ''Read file accessed for writing''), w') \<and>
      fiDataFile (fileHeap w' ! 0) = None \<and> aborted w'"
  using File_mode_guards [of memEnv 0 sampleWorld sampleMetadata] by (simp add: sampleWorld_def)

lemma File_readDimensions_result_example:
  "\<exists>m'. File_readDimensions memEnv 0 Metadata_new sampleWorld = (Inr m', sampleWorld) \<and>
    smap_find (mdDimensions m') ''node'' = Some 3"
  using File_readDimensions_result [of 0 sampleWorld 0 memEnv "mfDims sampleFile" sampleDisk Metadata_new]
  by (auto simp: sampleWorld_def memEnv_def askFile_def sampleFile_def Metadata_new_def size_to_int_def)

definition sampleData :: "(string \<times> size_t) FileData" where
  "sampleData = \<lparr>fdData = Data_new, fdMetadata = sampleMetadata, fdLfricAtlasMap = [],
    fdDateTimes = [(''2021'', 0), (''2021'', 3600), (''2021'', 7200)]\<rparr>"

lemma sampleData_simps [simp]:
  "fdMetadata sampleData = sampleMetadata"
  "fdDateTimes sampleData = [(''2021'', 0), (''2021'', 3600), (''2021'', 7200)]"
  "smap_find (dataContainers (fdData sampleData)) name = None"
  by (simp_all add: sampleData_def Data_new_def)

lemma sampleWorld_reading [simp]: "reading 0 0 sampleWorld"
  by (simp add: reading_def readerSlot_def sampleWorld_def)

lemma sampleWorld_outside [simp]: "sampleWorld\<lparr>outside := sampleDisk\<rparr> = sampleWorld"
  by (simp add: sampleWorld_def)

lemma Reader_other_ranks_example:
  "Reader_readAllData memEnv 0 sampleData (sampleWorld\<lparr>mpiRank := 1\<rparr>) =
    (Inr sampleData, sampleWorld\<lparr>mpiRank := 1\<rparr>)"
  using Reader_other_ranks [of 0 "sampleWorld\<lparr>mpiRank := 1\<rparr>" memEnv sampleData] by simp

theorem Reader_findTimeStep_first_witness:
  "(\<exists>k. Reader_findTimeStep memEnv 0 sampleData (''2021'', 3600) sampleWorld = (Inr k, sampleWorld) \<and> unat k < 3) \<and>
   (\<exists>what w'. Reader_findTimeStep memEnv 0 sampleData (''2022'', 0) sampleWorld =
      (Inl (RuntimeError ''Reader::findTimeStep'' what), w') \<and> readerSlot 0 w' = None)"
  using Reader_findTimeStep_first [of memEnv sampleWorld 0 sampleData "(''2021'', 3600)"]
    Reader_findTimeStep_first [of memEnv sampleWorld 0 sampleData "(''2022'', 0)"] by auto

lemma memEnv_double:
  "ncGetDouble memEnv 0 ''theta'' sampleDisk =
    (Inr [FNum 1, FNum 2, FNum 3, FNum 4, FNum 5, FNum 6], sampleDisk)"
  by (simp add: memEnv_def memGet_def askFile_def valuesOf_def sampleFile_def)

lemma memEnv_slab:
  "ncGetDoubleAt memEnv 0 ''theta'' [1, 0] [1, 3] sampleDisk = (Inr [FNum 4, FNum 5, FNum 6], sampleDisk)"
  by (simp add: memEnv_def memGetAt_def askFile_def valuesOf_def sampleFile_def upt_rec)

lemma Reader_readFullDatum_double_example:
  "Reader_readFullDatum memEnv 0 ''theta'' sampleData sampleWorld =
    (Inr (sampleData\<lparr>fdData := addContainer (DataContainerDouble ''theta''
      [FNum 1, FNum 2, FNum 3, FNum 4, FNum 5, FNum 6]) (fdData sampleData)\<rparr>), sampleWorld)"
  using Reader_readFullDatum_double [of 0 0 sampleWorld sampleData "''theta''" 0 memEnv
      "[FNum 1, FNum 2, FNum 3, FNum 4, FNum 5, FNum 6]" sampleDisk] memEnv_double by simp

lemma Reader_readDatumAtTimeStep_example:
  "Reader_readDatumAtTimeStep memEnv 0 sampleData ''theta'' 1 ''time_counter'' sampleWorld =
    (Inr (sampleData\<lparr>fdData := addContainer (DataContainerDouble ''theta'' [FNum 4, FNum 5, FNum 6])
      (fdData sampleData)\<rparr>), sampleWorld)"
  using Reader_readDatumAtTimeStep_run [of 0 0 sampleWorld sampleData "''theta''" 0 "[(''node'', 3)]"
      "''time_counter''" memEnv 1 "[FNum 4, FNum 5, FNum 6]" sampleDisk] memEnv_slab by simp

theorem timeSlice_rank_witness:
  "(case timeSlice ''time_counter'' (varDims thetaVar) (1, [1], [1]) of (n, start, count) \<Rightarrow>
      length start = length (varDims thetaVar)) \<and>
   (case timeSlice ''absent'' (varDims thetaVar) (1, [1], [1]) of (n, start, count) \<Rightarrow>
      length start \<noteq> length (varDims thetaVar))"
  using timeSlice_rank [of thetaVar "''time_counter''" 1] timeSlice_rank [of thetaVar "''absent''" 1]
    thetaVar_wf by (auto simp: wf_vars_def)

definition coordData :: "(string \<times> size_t) FileData" where
  "coordData = sampleData\<lparr>fdData :=
    addContainer (DataContainerFloat ''Mesh2d_face_x'' [FNum 1])
      (addContainer (DataContainerFloat ''Mesh2d_face_y'' [FNum 2]) Data_new)\<rparr>"


lemma Writer_writeData_known_variables_example:
  "Writer_writeData memEnv 0 sampleData sampleWorld = (Inr (), sampleWorld) \<and>
   dom (smap_find (dataContainers (fdData sampleData))) \<subseteq> dom (smap_find (mdVariables (fdMetadata sampleData)))"
proof -
  have run: "Writer_writeData memEnv 0 sampleData sampleWorld = (Inr (), sampleWorld)"
    by (simp add: Writer_writeData_def Writer_onOwner_apply sampleData_def Data_new_def st_simps)
  show ?thesis
    using Writer_writeData_known_variables [OF _ run] run by simp
qed

section \<open>Entry points\<close>

theorem read_guards_witness:
  "\<exists>what w'. readState memEnv \<lparr>fsFields = [0], fsIndex = smap_empty\<rparr> [] ''none.nc'' (''2021'', 0) sampleWorld =
    (Inl (RuntimeError ''Monio::readState'' what), w') \<and> filesClosed w' \<and> aborted w'"
  using read_guards [of memEnv sampleWorld "\<lparr>fsFields = [0], fsIndex = smap_empty\<rparr>" "''none.nc''" "[]" "(''2021'', 0)"]
  by (simp add: sampleDisk_def)


lemma sample_readState:
  "fst (readState memEnv \<lparr>fsFields = [0], fsIndex = smap_empty\<rparr> [] ''in.nc'' (''2021'', 0) sampleWorld) = Inr ()"
proof -
  obtain w' where "Reader_closeFile memEnv 0 sampleWorld = (Inr (), w')"
    using Reader_closeFile_quiet [of memEnv sampleWorld 0] by auto
  then show ?thesis
    by (simp add: readState_def Monio_get_def sampleDisk_def sampleMonio_def st_simps fileExists_def catchNc_ok)
qed

theorem entry_points_close_files_witness:
  "\<exists>w'. readState memEnv \<lparr>fsFields = [0], fsIndex = smap_empty\<rparr> [] ''in.nc'' (''2021'', 0) sampleWorld = (Inr (), w') \<and>
    readerSlot 0 w' = None"
proof -
  obtain w' where run: "readState memEnv \<lparr>fsFields = [0], fsIndex = smap_empty\<rparr> [] ''in.nc'' (''2021'', 0) sampleWorld =
      (Inr (), w')"
    using sample_readState by (metis prod.collapse)
  have "Monio_get sampleWorld = (Inr sampleMonio, sampleWorld)"
    by (simp add: Monio_get_def st_simps)
  from entry_points_close_files [OF sampleWorld_wf this] run show ?thesis
    by (auto simp: sampleMonio_def)
qed

section \<open>Fields\<close>

lemma fields_rows [simp]:
  "hasRows tDouble 0 [[FNum 1, FNum 2], [FNum 3, FNum 4], [FNum 5, FNum 6]] sampleWorld"
  "hasRows tDouble (Suc 0) [[FNum 0, FNum 0], [FNum 0, FNum 0], [FNum 0, FNum 0]] sampleWorld"
  by (simp_all add: hasRows_def sampleField_def otherField_def tDouble_def)

lemma tDouble_array: "etArray tDouble = ArrDouble"
  by (simp add: tDouble_def)

lemma fields_shape [simp]: "fieldShape sampleField = [3, 2]" "fieldShape otherField = [3, 2]"
  by (simp_all add: sampleField_def otherField_def)

theorem populateField_places_witness:
  "populateField memEnv tDouble 1 [FNum 10, FNum 20, FNum 30, FNum 40, FNum 50, FNum 60] [2, 0, 1] False True sampleWorld =
    (Inr (), setRows tDouble 1 [[FNum 30, FNum 60], [FNum 10, FNum 40], [FNum 20, FNum 50]] sampleWorld)"
  using populateField_places [of tDouble 1 "[[FNum 0, FNum 0], [FNum 0, FNum 0], [FNum 0, FNum 0]]" sampleWorld
      "[2, 0, 1]" 2 "[FNum 10, FNum 20, FNum 30, FNum 40, FNum 50, FNum 60]" memEnv True]
  by (simp add: isMatrix_def covers_def matrix_def upt_rec)

theorem populateDatum_outcomes_witness:
  "populateDatum memEnv tDouble 1 [FNum 10] 1 0 0 sampleWorld = (Inl (Undefined ''dataVec[index]''), sampleWorld) \<and>
   (\<exists>what w'. populateDatum memEnv tDouble 1 [FNum 10] 2 0 0 sampleWorld =
      (Inl (RuntimeError ''AtlasReader::populateField'' what), w') \<and> filesClosed w' \<and> aborted w')"
  using populateDatum_outcomes [of memEnv sampleWorld 1 "[FNum 10]" tDouble 1 0 0]
    populateDatum_outcomes [of memEnv sampleWorld 2 "[FNum 10]" tDouble 1 0 0] by simp

theorem populateDataVec_places_witness:
  "\<exists>vec. populateDataVec memEnv tDouble (replicate 6 (FNum 0)) 0 [2, 0, 1] sampleWorld = (Inr vec, sampleWorld) \<and>
    vec ! 2 = FNum 1 \<and> vec ! 5 = FNum 2"
proof -
  have map: "isOrderMap [2, 0, 1]" by (simp add: isOrderMap_def)
  have "\<exists>vec. populateDataVec memEnv tDouble (replicate 6 (FNum 0)) 0 [2, 0, 1] sampleWorld = (Inr vec, sampleWorld) \<and>
      length vec = length [2, 0, 1 :: size_t] * 2 \<and>
      (\<forall>i < length [2, 0, 1 :: size_t]. \<forall>j < 2. vec ! position [2, 0, 1] i j =
        [[FNum 1, FNum 2], [FNum 3, FNum 4], [FNum 5, FNum 6]] ! i ! j)"
    by (rule populateDataVec_places [OF _ fields_rows(1) _ _ map]) (simp_all add: isMatrix_def)
  then obtain vec where vec: "populateDataVec memEnv tDouble (replicate 6 (FNum 0)) 0 [2, 0, 1] sampleWorld =
        (Inr vec, sampleWorld)"
      "\<forall>i < length [2, 0, 1 :: size_t]. \<forall>j < 2. vec ! position [2, 0, 1] i j =
        [[FNum 1, FNum 2], [FNum 3, FNum 4], [FNum 5, FNum 6]] ! i ! j" by blast
  have "vec ! 2 = FNum 1" "vec ! 5 = FNum 2"
    using vec(2) [rule_format, of 0 0] vec(2) [rule_format, of 0 1] by (simp_all add: position_def)
  with vec(1) show ?thesis by blast
qed

theorem field_data_round_trip_witness:
  "\<exists>vec. populateDataVec memEnv tDouble (replicate 6 (FNum 0)) 0 [2, 0, 1] sampleWorld = (Inr vec, sampleWorld) \<and>
    populateField memEnv tDouble 1 vec [2, 0, 1] False True sampleWorld =
      (Inr (), setRows tDouble 1 [[FNum 1, FNum 2], [FNum 3, FNum 4], [FNum 5, FNum 6]] sampleWorld)"
  unfolding One_nat_def
  by (rule field_data_round_trip [where L = 2, OF _ fields_rows(1) _ _ _ _ _ _ _ fields_rows(2)])
    (simp_all add: isMatrix_def isOrderMap_def)

lemma copySurfaceLevel_result_example:
  "\<exists>w'. copySurfaceLevel memEnv tDouble 0 0 \<lparr>optName = ''copy'', optLevels = 3, optKind = KIND_REAL64\<rparr> sampleWorld =
      (Inr 2, w') \<and>
    fieldArray (fieldHeap w' ! 2) =
      ArrDouble [[FNum 1, FNum 1, FNum 2], [FNum 3, FNum 3, FNum 4], [FNum 5, FNum 5, FNum 6]]"
proof -
  let ?opts = "\<lparr>optName = ''copy'', optLevels = 3, optKind = KIND_REAL64\<rparr>"
  let ?created = "\<lparr>fieldName = ''copy'', fieldSpace = 0, fieldGlobal = True, fieldShape = [3, 3],
      fieldArray = ArrDouble (replicate 3 (replicate 3 (FNum 0)))\<rparr>"
  have create: "atCreateField memEnv 0 ?opts (outside sampleWorld) = (Inr ?created, sampleDisk)"
    by (simp add: memEnv_def memCreateField_def memGrid_def blankArray_def flip: replicate_Suc numeral_3_eq_3)
  have sizes: "isMatrix 3 2 [[FNum 1, FNum 2], [FNum 3, FNum 4], [FNum 5, FNum 6]]"
      "isMatrix 3 3 (replicate 3 (replicate 3 (FNum 0)))"
    by (simp add: isMatrix_def) (simp add: isMatrix_def list_all_iff)
  show ?thesis
    using copySurfaceLevel_result [of tDouble 0 "[[FNum 1, FNum 2], [FNum 3, FNum 4], [FNum 5, FNum 6]]"
        sampleWorld 3 2 memEnv 0 ?opts ?created sampleDisk "replicate 3 (replicate 3 (FNum 0))", OF _ _ _ _ _ _ _ create]
    by (simp add: sizes tDouble_array matrix_def upt_rec)
qed

section \<open>Fields without a surface level\<close>

text \<open>A field of three nodes and 70 levels, and an empty one.\<close>

definition tallRows :: "double list list" where
  "tallRows = matrix 3 70 (\<lambda>i j. FNum (of_nat (100 * i + j)))"

definition tallField :: Field where
  "tallField = \<lparr>fieldName = ''tall'', fieldSpace = 0, fieldGlobal = True, fieldShape = [3, 70],
    fieldArray = ArrDouble tallRows\<rparr>"

definition tallWorld :: "(MemDisk, string \<times> size_t) world" where
  "tallWorld = sampleWorld\<lparr>fieldHeap := [tallField, tallField\<lparr>fieldArray := ArrDouble (matrix 3 70 (\<lambda>i j. FNum 0))\<rparr>]\<rparr>"

lemma tall_fields:
  "hasRows tDouble 0 tallRows tallWorld" "hasRows tDouble (Suc 0) (matrix 3 70 (\<lambda>i j. FNum 0)) tallWorld"
  "fieldShape (fieldHeap tallWorld ! 0) = [3, 70]" "fieldShape (fieldHeap tallWorld ! Suc 0) = [3, 70]"
  "isMatrix 3 70 tallRows" "outside tallWorld = sampleDisk"
  by (simp_all add: hasRows_def tallWorld_def tallField_def tDouble_array tallRows_def)

lemma three: "length [2, 0, 1 :: size_t] = 3"
  by simp

lemma sample_map: "isOrderMap [2, 0, 1]"
  by (simp add: isOrderMap_def)

theorem populateField_skips_surface_witness:
  "populateField memEnv tDouble (Suc 0) (map (\<lambda>k. FNum (of_nat k)) [0..<213]) [2, 0, 1] True True tallWorld =
    (Inr (), setRows tDouble (Suc 0)
      (matrix 3 70 (\<lambda>i j. map (\<lambda>k. FNum (of_nat k)) [0..<213] ! (unat ([2, 0, 1 :: size_t] ! i) + (j + 1) * 3))) tallWorld)"
proof -
  have "covers [2, 0, 1] 70 1 (map (\<lambda>k. FNum (of_nat k)) [0..<213])"
    by (rule covers_vec [OF sample_map]) simp_all
  from populateField_skips_surface [OF _ tall_fields(2) _ _ this, of memEnv, unfolded three] tall_fields(4) show ?thesis
    by (simp del: upt_rec_numeral)
qed

theorem surface_level_round_trip_witness:
  "\<exists>g w1 vec. copySurfaceLevel memEnv tDouble 0 0 \<lparr>optName = ''copy'', optLevels = 71, optKind = KIND_REAL64\<rparr>
      tallWorld = (Inr g, w1) \<and>
    populateDataVec memEnv tDouble (replicate 213 (FNum 0)) g [2, 0, 1] w1 = (Inr vec, w1) \<and>
    populateField memEnv tDouble (Suc 0) vec [2, 0, 1] True True w1 = (Inr (), setRows tDouble (Suc 0) tallRows w1)"
proof -
  let ?opts = "\<lparr>optName = ''copy'', optLevels = 71, optKind = KIND_REAL64\<rparr>"
  let ?created = "\<lparr>fieldName = ''copy'', fieldSpace = 0, fieldGlobal = True, fieldShape = [3, 71],
      fieldArray = ArrDouble (replicate 3 (replicate 71 (FNum 0)))\<rparr>"
  have create: "atCreateField memEnv 0 ?opts (outside tallWorld) = (Inr ?created, sampleDisk)"
    by (simp add: memEnv_def memCreateField_def memGrid_def blankArray_def tall_fields numeral_3_eq_3)
  have blank: "isMatrix (length [2, 0, 1 :: size_t]) 71 (replicate 3 (replicate 71 (FNum 0)))"
    by (simp add: isMatrix_def list_all_iff)
  show ?thesis
    by (rule surface_level_round_trip [OF _ tall_fields(1) _ _ sample_map _ create _ blank _ tall_fields(2)])
      (simp_all add: tall_fields tDouble_array flip: numeral_3_eq_3)
qed

section \<open>The order map\<close>

lemma memGrid_exact: "closestExact memEnv memGrid"
  by (simp add: closestExact_def memEnv_def memClosest_def memGrid_def)

theorem createLfricAtlasMap_result_witness:
  "\<exists>lam. createLfricAtlasMap memEnv memGrid (rotate1 memGrid) sampleWorld = (Inr lam, sampleWorld) \<and>
    isOrderMap lam \<and> locates lam memGrid (rotate1 memGrid)"
  using createLfricAtlasMap_result [of memEnv sampleWorld memGrid "rotate1 memGrid", OF _ _ memGrid_exact]
  by (simp add: memGrid_def)

definition flatField :: Field where
  "flatField = \<lparr>fieldName = ''flat'', fieldSpace = 0, fieldGlobal = True, fieldShape = [3, 1],
    fieldArray = ArrDouble [[FNum 0], [FNum 0], [FNum 0]]\<rparr>"

theorem populateField_direction_witness:
  "populateField memEnv tDouble 0 (map fst (rotate1 memGrid)) [1, 2, 0] False True
      (sampleWorld\<lparr>fieldHeap := [flatField]\<rparr>) \<noteq>
    (Inr (), setRows tDouble 0 (map (\<lambda>p. [fst p]) memGrid) (sampleWorld\<lparr>fieldHeap := [flatField]\<rparr>))"
proof -
  have "hasRows tDouble 0 [[FNum 0], [FNum 0], [FNum 0]] (sampleWorld\<lparr>fieldHeap := [flatField]\<rparr>)"
    by (simp add: hasRows_def flatField_def tDouble_array)
  moreover have "locates [1, 2, 0] memGrid (rotate1 memGrid)" by (simp add: locates_def memGrid_def)
  ultimately show ?thesis
    using populateField_direction [of tDouble 0 "[[FNum 0], [FNum 0], [FNum 0]]"
        "sampleWorld\<lparr>fieldHeap := [flatField]\<rparr>" "[1, 2, 0]" memGrid "rotate1 memGrid" fst memEnv True]
    by (simp add: isMatrix_def flatField_def memGrid_def)
qed

section \<open>The parts of \<open>Monio\<close>\<close>

lemma sample_get: "Monio_get sampleWorld = (Inr sampleMonio, sampleWorld)"
  by (simp add: Monio_get_def st_simps)

theorem write_guards_witness:
  "writeState memEnv \<lparr>fsFields = [0], fsIndex = smap_empty\<rparr> [] '''' True sampleWorld = (Inr (), sampleWorld) \<and>
   (\<exists>what w'. writeState memEnv \<lparr>fsFields = [], fsIndex = smap_empty\<rparr> [] ''out.nc'' True sampleWorld =
      (Inl (RuntimeError ''Monio::writeState'' what), w') \<and> filesClosed w' \<and> aborted w')"
  using write_guards [OF memEnv_quiet sampleWorld_wf sample_get, of "\<lparr>fsFields = [0], fsIndex = smap_empty\<rparr>" "[]" "''''" True]
    write_guards [OF memEnv_quiet sampleWorld_wf sample_get, of "\<lparr>fsFields = [], fsIndex = smap_empty\<rparr>" "[]" "''out.nc''" True]
  by simp

theorem cleanFileData_result_witness:
  "\<exists>m' d' w'. cleanFileData memEnv sampleMonio sampleData sampleWorld =
      (Inr (sampleData\<lparr>fdMetadata := m', fdData := d'\<rparr>), w') \<and>
    smap_find (mdVariables m') ''theta'' = None \<and> varDims (varHeap w' ! 0) = [(''node'', 3)]"
proof -
  have "mpiRank sampleWorld = moOwner sampleMonio" by (simp add: sampleMonio_def)
  from cleanFileData_result [OF this, of sampleData memEnv] obtain m' d' w' where
    run: "cleanFileData memEnv sampleMonio sampleData sampleWorld =
        (Inr (sampleData\<lparr>fdMetadata := m', fdData := d'\<rparr>), w')"
      "\<forall>k. smap_find (dataContainers d') k = (if k \<in> {kTimeVarName, kTileVarName} then None
        else smap_find (dataContainers (fdData sampleData)) k)"
      "\<forall>k. smap_find (mdVariables m') k = (if smap_find (dataContainers d') k = None then None
        else smap_find (mdVariables (fdMetadata sampleData)) k)"
      "\<forall>i < length (varHeap sampleWorld). varHeap w' ! i =
        (if i \<in> snd ` set (entries (mdVariables (fdMetadata sampleData)))
         then (varHeap sampleWorld ! i)\<lparr>varDims := filter (\<lambda>d. fst d \<noteq> kTimeDimName \<and> fst d \<noteq> kTileDimName)
           (varDims (varHeap sampleWorld ! i))\<rparr> else varHeap sampleWorld ! i)"
    by auto
  have "varDims (varHeap w' ! 0) = [(''node'', 3)]"
    using run(4) by (simp add: kTimeDimName_def kTileDimName_def)
  then show ?thesis using run(1,2,3) by auto
qed

definition clockVar :: Variable where
  "clockVar = \<lparr>varName = ''time_instant'', varType = eDouble, varDims = [(''time_counter'', 2)],
    varAttrs = smap_insert ''time_origin'' (AttributeString ''time_origin'' ''2021-06-30 00:00:00'') smap_empty\<rparr>"

definition clockData :: "(string \<times> size_t) FileData" where
  "clockData = \<lparr>fdData = addContainer (DataContainerDouble ''time_instant'' [FNum 0, FNum (7199 / 2)]) Data_new,
    fdMetadata = addVariable ''time_instant'' 0 Metadata_new, fdLfricAtlasMap = [], fdDateTimes = []\<rparr>"

theorem createDateTimes_result_witness:
  "createDateTimes memEnv sampleMonio ''time_instant'' ''time_origin'' clockData (sampleWorld\<lparr>varHeap := [clockVar]\<rparr>) =
    (Inr (clockData\<lparr>fdDateTimes := [(''2021-06-30T00:00:00Z'', 0), (''2021-06-30T00:00:00Z'', 3600)]\<rparr>),
     sampleWorld\<lparr>varHeap := [clockVar]\<rparr>)"
proof -
  have find: "smap_find (mdVariables (fdMetadata clockData)) ''time_instant'' = Some 0"
    "smap_find (dataContainers (fdData clockData)) ''time_instant'' =
      Some (DataContainerDouble ''time_instant'' [FNum 0, FNum (7199 / 2)])"
    "smap_find (varAttrs clockVar) ''time_origin'' = Some (AttributeString ''time_origin'' ''2021-06-30 00:00:00'')"
    by (simp_all add: clockData_def clockVar_def addVariable_def Metadata_new_def addContainer_def Data_new_def)
  have words: "strToWords ''2021-06-30 00:00:00'' (CHR '' '') = [''2021-06-30'', ''00:00:00'']" by code_simp
  have origin: "dateTimeOf memEnv ''2021-06-30T00:00:00Z'' sampleDisk =
      (Inr (''2021-06-30T00:00:00Z'', 0), sampleDisk)"
    by (simp add: memEnv_def memDateTime_def)
  have round: "std_round 0 = 0" "std_round (7199 / 2) = 3600" by (simp_all add: std_round_def floor_eq_iff)
  let ?w = "sampleWorld\<lparr>varHeap := [clockVar]\<rparr>"
  have "createDateTimes memEnv sampleMonio ''time_instant'' ''time_origin'' clockData ?w =
      (Inr (clockData\<lparr>fdDateTimes := map (\<lambda>x. addDuration memEnv (''2021-06-30T00:00:00Z'', 0) (secondsOf x))
        [FNum 0, FNum (7199 / 2)]\<rparr>), ?w\<lparr>outside := sampleDisk\<rparr>)"
    by (rule createDateTimes_result [OF _ _ find(1) _ find(2) _ words])
      (simp_all add: sampleMonio_def find origin clockVar_def [THEN arg_cong, of varDims] clockData_def
        wholeSeconds_def round)
  then show ?thesis by (simp add: memEnv_def secondsOf_def round sampleWorld_def)
qed



section \<open>Metadata written and read\<close>

lemma sampleMetadata_storable: "storable [thetaVar] sampleMetadata"
proof -
  have "int_to_size 2 = 2" "int_to_size 3 = 3"
    using int_to_size_of_nat [of 2] int_to_size_of_nat [of 3] by simp_all
  then show ?thesis
    by (simp add: storable_def sampleMetadata_def storableVar_def wf_variable_def) (simp add: thetaVar_def)
qed


end
