(* ===== verification/Sessions.thy ===== *)
theory Sessions
  imports Monio_Core
begin

text \<open>
  A host process and the library as a state machine: between calls of the five entry points the
  process may change its fields and the world outside as it likes; a step of the library is a call
  that returns. The invariants of the reachable states say what a call may rely on, whatever
  calls came before it: no file is open, the objects are owned, the variables are well formed.
\<close>

section \<open>The machine\<close>

datatype 't call =
    ReadState FieldSet "FieldMetadata list" string 't
  | ReadIncrements FieldSet "FieldMetadata list" string
  | WriteState FieldSet "FieldMetadata list" string bool
  | WriteIncrements FieldSet "FieldMetadata list" string bool
  | WriteFieldSet FieldSet string

fun perform :: "('d, 't) env \<Rightarrow> 't call \<Rightarrow> (('d, 't) world, unit) st" where
  "perform E (ReadState fs fms p t) = readState E fs fms p t"
| "perform E (ReadIncrements fs fms p) = readIncrements E fs fms p"
| "perform E (WriteState fs fms p b) = writeState E fs fms p b"
| "perform E (WriteIncrements fs fms p b) = writeIncrements E fs fms p b"
| "perform E (WriteFieldSet fs p) = writeFieldSet E fs p"

fun reads :: "'t call \<Rightarrow> bool" where
  "reads (ReadState fs fms p t) = True"
| "reads (ReadIncrements fs fms p) = True"
| "reads _ = False"

text \<open>A process that has not called the library yet.\<close>

definition freshProcess :: "('d, 't) world \<Rightarrow> bool" where
  "freshProcess w \<longleftrightarrow> theMonio w = None \<and> readerHeap w = [] \<and> writerHeap w = [] \<and> varHeap w = []"

inductive reach :: "('d, 't) env \<Rightarrow> ('d, 't) world \<Rightarrow> bool" for E where
  start: "freshProcess w \<Longrightarrow> reach E w"
| host: "reach E w \<Longrightarrow> reach E (w\<lparr>fieldHeap := fs, outside := d\<rparr>)"
| call: "reach E w \<Longrightarrow> perform E c w = (Inr (), w') \<Longrightarrow> reach E w'"

section \<open>Reading keeps the writers closed, and writing the readers\<close>

definition readersClosed :: "('d, 't) world \<Rightarrow> bool" where
  "readersClosed w \<longleftrightarrow> list_all (\<lambda>rd. rdFile rd = None) (readerHeap w)"

definition writersClosed :: "('d, 't) world \<Rightarrow> bool" where
  "writersClosed w \<longleftrightarrow> list_all (\<lambda>wr. wrFile wr = None) (writerHeap w)"

lemma closed_simps [simp]:
  "readersClosed (w\<lparr>outside := d\<rparr>) = readersClosed w" "writersClosed (w\<lparr>outside := d\<rparr>) = writersClosed w"
  "readersClosed (w\<lparr>aborted := b\<rparr>) = readersClosed w" "writersClosed (w\<lparr>aborted := b\<rparr>) = writersClosed w"
  "readersClosed (w\<lparr>fieldHeap := fs\<rparr>) = readersClosed w" "writersClosed (w\<lparr>fieldHeap := fs\<rparr>) = writersClosed w"
  "readersClosed (w\<lparr>varHeap := vs\<rparr>) = readersClosed w" "writersClosed (w\<lparr>varHeap := vs\<rparr>) = writersClosed w"
  "readersClosed (w\<lparr>fileHeap := hs\<rparr>) = readersClosed w" "writersClosed (w\<lparr>fileHeap := hs\<rparr>) = writersClosed w"
  "readersClosed (w\<lparr>theMonio := m\<rparr>) = readersClosed w" "writersClosed (w\<lparr>theMonio := m\<rparr>) = writersClosed w"
  "writersClosed (w\<lparr>readerHeap := rs\<rparr>) = writersClosed w"
  "readersClosed (w\<lparr>writerHeap := ws\<rparr>) = readersClosed w"
  by (simp_all add: readersClosed_def writersClosed_def)

lemma readersClosed_update:
  "readersClosed w \<Longrightarrow> rdFile rd = None \<Longrightarrow> readersClosed (w\<lparr>readerHeap := (readerHeap w)[r := rd]\<rparr>)"
  by (auto simp: readersClosed_def list_all_iff dest!: set_update_subset_insert [THEN subsetD])

lemma writersClosed_update:
  "writersClosed w \<Longrightarrow> wrFile wr = None \<Longrightarrow> writersClosed (w\<lparr>writerHeap := (writerHeap w)[r := wr]\<rparr>)"
  by (auto simp: writersClosed_def list_all_iff dest!: set_update_subset_insert [THEN subsetD])

lemma Monio_get_closed: "keepsS readersClosed Monio_get" "keepsS writersClosed Monio_get"
  by (auto simp: keepsS_def Monio_get_def Monio_new_def unfold_st readersClosed_def writersClosed_def
      split: option.split)

lemma throwException_closed [keeps_intros]:
  "keepsS readersClosed (throwException who what)" "keepsS writersClosed (throwException who what)"
  by (simp_all add: keepsS_def throwException_apply)

lemma File_closed [keeps_intros]:
  "keepsS readersClosed (File_close E f)" "keepsS writersClosed (File_close E f)"
  "keepsS readersClosed (File_delete E f)" "keepsS writersClosed (File_delete E f)"
  "keepsS readersClosed (File_new E p md)" "keepsS writersClosed (File_new E p md)"
  unfolding File_close_def File_delete_def File_new_def setFile_def
  by (intro keeps_intros; simp add: keepsS_def newFile_def)+

lemma Reader_closed [keeps_intros]:
  "keepsS readersClosed (Reader_closeFile E r)" "keepsS writersClosed (Reader_closeFile E r)"
  "keepsS writersClosed (Reader_openFile E r p)"
  unfolding Reader_closeFile_def Reader_openFile_def Reader_onOwner_def Reader_isOpen_def Reader_getFile_def
    Reader_resetFile_def setReader_def
  by (intro keeps_intros; simp add: readersClosed_update)+

lemma Writer_closed [keeps_intros]:
  "keepsS readersClosed (Writer_closeFile E r)" "keepsS writersClosed (Writer_closeFile E r)"
  "keepsS readersClosed (Writer_openFile E r p)"
  unfolding Writer_closeFile_def Writer_openFile_def Writer_onOwner_def Writer_isOpen_def Writer_getFile_def
    Writer_resetFile_def setWriter_def
  by (intro keeps_intros; simp add: writersClosed_update)+

lemma Variable_new_closed:
  "keepsS readersClosed (Variable_new n t)" "keepsS writersClosed (Variable_new n t)"
  by (simp_all add: keepsS_def Variable_new_def newVariable_def)

interpretation noWriter: reading_invariant writersClosed E for E :: "('d, 't) env"
  by unfold_locales (simp_all add: Monio_get_closed Reader_closed Writer_closed Variable_new_closed)

interpretation noReader: writing_invariant readersClosed E for E :: "('d, 't) env"
  by unfold_locales (simp_all add: Monio_get_closed Reader_closed Writer_closed Variable_new_closed)

section \<open>The singleton is one\<close>

text \<open>Before the first call there is no reader and no writer, afterwards one of each, and the singleton
  has them.\<close>

definition single :: "('d, 't) world \<Rightarrow> bool" where
  "single w \<longleftrightarrow>
    (theMonio w = None \<longrightarrow> length (readerHeap w) = 0 \<and> length (writerHeap w) = 0) \<and>
    (\<forall>m. theMonio w = Some m \<longrightarrow> length (readerHeap w) = 1 \<and> length (writerHeap w) = 1 \<and>
        moReader m = 0 \<and> moWriter m = 0 \<and> moOwner m = kMPIRankOwner)"

lemma single_simps [simp]:
  "single (w\<lparr>outside := d\<rparr>) = single w" "single (w\<lparr>aborted := b\<rparr>) = single w"
  "single (w\<lparr>fieldHeap := fs\<rparr>) = single w" "single (w\<lparr>varHeap := vs\<rparr>) = single w"
  "single (w\<lparr>fileHeap := hs\<rparr>) = single w"
  by (simp_all add: single_def)

lemma single_same:
  assumes "\<And>nr nw m k. keepsS (sameObjects nr nw m k) c"
  shows "keepsS single c"
  using sameObjects_keeps [OF assms] by (simp add: keepsS_def single_def)

lemma Monio_get_single: "keepsS single Monio_get"
  by (auto simp: keepsS_def Monio_get_def Monio_new_def unfold_st single_def split: option.split)

lemmas single_handles =
  single_same [OF Reader_closeFile_same] single_same [OF Writer_closeFile_same]
  single_same [OF Reader_openFile_same] single_same [OF Writer_openFile_same]

lemma Variable_new_single: "keepsS single (Variable_new n t)"
  by (simp add: keepsS_def Variable_new_def newVariable_def)

interpretation single: reading_invariant single E for E :: "('d, 't) env"
  by unfold_locales (simp_all add: Monio_get_single single_handles Variable_new_single, simp add: single_def)

interpretation single: writing_invariant single E for E :: "('d, 't) env"
  by unfold_locales (simp add: single_handles)

text \<open>The invariants of the variables hold while reading and writing.\<close>

lemma openFile_free:
  "handle_free I \<Longrightarrow> keepsS I (Reader_openFile E r p)" "handle_free I \<Longrightarrow> keepsS I (Writer_openFile E r p)"
  unfolding Reader_openFile_def Reader_onOwner_def Reader_resetFile_def setReader_def File_delete_def
    Writer_openFile_def Writer_onOwner_def Writer_resetFile_def setWriter_def File_new_def newFile_def
  by (intro keeps_intros throwException_free File_close_free Reader_closeFile_free Writer_closeFile_free;
      simp add: keepsS_def handle_freeD)+

interpretation wfVars: reading_invariant "\<lambda>w. wf_vars (varHeap w)" E for E :: "('d, 't) env"
  by unfold_locales (simp add: openFile_free)

interpretation wfVars: writing_invariant "\<lambda>w. wf_vars (varHeap w)" E for E :: "('d, 't) env"
  by unfold_locales (simp add: openFile_free)

interpretation typedVars: reading_invariant "\<lambda>w. typed ids (varHeap w)" E for E :: "('d, 't) env" and ids
  by unfold_locales (simp add: openFile_free)

interpretation typedVars: writing_invariant "\<lambda>w. typed ids (varHeap w)" E for E :: "('d, 't) env" and ids
  by unfold_locales (simp add: openFile_free)

section \<open>Reachable states\<close>

lemma one_closed:
  assumes "single w"
  shows "readerSlot 0 w = None \<Longrightarrow> readersClosed w" and "writerSlot 0 w = None \<Longrightarrow> writersClosed w"
proof -
  have "length (readerHeap w) \<le> 1" "length (writerHeap w) \<le> 1"
    using assms by (cases "theMonio w"; simp add: single_def)+
  then show "readerSlot 0 w = None \<Longrightarrow> readersClosed w" "writerSlot 0 w = None \<Longrightarrow> writersClosed w"
    by (auto simp: readersClosed_def writersClosed_def readerSlot_def writerSlot_def le_Suc_eq length_Suc_conv)
qed

lemma Monio_get_parts:
  assumes "wf_world w" and "single w" and "Monio_get w = (Inr this, w1)"
  shows "moReader this = 0 \<and> moWriter this = 0"
proof -
  have "theMonio w1 = Some this" using assms(1,3) by (auto elim: Monio_get_ok)
  moreover have "single w1" using keepsS_snd [OF Monio_get_single assms(2)] assms(3) by simp
  ultimately show ?thesis by (simp add: single_def)
qed

lemma write_nowhere:
  assumes "Monio_get w = (Inr this, w1)"
  shows "writeState E fs fms [] b w = (Inr (), w') \<Longrightarrow> w' = w1"
    and "writeIncrements E fs fms [] b w = (Inr (), w') \<Longrightarrow> w' = w1"
    and "writeFieldSet E fs [] w = (Inr (), w') \<Longrightarrow> w' = w1"
  unfolding writeState_def writeIncrements_def writeFieldSet_def entryPoint_def
    bindS_Inr [where m = Monio_get, OF assms]
  by (auto dest!: guarded_Inr simp: returnS_apply)

lemma perform_keeps:
  "keepsS wf_world (perform E c)" "keepsS single (perform E c)"
  "keepsS (\<lambda>w. wf_vars (varHeap w)) (perform E c)" "keepsS (\<lambda>w. typed ids (varHeap w)) (perform E c)"
  by (cases c; simp add: wf.reads_kept wf.writes_kept single.reads_kept single.writes_kept
      wfVars.reads_kept wfVars.writes_kept typedVars.reads_kept typedVars.writes_kept)+

text \<open>What a call that returns does to the open files.\<close>

lemma perform_closes:
  assumes "wf_world w" and "single w" and "readersClosed w" and "writersClosed w"
    and "perform E c w = (Inr (), w')"
  shows "readersClosed w' \<and> writersClosed w'"
proof -
  obtain this w1 where get: "Monio_get w = (Inr this, w1)" using assms(1) by (rule Monio_get_ok)
  have parts: "moReader this = 0" "moWriter this = 0"
    using Monio_get_parts [OF assms(1,2) get] by auto
  have w1: "writersClosed w1" using keepsS_snd [OF Monio_get_closed(2) assms(4)] get by simp
  note closes = entry_points_close [OF assms(1) get, unfolded parts]
  have "single w'" using keepsSD [OF perform_keeps(2) assms(5,2)] .
  note one = one_closed [OF this]
  show ?thesis
  proof (cases c)
    case (ReadState fs fms p t)
    then have run: "readState E fs fms p t w = (Inr (), w')" using assms(5) by simp
    then show ?thesis using closes [of E fs fms p t w'] keepsSD [OF noWriter.reads_kept(1) run assms(4)] one by auto
  next
    case (ReadIncrements fs fms p)
    then have run: "readIncrements E fs fms p w = (Inr (), w')" using assms(5) by simp
    then show ?thesis using closes [of E fs fms p _ w'] keepsSD [OF noWriter.reads_kept(2) run assms(4)] one by auto
  next
    case (WriteState fs fms p b)
    then have run: "writeState E fs fms p b w = (Inr (), w')" using assms(5) by simp
    then have "writersClosed w'" using closes [of E fs fms p _ w' b] one write_nowhere(1) [OF get] w1 by (cases "p = []") auto
    then show ?thesis using keepsSD [OF noReader.writes_kept(1) run assms(3)] by blast
  next
    case (WriteIncrements fs fms p b)
    then have run: "writeIncrements E fs fms p b w = (Inr (), w')" using assms(5) by simp
    then have "writersClosed w'" using closes [of E fs fms p _ w' b] one write_nowhere(2) [OF get] w1 by (cases "p = []") auto
    then show ?thesis using keepsSD [OF noReader.writes_kept(2) run assms(3)] by blast
  next
    case (WriteFieldSet fs p)
    then have run: "writeFieldSet E fs p w = (Inr (), w')" using assms(5) by simp
    then have "writersClosed w'" using closes [of E fs _ p _ w'] one write_nowhere(3) [OF get] w1 by (cases "p = []") auto
    then show ?thesis using keepsSD [OF noReader.writes_kept(3) run assms(3)] by blast
  qed
qed


text \<open>
  C11: a call never changes the name or the data type of a \<open>Variable\<close> or removes one, whether it
  returns or throws, and it keeps every \<open>Variable\<close> well formed.
\<close>

theorem variables_keep_their_type:
  assumes "perform E c w = (r, w')" and "i < length (varHeap w)"
  shows "i < length (varHeap w') \<and> varName (varHeap w' ! i) = varName (varHeap w ! i) \<and>
    varType (varHeap w' ! i) = varType (varHeap w ! i) \<and>
    (wf_vars (varHeap w) \<longrightarrow> wf_vars (varHeap w'))"
proof -
  have "typed (map identOf (varHeap w)) (varHeap w')"
    using keepsSD [OF perform_keeps(4) assms(1) typed_refl] .
  then have "i < length (varHeap w') \<and> identOf (varHeap w' ! i) = identOf (varHeap w ! i)"
    using assms(2) by (rule typed_nth)
  then show ?thesis using keepsSD [OF perform_keeps(3) assms(1)] by (simp add: identOf_def)
qed

end
