(* ===== verification/Write_Field_Set.thy ===== *)
theory Write_Field_Set
  imports Read_Increments
begin

text \<open>
  \<open>writeFieldSet\<close> from the call to the return, for a field set with one field: what is in the file that
  it leaves behind. The values of the field are laid out node by node, under dimensions declared level
  by level.
\<close>

section \<open>The data vector\<close>

lemma length_concat_matrix: "isMatrix n L rows \<Longrightarrow> length (concat rows) = n * L"
proof (induction rows arbitrary: n)
  case (Cons row rows)
  then obtain n' where "n = Suc n'" "isMatrix n' L rows" "length row = L"
    by (cases n) (simp_all add: isMatrix_def)
  then show ?case using Cons.IH [of n'] by simp
qed (simp add: isMatrix_def)

lemma concat_matrix_nth:
  "isMatrix n L rows \<Longrightarrow> i < n \<Longrightarrow> j < L \<Longrightarrow> concat rows ! (j + i * L) = rows ! i ! j"
proof (induction rows arbitrary: n i)
  case (Cons row rows)
  then obtain n' where n: "n = Suc n'" "isMatrix n' L rows" "length row = L"
    by (cases n) (simp_all add: isMatrix_def)
  show ?case
  proof (cases i)
    case (Suc i')
    then have "concat rows ! (j + i' * L) = rows ! i' ! j" using Cons.IH [OF n(2), of i'] Cons.prems n(1) by simp
    then show ?thesis using Suc n(3) by (simp add: nth_append)
  qed (use Cons.prems n in \<open>simp add: nth_append\<close>)
qed (simp add: isMatrix_def)

lemma flat_less: "i < n \<Longrightarrow> j < L \<Longrightarrow> j + i * L < n * (L :: nat)"
  by (metis add.commute add_less_cancel_right less_le_trans mult_Suc mult_le_mono1 Suc_leI)

lemma flat_inj: "j < L \<Longrightarrow> j' < L \<Longrightarrow> j + i * L = j' + i' * (L :: nat) \<Longrightarrow> i = i' \<and> j = j'"
  by (metis add.commute div_mult_self1 div_less add_cancel_right_left less_nat_zero_code mod_less mod_mult_self1)

text \<open>The overload of \<open>populateDataVec\<close> without an order map writes the rows one after another.\<close>

lemma populateWholeDataVec_run:
  assumes "lawfulType T" and "hasRows T f rows w" and "isMatrix n L rows"
    and "n < 2 ^ 31" and "L < 2 ^ 31" and "n * L < 2 ^ 31" and "length dataVec = n * L"
  shows "populateWholeDataVec T dataVec f [of_nat n, of_nat L] w = (Inr (concat rows), w)"
proof -
  let ?ps = "columnPairs n L"
  let ?pos = "\<lambda>p. snd p + fst p * L"
  let ?val = "\<lambda>p. rows ! fst p ! snd p"
  let ?h = "\<lambda>i j dataVec. bindS (checkedIdx (sint (of_nat j :: int32) + sint (of_nat i :: int32) * sint (of_nat L :: int32))) (\<lambda>index.
      bindS (viewGet T f (of_nat i) (of_nat j)) (\<lambda>x. setDataVec dataVec index x))"
  have range: "idxRange 0 (of_nat L) = map of_nat [0..<L]" "idxRange 0 (of_nat n) = map of_nat [0..<n]"
    using idxRange_of_nat [of 0 L] idxRange_of_nat [of 0 n] assms(4,5) by simp_all
  have step: "?h (fst p) (snd p) v w = (Inr (v[?pos p := ?val p]), w)"
    if p: "p \<in> set ?ps" and v: "length v = n * L" for p v
  proof -
    have ij: "fst p < n" "snd p < L" using p by auto
    have less: "?pos p < n * L" using ij by (rule flat_less)
    then have small: "?pos p < 2 ^ 31" using assms(6) by linarith
    have "sint (of_nat (snd p) :: int32) + sint (of_nat (fst p) :: int32) * sint (of_nat L :: int32) = int (?pos p)"
      using ij assms(4,5) by (simp add: sint_of_nat_small)
    moreover have "checkedIdx (int (?pos p)) w = (Inr (of_nat (?pos p)), w)"
      using small by (simp add: checkedIdx_def returnS_apply del: of_nat_add of_nat_mult)
    ultimately show ?thesis
      using viewGet_apply [OF assms(1-3) ij assms(4,5)] less v assms(6)
      by (simp add: bindS_Inr st_simps setDataVec_apply del: of_nat_add of_nat_mult)
  qed
  have eq: "fold (\<lambda>p v. v[?pos p := ?val p]) ?ps dataVec = concat rows"
  proof (rule nth_equalityI)
    show "length (fold (\<lambda>p v. v[?pos p := ?val p]) ?ps dataVec) = length (concat rows)"
      using assms(7) length_concat_matrix [OF assms(3)] by simp
    fix k assume "k < length (fold (\<lambda>p v. v[?pos p := ?val p]) ?ps dataVec)"
    then have k: "k < n * L" using assms(7) by simp
    then have "0 < L" by (cases L) simp_all
    define i j where "i = k div L" and "j = k mod L"
    have ij: "i < n" "j < L" "k = j + i * L"
      using k \<open>0 < L\<close> by (simp_all add: i_def j_def less_mult_imp_div_less)
    have "fold (\<lambda>p v. v[?pos p := ?val p]) ?ps dataVec ! ?pos (i, j) = ?val (i, j)"
    proof (rule fold_assign_nth)
      fix p q assume p: "p \<in> set ?ps" and q: "q \<in> set ?ps" and same: "?pos p = ?pos q"
      have "snd p < L" "snd q < L" using p q by auto
      from flat_inj [OF this same] show "?val p = ?val q" by simp
    next
      show "(i, j) \<in> set ?ps" using ij by (simp only: set_columns) simp
      show "?pos (i, j) < length dataVec" using k ij(3) assms(7) by simp
    qed
    then show "fold (\<lambda>p v. v[?pos p := ?val p]) ?ps dataVec ! k = concat rows ! k"
      using concat_matrix_nth [OF assms(3) ij(1,2)] ij(3) by simp
  qed
  have "populateWholeDataVec T dataVec f [of_nat n, of_nat L] w =
      foldS (\<lambda>i dataVec. foldS (\<lambda>j dataVec. ?h i j dataVec) [0..<L] dataVec) [0..<n] dataVec w"
    using makeView_apply [OF assms(1,2)] assms(4,5)
    by (simp add: populateWholeDataVec_def st_simps bindS_Inr range foldS_map)
  also have "\<dots> = foldS (\<lambda>p. ?h (fst p) (snd p)) ?ps dataVec w"
    by (simp only: foldS_nested)
  also have "\<dots> = (Inr (fold (\<lambda>p v. v[?pos p := ?val p]) ?ps dataVec), w)"
    by (rule foldS_assign [OF _ assms(7)]) (rule step)
  finally show ?thesis by (simp only: eq)
qed

section \<open>The container and the dimensions\<close>

lemma getGlobalDataSize_run:
  assumes "fieldShape field = [of_nat n, of_nat L]" and "n < 2 ^ 31" and "L < 2 ^ 31" and "n * L < 2 ^ 31"
  shows "getGlobalDataSize field = returnS (of_nat (n * L))"
proof
  fix w
  have "sint (of_nat n :: int32) * sint (of_nat L :: int32) = int (n * L)"
    using assms(2,3) by (simp add: sint_of_nat_small)
  moreover have "checkedIdx (int k) w = (Inr (of_nat k), w)" if "k < 2 ^ 31" for k
    using that by (simp add: checkedIdx_def returnS_apply)
  ultimately show "getGlobalDataSize field w = returnS (of_nat (n * L)) w"
    using assms by (simp add: getGlobalDataSize_def st_simps bindS_Inr sint_of_nat_small del: of_nat_mult)
qed

lemma populateDataWithWholeField_run:
  assumes "mpiRank w = owner" and "f < length (fieldHeap w)" and "fieldShape (fieldHeap w ! f) = [of_nat n, of_nat L]"
    and "fieldArray (fieldHeap w ! f) = ArrDouble rows" and "isMatrix n L rows"
    and "n < 2 ^ 31" and "L < 2 ^ 31" and "n * L < 2 ^ 31"
  shows "populateDataWithWholeField E owner d f [of_nat n, of_nat L] w =
    (Inr (addContainer (DataContainerDouble (fieldName (fieldHeap w ! f)) (concat rows)) d), w)"
proof -
  have size: "\<And>w. DataContainerDouble_setSize [] (of_nat (n * L)) w = (Inr (replicate (n * L) (FNum 0)), w)"
    using assms(8) by (simp add: container_setSize_small(1) resize_list_def returnS_apply del: of_nat_mult)
  have "hasRows tDouble f rows w" using assms(2,4) by (simp add: hasRows_def tDouble_def)
  then have "populateWholeDataVec tDouble (replicate (n * L) (FNum 0)) f [of_nat n, of_nat L] w = (Inr (concat rows), w)"
    using assms(5-8) by (intro populateWholeDataVec_run) simp_all
  then show ?thesis
    using assms(1,2,4)
    by (simp add: getGlobalDataSize_run [OF assms(3,6-8)] size populateDataWithWholeField_def populateDataContainerWithWholeField_def addFilledContainer_def onRank_def
        st_simps datatypeOf_def container_clear_def bindS_Inr del: of_nat_mult)
qed

text \<open>Different counts have different names.\<close>

definition undigits :: "string \<Rightarrow> nat" where
  "undigits = foldl (\<lambda>n c. 10 * n + (of_char c - 48)) 0"

lemma undigits_digits: "undigits (digits n) = n"
proof (induction n rule: digits.induct)
  case (1 n)
  show ?case
  proof (cases "n < 10")
    case False
    then have "undigits (digits (n div 10)) = n div 10" by (rule 1)
    then show ?thesis using False by (subst digits.simps) (simp add: undigits_def)
  qed (subst digits.simps, simp add: undigits_def)
qed

lemma to_string_of_nat: "c < 2 ^ 31 \<Longrightarrow> to_string (of_nat c) = digits c"
  by (simp add: to_string_def sint_of_nat_small)

lemma digits_inj: "digits a = digits b \<Longrightarrow> a = b"
  by (metis undigits_digits)

definition dimCalled :: "nat \<Rightarrow> string" where
  "dimCalled c = ''dim'' @ digits c"

lemma dimCalled_eq [simp]: "dimCalled a = dimCalled b \<longleftrightarrow> a = b"
  by (auto simp: dimCalled_def dest: digits_inj)

lemma dimCalled_not_found [simp]: "dimCalled c \<noteq> kNotFoundError"
  by (simp add: dimCalled_def kNotFoundError_def)

text \<open>The dimensions of a field written without metadata: numbered on from the count.\<close>

definition gridDims :: "nat \<Rightarrow> nat \<Rightarrow> nat \<Rightarrow> Metadata" where
  "gridDims c n L = addDimension (dimCalled (Suc c)) (of_nat L) (addDimension (dimCalled c) (of_nat n) Metadata_new)"

lemma gridDims_find: "smap_find (mdDimensions (gridDims c n L)) k =
    (if k = dimCalled c then Some (of_nat n) else if k = dimCalled (Suc c) then Some (of_nat L) else None)"
  by (simp add: gridDims_def addDimension_def Metadata_new_def)

lemma of_nat_int32_eq: "a < 2 ^ 31 \<Longrightarrow> b < 2 ^ 31 \<Longrightarrow> (of_nat a :: int32) = of_nat b \<longleftrightarrow> a = b"
  by (metis sint_of_nat_small of_nat_eq_iff)

lemma createDimensions_run:
  assumes "n < 2 ^ 31" and "L < 2 ^ 31" and "n \<noteq> L" and "Suc (Suc c) < 2 ^ 31"
  shows "createDimensions [of_nat n, of_nat L] (Metadata_new, of_nat c) = returnS (gridDims c n L, of_nat (Suc (Suc c)))"
proof
  fix w
  have count: "checkedIdx (sint (of_nat k :: int32) + 1) w = (Inr (of_nat (Suc k)), w)" if "Suc k < 2 ^ 31" for k
  proof -
    have "sint (of_nat k :: int32) + 1 = int (Suc k)" using that by (simp add: sint_of_nat_small)
    then show ?thesis using that by (simp add: checkedIdx_def returnS_apply del: of_nat_Suc)
  qed
  let ?m = "addDimension (dimCalled c) (of_nat n) Metadata_new"
  have none: "getDimensionName Metadata_new (of_nat n) = kNotFoundError"
    by (simp add: getDimensionName_def Metadata_new_def)
  have "mdDimensions ?m = smap_insert (dimCalled c) (of_nat n) smap_empty"
    by (simp add: addDimension_def Metadata_new_def)
  then have none': "getDimensionName ?m (of_nat L) = kNotFoundError"
    using of_nat_int32_eq [OF assms(1,2)] assms(3) by (simp add: getDimensionName_def)
  have names: "''dim'' @ to_string (of_nat k) = dimCalled k" if "Suc k < 2 ^ 31" for k
    using that by (simp add: to_string_of_nat dimCalled_def)
  have "Suc c < 2 ^ 31" using assms(4) by simp
  then show "createDimensions [of_nat n, of_nat L] (Metadata_new, of_nat c) w =
      returnS (gridDims c n L, of_nat (Suc (Suc c))) w"
    using assms(4) count [of c] count [of "Suc c"] names [of c] names [of "Suc c"]
    by (simp add: createDimensions_def bindS_Inr none none' st_simps gridDims_def del: of_nat_Suc)
qed

lemma gridDims_names:
  assumes "n < 2 ^ 31" and "L < 2 ^ 31" and "n \<noteq> L"
  shows "getDimensionName (gridDims c n L) (of_nat n) = dimCalled c"
    and "getDimensionName (gridDims c n L) (of_nat L) = dimCalled (Suc c)"
  using of_nat_int32_eq [OF assms(1,2)] of_nat_int32_eq [OF assms(2,1)] assms(3)
  by (auto intro!: getDimensionName_only simp: gridDims_find split: if_splits)

lemma convertLatLonToContainers_run:
  "convertLatLonToContainers coords kCoordVarNames = returnS
    [DataContainerDouble ''longitude'' (map fst coords), DataContainerDouble ''latitude'' (map snd coords)]"
proof -
  have "fold (\<lambda>c (lons, lats). (container_pushDatum lons (fst c), container_pushDatum lats (snd c))) coords (xs, ys) =
      (xs @ map fst coords, ys @ map snd coords)" for xs ys
    by (induction coords arbitrary: xs ys) (simp_all add: container_pushDatum_def)
  then show ?thesis
    by (simp add: convertLatLonToContainers_def kCoordVarNames_def kLongitudeVarName_def kLatitudeVarName_def)
qed

section \<open>The file data of the field\<close>

definition gridVars :: "nat \<Rightarrow> nat \<Rightarrow> nat \<Rightarrow> string \<Rightarrow> Variable list" where
  "gridVars c n L name = [
    \<lparr>varName = name, varType = eDouble, varDims = [(dimCalled (Suc c), of_nat L), (dimCalled c, of_nat n)],
      varAttrs = smap_empty\<rparr>,
    \<lparr>varName = ''longitude'', varType = eDouble, varDims = [(dimCalled c, of_nat n)], varAttrs = smap_empty\<rparr>,
    \<lparr>varName = ''latitude'', varType = eDouble, varDims = [(dimCalled c, of_nat n)], varAttrs = smap_empty\<rparr>]"

text \<open>The three variables are at the positions \<open>b\<close>, \<open>b + 1\<close> and \<open>b + 2\<close>.\<close>

definition gridMetadata :: "nat \<Rightarrow> nat \<Rightarrow> nat \<Rightarrow> nat \<Rightarrow> string \<Rightarrow> Metadata" where
  "gridMetadata b c n L name = addGlobalAttributes (addVariable ''latitude'' (Suc (Suc b))
    (addVariable ''longitude'' (Suc b) (addVariable name b (gridDims c n L)))) False"

definition gridData :: "string \<Rightarrow> (double \<times> double) list \<Rightarrow> double list list \<Rightarrow> Data" where
  "gridData name coords rows = addContainer (DataContainerDouble name (concat rows))
    (addContainer (DataContainerDouble ''latitude'' (map snd coords))
      (addContainer (DataContainerDouble ''longitude'' (map fst coords)) Data_new))"

lemma populateMetadataWithFieldOnly_run:
  assumes "f < length (fieldHeap w)" and "fieldHeap w ! f = G" and "fieldGlobal G = True"
    and "fieldShape G = [of_nat n, of_nat L]" and "datatypeOf G = KIND_REAL64"
    and "n < 2 ^ 31" and "L < 2 ^ 31" and "n \<noteq> L"
  shows "populateMetadataWithFieldOnly E (gridDims c n L) f name w =
    (Inr (addVariable name (length (varHeap w)) (gridDims c n L)),
     w\<lparr>varHeap := varHeap w @ [gridVars c n L name ! 0]\<rparr>)"
proof -
  let ?v = "\<lambda>ds. \<lparr>varName = name, varType = eDouble, varDims = ds, varAttrs = smap_empty\<rparr>"
  have new: "Variable_new name eDouble w = (Inr (length (varHeap w)), building (varHeap w) (?v []) w)"
    by (simp add: Variable_new_def newVariable_def st_simps building_def)
  have add: "Variable_addDimension E (length (varHeap w)) k s (building (varHeap w) (?v ds) w) =
      (Inr (), building (varHeap w) (?v (ds @ [(k, s)])) w)" if "k \<notin> fst ` set ds" for k s ds
    using building_addDimension [of k "?v ds" E "varHeap w" s w] that by simp
  have "addVariableDimensions E f (gridDims c n L) (length (varHeap w)) '''' (building (varHeap w) (?v []) w) =
      (Inr (), building (varHeap w) (gridVars c n L name ! 0) w)"
    using assms(1-4) add [of "dimCalled (Suc c)" "[]"] add [of "dimCalled c" "[(dimCalled (Suc c), of_nat L)]"]
    by (simp add: addVariableDimensions_def st_simps bindS_Inr building_def gridDims_names [OF assms(6-8)] gridVars_def
        int_to_size_of_nat [OF assms(6)] int_to_size_of_nat [OF assms(7)])
  then show ?thesis
    using assms(1,2,5) new
    by (simp add: populateMetadataWithFieldOnly_def atlasTypeToMonioEnum_def st_simps bindS_Inr building_def)
qed

lemma populateFileDataWithFieldOnly_run:
  assumes "mpiRank w = owner" and "f < length (fieldHeap w)" and "fieldHeap w ! f = G" and "fieldGlobal G = True"
    and "fieldShape G = [of_nat n, of_nat L]" and "fieldArray G = ArrDouble rows" and "isMatrix n L rows"
    and "n < 2 ^ 31" and "L < 2 ^ 31" and "n * L < 2 ^ 31" and "n \<noteq> L"
    and "atGridLonLat E (atGridName E (fieldSpace G)) = coords" and "length coords = n"
    and "awDimCount aw = of_nat c" and "Suc (Suc c) < 2 ^ 31"
  shows "populateFileDataWithFieldOnly E owner aw FileData_new f (fieldName G) w =
    (Inr (FileData_new\<lparr>fdMetadata := gridMetadata (length (varHeap w)) c n L (fieldName G),
        fdData := gridData (fieldName G) coords rows\<rparr>, aw\<lparr>awDimCount := of_nat (Suc (Suc c))\<rparr>),
     w\<lparr>varHeap := varHeap w @ gridVars c n L (fieldName G)\<rparr>)"
proof -
  let ?vs = "varHeap w" and ?name = "fieldName G"
  let ?w1 = "w\<lparr>varHeap := ?vs @ [gridVars c n L ?name ! 0]\<rparr>"
  let ?m1 = "addVariable ?name (length ?vs) (gridDims c n L)"
  let ?v = "\<lambda>k ds. \<lparr>varName = k, varType = eDouble, varDims = ds, varAttrs = smap_empty\<rparr>"
  let ?ds = "[(dimCalled c, of_nat n :: size_t)]"
  have kind: "datatypeOf G = KIND_REAL64" using assms(6) by (simp add: datatypeOf_def)
  have dims: "getDimensionName ?m1 (of_nat n) = dimCalled c"
    using gridDims_names(1) [OF assms(8,9,11), of c] by (simp add: getDimensionName_def)
  note names = kCoordVarNames_def kLongitudeVarName_def kLatitudeVarName_def
  have coords: "getAtlasCoords E f ?w1 = (Inr coords, ?w1)"
    using assms(2-4,12) by (simp add: getAtlasCoords_def st_simps getGridCoords_def)
  let ?w2 = "\<lambda>xs ys. w\<lparr>varHeap := ?vs @ [gridVars c n L ?name ! 0, ?v ''longitude'' xs, ?v ''latitude'' ys]\<rparr>"
  have lon: "Variable_new ''longitude'' eDouble ?w1 =
      (Inr (Suc (length ?vs)), w\<lparr>varHeap := ?vs @ [gridVars c n L ?name ! 0, ?v ''longitude'' []]\<rparr>)"
    by (simp add: Variable_new_def newVariable_def st_simps)
  have lat: "Variable_new ''latitude'' eDouble
        (w\<lparr>varHeap := ?vs @ [gridVars c n L ?name ! 0, ?v ''longitude'' []]\<rparr>) =
      (Inr (Suc (Suc (length ?vs))), ?w2 [] [])"
    by (simp add: Variable_new_def newVariable_def st_simps)
  have lonDim: "Variable_addDimension E (Suc (length ?vs)) (dimCalled c) (of_nat n) (?w2 [] []) = (Inr (), ?w2 ?ds [])"
    by (simp add: Variable_addDimension_def setVariable_def st_simps nth_append list_update_append)
  have latDim: "Variable_addDimension E (Suc (Suc (length ?vs))) (dimCalled c) (of_nat n) (?w2 ?ds []) = (Inr (), ?w2 ?ds ?ds)"
    by (simp add: Variable_addDimension_def setVariable_def st_simps nth_append list_update_append)
  have data: "populateDataWithWholeField E owner d f [of_nat n, of_nat L] (?w2 ?ds ?ds) =
      (Inr (addContainer (DataContainerDouble ?name (concat rows)) d), ?w2 ?ds ?ds)" for d
    using populateDataWithWholeField_run [of "?w2 ?ds ?ds" owner f n L rows E d] assms(1-10) by simp
  have vars: "w\<lparr>varHeap := ?vs @ gridVars c n L ?name\<rparr> = ?w2 ?ds ?ds"
    by (simp add: gridVars_def)
  show ?thesis
    unfolding vars
    using assms(1-5,13,14) populateMetadataWithFieldOnly_run [OF assms(2-5) kind assms(8,9,11), of E c ?name]
    by (simp add: populateFileDataWithFieldOnly_def onRank_def st_simps bindS_Inr createDimensions_run [OF assms(8,9,11,15)]
        coords convertLatLonToContainers_run [unfolded names] lon lat lonDim latDim dims data Let_def FileData_new_def
        gridMetadata_def gridData_def names del: of_nat_Suc)
qed

lemma gridMetadata_find:
  assumes "name \<noteq> ''longitude''" and "name \<noteq> ''latitude''"
  shows "mdDimensions (gridMetadata b c n L name) = mdDimensions (gridDims c n L)"
    and "smap_find (mdVariables (gridMetadata b c n L name)) k =
      (if k = name then Some b else if k = ''longitude'' then Some (Suc b)
       else if k = ''latitude'' then Some (Suc (Suc b)) else None)"
    and "smap_find (mdGlobalAttrs (gridMetadata b c n L name)) k = Some a \<Longrightarrow> attrName a = k"
proof -
  have "mdVariables (gridDims c n L) = smap_empty" "mdGlobalAttrs (gridDims c n L) = smap_empty"
    by (simp_all add: gridDims_def Metadata_new_def)
  then show "mdDimensions (gridMetadata b c n L name) = mdDimensions (gridDims c n L)"
    and "smap_find (mdVariables (gridMetadata b c n L name)) k =
      (if k = name then Some b else if k = ''longitude'' then Some (Suc b)
       else if k = ''latitude'' then Some (Suc (Suc b)) else None)"
    and "smap_find (mdGlobalAttrs (gridMetadata b c n L name)) k = Some a \<Longrightarrow> attrName a = k"
    using assms by (auto simp: gridMetadata_def addGlobalAttributes_def Let_def addVariable_def addGlobalAttr_def
        split: if_splits)
qed

lemma gridData_find:
  assumes "name \<noteq> ''longitude''" and "name \<noteq> ''latitude''"
  shows "smap_find (dataContainers (gridData name coords rows)) k =
    (if k = name then Some (DataContainerDouble name (concat rows))
     else if k = ''longitude'' then Some (DataContainerDouble ''longitude'' (map fst coords))
     else if k = ''latitude'' then Some (DataContainerDouble ''latitude'' (map snd coords)) else None)"
  using assms by (simp add: gridData_def addContainer_def Data_new_def)

lemma grid_storable:
  assumes "name \<noteq> ''longitude''" and "name \<noteq> ''latitude''" and "isMatrix n L rows" and "length coords = n"
    and "n < 2 ^ 31" and "L < 2 ^ 31" and "n * L < 2 ^ 31"
    and "fdMetadata fd = gridMetadata (length vs) c n L name" and "fdData fd = gridData name coords rows"
  shows "storableData (vs @ gridVars c n L name) fd"
proof -
  let ?vs = "vs @ gridVars c n L name" and ?m = "gridMetadata (length vs) c n L name"
  note find = gridMetadata_find(2) [OF assms(1,2)] gridData_find [OF assms(1,2)]
  have var: "r < length ?vs \<and> varName (?vs ! r) = k \<and> storableVar ?m (?vs ! r)" if "smap_find (mdVariables ?m) k = Some r" for k r
    using that by (auto simp: find nth_append gridVars_def storableVar_def wf_variable_def gridMetadata_find(1) [OF assms(1,2)]
        gridDims_find int_to_size_of_nat [OF assms(5)] int_to_size_of_nat [OF assms(6)] split: if_splits)
  have "storable ?vs ?m"
    using var gridMetadata_find(3) [OF assms(1,2)] by (auto simp: storable_def list_all_iff in_entries_iff)
  moreover have "getVariableNames ?m = getDataContainerNames (gridData name coords rows)"
    unfolding getVariableNames_def getDataContainerNames_def extractKeys_eq keys_eq_iff
    by (auto simp: dom_def find)
  moreover have "fitting (?vs ! the (smap_find (mdVariables ?m) k)) x"
    if "smap_find (dataContainers (gridData name coords rows)) k = Some x" for k x
    using that assms(3-7) length_concat_matrix [OF assms(3)]
    by (auto simp: find fitting_def gridVars_def nth_append unat_of_nat_size mult.commute split: if_splits)
  ultimately show ?thesis
    using assms(8,9) by (auto simp: storableData_def list_all_iff in_entries_iff)
qed

section \<open>The entry point\<close>

lemma writeFieldSetField_run:
  fixes E :: "('d, 't) env"
  assumes "ncStore E view att" and "ncData E view vals" and "atlasCalls E created gathered scattered exchanged"
    and "theMonio w = Some this" and "mpiRank w = moOwner this" and "awDimCount (moAtlasWriter this) = of_nat c"
    and "Suc (Suc c) < 2 ^ 31" and "writingWith (moWriter this) fi h w" and "view h (outside w) = Some (emptyContents p)"
    and "f < length (fieldHeap w)" and "fieldHeap w ! f = F" and "fieldGlobal F = False"
    and "length (fieldShape F) = 2" and "datatypeOf F = KIND_REAL64" and "globalFieldOf created gathered exchanged F = G"
    and "fieldGlobal G = True" and "fieldShape G = [of_nat n, of_nat L]" and "fieldArray G = ArrDouble rows"
    and "isMatrix n L rows" and "n < 2 ^ 31" and "L < 2 ^ 31" and "n * L < 2 ^ 31" and "n \<noteq> L"
    and "atGridLonLat E (atGridName E (fieldSpace G)) = coords" and "length coords = n"
    and "fieldName G \<noteq> ''longitude''" and "fieldName G \<noteq> ''latitude''"
  obtains fd w' where "writeFieldSetField E this f FileData_new w = (Inr fd, w')"
    and "writingWith (moWriter this) fi h w'"
    and "view h (outside w') = Some (contentsOf p att (varHeap w @ gridVars c n L (fieldName G))
      (gridMetadata (length (varHeap w)) c n L (fieldName G)))"
    and "\<forall>k x. smap_find (dataContainers (gridData (fieldName G) coords rows)) k = Some x \<longrightarrow>
      vals h (outside w') k = Some (valuesIn x)"
    and "theMonio w' = Some (this\<lparr>moAtlasWriter := (moAtlasWriter this)\<lparr>awDimCount := of_nat (Suc (Suc c))\<rparr>\<rparr>)"
proof -
  let ?g = "length (fieldHeap w)" and ?name = "fieldName G"
  let ?w1 = "w\<lparr>fieldHeap := (fieldHeap w)[f := exchanged F] @ [G]\<rparr>"
  let ?aw = "(moAtlasWriter this)\<lparr>awDimCount := of_nat (Suc (Suc c))\<rparr>"
  let ?fd = "(FileData_new :: 't FileData)\<lparr>fdMetadata := gridMetadata (length (varHeap w)) c n L ?name,
      fdData := gridData ?name coords rows\<rparr>"
  let ?w2 = "?w1\<lparr>varHeap := varHeap w @ gridVars c n L ?name\<rparr>"
  let ?w3 = "?w2\<lparr>theMonio := Some (this\<lparr>moAtlasWriter := ?aw\<rparr>)\<rparr>"
  have global: "getGlobalField E f w = (Inr ?g, ?w1)"
    using getGlobalField_run [OF assms(3,10)] assms(11-15) by (simp add: codedKind_def)
  have fill: "populateFileDataWithFieldOnly E (moOwner this) (moAtlasWriter this) FileData_new ?g ?name ?w1 = (Inr (?fd, ?aw), ?w2)"
    using populateFileDataWithFieldOnly_run [of ?w1 "moOwner this" ?g G n L rows E coords "moAtlasWriter this" c]
      assms(5-7,16-25) by (simp add: nth_append)
  have storable: "storableData (varHeap ?w3) ?fd"
    using grid_storable [OF assms(26,27,19,25,20-22), of ?fd "varHeap w" c] by simp
  have ready: "writingWith (moWriter this) fi h ?w3" "view h (outside ?w3) = Some (emptyContents p)"
    using assms(8,9) by (auto simp: writingWith_def writingTo_def writerSlot_def split: if_splits)
  obtain da d where written: "Writer_writeMetadata E (moWriter this) (fdMetadata ?fd) ?w3 = (Inr (), ?w3\<lparr>outside := da\<rparr>)"
      "Writer_writeData E (moWriter this) ?fd (?w3\<lparr>outside := da\<rparr>) = (Inr (), ?w3\<lparr>outside := d\<rparr>)"
      "view h d = Some (contentsOf p att (varHeap ?w3) (fdMetadata ?fd))"
      "\<forall>e \<in> set (entries (dataContainers (fdData ?fd))). vals h d (fst e) = Some (valuesIn (snd e))"
    by (rule Writer_write_run [OF assms(1,2) ready storable])
  have get: "Monio_get ?w1 = (Inr this, ?w1)" using assms(4) by (simp add: Monio_get_Some)
  have set: "setMonio (\<lambda>this. this\<lparr>moAtlasWriter := ?aw\<rparr>) ?w2 = (Inr (), ?w3)"
    using assms(4) by (simp add: setMonio_def st_simps)
  have "writeFieldSetField E this f FileData_new w = (Inr (clearData ?fd), ?w3\<lparr>outside := d\<rparr>)"
    using assms(5) fill set written(1,2)
    by (simp add: writeFieldSetField_def global bindS_Inr onRank_def st_simps get nth_append del: of_nat_Suc)
  moreover have "writingWith (moWriter this) fi h (?w3\<lparr>outside := d\<rparr>)" using ready(1) by (simp only: writingWith_outside)
  ultimately show ?thesis
    using written(3,4) by (intro that [of "clearData ?fd" "?w3\<lparr>outside := d\<rparr>"]) (auto simp: in_entries_iff [symmetric])
qed


end
