(* ===== verification/Full_Runs.thy ===== *)
theory Full_Runs
  imports Concrete_Runs Sessions Write_Field_Set "HOL-Library.Code_Target_Numeral"
begin

text \<open>
  Whole calls of the entry points, executed on the instance of \<open>Memory_Env\<close>, for the properties
  about calls and sequences of calls.
\<close>

text \<open>A process that has not called the library, with one field.\<close>

definition freshWorld :: "(MemDisk, string \<times> size_t) world" where
  "freshWorld = \<lparr>mpiRank = 0, aborted = False, varHeap = [], fieldHeap = [sampleField],
    fileHeap = [], readerHeap = [], writerHeap = [], theMonio = None, outside = sampleDisk\<rparr>"

definition oneField :: FieldSet where
  "oneField = \<lparr>fsFields = [0], fsIndex = smap_empty\<rparr>"

definition afterWrite :: "(MemDisk, string \<times> size_t) world" where
  "afterWrite = snd (writeFieldSet memEnv oneField ''x.nc'' freshWorld)"

lemma write_run: "writeFieldSet memEnv oneField ''x.nc'' freshWorld = (Inr (), afterWrite)"
proof -
  have "fst (writeFieldSet memEnv oneField ''x.nc'' freshWorld) = Inr ()" by code_simp
  then show ?thesis by (simp add: afterWrite_def prod_eq_iff)
qed

lemma afterWrite_reach: "reach memEnv afterWrite"
proof (rule reach.call [where c = "WriteFieldSet oneField ''x.nc''"])
  show "reach memEnv freshWorld" by (rule reach.start) (simp add: freshProcess_def freshWorld_def)
qed (simp add: write_run)


theorem variables_keep_their_type_witness:
  "varName (varHeap (snd (writeFieldSet memEnv oneField ''y.nc'' afterWrite)) ! 0) = ''theta'' \<and>
   varType (varHeap (snd (writeFieldSet memEnv oneField ''y.nc'' afterWrite)) ! 0) = eDouble"
proof -
  have old: "0 < length (varHeap afterWrite)" "varName (varHeap afterWrite ! 0) = ''theta''"
      "varType (varHeap afterWrite ! 0) = eDouble"
    by code_simp+
  show ?thesis
    using variables_keep_their_type [of memEnv "WriteFieldSet oneField ''y.nc''" afterWrite _ _ 0,
        OF prod.collapse [symmetric] old(1)] old by simp
qed


section \<open>A file to disk and back\<close>

definition idleWorld :: "(MemDisk, string \<times> size_t) world" where
  "idleWorld = sampleWorld\<lparr>readerHeap := [\<lparr>rdOwner = 0, rdFile = None\<rparr>], writerHeap := [\<lparr>wrOwner = 0, wrFile = None\<rparr>]\<rparr>"

definition sampleFileData :: "(string \<times> size_t) FileData" where
  "sampleFileData = FileData_new\<lparr>fdMetadata := sampleMetadata,
    fdData := addContainer (DataContainerDouble ''theta'' [FNum 1, FNum 2, FNum 3, FNum 4, FNum 5, FNum 6]) Data_new\<rparr>"



section \<open>Shell commands and the destructor\<close>

theorem exec_returns_output_witness:
  "exec memEnv ''ncdump -h x.nc'' sampleWorld =
    (Inr (''sh -c '' @ [CHR 0x27] @ ''ncdump -h x.nc'' @ [CHR 0x27] @ '' 2>&1'' @ [CHR 0x0A]), sampleWorld)"
proof -
  let ?out = "shellCommand ''ncdump -h x.nc'' @ [CHR 0x0A]"
  have "osCommandOutput memEnv (shellCommand ''ncdump -h x.nc'') (outside sampleWorld) = (Inr ?out, outside sampleWorld)"
    by (simp add: memEnv_def)
  moreover have "CHR 0x00 \<notin> set ?out" by code_simp
  ultimately show ?thesis using exec_returns_output [of memEnv "''ncdump -h x.nc''" sampleWorld ?out]
    by (simp add: shellCommand_def)
qed



section \<open>An LFRic file read into a field\<close>

text \<open>Three points, in another order than the grid's, two levels, and one field.\<close>

definition lfricVars :: "Variable list" where
  "lfricVars = [
    \<lparr>varName = ''Mesh2d_face_x'', varType = eFloat, varDims = [(''nMesh2d_face'', 3)], varAttrs = smap_empty\<rparr>,
    \<lparr>varName = ''Mesh2d_face_y'', varType = eFloat, varDims = [(''nMesh2d_face'', 3)], varAttrs = smap_empty\<rparr>,
    \<lparr>varName = ''full_levels'', varType = eDouble, varDims = [(''full_levels'', 2)], varAttrs = smap_empty\<rparr>,
    \<lparr>varName = ''half_levels'', varType = eDouble, varDims = [(''half_levels'', 1)], varAttrs = smap_empty\<rparr>,
    \<lparr>varName = ''theta'', varType = eDouble, varDims = [(''full_levels'', 2), (''nMesh2d_face'', 3)],
      varAttrs = smap_put ''units'' (AttributeString ''units'' ''K'') smap_empty\<rparr>]"

definition lfricData :: "(string \<times> size_t) FileData" where
  "lfricData = FileData_new\<lparr>
    fdMetadata := fold (\<lambda>i. addVariable (varName (lfricVars ! i)) i) [0..<5]
      (addDimension ''full_levels'' 2 (addDimension ''half_levels'' 1 (addDimension ''nMesh2d_face'' 3 Metadata_new))),
    fdData := fold addContainer
      [DataContainerFloat ''Mesh2d_face_x'' [FNum 90, FNum 180, FNum 0],
       DataContainerFloat ''Mesh2d_face_y'' [FNum 20, FNum 30, FNum 10],
       DataContainerDouble ''full_levels'' [FNum 0, FNum 1],
       DataContainerDouble ''half_levels'' [FNum (1 / 2)],
       DataContainerDouble ''theta'' [FNum 1, FNum 2, FNum 3, FNum 4, FNum 5, FNum 6]] Data_new\<rparr>"

definition lfricDisk :: MemDisk where
  "lfricDisk = outside (snd (storeFile memEnv 0 ''l.nc'' lfricData (idleWorld\<lparr>varHeap := lfricVars\<rparr>)))"

text \<open>A process with one local field.\<close>

definition thetaField :: Field where
  "thetaField = \<lparr>fieldName = ''theta'', fieldSpace = 0, fieldGlobal = False, fieldShape = [3, 2],
    fieldArray = ArrDouble [[FNum 0, FNum 0], [FNum 0, FNum 0], [FNum 0, FNum 0]]\<rparr>"

definition lfricWorld :: "(MemDisk, string \<times> size_t) world" where
  "lfricWorld = idleWorld\<lparr>varHeap := [], fieldHeap := [thetaField], outside := lfricDisk\<rparr>"

definition thetaSet :: FieldSet where
  "thetaSet = \<lparr>fsFields = [0], fsIndex = smap_put ''theta'' 0 smap_empty\<rparr>"

definition thetaMetadata :: FieldMetadata where
  "thetaMetadata = \<lparr>lfricReadName = ''theta'', lfricWriteName = ''theta'', jediName = ''theta'', lfricVertConfig = '''',
    jediVertConfig = '''', units = ''K'', numberOfLevels = 2, noFirstLevel = False\<rparr>"

definition lfricCoords :: "(double \<times> double) list" where
  "lfricCoords = [(FNum 90, FNum 20), (FNum 180, FNum 30), (FNum 0, FNum 10)]"

lemma lfric_ready:
  "readyToRead memEnv memView memVals attOf ''F3'' ''l.nc'' lfricVars lfricData sampleMonio 3
    (lfricDisk\<lparr>dkOpen := dkOpen lfricDisk @ [''l.nc'']\<rparr>) lfricWorld"
  "fileCoords (fdData lfricData) = Some lfricCoords" "fileConvention (fdMetadata lfricData) = Some eLfricConvention"
proof -
  show coords: "fileCoords (fdData lfricData) = Some lfricCoords"
    and "fileConvention (fdMetadata lfricData) = Some eLfricConvention"
    by code_simp+
  have contents: "memView 3 (lfricDisk\<lparr>dkOpen := dkOpen lfricDisk @ [''l.nc'']\<rparr>) =
      Some (contentsOf ''l.nc'' attOf lfricVars (fdMetadata lfricData))"
    by code_simp
  have "list_all (\<lambda>e. memVals 3 (lfricDisk\<lparr>dkOpen := dkOpen lfricDisk @ [''l.nc'']\<rparr>) (fst e) = Some (valuesIn (snd e)))
      (entries (dataContainers (fdData lfricData)))"
    by code_simp
  moreover have "ncOpen memEnv ''l.nc'' nc_read lfricDisk = (Inr 3, lfricDisk\<lparr>dkOpen := dkOpen lfricDisk @ [''l.nc'']\<rparr>)"
    by code_simp
  moreover have "storableData lfricVars lfricData"
    "smap_find (dataContainers (fdData lfricData)) kVerticalFullName \<noteq> None"
    "smap_find (dataContainers (fdData lfricData)) kVerticalHalfName \<noteq> None"
    by code_simp+
  moreover have "sameGrid memEnv ''F3'' lfricCoords"
    by code_simp
  ultimately show "readyToRead memEnv memView memVals attOf ''F3'' ''l.nc'' lfricVars lfricData sampleMonio 3
      (lfricDisk\<lparr>dkOpen := dkOpen lfricDisk @ [''l.nc'']\<rparr>) lfricWorld"
    using contents coords by (simp add: readyToRead_def opensReader_def lfricWorld_def idleWorld_def sampleMonio_def readerSlot_def
        list_all_iff domIff)
qed



lemma memEnv_atlas:
  "atlasCalls memEnv
    (\<lambda>space opts. \<lparr>fieldName = optName opts, fieldSpace = space, fieldGlobal = True,
      fieldShape = [of_nat (length memGrid), optLevels opts],
      fieldArray = blankArray (optKind opts) (length memGrid) (unat (optLevels opts))\<rparr>)
    (\<lambda>from to. to\<lparr>fieldArray := fieldArray from\<rparr>) (\<lambda>from to. to\<lparr>fieldArray := fieldArray from\<rparr>) (\<lambda>field. field)"
  by (simp add: atlasCalls_def memEnv_def memCreateField_def memCopy_def)


section \<open>A field set written to a file\<close>

definition valueField :: Field where
  "valueField = thetaField\<lparr>fieldArray := ArrDouble [[FNum 1, FNum 2], [FNum 3, FNum 4], [FNum 5, FNum 6]]\<rparr>"

definition valueWorld :: "(MemDisk, string \<times> size_t) world" where
  "valueWorld = idleWorld\<lparr>fieldHeap := [valueField]\<rparr>"


end
