(* ===== verification/Write_Increments.thy ===== *)
theory Write_Increments
  imports Write_Field_Set
begin

text \<open>
  The parts of \<open>writeIncrements\<close> and \<open>writeState\<close>, in the LFRic convention (\<open>b = True\<close>) and in the JEDI
  convention (\<open>b = False\<close>): the file data after the
  clean-up, what a field becomes in them, and one round of the loop over the fields, which adds a field
  to the file data and to the file.
\<close>

section \<open>The file data after the clean-up\<close>

text \<open>
  File data of which the containers (apart from those that \<open>cleanFileData\<close> drops) can be written: each
  has its variable, which \<open>cleanFileData\<close> does not change.
\<close>

definition writable :: "Variable list \<Rightarrow> 't FileData \<Rightarrow> bool" where
  "writable vs fd \<longleftrightarrow> metadata_on vs (fdMetadata fd) \<and>
    list_all (\<lambda>e. fst e \<in> {kTimeVarName, kTileVarName} \<or>
        (case smap_find (mdVariables (fdMetadata fd)) (fst e) of
          None \<Rightarrow> False
        | Some r \<Rightarrow> varName (vs ! r) = fst e \<and> storableVar (fdMetadata fd) (vs ! r) \<and> fitting (vs ! r) (snd e) \<and>
            list_all (\<lambda>d. fst d \<noteq> kTimeDimName \<and> fst d \<noteq> kTileDimName) (varDims (vs ! r))))
      (entries (dataContainers (fdData fd)))"

lemma writableE:
  assumes "writable vs fd" and "smap_find (dataContainers (fdData fd)) k = Some c" and "k \<notin> {kTimeVarName, kTileVarName}"
  obtains r where "smap_find (mdVariables (fdMetadata fd)) k = Some r" and "r < length vs" and "varName (vs ! r) = k"
    and "storableVar (fdMetadata fd) (vs ! r)" and "fitting (vs ! r) c"
    and "\<forall>d \<in> set (varDims (vs ! r)). fst d \<noteq> kTimeDimName \<and> fst d \<noteq> kTileDimName"
proof -
  have "(k, c) \<in> set (entries (dataContainers (fdData fd)))" using assms(2) by (simp add: in_entries_iff)
  then obtain r where r: "smap_find (mdVariables (fdMetadata fd)) k = Some r" "varName (vs ! r) = k"
      "storableVar (fdMetadata fd) (vs ! r)" "fitting (vs ! r) c"
      "\<forall>d \<in> set (varDims (vs ! r)). fst d \<noteq> kTimeDimName \<and> fst d \<noteq> kTileDimName"
    using assms(1,3) by (auto simp: writable_def list_all_iff split: option.splits)
  have "(k, r) \<in> set (entries (mdVariables (fdMetadata fd)))" using r(1) by (simp add: in_entries_iff)
  then have "r < length vs" using assms(1) by (auto simp: writable_def metadata_on_def list_all_iff)
  with r show ?thesis by (intro that)
qed

lemma cleanFileData_storable:
  assumes "mpiRank w = moOwner this" and "wf_vars (varHeap w)" and "writable (varHeap w) fd"
  obtains m d vs where "cleanFileData E this fd w = (Inr (fd\<lparr>fdMetadata := m, fdData := d\<rparr>), w\<lparr>varHeap := vs\<rparr>)"
    and "storableData vs (fd\<lparr>fdMetadata := m, fdData := d\<rparr>)" and "mdGlobalAttrs m = smap_empty"
    and "\<forall>k. smap_find (mdDimensions m) k =
      (if k \<in> {kTimeDimName, kTileDimName} then None else smap_find (mdDimensions (fdMetadata fd)) k)"
    and "\<forall>k. smap_find (dataContainers d) k =
      (if k \<in> {kTimeVarName, kTileVarName} then None else smap_find (dataContainers (fdData fd)) k)"
    and "length vs = length (varHeap w)"
proof -
  have on: "metadata_on (varHeap w) (fdMetadata fd)" using assms(3) by (simp add: writable_def)
  obtain m d w' where clean: "cleanFileData E this fd w = (Inr (fd\<lparr>fdMetadata := m, fdData := d\<rparr>), w')"
      "mdGlobalAttrs m = smap_empty"
      "\<forall>k. smap_find (mdDimensions m) k =
        (if k \<in> {kTimeDimName, kTileDimName} then None else smap_find (mdDimensions (fdMetadata fd)) k)"
      "\<forall>k. smap_find (dataContainers d) k =
        (if k \<in> {kTimeVarName, kTileVarName} then None else smap_find (dataContainers (fdData fd)) k)"
      "\<forall>k. smap_find (mdVariables m) k =
        (if smap_find (dataContainers d) k = None then None else smap_find (mdVariables (fdMetadata fd)) k)"
      "w' = w\<lparr>varHeap := varHeap w'\<rparr>" "length (varHeap w') = length (varHeap w)"
      "\<forall>i < length (varHeap w). varHeap w' ! i = (if i \<in> snd ` set (entries (mdVariables (fdMetadata fd)))
        then (varHeap w ! i)\<lparr>varDims := filter (\<lambda>d. fst d \<noteq> kTimeDimName \<and> fst d \<noteq> kTileDimName)
               (varDims (varHeap w ! i))\<rparr>
        else varHeap w ! i)"
    using cleanFileData_run [OF assms(1,2) on, of E] by blast
  let ?vs = "varHeap w'"
  have same: "\<exists>r. smap_find (mdVariables m) k = Some r \<and> r < length ?vs \<and> varName (?vs ! r) = k \<and>
      storableVar m (?vs ! r) \<and> fitting (?vs ! r) c" if c: "smap_find (dataContainers d) k = Some c" for k c
  proof -
    have k: "k \<notin> {kTimeVarName, kTileVarName}" "smap_find (dataContainers (fdData fd)) k = Some c"
      using clean(4) c by (auto split: if_splits)
    obtain r where r: "smap_find (mdVariables (fdMetadata fd)) k = Some r" "r < length (varHeap w)" "varName (varHeap w ! r) = k"
        "storableVar (fdMetadata fd) (varHeap w ! r)" "fitting (varHeap w ! r) c"
        "\<forall>d \<in> set (varDims (varHeap w ! r)). fst d \<noteq> kTimeDimName \<and> fst d \<noteq> kTileDimName"
      using writableE [OF assms(3) k(2,1)] .
    have "?vs ! r = varHeap w ! r" using clean(8) r(2,6) by (simp add: filter_True)
    moreover have "storableVar m (varHeap w ! r)" using r(4,6) clean(3) by (auto simp: storableVar_def list_all_iff)
    ultimately show ?thesis using clean(5,7) c r(1-3,5) by simp
  qed
  have "storable ?vs m"
    unfolding storable_def list_all_iff
  proof (intro conjI ballI)
    fix e assume "e \<in> set (entries (mdVariables m))"
    then have e: "smap_find (mdVariables m) (fst e) = Some (snd e)" by (simp add: in_entries_iff [symmetric])
    then obtain c where "smap_find (dataContainers d) (fst e) = Some c" using clean(5) by (auto split: if_splits)
    from same [OF this] e show "snd e < length ?vs" "varName (?vs ! snd e) = fst e" "storableVar m (?vs ! snd e)"
      by auto
  qed (simp add: clean(2))
  moreover have "getVariableNames m = getDataContainerNames d"
    unfolding getVariableNames_def getDataContainerNames_def extractKeys_eq keys_eq_iff
    using same clean(5) by (fastforce simp: dom_def split: if_splits)
  ultimately have "storableData ?vs (fd\<lparr>fdMetadata := m, fdData := d\<rparr>)"
    using same by (fastforce simp: storableData_def list_all_iff in_entries_iff)
  then show ?thesis
    using clean(1-4,6,7) by (intro that [where m = m and d = d and vs = ?vs]) auto
qed

section \<open>The variable and the container of a field\<close>

definition fieldAttrs :: "FieldMetadata \<Rightarrow> (string, AttributeBase) smap" where
  "fieldAttrs fm = inserted (map (\<lambda>i. (kIncrementAttributeNames ! i,
    AttributeString (kIncrementAttributeNames ! i) (attributeValue fm i))) [0..<eNumberOfAttributeNames])"

text \<open>The variable of a field with \<open>n\<close> nodes, called \<open>nd\<close> as a dimension, and \<open>L\<close> levels, called \<open>vc\<close>.\<close>

definition fieldVar :: "FieldMetadata \<Rightarrow> string \<Rightarrow> string \<Rightarrow> nat \<Rightarrow> string \<Rightarrow> nat \<Rightarrow> Variable" where
  "fieldVar fm name vc L nd n = \<lparr>varName = name, varType = eDouble, varDims = [(vc, of_nat L), (nd, of_nat n)],
    varAttrs = fieldAttrs fm\<rparr>"

lemma attributeNames_distinct: "distinct kIncrementAttributeNames" "length kIncrementAttributeNames = eNumberOfAttributeNames"
  by (simp_all add: kIncrementAttributeNames_def)

lemma fieldAttrs_own: "smap_find (fieldAttrs fm) k = Some a \<Longrightarrow> attrName a = k"
  by (auto simp: fieldAttrs_def inserted_find dest!: map_of_SomeD)

lemma addFieldAttrs_loop:
  assumes "varAttrs v = smap_empty"
  shows "forS [0..<eNumberOfAttributeNames] (\<lambda>i. Variable_addAttribute E (length vs)
      (AttributeString (kIncrementAttributeNames ! i) (attributeValue fm i))) (building vs v w) =
    (Inr (), building vs (v\<lparr>varAttrs := fieldAttrs fm\<rparr>) w)"
proof -
  let ?a = "\<lambda>i. AttributeString (kIncrementAttributeNames ! i) (attributeValue fm i)"
  let ?es = "\<lambda>is. map (\<lambda>i. (kIncrementAttributeNames ! i, ?a i)) is"
  let ?Q = "\<lambda>ys w'. w' = building vs (v\<lparr>varAttrs := inserted (?es ys)\<rparr>) w"
  have "\<exists>w'. forS [0..<eNumberOfAttributeNames] (\<lambda>i. Variable_addAttribute E (length vs) (?a i)) (building vs v w) =
      (Inr (), w') \<and> ?Q [0..<eNumberOfAttributeNames] w'"
  proof (rule forS_rounds [where Q = ?Q])
    show "?Q [] (building vs v w)" using assms by (simp add: building_def inserted_def)
  next
    fix ys x zs w' assume split: "[0..<eNumberOfAttributeNames] = ys @ x # zs" and w': "?Q ys w'"
    have "distinct (map ((!) kIncrementAttributeNames) (ys @ x # zs))"
      unfolding split [symmetric] using attributeNames_distinct by (simp add: distinct_conv_nth)
    then have "map_of (?es ys) (kIncrementAttributeNames ! x) = None"
      by (auto simp: map_of_eq_None_iff image_iff)
    then show "\<exists>w''. Variable_addAttribute E (length vs) (?a x) w' = (Inr (), w'') \<and> ?Q (ys @ [x]) w''"
      using building_addAttribute [of "v\<lparr>varAttrs := inserted (?es ys)\<rparr>" "?a x" E vs w] w'
      by (simp add: inserted_find inserted_snoc)
  qed
  then show ?thesis by (simp add: fieldAttrs_def)
qed

text \<open>Dimensions of the metadata under which a field of this shape is declared.\<close>

definition declares :: "Metadata \<Rightarrow> string \<Rightarrow> nat \<Rightarrow> nat \<Rightarrow> bool" where
  "declares m vc L n \<longleftrightarrow> vc \<noteq> '''' \<and> smap_find (mdDimensions m) vc = Some (of_nat L) \<and>
    getDimensionName m (of_nat n) \<noteq> kNotFoundError \<and> vc \<noteq> kNotFoundError \<and> n \<noteq> L \<and> n < 2 ^ 31 \<and> L < 2 ^ 31"

lemma declares_name:
  assumes "declares m vc L n"
  shows "smap_find (mdDimensions m) (getDimensionName m (of_nat n)) = Some (of_nat n)" "getDimensionName m (of_nat n) \<noteq> vc"
proof -
  have n: "smap_find (mdDimensions m) (getDimensionName m (of_nat n)) = Some (of_nat n)"
    using assms getDimensionName_char [of m "of_nat n"]
    by (auto simp: declares_def kNotFoundError_def split: if_splits)
  then show "smap_find (mdDimensions m) (getDimensionName m (of_nat n)) = Some (of_nat n)" .
  show "getDimensionName m (of_nat n) \<noteq> vc"
    using assms n of_nat_int32_eq [of n L] by (auto simp: declares_def)
qed

lemma populateMetadataWithField_run:
  assumes "f < length (fieldHeap w)" and "fieldHeap w ! f = G" and "fieldGlobal G = True"
    and "fieldShape G = [of_nat n, of_nat L]" and "datatypeOf G = KIND_REAL64" and "declares m vc L n"
  shows "populateMetadataWithField E m f fm name vc w =
    (Inr (addVariable name (length (varHeap w)) m),
     w\<lparr>varHeap := varHeap w @ [fieldVar fm name vc L (getDimensionName m (of_nat n)) n]\<rparr>)"
proof -
  let ?nd = "getDimensionName m (of_nat n)"
  let ?v = "\<lambda>ds. \<lparr>varName = name, varType = eDouble, varDims = ds, varAttrs = smap_empty\<rparr>"
  have sizes: "n \<noteq> L" "n < 2 ^ 31" "L < 2 ^ 31" using assms(6) by (simp_all add: declares_def)
  have new: "Variable_new name eDouble w = (Inr (length (varHeap w)), building (varHeap w) (?v []) w)"
    by (simp add: Variable_new_def newVariable_def st_simps building_def)
  have add: "Variable_addDimension E (length (varHeap w)) k s (building (varHeap w) (?v ds) w) =
      (Inr (), building (varHeap w) (?v (ds @ [(k, s)])) w)" if "k \<notin> fst ` set ds" for k s ds
    using building_addDimension [of k "?v ds" E "varHeap w" s w] that by simp
  have "addVariableDimensions E f m (length (varHeap w)) vc (building (varHeap w) (?v []) w) =
      (Inr (), building (varHeap w) (?v [(vc, of_nat L), (?nd, of_nat n)]) w)"
    using assms(1-4,6) add [of vc "[]"] add [of ?nd "[(vc, of_nat L)]"] declares_name [OF assms(6)]
      of_nat_int32_eq [OF sizes(2,3)] sizes(1)
    by (simp add: addVariableDimensions_def st_simps bindS_Inr building_def isDimDefined_def getDimension_def declares_def
        int_to_size_of_nat [OF sizes(2)] int_to_size_of_nat [OF sizes(3)] Let_def)
  then show ?thesis
    using assms(1,2,5) new addFieldAttrs_loop [of "?v [(vc, of_nat L), (?nd, of_nat n)]" E "varHeap w" fm w]
    by (simp add: populateMetadataWithField_def atlasTypeToMonioEnum_def st_simps bindS_Inr fieldVar_def)
      (simp add: building_def)
qed

lemma populateDataWithField_run:
  assumes "mpiRank w = owner" and "f < length (fieldHeap w)" and "fieldShape (fieldHeap w ! f) = [of_nat (length lam), of_nat L]"
    and "fieldArray (fieldHeap w ! f) = ArrDouble rows" and "isMatrix (length lam) L rows" and "isOrderMap lam"
    and "length lam < 2 ^ 31" and "L < 2 ^ 31" and "length lam * L < 2 ^ 31"
  obtains data where "populateDataWithField E owner d f lam name w = (Inr (addContainer (DataContainerDouble name data) d), w)"
    and "length data = length lam * L" and "\<forall>i < length lam. \<forall>j < L. data ! position lam i j = rows ! i ! j"
proof -
  let ?blank = "replicate (length lam * L) (FNum 0)"
  have size: "\<And>w. DataContainerDouble_setSize [] (of_nat (length lam * L)) w = (Inr ?blank, w)"
    using assms(9) by (simp add: container_setSize_small(1) resize_list_def returnS_apply del: of_nat_mult)
  have rows: "hasRows tDouble f rows w" using assms(2,4) by (simp add: hasRows_def tDouble_def)
  let ?data = "fold (\<lambda>p v. v[position lam (fst p) (snd p) := rows ! fst p ! snd p]) (columnPairs (length lam) L) ?blank"
  have "populateDataVec E tDouble ?blank f lam w = (Inr ?data, w)"
    using rows assms(3,5-9) by (intro populateDataVec_run) simp_all
  then have "populateDataWithField E owner d f lam name w = (Inr (addContainer (DataContainerDouble name ?data) d), w)"
    using assms(1,2,4)
    by (simp add: getGlobalDataSize_run [OF assms(3,7-9)] size populateDataWithField_def populateDataContainerWithField_def
        addFilledContainer_def onRank_def st_simps datatypeOf_def container_clear_def bindS_Inr del: of_nat_mult)
  moreover have "\<forall>i < length lam. \<forall>j < L. ?data ! position lam i j = rows ! i ! j"
    using fold_columns_nth [OF assms(6), of _ _ L ?blank rows] by simp
  ultimately show ?thesis by (intro that [of ?data]) simp_all
qed

lemma addGlobalAttributes_frame [simp]:
  "mdDimensions (addGlobalAttributes m b) = mdDimensions m" "mdVariables (addGlobalAttributes m b) = mdVariables m"
  by (simp_all add: addGlobalAttributes_def Let_def)

lemma addGlobalAttributes_own:
  assumes "list_all (\<lambda>e. attrName (snd e) = fst e) (entries (mdGlobalAttrs m))"
  shows "list_all (\<lambda>e. attrName (snd e) = fst e) (entries (mdGlobalAttrs (addGlobalAttributes m b)))"
proof -
  have own: "\<forall>k a. smap_find (mdGlobalAttrs m) k = Some a \<longrightarrow> attrName a = k"
    using assms by (auto simp: list_all_iff in_entries_iff [symmetric])
  have "attrName a = k" if "smap_find (mdGlobalAttrs (addGlobalAttributes m b)) k = Some a" for k a
    using that own by (auto simp: addGlobalAttributes_def Let_def addGlobalAttr_def split: if_splits)
  then show ?thesis by (auto simp: list_all_iff in_entries_iff)
qed

text \<open>The convention, its names for a field and its level dimension, and the global attributes of a file.\<close>

definition convOf :: "bool \<Rightarrow> int32" where
  "convOf b = (if b then eLfricConvention else eJediConvention)"

definition writeName :: "bool \<Rightarrow> (FieldMetadata \<Rightarrow> string) \<Rightarrow> FieldMetadata \<Rightarrow> string" where
  "writeName b lfricName fm = (if b then lfricName fm else jediName fm)"

definition vertConfig :: "bool \<Rightarrow> FieldMetadata \<Rightarrow> string" where
  "vertConfig b fm = (if b then lfricVertConfig fm else jediVertConfig fm)"

definition ownAttrs :: "bool \<Rightarrow> (string, AttributeBase) smap" where
  "ownAttrs b = mdGlobalAttrs (addGlobalAttributes Metadata_new b)"

lemma ownAttrs_once:
  assumes "mdGlobalAttrs m \<in> {smap_empty, ownAttrs b}"
  shows "mdGlobalAttrs (addGlobalAttributes m b) = ownAttrs b"
  using assms by (auto simp: ownAttrs_def addGlobalAttributes_def Let_def addGlobalAttr_def Metadata_new_def)

lemma ownAttrs_convention:
  assumes "mdGlobalAttrs m = ownAttrs b"
  shows "fileConvention m = Some (convOf b)"
  using assms by (auto simp: convOf_def ownAttrs_def addGlobalAttributes_def Let_def addGlobalAttr_def fileConvention_def kProducedByName_def
      kVariableConventionName_def kNamingConventions_def Metadata_new_def split: if_splits)

text \<open>Storable file data with one more variable and its container.\<close>

lemma storableData_addVariable:
  assumes "storableData vs fd"
    and "smap_find (dataContainers (fdData fd)) name = None" and "varName v = name" and "containerName c = name"
    and "storableVar (fdMetadata fd) v" and "fitting v c"
  shows "storableData (vs @ [v])
    (fd\<lparr>fdMetadata := addVariable name (length vs) (fdMetadata fd), fdData := addContainer c (fdData fd)\<rparr>)"
proof -
  let ?m = "fdMetadata fd" and ?d = "fdData fd"
  let ?m' = "addVariable name (length vs) ?m" and ?d' = "addContainer c ?d"
  have names: "dom (smap_find (mdVariables ?m)) = dom (smap_find (dataContainers ?d))"
    using assms(1) by (simp add: storableData_def getVariableNames_def getDataContainerNames_def extractKeys_eq keys_eq_iff)
  then have new: "smap_find (mdVariables ?m) name = None" using assms(2) by (auto simp: domIff)
  have added: "list_all (\<lambda>e. attrName (snd e) = fst e) (entries (mdGlobalAttrs (addVariable name (length vs) ?m)))"
    using assms(1) by (simp add: storableData_def storable_def)
  have vars: "smap_find (mdVariables (addVariable name (length vs) ?m)) k = (if k = name then Some (length vs) else smap_find (mdVariables ?m) k)" for k
    using new by (simp add: addVariable_def)
  have var: "storableVar (addVariable k r m) x = storableVar m x" for k r m x
    by (simp add: storableVar_def)
  have at: "r < length (vs @ [v]) \<and> varName ((vs @ [v]) ! r) = k \<and> storableVar ?m' ((vs @ [v]) ! r)"
    if "smap_find (mdVariables ?m') k = Some r" for k r
  proof (cases "k = name")
    case True
    then show ?thesis using that assms(3,5) by (auto simp: vars var)
  next
    case False
    then have "smap_find (mdVariables ?m) k = Some r" using that by (simp add: vars)
    then show ?thesis using storableD [of vs ?m k r] assms(1) by (simp add: var storableData_def nth_append)
  qed
  have "storable (vs @ [v]) ?m'"
    using at added by (auto simp: storable_def list_all_iff in_entries_iff)
  moreover have "getVariableNames ?m' = getDataContainerNames ?d'"
    unfolding getVariableNames_def getDataContainerNames_def extractKeys_eq keys_eq_iff
    using names assms(4) by (auto simp: dom_def vars split: if_splits)
  moreover have "fitting ((vs @ [v]) ! the (smap_find (mdVariables ?m') k)) x" if "smap_find (dataContainers ?d') k = Some x" for k x
  proof (cases "k = name")
    case False
    with that have x: "smap_find (dataContainers ?d) k = Some x" using assms(4) by simp
    obtain r where "smap_find (mdVariables ?m) k = Some r" "r < length vs" "fitting (vs ! r) x"
      using storableDataE [OF assms(1) x] .
    with False show ?thesis by (simp add: vars nth_append)
  qed (use that assms(2,4,6) in \<open>simp add: vars\<close>)
  ultimately show ?thesis
    by (auto simp: storableData_def list_all_iff in_entries_iff)
qed

lemma storableData_attrs:
  assumes "storableData vs fd"
  shows "storableData vs (fd\<lparr>fdMetadata := addGlobalAttributes (fdMetadata fd) b\<rparr>)"
proof -
  have "storableVar (addGlobalAttributes m b) v = storableVar m v" for m v by (simp add: storableVar_def)
  then show ?thesis
    using assms addGlobalAttributes_own [of "fdMetadata fd" b]
    by (simp add: storableData_def storable_def getVariableNames_def)
qed

lemma storableData_dimension:
  assumes "storableData vs fd"
  shows "storableData vs (fd\<lparr>fdMetadata := addDimension k n (fdMetadata fd)\<rparr>)"
proof -
  have "storableVar m v \<Longrightarrow> storableVar (addDimension k n m) v" for m v
    by (fastforce simp: storableVar_def list_all_iff addDimension_def)
  moreover have "mdVariables (addDimension k n m) = mdVariables m" "mdGlobalAttrs (addDimension k n m) = mdGlobalAttrs m" for m
    by (simp_all add: addDimension_def)
  ultimately show ?thesis
    using assms by (auto simp: storableData_def storable_def getVariableNames_def list_all_iff)
qed

lemma storableData_add:
  assumes "storableData vs fd"
    and "smap_find (dataContainers (fdData fd)) name = None" and "varName v = name" and "containerName c = name"
    and "storableVar (fdMetadata fd) v" and "fitting v c"
  shows "storableData (vs @ [v])
    (fd\<lparr>fdMetadata := addGlobalAttributes (addVariable name (length vs) (fdMetadata fd)) b, fdData := addContainer c (fdData fd)\<rparr>)"
  using storableData_attrs [OF storableData_addVariable [OF assms], of b] by (cases fd) simp

lemma fieldVar_storable:
  assumes "declares m vc L n" and "length data = n * L" and "n * L < 2 ^ 31"
  shows "storableVar m (fieldVar fm name vc L (getDimensionName m (of_nat n)) n)"
    and "fitting (fieldVar fm name vc L (getDimensionName m (of_nat n)) n) (DataContainerDouble name data)"
proof -
  have sizes: "n < 2 ^ 31" "L < 2 ^ 31" "smap_find (mdDimensions m) vc = Some (of_nat L)" using assms(1) by (simp_all add: declares_def)
  show "storableVar m (fieldVar fm name vc L (getDimensionName m (of_nat n)) n)"
    using declares_name [OF assms(1)] sizes(3)
    by (auto simp: storableVar_def fieldVar_def wf_variable_def list_all_iff in_entries_iff fieldAttrs_own
        int_to_size_of_nat [OF sizes(1)] int_to_size_of_nat [OF sizes(2)])
  show "fitting (fieldVar fm name vc L (getDimensionName m (of_nat n)) n) (DataContainerDouble name data)"
    using assms(2,3) sizes(1,2) by (simp add: fitting_def fieldVar_def unat_of_nat_size mult.commute)
qed

section \<open>One field\<close>

text \<open>\<open>fd\<close> with the field in it, and what \<open>populateFileDataWithField\<close> does.\<close>

definition withField ::
    "bool \<Rightarrow> 't FileData \<Rightarrow> nat \<Rightarrow> string \<Rightarrow> double list \<Rightarrow> 't FileData" where
  "withField b fd r name data = fd\<lparr>fdMetadata := addGlobalAttributes (addVariable name r (fdMetadata fd)) b,
    fdData := addContainer (DataContainerDouble name data) (fdData fd)\<rparr>"

text \<open>
  In the LFRic convention a field without a surface level and with 70 levels is copied to a field of 71
  levels first, which Atlas creates, and a field with 71 levels must have one at the surface.
\<close>

definition surfaceCopies :: "bool \<Rightarrow> (nat \<Rightarrow> FieldOptions \<Rightarrow> Field) \<Rightarrow> nat \<Rightarrow> FieldMetadata \<Rightarrow> string \<Rightarrow> nat \<Rightarrow> nat \<Rightarrow> bool" where
  "surfaceCopies b created space fm name n L \<longleftrightarrow> \<not> (b \<and> noFirstLevel fm \<and> L = 71) \<and>
    (skipped (convOf b) fm L = 0 \<or>
     (let c = created space \<lparr>optName = name, optLevels = kVerticalFullSize, optKind = KIND_REAL64\<rparr> in
      fieldGlobal c \<and> fieldShape c = [of_nat n, 71] \<and> (case fieldArray c of ArrDouble old \<Rightarrow> isMatrix n 71 old | _ \<Rightarrow> False)))"

lemma writeSource_run:
  fixes E :: "('d, 't) env"
  assumes "atlasCalls E created gathered scattered exchanged"
    and "f < length (fieldHeap w)" and "fieldHeap w ! f = G" and "fieldGlobal G = True"
    and "fieldShape G = [of_nat n, of_nat L]" and "fieldArray G = ArrDouble rows" and "isMatrix n L rows"
    and "surfaceCopies b created (fieldSpace G) fm name n L" and "s = skipped (convOf b) fm L"
    and "\<not> (b \<and> findInVector kMissingVariableNames name)" and "n < 2 ^ 31" and "L + s < 2 ^ 31"
  obtains g x rows' y more where
    "(if b then getWriteField E f name (noFirstLevel fm) else returnS f) w = (Inr g, w\<lparr>fieldHeap := (fieldHeap w)[f := y] @ more\<rparr>)"
    and "g < length ((fieldHeap w)[f := y] @ more)" and "((fieldHeap w)[f := y] @ more) ! g = x" and "fieldGlobal x = True"
    and "fieldShape x = [of_nat n, of_nat (L + s)]" and "fieldArray x = ArrDouble rows'" and "isMatrix n (L + s) rows'"
    and "\<forall>i < n. \<forall>j < L + s. rows' ! i ! j = rows ! i ! (j - s)"
proof -
  have kind: "datatypeOf G = KIND_REAL64" using assms(6) by (simp add: datatypeOf_def)
  have level: "of_nat L = (71 :: int32) \<longleftrightarrow> L = 71" "of_nat L = (70 :: int32) \<longleftrightarrow> L = 70"
    using of_nat_int32_eq [of L 71] of_nat_int32_eq [of L 70] assms(12) by simp_all
  show ?thesis
  proof (cases "s = 0")
    case True
    show ?thesis
    proof (cases b)
      case True
      then have "\<not> (noFirstLevel fm \<and> (L = 70 \<or> L = 71))"
        using assms(8,9) \<open>s = 0\<close> by (auto simp: surfaceCopies_def skipped_def skippedLevels_def convOf_def split: if_splits)
      then have run: "(if b then getWriteField E f name (noFirstLevel fm) else returnS f) w =
          (Inr f, w\<lparr>fieldHeap := (fieldHeap w)[f := G\<lparr>fieldName := name\<rparr>] @ []\<rparr>)"
        using assms(2,3,5,10) True kind level
        by (auto simp: getWriteField_def st_simps bindS_Inr shapeAt_def setField_def codedKind_def)
      show ?thesis
        by (rule that [OF run, where x = "G\<lparr>fieldName := name\<rparr>" and rows' = rows]) (use assms(2,4-7) \<open>s = 0\<close> in simp_all)
    next
      case False
      then have run: "(if b then getWriteField E f name (noFirstLevel fm) else returnS f) w =
          (Inr f, w\<lparr>fieldHeap := (fieldHeap w)[f := G] @ []\<rparr>)"
        using assms(3) by (auto simp: returnS_apply list_update_id)
      show ?thesis
        by (rule that [OF run, where x = G and rows' = rows]) (use assms(2,4-7) \<open>s = 0\<close> in simp_all)
    qed
  next
    case False
    then have skip: "noFirstLevel fm = True" "L = 70" "s = 1" "b"
      using assms(9) by (auto simp: skipped_def skippedLevels_def convOf_def split: if_splits)
    let ?c = "created (fieldSpace G) \<lparr>optName = name, optLevels = kVerticalFullSize, optKind = KIND_REAL64\<rparr>"
    obtain old where c: "fieldGlobal ?c = True" "fieldShape ?c = [of_nat n, 71]" "fieldArray ?c = etArray tDouble old" "isMatrix n 71 old"
      using assms(8,9) False by (auto simp: surfaceCopies_def Let_def tDouble_def split: FieldArray.splits)
    have arr: "etArray tDouble = ArrDouble" by (simp add: tDouble_def)
    let ?x = "?c\<lparr>fieldArray := ArrDouble (matrix n 71 (\<lambda>i j. rows ! i ! (j - 1)))\<rparr>"
    have "copySurfaceLevel E tDouble f (fieldSpace G) \<lparr>optName = name, optLevels = kVerticalFullSize, optKind = KIND_REAL64\<rparr> w =
        (Inr (length (fieldHeap w)), w\<lparr>fieldHeap := fieldHeap w @ [?x]\<rparr>)"
      using copySurfaceLevel_run [of tDouble f rows w n L E "fieldSpace G"
          "\<lparr>optName = name, optLevels = kVerticalFullSize, optKind = KIND_REAL64\<rparr>" ?c "outside w" old]
        assms(1-3,5-7,11) c(3,4) skip(2) by (simp add: hasRows_def atlasCalls_def arr)
    then have run: "(if b then getWriteField E f name (noFirstLevel fm) else returnS f) w =
        (Inr (length (fieldHeap w)), w\<lparr>fieldHeap := (fieldHeap w)[f := G] @ [?x]\<rparr>)"
      using assms(2,3,5,10) kind skip by (auto simp: getWriteField_def st_simps bindS_Inr shapeAt_def codedKind_def list_update_id)
    have x: "((fieldHeap w)[f := G] @ [?x]) ! length (fieldHeap w) = ?x" by (simp add: nth_append)
    show ?thesis
      by (rule that [OF run _ x, where rows' = "matrix n 71 (\<lambda>i j. rows ! i ! (j - 1))"]) (use c(1,2) skip in simp_all)
  qed
qed

lemma populateFileDataWithField_run:
  fixes E :: "('d, 't) env"
  assumes "atlasCalls E created gathered scattered exchanged"
    and "mpiRank w = owner" and "f < length (fieldHeap w)" and "fieldHeap w ! f = G" and "fieldGlobal G = True"
    and "fieldShape G = [of_nat n, of_nat L]" and "fieldArray G = ArrDouble rows" and "isMatrix n L rows"
    and "fdLfricAtlasMap fd = lam" and "isOrderMap lam" and "length lam = n" and "s = skipped (convOf b) fm L"
    and "n * (L + s) < 2 ^ 31" and "declares (fdMetadata fd) vc (L + s) n" and "surfaceCopies b created (fieldSpace G) fm name n L"
    and "\<not> (b \<and> findInVector kMissingVariableNames name)" and "storableData (varHeap w) fd"
    and "smap_find (dataContainers (fdData fd)) name = None"
  obtains data y more where "populateFileDataWithField E owner fd f fm name vc b w =
      (Inr (withField b fd (length (varHeap w)) name data), w\<lparr>fieldHeap := (fieldHeap w)[f := y] @ more,
        varHeap := varHeap w @ [fieldVar fm name vc (L + s) (getDimensionName (fdMetadata fd) (of_nat n)) n]\<rparr>)"
    and "length data = n * (L + s)" and "\<forall>i < n. \<forall>j < L + s. data ! position lam i j = rows ! i ! (j - s)"
proof -
  let ?v = "fieldVar fm name vc (L + s) (getDimensionName (fdMetadata fd) (of_nat n)) n"
  have sizes: "n < 2 ^ 31" "L + s < 2 ^ 31" using assms(14) by (simp_all add: declares_def)
  obtain g x rows' y more where named: "(if b then getWriteField E f name (noFirstLevel fm) else returnS f) w = (Inr g, w\<lparr>fieldHeap := (fieldHeap w)[f := y] @ more\<rparr>)"
      "g < length ((fieldHeap w)[f := y] @ more)" "((fieldHeap w)[f := y] @ more) ! g = x" "fieldGlobal x = True"
      "fieldShape x = [of_nat n, of_nat (L + s)]" "fieldArray x = ArrDouble rows'" "isMatrix n (L + s) rows'"
      "\<forall>i < n. \<forall>j < L + s. rows' ! i ! j = rows ! i ! (j - s)"
    by (rule writeSource_run [OF assms(1,3-8,15,12,16) sizes])
  let ?w1 = "w\<lparr>fieldHeap := (fieldHeap w)[f := y] @ more\<rparr>"
  let ?w2 = "?w1\<lparr>varHeap := varHeap w @ [?v]\<rparr>"
  have metadata: "populateMetadataWithField E (fdMetadata fd) g fm name vc ?w1 =
      (Inr (addVariable name (length (varHeap w)) (fdMetadata fd)), ?w2)"
    using populateMetadataWithField_run [of g ?w1 x n "L + s" "fdMetadata fd" vc E fm name] named(2-6) assms(14)
    by (simp add: datatypeOf_def del: of_nat_add)
  obtain data where data: "populateDataWithField E owner (fdData fd) g lam name ?w2 =
        (Inr (addContainer (DataContainerDouble name data) (fdData fd)), ?w2)"
      "length data = length lam * (L + s)" "\<forall>i < length lam. \<forall>j < L + s. data ! position lam i j = rows' ! i ! j"
    using populateDataWithField_run [of ?w2 owner g lam "L + s" rows' E "fdData fd" name] assms(2,10,11,13) named(2-7) sizes
    by (auto simp del: of_nat_add)
  have "populateFileDataWithField E owner fd f fm name vc b w = (Inr (withField b fd (length (varHeap w)) name data), ?w2)"
    using assms(2,9) named(1) metadata data(1)
    by (simp add: populateFileDataWithField_def onRank_def st_simps bindS_Inr withField_def)
  moreover have "\<forall>i < n. \<forall>j < L + s. data ! position lam i j = rows ! i ! (j - s)"
    using data(3) named(8) assms(11) by simp
  ultimately show ?thesis using data(2) assms(11) by (intro that [of data y more]) simp_all
qed

text \<open>
  What has been written: file data \<open>T\<close>, while \<open>fd\<close> is what the loop keeps. Before the first field that
  is \<open>T\<close> itself and the file is empty; later it is \<open>T\<close> with its variables, attributes and data cleared,
  and the file has the contents and the values of \<open>T\<close>.
\<close>

definition hasValues :: "'d values_view \<Rightarrow> nat \<Rightarrow> Data \<Rightarrow> 'd \<Rightarrow> bool" where
  "hasValues vals h D d \<longleftrightarrow> (\<forall>k c. smap_find (dataContainers D) k = Some c \<longrightarrow> vals h d k = Some (valuesIn c))"

definition written ::
    "bool \<Rightarrow> 'd contents_view \<Rightarrow> 'd values_view \<Rightarrow> (string \<Rightarrow> PutValue \<Rightarrow> NcAtt) \<Rightarrow> string \<Rightarrow> nat \<Rightarrow> Variable list \<Rightarrow>
     't FileData \<Rightarrow> 'd \<Rightarrow> bool" where
  "written b view vals att p h vs T d \<longleftrightarrow> storableData vs T \<and> mdGlobalAttrs (fdMetadata T) = ownAttrs b \<and>
    view h d = Some (contentsOf p att vs (fdMetadata T)) \<and> hasValues vals h (fdData T) d"

definition writing ::
    "bool \<Rightarrow> 'd contents_view \<Rightarrow> 'd values_view \<Rightarrow> (string \<Rightarrow> PutValue \<Rightarrow> NcAtt) \<Rightarrow> string \<Rightarrow> nat \<Rightarrow> Variable list \<Rightarrow>
     't FileData \<Rightarrow> 't FileData \<Rightarrow> 'd \<Rightarrow> bool" where
  "writing b view vals att p h vs T fd d \<longleftrightarrow>
    fd = T \<and> storableData vs T \<and> mdGlobalAttrs (fdMetadata T) = smap_empty \<and> view h d = Some (emptyContents p) \<or>
    fd = clearData T \<and> written b view vals att p h vs T d"

lemma clearData_storable: "storableData vs (clearData T)"
  by (simp add: storableData_def clearData_def Metadata_clear_def Data_clear_def storable_def getVariableNames_def
      getDataContainerNames_def extractKeys_eq keys_eq_iff dom_def)

lemma clearData_withField: "clearData (withField b (clearData T) r name data) = clearData (withField b T r name data)"
  by (simp add: clearData_def withField_def Metadata_clear_def Data_clear_def addVariable_def)

lemma withField_find:
  assumes "storableData vs T" and "smap_find (dataContainers (fdData T)) name = None"
  shows "smap_find (mdVariables (fdMetadata (withField b T r name data))) k =
      (if k = name then Some r else smap_find (mdVariables (fdMetadata T)) k)"
    and "smap_find (dataContainers (fdData (withField b T r name data))) k =
      (if k = name then Some (DataContainerDouble name data) else smap_find (dataContainers (fdData T)) k)"
    and "mdVariables (fdMetadata (withField b T r name data)) = smap_insert name r (mdVariables (fdMetadata T))"
    and "mdDimensions (fdMetadata (withField b T r name data)) = mdDimensions (fdMetadata T)"
    and "fdLfricAtlasMap (withField b T r name data) = fdLfricAtlasMap T"
proof -
  have "smap_find (mdVariables (fdMetadata T)) name = None"
    using assms by (auto simp: storableData_def getVariableNames_def getDataContainerNames_def extractKeys_eq keys_eq_iff domIff)
  then show "smap_find (mdVariables (fdMetadata (withField b T r name data))) k =
      (if k = name then Some r else smap_find (mdVariables (fdMetadata T)) k)"
    and "mdVariables (fdMetadata (withField b T r name data)) = smap_insert name r (mdVariables (fdMetadata T))"
    and "mdDimensions (fdMetadata (withField b T r name data)) = mdDimensions (fdMetadata T)"
    by (simp_all add: withField_def addVariable_def)
  show "smap_find (dataContainers (fdData (withField b T r name data))) k =
      (if k = name then Some (DataContainerDouble name data) else smap_find (dataContainers (fdData T)) k)"
    using assms(2) by (simp add: withField_def addContainer_def)
qed (simp add: withField_def)

text \<open>What a later field adds to the contents.\<close>

lemma merge_withField:
  assumes "storableData vs T" and "smap_find (dataContainers (fdData T)) name = None" and "mdGlobalAttrs (fdMetadata T) = ownAttrs b"
  shows "mergeContents (contentsOf p att vs (fdMetadata T))
      (contentsOf p att (vs @ [v]) (fdMetadata (withField b (clearData T) (length vs) name data))) =
    contentsOf p att (vs @ [v]) (fdMetadata (withField b T (length vs) name data))"
proof -
  let ?new = "fdMetadata (withField b (clearData T) (length vs) name data)" and ?all = "fdMetadata (withField b T (length vs) name data)"
  let ?enc = "\<lambda>vs e. (fst e, ncVarOf att (vs ! snd e))"
  have sorted: "sortedContents (contentsOf p att vs (fdMetadata T))" by (rule contentsOf_sorted)
  have attrs: "mdGlobalAttrs ?new = ownAttrs b" "mdGlobalAttrs ?all = ownAttrs b"
    using assms(3) by (simp_all add: withField_def ownAttrs_once clearData_def Metadata_clear_def)
  have dims: "mdDimensions ?new = mdDimensions (fdMetadata T)" "mdDimensions ?all = mdDimensions (fdMetadata T)"
    by (simp_all add: withField_def clearData_def Metadata_clear_def)
  have "mdVariables ?new = smap_insert name (length vs) smap_empty"
    by (simp add: withField_def clearData_def Metadata_clear_def addVariable_def)
  then have "entries (mdVariables ?new) = [(name, length vs)]" by (simp add: smap_insert.rep_eq smap_empty.rep_eq)
  then have one: "ctVars (contentsOf p att (vs @ [v]) ?new) = [(name, ncVarOf att v)]" by (simp add: contentsOf_def)
  have old: "ctVars (contentsOf p att vs (fdMetadata T)) = map (?enc (vs @ [v])) (entries (mdVariables (fdMetadata T)))"
    using assms(1) by (auto simp: contentsOf_def storableData_def storable_def list_all_iff nth_append)
  have "entries (mdVariables ?all) = ins_entry name (length vs) (entries (mdVariables (fdMetadata T)))"
    using withField_find(3) [OF assms(1,2)] by (simp add: smap_insert.rep_eq)
  then have "ctVars (contentsOf p att (vs @ [v]) ?all) =
      ins_entry name (ncVarOf att v) (map (?enc (vs @ [v])) (entries (mdVariables (fdMetadata T))))"
    by (simp add: contentsOf_def map_ins_entry)
  then have "merge_entries (ctVars (contentsOf p att vs (fdMetadata T))) [(name, ncVarOf att v)] =
      ctVars (contentsOf p att (vs @ [v]) ?all)"
    unfolding old by (simp add: merge_entries_def)
  moreover have "merge_entries (ctDims (contentsOf p att vs (fdMetadata T))) (ctDims (contentsOf p att (vs @ [v]) ?new)) =
      ctDims (contentsOf p att (vs @ [v]) ?all)"
    using sorted dims by (subst merge_entries_present) (simp_all add: sortedContents_def contentsOf_def)
  moreover have "merge_entries (ctAtts (contentsOf p att vs (fdMetadata T))) (ctAtts (contentsOf p att (vs @ [v]) ?new)) =
      ctAtts (contentsOf p att (vs @ [v]) ?all)"
    using sorted attrs assms(3) by (subst merge_entries_present) (simp_all add: sortedContents_def contentsOf_def)
  ultimately show ?thesis unfolding mergeContents_def one by (simp add: contentsOf_def)
qed

lemma writing_parts:
  assumes "writing b view vals att p h vs T fd d"
  shows "storableData vs T" and "storableData vs fd" and "mdDimensions (fdMetadata fd) = mdDimensions (fdMetadata T)"
    and "fdLfricAtlasMap fd = fdLfricAtlasMap T"
    and "smap_find (dataContainers (fdData T)) name = None \<Longrightarrow> smap_find (dataContainers (fdData fd)) name = None"
  using assms clearData_storable [of vs T]
  by (auto simp: writing_def written_def clearData_def Metadata_clear_def Data_clear_def)

lemma declares_dims:
  "mdDimensions m = mdDimensions m' \<Longrightarrow> declares m vc L n = declares m' vc L n"
  "mdDimensions m = mdDimensions m' \<Longrightarrow> getDimensionName m k = getDimensionName m' k"
  by (simp_all add: declares_def getDimensionName_def)

text \<open>
  The contents of the file before a field is written: what the field adds to them completes them, they
  have no variable of its name, and all that is not kept in memory any more is in them.
\<close>

lemma contentsOf_keys:
  assumes "storableData vs T"
  shows "fst ` set (ctVars (contentsOf p att vs (fdMetadata T))) = dom (smap_find (dataContainers (fdData T)))"
proof -
  have "fst ` set (ctVars (contentsOf p att vs (fdMetadata T))) = set (smap_keys (mdVariables (fdMetadata T)))"
    by (simp add: contentsOf_def image_image smap_keys_def)
  then show ?thesis
    using assms by (simp add: set_keys storableData_def getVariableNames_def getDataContainerNames_def extractKeys_eq keys_eq_iff)
qed

lemma writing_contents:
  assumes "writing b view vals att p h vs T fd d" and "smap_find (dataContainers (fdData T)) name = None"
  obtains c where "view h d = Some c" and "sortedContents c"
    and "mergeContents c (contentsOf p att (vs @ [v]) (fdMetadata (withField b fd (length vs) name data))) =
      contentsOf p att (vs @ [v]) (fdMetadata (withField b T (length vs) name data))"
    and "map_of (ctVars c) name = None"
    and "\<And>k x. smap_find (dataContainers (fdData T)) k = Some x \<Longrightarrow> smap_find (dataContainers (fdData fd)) k = None \<Longrightarrow>
      k \<in> fst ` set (ctVars c) \<and> vals h d k = Some (valuesIn x)"
    and "\<And>k x. smap_find (dataContainers (fdData fd)) k = Some x \<Longrightarrow> smap_find (dataContainers (fdData T)) k = Some x"
proof (cases "fd = T \<and> view h d = Some (emptyContents p)")
  case True
  then show ?thesis
    by (intro that [of "emptyContents p"]) (simp_all add: emptyContents_sorted mergeContents_empty, simp_all add: emptyContents_def)
next
  case False
  let ?c = "contentsOf p att vs (fdMetadata T)"
  have T: "fd = clearData T" "storableData vs T" "mdGlobalAttrs (fdMetadata T) = ownAttrs b" "view h d = Some ?c"
      "hasValues vals h (fdData T) d"
    using assms(1) False by (auto simp: writing_def written_def)
  note keys = contentsOf_keys [OF T(2), of p att]
  show ?thesis
  proof (rule that [of ?c])
    show "mergeContents ?c (contentsOf p att (vs @ [v]) (fdMetadata (withField b fd (length vs) name data))) =
        contentsOf p att (vs @ [v]) (fdMetadata (withField b T (length vs) name data))"
      unfolding T(1) by (rule merge_withField [OF T(2) assms(2) T(3)])
    show "map_of (ctVars ?c) name = None" using keys assms(2) by (simp add: map_of_eq_None_iff domIff)
  qed (use T(1,4,5) keys in \<open>auto simp: contentsOf_sorted hasValues_def clearData_def Data_clear_def\<close>)
qed

lemma contentsOf_dataFor:
  assumes "storableData vs D" and "storableData vs D'"
    and "\<And>k x. smap_find (dataContainers (fdData D)) k = Some x \<Longrightarrow> smap_find (dataContainers (fdData D')) k = Some x"
  shows "dataFor att (contentsOf p att vs (fdMetadata D')) D"
  unfolding dataFor_def
proof (intro allI impI)
  fix k x assume x: "smap_find (dataContainers (fdData D)) k = Some x"
  then obtain r where "smap_find (mdVariables (fdMetadata D)) k = Some r" by (rule storableDataE [OF assms(1)])
  moreover obtain r' where "smap_find (mdVariables (fdMetadata D')) k = Some r'" "fitting (vs ! r') x"
    using storableDataE [OF assms(2) assms(3) [OF x]] by metis
  ultimately show "smap_find (mdVariables (fdMetadata D)) k \<noteq> None \<and>
      (\<exists>v'. map_of (ctVars (contentsOf p att vs (fdMetadata D'))) k = Some (ncVarOf att v') \<and> fitting v' x)"
    using contentsOf_var by blast
qed

text \<open>Writing the metadata and the data of the file data with the new field completes the file.\<close>

lemma Writer_write_field:
  fixes E :: "('d, 't) env"
  assumes "ncStore E view att" and "ncData E view vals" and "definesOnly E vals" and "writingWith r fi h w"
    and "writing b view vals att p h vs T fd (outside w)" and "varHeap w = vs @ [v]" and "varName v = name"
    and "smap_find (dataContainers (fdData T)) name = None"
    and "storableVar (fdMetadata T) v" and "fitting v (DataContainerDouble name data)"
  obtains da d where
    "Writer_writeMetadata E r (fdMetadata (withField b fd (length vs) name data)) w = (Inr (), w\<lparr>outside := da\<rparr>)"
    and "Writer_writeData E r (withField b fd (length vs) name data) (w\<lparr>outside := da\<rparr>) = (Inr (), w\<lparr>outside := d\<rparr>)"
    and "written b view vals att p h (vs @ [v]) (withField b T (length vs) name data) d"
proof -
  let ?fd = "withField b fd (length vs) name data" and ?T = "withField b T (length vs) name data"
  let ?all = "contentsOf p att (vs @ [v]) (fdMetadata ?T)"
  note parts = writing_parts [OF assms(5)]
  have absent: "smap_find (dataContainers (fdData fd)) name = None" using parts(5) assms(8) .
  note in_fd = withField_find(2) [OF parts(2) absent] and in_T = withField_find(2) [OF parts(1) assms(8)]
  have attrs: "mdGlobalAttrs (fdMetadata ?T) = ownAttrs b"
    using assms(5) by (auto simp: writing_def written_def withField_def intro!: ownAttrs_once)
  have fits: "storableVar (fdMetadata fd) v" using assms(9) parts(3) by (simp add: storableVar_def)
  have new: "storableData (vs @ [v]) ?fd" "storableData (vs @ [v]) ?T"
    unfolding withField_def using assms(7-10) absent fits parts(1,2) by (simp_all add: storableData_add)
  have storable: "storable (varHeap w) (fdMetadata ?fd)" using new(1) assms(6) by (simp add: storableData_def)
  obtain c where c: "view h (outside w) = Some c" "sortedContents c"
      "mergeContents c (contentsOf p att (vs @ [v]) (fdMetadata ?fd)) = ?all" "map_of (ctVars c) name = None"
    "\<And>k x. smap_find (dataContainers (fdData T)) k = Some x \<Longrightarrow> smap_find (dataContainers (fdData fd)) k = None \<Longrightarrow>
      k \<in> fst ` set (ctVars c) \<and> vals h (outside w) k = Some (valuesIn x)"
    "\<And>k x. smap_find (dataContainers (fdData fd)) k = Some x \<Longrightarrow> smap_find (dataContainers (fdData T)) k = Some x"
    using writing_contents [OF assms(5,8), of v data] by blast
  have later: "mergeContents c (contentsOf p att (varHeap w) (fdMetadata ?fd)) = ?all" using c(3) assms(6) by simp
  have sizes: "\<forall>k n. smap_find (mdDimensions (fdMetadata ?fd)) k = Some n \<longrightarrow>
      map_of (merge_entries (ctDims c) (ctDims (contentsOf p att (varHeap w) (fdMetadata ?fd)))) k = Some (int_to_size n)"
    using arg_cong [OF later, of ctDims] parts(3) contentsOf_dims [of "fdMetadata ?T" _ _ p att "vs @ [v]"]
    by (simp add: mergeContents_def withField_def)
  have data: "dataFor att (mergeContents c (contentsOf p att (varHeap w) (fdMetadata ?fd))) ?fd"
    unfolding later using c(6) in_fd in_T by (intro contentsOf_dataFor [OF new]) (auto split: if_splits)
  let ?K = "fst ` set (ctVars c)"
  obtain da d where run: "Writer_writeMetadata E r (fdMetadata ?fd) w = (Inr (), w\<lparr>outside := da\<rparr>)"
      "Writer_writeData E r ?fd (w\<lparr>outside := da\<rparr>) = (Inr (), w\<lparr>outside := d\<rparr>)"
      "view h d = Some (mergeContents c (contentsOf p att (varHeap w) (fdMetadata ?fd)))"
      "\<forall>e \<in> set (entries (dataContainers (fdData ?fd))). vals h d (fst e) = Some (valuesIn (snd e))"
      "\<forall>k. k \<notin> fst ` set (entries (dataContainers (fdData ?fd))) \<longrightarrow> vals h d k = vals h da k"
      "\<forall>k \<in> ?K. vals h da k = vals h (outside w) k"
    by (rule Writer_write_more [OF assms(1,2,4) c(1,2) sizes storable definesKeep_values [OF assms(3), of h ?K "outside w"] _ data])
      simp
  have stored: "vals h d k = Some (valuesIn x)" if x: "smap_find (dataContainers (fdData ?T)) k = Some x" for k x
  proof (cases "smap_find (dataContainers (fdData ?fd)) k")
    case (Some y)
    then have "y = x" using x c(6) in_fd in_T by (auto split: if_splits)
    then show ?thesis using run(4) Some by (auto simp: in_entries_iff [symmetric])
  next
    case None
    then have "k \<noteq> name" "smap_find (dataContainers (fdData fd)) k = None" using in_fd by (auto split: if_splits)
    then have "k \<in> ?K" "vals h (outside w) k = Some (valuesIn x)" using x c(5) [of k x] in_T by simp_all
    moreover have "k \<notin> fst ` set (entries (dataContainers (fdData ?fd)))"
      using None by (metis map_of_entries map_of_eq_None_iff)
    ultimately show ?thesis using run(5) bspec [OF run(6)] by simp
  qed
  then have "written b view vals att p h (vs @ [v]) ?T d"
    using new(2) attrs run(3) later by (simp add: written_def hasValues_def)
  then show ?thesis using run(1,2) by (intro that)
qed

text \<open>One round of the loop.\<close>

lemma writeField_run:
  fixes E :: "('d, 't) env"
  assumes "ncStore E view att" and "ncData E view vals" and "definesOnly E vals"
    and "atlasCalls E created gathered scattered exchanged"
    and "mpiRank w = moOwner this" and "writingWith (moWriter this) fi h w"
    and "writing b view vals att p h (varHeap w) T fd (outside w)"
    and "smap_find (fsIndex fs) (jediName fm) = Some f" and "f < length (fieldHeap w)" and "fieldHeap w ! f = F"
    and "localField created gathered exchanged n L F G rows"
    and "fdLfricAtlasMap T = lam" and "isOrderMap lam" and "length lam = n" and "s = skipped (convOf b) fm L"
    and "n * (L + s) < 2 ^ 31" and "declares (fdMetadata T) (vertConfig b fm) (L + s) n"
    and "surfaceCopies b created (fieldSpace G) fm (writeName b lfricName fm) n L"
    and "\<not> (b \<and> findInVector kMissingVariableNames (writeName b lfricName fm))"
    and "smap_find (dataContainers (fdData T)) (writeName b lfricName fm) = None"
    and "b \<or> jediName fm = fieldName G"
    and "v = fieldVar fm (writeName b lfricName fm) (vertConfig b fm) (L + s) (getDimensionName (fdMetadata T) (of_nat n)) n"
  obtains data d rest where "writeField E this who lfricName fs b fm fd w =
      (Inr (clearData (withField b T (length (varHeap w)) (writeName b lfricName fm) data)),
       w\<lparr>fieldHeap := (fieldHeap w)[f := exchanged F] @ rest, varHeap := varHeap w @ [v], outside := d\<rparr>)"
    and "written b view vals att p h (varHeap w @ [v]) (withField b T (length (varHeap w)) (writeName b lfricName fm) data) d"
    and "length data = n * (L + s)" and "\<forall>i < n. \<forall>j < L + s. data ! position lam i j = rows ! i ! (j - s)"
proof -
  let ?name = "writeName b lfricName fm" and ?vc = "vertConfig b fm" and ?g = "length (fieldHeap w)"
  let ?fd = "\<lambda>data. withField b fd (length (varHeap w)) ?name data"
  let ?w1 = "w\<lparr>fieldHeap := (fieldHeap w)[f := exchanged F] @ [G]\<rparr>"
  note field = assms(11) [unfolded localField_def]
  note parts = writing_parts [OF assms(7)]
  have global: "getGlobalField E f w = (Inr ?g, ?w1)"
    using getGlobalField_run [OF assms(4,9)] assms(10) field by (simp add: codedKind_def)
  have g: "mpiRank ?w1 = moOwner this" "?g < length (fieldHeap ?w1)" "fieldHeap ?w1 ! ?g = G" "fieldGlobal G = True"
      "fieldShape G = [of_nat n, of_nat L]" "fieldArray G = ArrDouble rows" "isMatrix n L rows"
      "storableData (varHeap ?w1) fd" "fdLfricAtlasMap fd = lam" "smap_find (dataContainers (fdData fd)) ?name = None"
    using assms(5,12,20) field parts(2,4,5) by (simp_all add: nth_append)
  have decl: "declares (fdMetadata fd) ?vc (L + s) n"
      "getDimensionName (fdMetadata fd) (of_nat n) = getDimensionName (fdMetadata T) (of_nat n)"
    using declares_dims [OF parts(3)] assms(17) by simp_all
  obtain data y more where fill0: "populateFileDataWithField E (moOwner this) fd ?g fm ?name ?vc b ?w1 =
        (Inr (withField b fd (length (varHeap ?w1)) ?name data), ?w1\<lparr>fieldHeap := (fieldHeap ?w1)[?g := y] @ more,
          varHeap := varHeap ?w1 @ [fieldVar fm ?name ?vc (L + s) (getDimensionName (fdMetadata fd) (of_nat n)) n]\<rparr>)"
      "length data = n * (L + s)" "\<forall>i < n. \<forall>j < L + s. data ! position lam i j = rows ! i ! (j - s)"
    by (rule populateFileDataWithField_run [OF assms(4) g(1-7,9) assms(13-16) decl(1) assms(18,19) g(8,10)])
  let ?w2 = "?w1\<lparr>fieldHeap := (fieldHeap w)[f := exchanged F] @ (y # more), varHeap := varHeap w @ [v]\<rparr>"
  have fill: "populateFileDataWithField E (moOwner this) fd ?g fm ?name ?vc b ?w1 = (Inr (?fd data), ?w2)"
    using fill0(1) by (simp add: list_update_append decl(2) assms(22))
  have ready: "writingWith (moWriter this) fi h ?w2" "writing b view vals att p h (varHeap w) T fd (outside ?w2)"
      "varHeap ?w2 = varHeap w @ [v]"
    using assms(6,7) by (auto simp: writingWith_def writingTo_def writerSlot_def split: if_splits)
  have var: "varName v = ?name" "storableVar (fdMetadata T) v" "fitting v (DataContainerDouble ?name data)"
    using fieldVar_storable [OF assms(17) fill0(2) assms(16), of fm ?name] by (simp_all add: assms(22) fieldVar_def)
  obtain da d where run: "Writer_writeMetadata E (moWriter this) (fdMetadata (?fd data)) ?w2 = (Inr (), ?w2\<lparr>outside := da\<rparr>)"
      "Writer_writeData E (moWriter this) (?fd data) (?w2\<lparr>outside := da\<rparr>) = (Inr (), ?w2\<lparr>outside := d\<rparr>)"
      "written b view vals att p h (varHeap w @ [v]) (withField b T (length (varHeap w)) ?name data) d"
    by (rule Writer_write_field [OF assms(1-3) ready var(1) assms(20) var(2,3)])
  have "clearData (?fd data) = clearData (withField b T (length (varHeap w)) ?name data)"
    using assms(7) clearData_withField [of b T] by (auto simp: writing_def)
  then have "writeField E this who lfricName fs b fm fd w =
      (Inr (clearData (withField b T (length (varHeap w)) ?name data)), ?w2\<lparr>outside := d\<rparr>)"
    using assms(5,8,21) field fill run(1,2)
    by (cases b) (simp_all add: writeField_def fieldNamed_def global bindS_Inr onRank_def st_simps nth_append writeName_def
        vertConfig_def)
  then show ?thesis using fill0(2,3) run(3) by (intro that [where data = data and d = d and rest = "y # more"]) simp_all
qed

end
