(* ===== verification/Write_Preparation.thy ===== *)
theory Write_Preparation
  imports Write_Increments
begin

text \<open>
  What \<open>writeIncrements\<close> and \<open>writeState\<close> do to the file data before the first field: \<open>cleanFileData\<close>
  and, in the JEDI convention, \<open>addJediData\<close>, which adds the two vertical dimensions that LFRic files do
  not have, each with its variable and its values.
\<close>

section \<open>The vertical dimensions of JEDI\<close>

definition jediLevels :: "string list" where
  "jediLevels = [kVertFullNoSurfName, kVertHalfWithTopName]"

definition jediFree :: "'t FileData \<Rightarrow> bool" where
  "jediFree fd \<longleftrightarrow> list_all (\<lambda>k. smap_find (mdDimensions (fdMetadata fd)) k = None \<and>
    smap_find (dataContainers (fdData fd)) k = None) jediLevels"

definition levelVar :: "string \<Rightarrow> size_t \<Rightarrow> Variable" where
  "levelVar k n = \<lparr>varName = k, varType = eDouble, varDims = [(k, n)],
    varAttrs = smap_insert ''name'' (AttributeString ''name'' k) smap_empty\<rparr>"

definition withLevels :: "string \<Rightarrow> nat \<Rightarrow> double list \<Rightarrow> 't FileData \<Rightarrow> 't FileData" where
  "withLevels k r values fd = fd\<lparr>fdMetadata := addVariable k r (fdMetadata fd),
    fdData := addContainer (DataContainerDouble k values) (fdData fd)\<rparr>"

lemma levelVar_run:
  "bindS (Variable_new a eDouble) (\<lambda>x. bindS (Variable_new c eDouble) (\<lambda>y.
    seqS (Variable_addDimension E x a n) (seqS (Variable_addDimension E y c l)
    (seqS (Variable_addAttribute E x (AttributeString ''name'' a)) (seqS (Variable_addAttribute E y (AttributeString ''name'' c))
    (cont x y)))))) w =
   cont (length (varHeap w)) (Suc (length (varHeap w))) (w\<lparr>varHeap := varHeap w @ [levelVar a n, levelVar c l]\<rparr>)"
  by (simp add: Variable_new_def newVariable_def Variable_addDimension_def Variable_addAttribute_def setVariable_def st_simps
      bindS_Inr nth_append list_update_append levelVar_def)

lemma levelVar_storable:
  assumes "smap_find (mdDimensions m) k = Some n" and "length values = unat (int_to_size n)" and "length values < 2 ^ 31"
  shows "storableVar m (levelVar k (int_to_size n))" "fitting (levelVar k (int_to_size n)) (DataContainerDouble k values)"
  using assms by (auto simp: storableVar_def levelVar_def wf_variable_def fitting_def list_all_iff in_entries_iff split: if_splits)

lemma jediLevels_sizes: "length (iota (unat kVertFullNoSurfSize) x) = 70" "length (iota (unat kVertHalfWithTopSize) x) = 71"
  "int_to_size 70 = 70" "int_to_size 71 = 71"
  using int_to_size_of_nat [of 70] int_to_size_of_nat [of 71] by (simp_all add: iota_def)

lemma jediLevels_different: "kVertFullNoSurfName \<noteq> kVertHalfWithTopName" "kVertHalfWithTopName \<noteq> kVertFullNoSurfName"
  by (simp_all add: kVertFullNoSurfName_def kVertHalfWithTopName_def)

lemma withLevels_storable:
  assumes "storableData vs fd" and "smap_find (dataContainers (fdData fd)) k = None"
    and "smap_find (mdDimensions (fdMetadata fd)) k = Some n" and "length values = unat (int_to_size n)" and "length values < 2 ^ 31"
  shows "storableData (vs @ [levelVar k (int_to_size n)]) (withLevels k (length vs) values fd)"
  unfolding withLevels_def using assms levelVar_storable [OF assms(3-5)]
  by (intro storableData_addVariable) (simp_all add: levelVar_def)

lemma withLevels_find:
  assumes "smap_find (dataContainers (fdData fd)) k = None"
  shows "smap_find (dataContainers (fdData (withLevels k r values fd))) x =
      (if x = k then Some (DataContainerDouble k values) else smap_find (dataContainers (fdData fd)) x)"
    and "mdDimensions (fdMetadata (withLevels k r values fd)) = mdDimensions (fdMetadata fd)"
    and "mdGlobalAttrs (fdMetadata (withLevels k r values fd)) = mdGlobalAttrs (fdMetadata fd)"
    and "fdLfricAtlasMap (withLevels k r values fd) = fdLfricAtlasMap fd"
  using assms by (simp_all add: withLevels_def addContainer_def addVariable_def)

lemma addJediData_run:
  fixes fd :: "'t FileData"
  assumes "storableData (varHeap w) fd" and "jediFree fd"
  obtains T :: "'t FileData" and vs where "addJediData E fd w = (Inr T, w\<lparr>varHeap := vs\<rparr>)" and "storableData vs T"
    and "mdGlobalAttrs (fdMetadata T) = mdGlobalAttrs (fdMetadata fd)" and "fdLfricAtlasMap T = fdLfricAtlasMap fd"
    and "\<forall>k. smap_find (mdDimensions (fdMetadata T)) k = (if k = kVertFullNoSurfName then Some 70
      else if k = kVertHalfWithTopName then Some 71 else smap_find (mdDimensions (fdMetadata fd)) k)"
    and "\<forall>k. k \<notin> set jediLevels \<longrightarrow> smap_find (dataContainers (fdData T)) k = smap_find (dataContainers (fdData fd)) k"
proof -
  let ?a = kVertFullNoSurfName and ?c = kVertHalfWithTopName
  let ?dims = "fd\<lparr>fdMetadata := addDimension ?c 71 (addDimension ?a 70 (fdMetadata fd))\<rparr>"
  let ?one = "withLevels ?a (length (varHeap w)) (iota (unat kVertFullNoSurfSize) kVerticalFullInc) ?dims"
  let ?T = "withLevels ?c (Suc (length (varHeap w))) (iota (unat kVertHalfWithTopSize) kVerticalHalfInc) ?one"
  have free: "smap_find (mdDimensions (fdMetadata fd)) ?a = None" "smap_find (mdDimensions (fdMetadata fd)) ?c = None"
      "smap_find (dataContainers (fdData fd)) ?a = None" "smap_find (dataContainers (fdData fd)) ?c = None"
    using assms(2) by (simp_all add: jediFree_def jediLevels_def)
  have dims: "smap_find (mdDimensions (fdMetadata ?dims)) k = (if k = ?a then Some 70 else if k = ?c then Some 71
      else smap_find (mdDimensions (fdMetadata fd)) k)" for k
    using free(1,2) jediLevels_different by (auto simp: addDimension_def)
  have "storableData (varHeap w) ?dims"
    using storableData_dimension [OF storableData_dimension [OF assms(1), of ?a 70], of ?c 71] by simp
  then have one: "storableData (varHeap w @ [levelVar ?a 70]) ?one"
    using withLevels_storable [of "varHeap w" ?dims ?a 70] free(3) dims jediLevels_sizes by simp
  note found = withLevels_find [of ?dims ?a]
  have "storableData ((varHeap w @ [levelVar ?a 70]) @ [levelVar ?c 71]) ?T"
    using withLevels_storable [OF one, of ?c 71] found free(3,4) dims jediLevels_sizes jediLevels_different by simp
  moreover have "addJediData E fd w = (Inr ?T, w\<lparr>varHeap := varHeap w @ [levelVar ?a 70, levelVar ?c 71]\<rparr>)"
    unfolding addJediData_def Let_def levelVar_run by (simp add: withLevels_def returnS_apply jediLevels_sizes)
  moreover have "mdGlobalAttrs (fdMetadata ?dims) = mdGlobalAttrs (fdMetadata fd)" by (simp add: addDimension_def)
  ultimately show ?thesis
    using found withLevels_find [of ?one ?c] dims free(3,4) jediLevels_different
    by (intro that [of ?T "varHeap w @ [levelVar ?a 70, levelVar ?c 71]"]) (simp_all add: jediLevels_def)
qed

section \<open>The file data before the first field\<close>

text \<open>The dimensions that are written.\<close>

definition writtenDims :: "bool \<Rightarrow> Metadata \<Rightarrow> string \<Rightarrow> int32 option" where
  "writtenDims b m k = (if \<not> b \<and> k = kVertFullNoSurfName then Some 70 else if \<not> b \<and> k = kVertHalfWithTopName then Some 71
    else if k \<in> {kTimeDimName, kTileDimName} then None else smap_find (mdDimensions m) k)"

lemma prepare_run:
  fixes fd :: "'t FileData"
  assumes "mpiRank w = moOwner this" and "wf_vars (varHeap w)" and "writable (varHeap w) fd" and "b \<or> jediFree fd"
  obtains T0 T :: "'t FileData" and vs0 vs where "cleanFileData E this fd w = (Inr T0, w\<lparr>varHeap := vs0\<rparr>)"
    and "(if b = False then addJediData E T0 else returnS T0) (w\<lparr>varHeap := vs0\<rparr>) = (Inr T, w\<lparr>varHeap := vs\<rparr>)"
    and "storableData vs T" and "mdGlobalAttrs (fdMetadata T) = smap_empty" and "fdLfricAtlasMap T = fdLfricAtlasMap fd"
    and "\<forall>k. smap_find (mdDimensions (fdMetadata T)) k = writtenDims b (fdMetadata fd) k"
    and "\<forall>k. b \<or> k \<notin> set jediLevels \<longrightarrow> smap_find (dataContainers (fdData T)) k =
      (if k \<in> {kTimeVarName, kTileVarName} then None else smap_find (dataContainers (fdData fd)) k)"
proof -
  obtain m dt vs0 where clean: "cleanFileData E this fd w = (Inr (fd\<lparr>fdMetadata := m, fdData := dt\<rparr>), w\<lparr>varHeap := vs0\<rparr>)"
      "storableData vs0 (fd\<lparr>fdMetadata := m, fdData := dt\<rparr>)" "mdGlobalAttrs m = smap_empty"
      "\<forall>k. smap_find (mdDimensions m) k =
        (if k \<in> {kTimeDimName, kTileDimName} then None else smap_find (mdDimensions (fdMetadata fd)) k)"
      "\<forall>k. smap_find (dataContainers dt) k =
        (if k \<in> {kTimeVarName, kTileVarName} then None else smap_find (dataContainers (fdData fd)) k)"
    using cleanFileData_storable [OF assms(1-3)] by metis
  let ?T0 = "fd\<lparr>fdMetadata := m, fdData := dt\<rparr>"
  show ?thesis
  proof (cases b)
    case True
    then show ?thesis using clean by (intro that [of ?T0 vs0 ?T0 vs0]) (simp_all add: returnS_apply writtenDims_def)
  next
    case False
    have "jediFree ?T0" using assms(4) False clean(4,5) by (auto simp: jediFree_def list_all_iff)
    then obtain T :: "'t FileData" and vs where T: "addJediData E ?T0 (w\<lparr>varHeap := vs0\<rparr>) = (Inr T, w\<lparr>varHeap := vs\<rparr>)"
        "storableData vs T" "mdGlobalAttrs (fdMetadata T) = mdGlobalAttrs (fdMetadata ?T0)" "fdLfricAtlasMap T = fdLfricAtlasMap ?T0"
        "\<forall>k. smap_find (mdDimensions (fdMetadata T)) k = (if k = kVertFullNoSurfName then Some 70
          else if k = kVertHalfWithTopName then Some 71 else smap_find (mdDimensions (fdMetadata ?T0)) k)"
        "\<forall>k. k \<notin> set jediLevels \<longrightarrow> smap_find (dataContainers (fdData T)) k = smap_find (dataContainers (fdData ?T0)) k"
      using addJediData_run [of "w\<lparr>varHeap := vs0\<rparr>" ?T0 E] clean(2) by auto
    then show ?thesis
      using False clean by (intro that [of ?T0 vs0 T vs]) (simp_all add: writtenDims_def)
  qed
qed

text \<open>
  The metadata, apart from the dimensions that \<open>cleanFileData\<close> drops, has the named vertical dimension
  (or \<open>addJediData\<close> makes it) with \<open>L\<close> levels, and some dimension for the \<open>n\<close> nodes.
\<close>

definition hasDims :: "bool \<Rightarrow> Metadata \<Rightarrow> string \<Rightarrow> nat \<Rightarrow> nat \<Rightarrow> bool" where
  "hasDims b m vc L n \<longleftrightarrow> vc \<noteq> '''' \<and> writtenDims b m vc = Some (of_nat L) \<and>
    smap_find (mdDimensions m) kNotFoundError = None \<and>
    list_ex (\<lambda>e. snd e = of_nat n \<and> fst e \<notin> {kTimeDimName, kTileDimName}) (entries (mdDimensions m)) \<and>
    n \<noteq> L \<and> n < 2 ^ 31 \<and> L < 2 ^ 31"

lemma hasDims_declares:
  assumes "hasDims b (fdMetadata fd) vc L n" and "b \<or> jediFree fd"
    and "\<forall>k. smap_find (mdDimensions m') k = writtenDims b (fdMetadata fd) k"
  shows "declares m' vc L n"
proof -
  obtain k where k: "smap_find (mdDimensions (fdMetadata fd)) k = Some (of_nat n)" "k \<notin> {kTimeDimName, kTileDimName}"
    using assms(1) by (auto simp: hasDims_def list_ex_iff in_entries_iff)
  then have "b \<or> k \<notin> set jediLevels" using assms(2) by (auto simp: jediFree_def list_all_iff)
  then have "smap_find (mdDimensions m') k = Some (of_nat n)" using assms(3) k by (auto simp: writtenDims_def jediLevels_def)
  then have "smap_find (mdDimensions m') (getDimensionName m' (of_nat n)) = Some (of_nat n)"
    using getDimensionName_char [of m' "of_nat n"] by (auto split: if_splits)
  moreover have "smap_find (mdDimensions m') kNotFoundError = None"
    using assms by (simp add: hasDims_def writtenDims_def kNotFoundError_def kVertFullNoSurfName_def kVertHalfWithTopName_def)
  moreover have "smap_find (mdDimensions m') vc = Some (of_nat L)" using assms by (simp add: hasDims_def)
  ultimately show ?thesis using assms(1) by (auto simp: declares_def hasDims_def)
qed

end
