(* ===== verification/Write_Entry_Points.thy ===== *)
theory Write_Entry_Points
  imports Write_Preparation
begin

text \<open>
  \<open>writeIncrements\<close> and \<open>writeState\<close> from the call to the return, for any list of different fields
  and in both conventions (LFRic for \<open>b = True\<close>, JEDI for \<open>b = False\<close>): the rounds of the loop one after the other, each of which adds a field to the
  same file, and what is in the file that the calls leave behind.
\<close>

section \<open>All fields\<close>

text \<open>
  A field of the set that can be written: its place in the heap, the local field \<open>F\<close> and its global
  field \<open>G\<close> with the given rows (and the copy of it with a surface level, where the file needs one), and
  its name, type and shape against the file data \<open>T\<close>. In the file it has \<open>fileLevels\<close> levels.
\<close>

definition fileLevels :: "bool \<Rightarrow> FieldMetadata \<Rightarrow> nat \<Rightarrow> nat" where
  "fileLevels b fm L = L + skipped (convOf b) fm L"

definition namedField ::
    "bool \<Rightarrow> (nat \<Rightarrow> FieldOptions \<Rightarrow> Field) \<Rightarrow> (Field \<Rightarrow> Field \<Rightarrow> Field) \<Rightarrow> (Field \<Rightarrow> Field) \<Rightarrow> FieldSet \<Rightarrow> Field list \<Rightarrow>
     nat \<Rightarrow> FieldMetadata \<Rightarrow> string \<Rightarrow> ref \<Rightarrow> Field \<Rightarrow> Field \<Rightarrow> nat \<Rightarrow> double list list \<Rightarrow> bool" where
  "namedField b created gathered exchanged fs H n fm name f F G L rows \<longleftrightarrow>
    smap_find (fsIndex fs) (jediName fm) = Some f \<and> f < length H \<and> H ! f = F \<and>
    localField created gathered exchanged n L F G rows \<and> surfaceCopies b created (fieldSpace G) fm name n L \<and>
    (b \<or> jediName fm = fieldName G)"

definition addable :: "bool \<Rightarrow> 't FileData \<Rightarrow> FieldMetadata \<Rightarrow> string \<Rightarrow> nat \<Rightarrow> nat \<Rightarrow> bool" where
  "addable b T fm name n L \<longleftrightarrow> \<not> (b \<and> findInVector kMissingVariableNames name) \<and>
    smap_find (dataContainers (fdData T)) name = None \<and> declares (fdMetadata T) (vertConfig b fm) (fileLevels b fm L) n \<and>
    n * fileLevels b fm L < 2 ^ 31"

text \<open>
  File data \<open>D\<close> have the field: a variable as \<open>populateMetadataWithField\<close> makes it, \<open>nd\<close> being the
  dimension of the nodes, and a container with the rows in the order of the map \<open>lam\<close>.
\<close>

definition storesField ::
    "bool \<Rightarrow> size_t list \<Rightarrow> string \<Rightarrow> nat \<Rightarrow> FieldMetadata \<Rightarrow> string \<Rightarrow> nat \<Rightarrow> double list list \<Rightarrow> Variable list \<Rightarrow> 't FileData \<Rightarrow> bool" where
  "storesField b lam nd n fm name L rows vs D \<longleftrightarrow> (\<exists>data r.
    smap_find (dataContainers (fdData D)) name = Some (DataContainerDouble name data) \<and> length data = n * fileLevels b fm L \<and>
    (\<forall>i < n. \<forall>j < fileLevels b fm L. data ! position lam i j = rows ! i ! (j - skipped (convOf b) fm L)) \<and>
    smap_find (mdVariables (fdMetadata D)) name = Some r \<and> r < length vs \<and>
    vs ! r = fieldVar fm name (vertConfig b fm) (fileLevels b fm L) nd n)"

text \<open>What the rounds leave as it was: everything under the other names.\<close>

definition extendsBut :: "string set \<Rightarrow> Variable list \<Rightarrow> 't FileData \<Rightarrow> Variable list \<Rightarrow> 't FileData \<Rightarrow> bool" where
  "extendsBut names vs T vs' T' \<longleftrightarrow> (\<exists>more. vs' = vs @ more) \<and>
    mdDimensions (fdMetadata T') = mdDimensions (fdMetadata T) \<and> fdLfricAtlasMap T' = fdLfricAtlasMap T \<and>
    (\<forall>k. k \<notin> names \<longrightarrow> smap_find (dataContainers (fdData T')) k = smap_find (dataContainers (fdData T)) k \<and>
      smap_find (mdVariables (fdMetadata T')) k = smap_find (mdVariables (fdMetadata T)) k)"

lemma extendsBut_refl: "extendsBut names vs T vs T"
  by (simp add: extendsBut_def)

lemma extendsBut_trans:
  "extendsBut a vs T vs1 T1 \<Longrightarrow> extendsBut b vs1 T1 vs2 T2 \<Longrightarrow> extendsBut (a \<union> b) vs T vs2 T2"
  by (auto simp: extendsBut_def)

lemma storesField_kept:
  assumes "storesField b lam nd n fm name L rows vs D" and "extendsBut names vs D vs' D'" and "name \<notin> names"
  shows "storesField b lam nd n fm name L rows vs' D'"
  using assms by (fastforce simp: storesField_def extendsBut_def nth_append)

lemma addable_kept:
  assumes "addable b T fm name n L" and "extendsBut names vs T vs' T'" and "name \<notin> names"
  shows "addable b T' fm name n L"
  using assms declares_dims(1) [of "fdMetadata T'" "fdMetadata T"] by (simp add: addable_def extendsBut_def)

lemma withField_extends:
  assumes "storableData vs T" and "smap_find (dataContainers (fdData T)) name = None"
  shows "extendsBut {name} vs T (vs @ [v]) (withField b T (length vs) name data)"
  using withField_find [OF assms] by (simp add: extendsBut_def)

text \<open>One round: the file data are extended by the field, and so is the file.\<close>

lemma writeField_round:
  fixes E :: "('d, 't) env" and T :: "'t FileData"
  assumes "ncStore E view att" and "ncData E view vals" and "definesOnly E vals"
    and "atlasCalls E created gathered scattered exchanged"
    and "mpiRank w = moOwner this" and "writingWith (moWriter this) fi h w"
    and "writing b view vals att p h (varHeap w) T fd (outside w)" and "isOrderMap (fdLfricAtlasMap T)"
    and "length (fdLfricAtlasMap T) = n" and "name = writeName b lfricName fm"
    and "namedField b created gathered exchanged fs (fieldHeap w) n fm name f F G L rows" and "addable b T fm name n L"
  obtains T1 :: "'t FileData" and vs1 d more where "writeField E this who lfricName fs b fm fd w =
      (Inr (clearData T1), w\<lparr>fieldHeap := (fieldHeap w)[f := exchanged F] @ more, varHeap := vs1, outside := d\<rparr>)"
    and "written b view vals att p h vs1 T1 d" and "extendsBut {name} (varHeap w) T vs1 T1"
    and "storesField b (fdLfricAtlasMap T) (getDimensionName (fdMetadata T) (of_nat n)) n fm name L rows vs1 T1"
proof -
  let ?s = "skipped (convOf b) fm L"
  let ?v = "fieldVar fm name (vertConfig b fm) (L + ?s) (getDimensionName (fdMetadata T) (of_nat n)) n"
  have field: "smap_find (fsIndex fs) (jediName fm) = Some f" "f < length (fieldHeap w)" "fieldHeap w ! f = F"
      "localField created gathered exchanged n L F G rows" "surfaceCopies b created (fieldSpace G) fm name n L"
      "\<not> (b \<and> findInVector kMissingVariableNames name)" "smap_find (dataContainers (fdData T)) name = None"
      "declares (fdMetadata T) (vertConfig b fm) (L + ?s) n" "n * (L + ?s) < 2 ^ 31" "b \<or> jediName fm = fieldName G"
    using assms(11,12) by (auto simp: namedField_def addable_def fileLevels_def)
  obtain data d more where step: "writeField E this who lfricName fs b fm fd w =
        (Inr (clearData (withField b T (length (varHeap w)) name data)),
         w\<lparr>fieldHeap := (fieldHeap w)[f := exchanged F] @ more, varHeap := varHeap w @ [?v], outside := d\<rparr>)"
      "written b view vals att p h (varHeap w @ [?v]) (withField b T (length (varHeap w)) name data) d"
      "length data = n * (L + ?s)" "\<forall>i < n. \<forall>j < L + ?s. data ! position (fdLfricAtlasMap T) i j = rows ! i ! (j - ?s)"
    unfolding assms(10)
    by (rule writeField_run [where who = who and lfricName = lfricName and fm = fm and n = n and L = L and fs = fs,
          OF assms(1-7) field(1-4) refl assms(8,9) refl field(9,8,5,6,7,10) [unfolded assms(10)] refl])
  note parts = writing_parts [OF assms(7)]
  have "storesField b (fdLfricAtlasMap T) (getDimensionName (fdMetadata T) (of_nat n)) n fm name L rows (varHeap w @ [?v])
      (withField b T (length (varHeap w)) name data)"
    using withField_find(1,2) [OF parts(1) field(7)] step(3,4) by (simp add: storesField_def fileLevels_def)
  then show ?thesis using step(1,2) withField_extends [OF parts(1) field(7)] by (intro that)
qed

text \<open>The loop, from the file data \<open>T\<close> on, of which \<open>fd\<close> is what is kept in memory.\<close>

lemma writeField_loop:
  fixes E :: "('d, 't) env" and T :: "'t FileData"
  assumes "ncStore E view att" and "ncData E view vals" and "definesOnly E vals"
    and "atlasCalls E created gathered scattered exchanged"
    and "mpiRank w = moOwner this" and "writingWith (moWriter this) fi h w"
    and "writing b view vals att p h (varHeap w) T fd (outside w)" and "isOrderMap (fdLfricAtlasMap T)"
    and "length (fdLfricAtlasMap T) = n"
    and "\<forall>fm \<in> set fms. namedField b created gathered exchanged fs (fieldHeap w) n fm (writeName b lfricName fm) (f fm) (F fm)
      (G fm) (L fm) (rows fm) \<and> addable b T fm (writeName b lfricName fm) n (L fm)"
    and "distinct (map f fms)" and "distinct (map (writeName b lfricName) fms)"
  shows "\<exists>T' fd' H' vs' d'. foldS (writeField E this who lfricName fs b) fms fd w =
      (Inr fd', w\<lparr>fieldHeap := H', varHeap := vs', outside := d'\<rparr>) \<and>
    writing b view vals att p h vs' T' fd' d' \<and>
    (fms \<noteq> [] \<or> written b view vals att p h (varHeap w) T (outside w) \<longrightarrow> written b view vals att p h vs' T' d') \<and>
    extendsBut (writeName b lfricName ` set fms) (varHeap w) T vs' T' \<and>
    (\<forall>fm \<in> set fms. storesField b (fdLfricAtlasMap T) (getDimensionName (fdMetadata T) (of_nat n)) n fm (writeName b lfricName fm) (L fm)
      (rows fm) vs' T') \<and>
    length (fieldHeap w) \<le> length H' \<and> (\<forall>fm \<in> set fms. H' ! f fm = exchanged (F fm)) \<and>
    (\<forall>k < length (fieldHeap w). k \<notin> f ` set fms \<longrightarrow> H' ! k = fieldHeap w ! k)"
  using assms(5-12)
proof (induction fms arbitrary: w T fd)
  case Nil
  then show ?case
    by (intro exI [of _ T] exI [of _ fd] exI [of _ "fieldHeap w"] exI [of _ "varHeap w"] exI [of _ "outside w"])
      (simp add: st_simps extendsBut_refl)
next
  case (Cons y ys)
  let ?lam = "fdLfricAtlasMap T" and ?nd = "getDimensionName (fdMetadata T) (of_nat n)"
  have y: "namedField b created gathered exchanged fs (fieldHeap w) n y (writeName b lfricName y) (f y) (F y) (G y) (L y) (rows y)"
      "addable b T y (writeName b lfricName y) n (L y)" "f y < length (fieldHeap w)"
    using Cons.prems(6) by (auto simp: namedField_def)
  obtain T1 :: "'t FileData" and vs1 d more where step: "writeField E this who lfricName fs b y fd w =
        (Inr (clearData T1), w\<lparr>fieldHeap := (fieldHeap w)[f y := exchanged (F y)] @ more, varHeap := vs1, outside := d\<rparr>)"
      "written b view vals att p h vs1 T1 d" "extendsBut {writeName b lfricName y} (varHeap w) T vs1 T1"
      "storesField b ?lam ?nd n y (writeName b lfricName y) (L y) (rows y) vs1 T1"
    by (rule writeField_round [OF assms(1-4) Cons.prems(1-5) refl y(1,2)])
  let ?H = "(fieldHeap w)[f y := exchanged (F y)] @ more"
  let ?w1 = "w\<lparr>fieldHeap := ?H, varHeap := vs1, outside := d\<rparr>"
  have same: "fdLfricAtlasMap T1 = ?lam" "getDimensionName (fdMetadata T1) (of_nat n) = ?nd"
    using step(3) declares_dims(2) [of "fdMetadata T1" "fdMetadata T"] by (simp_all add: extendsBut_def)
  have others: "namedField b created gathered exchanged fs (fieldHeap ?w1) n fm (writeName b lfricName fm) (f fm) (F fm) (G fm) (L fm) (rows fm) \<and>
      addable b T1 fm (writeName b lfricName fm) n (L fm)" if fm: "fm \<in> set ys" for fm
  proof -
    have "f y \<noteq> f fm" "writeName b lfricName fm \<notin> {writeName b lfricName y}" using fm Cons.prems(7,8) by (auto simp: image_iff)
    moreover have "addable b T fm (writeName b lfricName fm) n (L fm)" using Cons.prems(6) fm by simp
    ultimately show ?thesis
      using Cons.prems(6) fm addable_kept [of b T fm "writeName b lfricName fm" n "L fm", OF _ step(3)]
      by (simp add: namedField_def nth_append trans_less_add1)
  qed
  have "writingWith (moWriter this) fi h ?w1" "writing b view vals att p h (varHeap ?w1) T1 (clearData T1) (outside ?w1)"
    using Cons.prems(2) step(2) by (auto simp: writing_def writingWith_def writingTo_def writerSlot_def split: if_splits)
  then obtain T' fd' H' vs' d' where rest: "foldS (writeField E this who lfricName fs b) ys (clearData T1) ?w1 =
        (Inr fd', ?w1\<lparr>fieldHeap := H', varHeap := vs', outside := d'\<rparr>)"
      "writing b view vals att p h vs' T' fd' d'" "written b view vals att p h vs' T' d'"
      "extendsBut (writeName b lfricName ` set ys) vs1 T1 vs' T'"
      "\<forall>fm \<in> set ys. storesField b ?lam ?nd n fm (writeName b lfricName fm) (L fm) (rows fm) vs' T'"
      "length ?H \<le> length H'" "\<forall>fm \<in> set ys. H' ! f fm = exchanged (F fm)"
      "\<forall>k < length ?H. k \<notin> f ` set ys \<longrightarrow> H' ! k = ?H ! k"
    using Cons.IH [of ?w1 T1 "clearData T1"] Cons.prems(1,4,5,7,8) step(2) others same by auto
  have "storesField b ?lam ?nd n y (writeName b lfricName y) (L y) (rows y) vs' T'"
    using storesField_kept [OF step(4) rest(4)] Cons.prems(8) by simp
  moreover have "extendsBut (writeName b lfricName ` set (y # ys)) (varHeap w) T vs' T'"
    using extendsBut_trans [OF step(3) rest(4)] by simp
  moreover have "H' ! f y = exchanged (F y)"
    using rest(8) Cons.prems(7) y(3) by (simp add: nth_append)
  moreover have "H' ! k = fieldHeap w ! k" if "k < length (fieldHeap w)" "k \<notin> f ` set (y # ys)" for k
    using rest(8) that by (simp add: nth_append)
  moreover have "foldS (writeField E this who lfricName fs b) (y # ys) fd w =
      (Inr fd', w\<lparr>fieldHeap := H', varHeap := vs', outside := d'\<rparr>)"
    using step(1) rest(1) by (simp add: bindS_Inr)
  ultimately show ?case
    using rest(2,3,5-7) by (intro exI [of _ T'] exI [of _ fd'] exI [of _ H'] exI [of _ vs'] exI [of _ d']) simp
qed

section \<open>The whole call\<close>

text \<open>
  The writer of the instance is idle on the owner's PE, the path can be opened as a new file (\<open>h\<close> and
  \<open>d\<close> are what that gives), and file data \<open>fd\<close> that can be written are kept for the grid of the field
  set, with no name in them that \<open>addJediData\<close> adds.
\<close>

definition readyToWrite ::
    "bool \<Rightarrow> ('d, 't) env \<Rightarrow> 'd contents_view \<Rightarrow> string \<Rightarrow> FieldSet \<Rightarrow> 't FileData \<Rightarrow> 't Monio \<Rightarrow> nat \<Rightarrow> 'd \<Rightarrow>
     ('d, 't) world \<Rightarrow> bool" where
  "readyToWrite b E view p fs fd this h d w \<longleftrightarrow>
    theMonio w = Some this \<and> mpiRank w = moOwner this \<and> moWriter this < length (writerHeap w) \<and>
    mpiRank w = wrOwner (writerHeap w ! moWriter this) \<and> writerSlot (moWriter this) w = None \<and> p \<noteq> [] \<and>
    ncOpen E p nc_replace (outside w) = (Inr h, d) \<and> view h d = Some (emptyContents p) \<and>
    fsFields fs \<noteq> [] \<and> fsFields fs ! 0 < length (fieldHeap w) \<and>
    smap_find (moFilesData this) (atGridName E (fieldSpace (fieldHeap w ! (fsFields fs ! 0)))) = Some fd \<and>
    wf_vars (varHeap w) \<and> writable (varHeap w) fd \<and> isOrderMap (fdLfricAtlasMap fd) \<and> (b \<or> jediFree fd)"

text \<open>What the name, the type and the shape of a field must be for it to be written.\<close>

definition fieldToWrite :: "bool \<Rightarrow> 't FileData \<Rightarrow> FieldMetadata \<Rightarrow> string \<Rightarrow> nat \<Rightarrow> nat \<Rightarrow> bool" where
  "fieldToWrite b fd fm name n L \<longleftrightarrow> \<not> (b \<and> findInVector kMissingVariableNames name) \<and>
    smap_find (dataContainers (fdData fd)) name = None \<and> (b \<or> name \<notin> set jediLevels) \<and>
    hasDims b (fdMetadata fd) (vertConfig b fm) (fileLevels b fm L) n \<and>
    length (fdLfricAtlasMap fd) = n \<and> n * fileLevels b fm L < 2 ^ 31"

lemma fieldToWrite_addable:
  assumes "fieldToWrite b fd fm name n L" and "b \<or> jediFree fd"
    and "\<forall>k. smap_find (mdDimensions (fdMetadata T)) k = writtenDims b (fdMetadata fd) k"
    and "\<forall>k. b \<or> k \<notin> set jediLevels \<longrightarrow> smap_find (dataContainers (fdData T)) k =
      (if k \<in> {kTimeVarName, kTileVarName} then None else smap_find (dataContainers (fdData fd)) k)"
  shows "addable b T fm name n L"
  using assms(1,4) hasDims_declares [OF _ assms(2,3)] by (cases b) (simp_all add: fieldToWrite_def addable_def)

text \<open>What comes before the loop.\<close>

lemma writeFields_begin:
  fixes E :: "('d, 't) env" and fd :: "'t FileData"
  assumes "wf_world w" and "readyToWrite b E view p fs fd this h d w"
  obtains T :: "'t FileData" and fi vs0 fs0 ws0 where
    "\<forall>fms. writeFields E this who lfricName fs fms p b w =
      bindS (foldS (writeField E this who lfricName fs b) fms T) (\<lambda>fd. Writer_closeFile E (moWriter this))
        (w\<lparr>varHeap := vs0, outside := d, fileHeap := fs0, writerHeap := ws0\<rparr>)"
    and "writingWith (moWriter this) fi h (w\<lparr>varHeap := vs0, outside := d, fileHeap := fs0, writerHeap := ws0\<rparr>)"
    and "wf_world (w\<lparr>varHeap := vs0, outside := d, fileHeap := fs0, writerHeap := ws0\<rparr>)"
    and "storableData vs0 T" and "mdGlobalAttrs (fdMetadata T) = smap_empty" and "fdLfricAtlasMap T = fdLfricAtlasMap fd"
    and "\<forall>k. smap_find (mdDimensions (fdMetadata T)) k = writtenDims b (fdMetadata fd) k"
    and "\<forall>k. b \<or> k \<notin> set jediLevels \<longrightarrow> smap_find (dataContainers (fdData T)) k =
      (if k \<in> {kTimeVarName, kTileVarName} then None else smap_find (dataContainers (fdData fd)) k)"
proof -
  let ?r = "moWriter this" and ?f0 = "fsFields fs ! 0"
  note ready = assms(2) [unfolded readyToWrite_def]
  have here: "theMonio w = Some this" "mpiRank w = moOwner this" "wf_vars (varHeap w)" "writable (varHeap w) fd"
      "b \<or> jediFree fd"
    using ready by simp_all
  obtain T0 T :: "'t FileData" and vs0 vs1 where prepared: "cleanFileData E this fd w = (Inr T0, w\<lparr>varHeap := vs0\<rparr>)"
      "(if b = False then addJediData E T0 else returnS T0) (w\<lparr>varHeap := vs0\<rparr>) = (Inr T, w\<lparr>varHeap := vs1\<rparr>)"
      "storableData vs1 T" "mdGlobalAttrs (fdMetadata T) = smap_empty" "fdLfricAtlasMap T = fdLfricAtlasMap fd"
      "\<forall>k. smap_find (mdDimensions (fdMetadata T)) k = writtenDims b (fdMetadata fd) k"
      "\<forall>k. b \<or> k \<notin> set jediLevels \<longrightarrow> smap_find (dataContainers (fdData T)) k =
        (if k \<in> {kTimeVarName, kTileVarName} then None else smap_find (dataContainers (fdData fd)) k)"
    by (rule prepare_run [OF here(2-5)])
  let ?w0 = "w\<lparr>varHeap := vs1\<rparr>"
  have idle: "?r < length (writerHeap ?w0)" "p \<noteq> []" "mpiRank ?w0 = wrOwner (writerHeap ?w0 ! ?r)"
      "writerSlot ?r ?w0 = None" "ncOpen E p nc_replace (outside ?w0) = (Inr h, d)"
    using ready by (simp_all add: writerSlot_def split: if_splits)
  obtain fi fs0 ws0 where opened: "Writer_openFile E ?r p ?w0 = (Inr (), ?w0\<lparr>outside := d, fileHeap := fs0, writerHeap := ws0\<rparr>)"
      "writingWith ?r fi h (?w0\<lparr>outside := d, fileHeap := fs0, writerHeap := ws0\<rparr>)"
    using Writer_openFile_writing [OF idle] by blast
  let ?w1 = "?w0\<lparr>outside := d, fileHeap := fs0, writerHeap := ws0\<rparr>"
  have "wf_world ?w0" using assms(1) by simp
  then have wf1: "wf_world ?w1" using keepsS_snd [OF Writer_openFile_wf, of ?w0 E ?r p] opened(1) by simp
  have "gridOf E ?f0 w = (Inr (atGridName E (fieldSpace (fieldHeap w ! ?f0))), w)"
    using ready by (simp add: gridOf_def st_simps)
  moreover have "getFileData (atGridName E (fieldSpace (fieldHeap w ! ?f0))) w = (Inr fd, w)"
    using ready by (simp add: getFileData_def bindS_Inr [OF Monio_get_Some] returnS_apply)
  ultimately have "writeFields E this who lfricName fs fms p b w =
      bindS (foldS (writeField E this who lfricName fs b) fms T) (\<lambda>fd. Writer_closeFile E ?r) ?w1" for fms
    using prepared(1,2) opened(1) by (cases b) (simp_all add: writeFields_def bindS_Inr st_simps)
  then show ?thesis using opened(2) wf1 prepared(3-7) by (intro that) simp_all
qed

lemma writeFields_run:
  fixes E :: "('d, 't) env"
  assumes "ncStore E view att" and "ncData E view vals" and "definesOnly E vals"
    and "atlasCalls E created gathered scattered exchanged"
    and "wf_world w" and "readyToWrite b E view p fs fd this h d w" and "fms \<noteq> []"
    and "\<forall>fm \<in> set fms. fieldToWrite b fd fm (writeName b lfricName fm) n (L fm) \<and>
      namedField b created gathered exchanged fs (fieldHeap w) n fm (writeName b lfricName fm) (f fm) (F fm) (G fm) (L fm) (rows fm)"
    and "distinct (map f fms)" and "distinct (map (writeName b lfricName) fms)"
  obtains H vs d1 h' d2 fs1 ws1 nd and D :: "'t FileData" where
    "writeFields E this who lfricName fs fms p b w =
      (Inr (), w\<lparr>fieldHeap := H, varHeap := vs, outside := d1, fileHeap := fs1, writerHeap := ws1\<rparr>)"
    and "ncOpen E p nc_read d1 = (Inr h', d2)" and "view h' d2 = Some (contentsOf p att vs (fdMetadata D))"
    and "hasValues vals h' (fdData D) d2" and "storableData vs D" and "mdGlobalAttrs (fdMetadata D) = ownAttrs b"
    and "\<forall>k c. smap_find (dataContainers (fdData fd)) k = Some c \<longrightarrow> k \<notin> {kTimeVarName, kTileVarName} \<longrightarrow>
      smap_find (dataContainers (fdData D)) k = Some c"
    and "\<forall>fm \<in> set fms. storesField b (fdLfricAtlasMap fd) nd n fm (writeName b lfricName fm) (L fm) (rows fm) vs D"
    and "length (fieldHeap w) \<le> length H" and "\<forall>fm \<in> set fms. H ! f fm = exchanged (F fm)"
    and "\<forall>k < length (fieldHeap w). k \<notin> f ` set fms \<longrightarrow> H ! k = fieldHeap w ! k"
proof -
  let ?r = "moWriter this"
  note ready = assms(6) [unfolded readyToWrite_def]
  have free: "b \<or> jediFree fd" using ready by simp
  obtain T :: "'t FileData" and fi vs0 fs0 ws0 where begun: "\<forall>fms. writeFields E this who lfricName fs fms p b w =
        bindS (foldS (writeField E this who lfricName fs b) fms T) (\<lambda>fd. Writer_closeFile E ?r)
          (w\<lparr>varHeap := vs0, outside := d, fileHeap := fs0, writerHeap := ws0\<rparr>)"
      "writingWith ?r fi h (w\<lparr>varHeap := vs0, outside := d, fileHeap := fs0, writerHeap := ws0\<rparr>)"
      "wf_world (w\<lparr>varHeap := vs0, outside := d, fileHeap := fs0, writerHeap := ws0\<rparr>)"
      "storableData vs0 T" "mdGlobalAttrs (fdMetadata T) = smap_empty" "fdLfricAtlasMap T = fdLfricAtlasMap fd"
      "\<forall>k. smap_find (mdDimensions (fdMetadata T)) k = writtenDims b (fdMetadata fd) k"
      "\<forall>k. b \<or> k \<notin> set jediLevels \<longrightarrow> smap_find (dataContainers (fdData T)) k =
        (if k \<in> {kTimeVarName, kTileVarName} then None else smap_find (dataContainers (fdData fd)) k)"
    by (rule writeFields_begin [where who = who and lfricName = lfricName, OF assms(5,6)])
  let ?w1 = "w\<lparr>varHeap := vs0, outside := d, fileHeap := fs0, writerHeap := ws0\<rparr>"
  have w1: "mpiRank ?w1 = moOwner this" "writing b view vals att p h (varHeap ?w1) T T (outside ?w1)"
      "isOrderMap (fdLfricAtlasMap T)" "length (fdLfricAtlasMap T) = n"
    using ready begun(4-6) assms(7,8) by (auto simp: writing_def fieldToWrite_def neq_Nil_conv)
  have fields: "\<forall>fm \<in> set fms. namedField b created gathered exchanged fs (fieldHeap ?w1) n fm (writeName b lfricName fm) (f fm)
      (F fm) (G fm) (L fm) (rows fm) \<and> addable b T fm (writeName b lfricName fm) n (L fm)"
    using assms(8) fieldToWrite_addable [OF _ free begun(7,8)] by simp
  obtain D fd' H vs d' where loop: "foldS (writeField E this who lfricName fs b) fms T ?w1 =
        (Inr fd', ?w1\<lparr>fieldHeap := H, varHeap := vs, outside := d'\<rparr>)"
      "written b view vals att p h vs D d'" "extendsBut (writeName b lfricName ` set fms) (varHeap ?w1) T vs D"
      "\<forall>fm \<in> set fms. storesField b (fdLfricAtlasMap fd) (getDimensionName (fdMetadata T) (of_nat n)) n fm
        (writeName b lfricName fm) (L fm) (rows fm) vs D"
      "length (fieldHeap w) \<le> length H" "\<forall>fm \<in> set fms. H ! f fm = exchanged (F fm)"
      "\<forall>k < length (fieldHeap w). k \<notin> f ` set fms \<longrightarrow> H ! k = fieldHeap w ! k"
    using writeField_loop [OF assms(1-4) w1(1) begun(2) w1(2-4) fields assms(9,10), of who] assms(7) begun(6) by auto
  let ?w2 = "?w1\<lparr>fieldHeap := H, varHeap := vs, outside := d'\<rparr>"
  have open2: "writingWith ?r fi h ?w2" "view h (outside ?w2) = Some (contentsOf p att vs (fdMetadata D))"
    using begun(2) loop(2) by (auto simp: written_def writingWith_def writingTo_def writerSlot_def split: if_splits)
  have "keepsS wf_world (foldS (writeField E this who lfricName fs b) fms T)" by (intro keeps_intros wf.writeField_kept)
  from keepsS_snd [OF this begun(3)] loop(1) have wf2: "wf_world ?w2" by simp
  obtain d1 h' d2 fs1 ws1 where close: "Writer_closeFile E ?r ?w2 = (Inr (), ?w2\<lparr>outside := d1, fileHeap := fs1, writerHeap := ws1\<rparr>)"
      "ncOpen E (ctPath (contentsOf p att vs (fdMetadata D))) nc_read d1 = (Inr h', d2)"
      "view h' d2 = Some (contentsOf p att vs (fdMetadata D))" "vals h' d2 = vals h (outside ?w2)"
    by (rule Writer_closeFile_run [OF assms(2) wf2 open2])
  have "writeFields E this who lfricName fs fms p b w = (Inr (), ?w2\<lparr>outside := d1, fileHeap := fs1, writerHeap := ws1\<rparr>)"
    using begun(1) loop(1) close(1) by (simp add: bindS_Inr)
  moreover have "hasValues vals h' (fdData D) d2" using loop(2) close(4) by (simp add: written_def hasValues_def)
  moreover have "smap_find (dataContainers (fdData D)) k = Some c"
    if k: "smap_find (dataContainers (fdData fd)) k = Some c" "k \<notin> {kTimeVarName, kTileVarName}" for k c
  proof -
    have "b \<or> k \<notin> set jediLevels" using free k(1) by (auto simp: jediFree_def list_all_iff)
    moreover have "k \<notin> writeName b lfricName ` set fms" using k(1) assms(8) by (auto simp: fieldToWrite_def)
    ultimately show ?thesis using k begun(8) loop(3) by (cases b) (simp_all add: extendsBut_def)
  qed
  ultimately show ?thesis
    using close(2,3) loop(2,4-7)
    by (intro that [where D = D and H = H and vs = vs and ?d1.0 = d1 and h' = h' and ?d2.0 = d2 and ?fs1.0 = fs1
          and ?ws1.0 = ws1 and nd = "getDimensionName (fdMetadata T) (of_nat n)"]) (simp_all add: written_def)
qed

text \<open>The two entry points that write with the metadata of a file, with the name they give a field.\<close>

lemma writes_run:
  fixes E :: "('d, 't) env"
  assumes "(call, lfricName) \<in> {(writeIncrements E, lfricWriteName), (writeState E, lfricReadName)}"
    and "theMonio w = Some this" and "fsFields fs \<noteq> []" and "p \<noteq> []"
  obtains who where "\<And>w'. writeFields E this who lfricName fs fms p b w = (Inr (), w') \<Longrightarrow> call fs fms p b w = (Inr (), w')"
proof -
  have get: "Monio_get w = (Inr this, w)" using assms(2) by (rule Monio_get_Some)
  show ?thesis
  proof (cases "call = writeIncrements E \<and> lfricName = lfricWriteName")
    case True
    then show ?thesis
      using assms(3,4)
      by (intro that [of "''Monio::writeIncrements''"]) (simp add: writeIncrements_def entryPoint_def get bindS_Inr st_simps catchNc_def)
  next
    case False
    then have "call = writeState E" "lfricName = lfricReadName" using assms(1) by auto
    then show ?thesis
      using assms(3,4)
      by (intro that [of "''Monio::writeState''"]) (simp add: writeState_def entryPoint_def get bindS_Inr st_simps catchNc_def)
  qed
qed

lemma writes_wf:
  fixes E :: "('d, 't) env"
  assumes "(call, lfricName) \<in> {(writeIncrements E, lfricWriteName), (writeState E, lfricReadName)}" and "wf_world w"
  shows "wf_world (snd (call fs fms p b w))"
  using assms by (auto intro: keepsS_snd [OF wf.writes_kept(1)] keepsS_snd [OF wf.writes_kept(2)])

lemma writes_close:
  fixes E :: "('d, 't) env"
  assumes "(call, lfricName) \<in> {(writeIncrements E, lfricWriteName), (writeState E, lfricReadName)}"
    and "wf_world w" and "theMonio w = Some this" and "fsFields fs \<noteq> []" and "p \<noteq> []"
    and "call fs fms p b w = (Inr (), w')"
  shows "writerSlot (moWriter this) w' = None"
proof -
  have get: "Monio_get w = (Inr this, w)" using assms(3) by (rule Monio_get_Some)
  note closes = entry_points_close [OF assms(2) get, THEN conjunct2, THEN conjunct2]
  have "call = writeIncrements E \<or> call = writeState E" using assms(1) by auto
  then show ?thesis
    using closes [THEN conjunct1, THEN mp] closes [THEN conjunct2, THEN conjunct1, THEN mp] assms(5,6) by metis
qed

text \<open>The variable and the values in a file with the contents of \<open>D\<close>.\<close>

lemma storesField_file:
  assumes "storesField b lam nd n fm name L rows vs D" and "hasValues vals h (fdData D) d"
  shows "\<exists>v data. map_of (ctVars (contentsOf p att vs (fdMetadata D))) name = Some v \<and> ncVarType v = nc_DOUBLE \<and>
    map snd (ncVarDims v) = [of_nat (fileLevels b fm L), of_nat n] \<and> ncVarAtts v = attsOf att (fieldAttrs fm) \<and>
    vals h d name = Some (NcDoubles data) \<and> length data = n * fileLevels b fm L \<and>
    (\<forall>i < n. \<forall>j < fileLevels b fm L. data ! position lam i j = rows ! i ! (j - skipped (convOf b) fm L))"
proof -
  obtain data r where s: "smap_find (dataContainers (fdData D)) name = Some (DataContainerDouble name data)" "length data = n * fileLevels b fm L"
      "\<forall>i < n. \<forall>j < fileLevels b fm L. data ! position lam i j = rows ! i ! (j - skipped (convOf b) fm L)" "smap_find (mdVariables (fdMetadata D)) name = Some r"
      "vs ! r = fieldVar fm name (vertConfig b fm) (fileLevels b fm L) nd n"
    using assms(1) by (auto simp: storesField_def)
  then show ?thesis
    using contentsOf_var [OF s(4), of p att vs] assms(2)
    by (intro exI [of _ "ncVarOf att (vs ! r)"] exI [of _ data]) (simp add: hasValues_def ncVarOf_def fieldVar_def)
qed


end
