(* ===== verification/Increments_Round_Trip.thy ===== *)
theory Increments_Round_Trip
  imports Write_Entry_Points
begin

text \<open>
  Fields written with \<open>writeIncrements\<close> or \<open>writeState\<close> and read with \<open>readIncrements\<close>: the two
  directions of the order map, the file between them, and the two ways through the PEs put together.
\<close>

lemma locates_unique:
  assumes "locates lam grid coords" and "locates lam' grid coords" and "distinct grid"
  shows "lam = lam'"
proof (rule nth_equalityI)
  show "length lam = length lam'" using assms(1,2) by (simp add: locates_def)
  fix k assume k: "k < length lam"
  then have k': "k < length lam'" using assms(1,2) by (simp add: locates_def)
  have "unat (lam ! k) < length grid" "unat (lam' ! k) < length grid" "grid ! unat (lam ! k) = grid ! unat (lam' ! k)"
    using assms(1,2) k k' by (auto simp: locates_def list_all_length)
  then have "unat (lam ! k) = unat (lam' ! k)" using assms(3) by (simp add: nth_eq_iff_index_eq)
  then show "lam ! k = lam' ! k" by (simp add: word_unat_eq_iff)
qed

text \<open>What is kept for the grid came from a file over it: mesh coordinates, levels, and the order map.\<close>

definition keptFromFile :: "('d, 't) env \<Rightarrow> string \<Rightarrow> 't FileData \<Rightarrow> (double \<times> double) list \<Rightarrow> bool" where
  "keptFromFile E grid fd coords \<longleftrightarrow> fileCoords (fdData fd) = Some coords \<and> sameGrid E grid coords \<and>
    distinct (atGridLonLat E grid) \<and> locates (fdLfricAtlasMap fd) (atGridLonLat E grid) coords \<and>
    kVerticalFullName \<in> dom (smap_find (dataContainers (fdData fd))) \<and>
    kVerticalHalfName \<in> dom (smap_find (dataContainers (fdData fd)))"

text \<open>Only a file that exists opens for reading.\<close>

definition opensExisting :: "('d, 't) env \<Rightarrow> string \<Rightarrow> bool" where
  "opensExisting E p \<longleftrightarrow> (\<forall>d h d'. ncOpen E p nc_read d = (Inr h, d') \<longrightarrow> osFileExists E p d)"

lemma opensExistingD: "opensExisting E p \<Longrightarrow> ncOpen E p nc_read d = (Inr h, d') \<Longrightarrow> osFileExists E p d"
  by (simp add: opensExisting_def)

text \<open>What the file has of the data that were kept for the grid.\<close>

lemma kept_still_there:
  assumes "keptFromFile E grid fd coords"
    and "\<forall>k c. smap_find (dataContainers (fdData fd)) k = Some c \<longrightarrow> k \<notin> {kTimeVarName, kTileVarName} \<longrightarrow>
      smap_find (dataContainers (fdData D)) k = Some c"
  shows "fileCoords (fdData D) = Some coords" "kVerticalFullName \<in> dom (smap_find (dataContainers (fdData D)))"
    "kVerticalHalfName \<in> dom (smap_find (dataContainers (fdData D)))"
proof -
  have kept: "fileCoords (fdData fd) = Some coords" "kVerticalFullName \<in> dom (smap_find (dataContainers (fdData fd)))"
      "kVerticalHalfName \<in> dom (smap_find (dataContainers (fdData fd)))"
    using assms(1) by (simp_all add: keptFromFile_def)
  show "fileCoords (fdData D) = Some coords"
    using kept(1)
  proof (rule fileCoordsE)
    fix nx xs ny ys
    assume "smap_find (dataContainers (fdData fd)) ''Mesh2d_face_x'' = Some (DataContainerFloat nx xs)"
      "smap_find (dataContainers (fdData fd)) ''Mesh2d_face_y'' = Some (DataContainerFloat ny ys)"
    then show ?thesis
      using kept(1) assms(2) by (simp add: fileCoords_def kTimeVarName_def kTileVarName_def)
  qed
  show "kVerticalFullName \<in> dom (smap_find (dataContainers (fdData D)))" "kVerticalHalfName \<in> dom (smap_find (dataContainers (fdData D)))"
    using kept(2,3) assms(2)
    by (auto simp: domIff kVerticalFullName_def kVerticalHalfName_def kTimeVarName_def kTileVarName_def)
qed

text \<open>A field that was written is found again, with all its rows.\<close>

lemma stored_found:
  assumes "storesField b lam nd n fm name L rows vs D" and "name = nameInFile (convOf b) fm" and "\<not> (noFirstLevel fm \<and> L = 71)"
    and "n * fileLevels b fm L < 2 ^ 31" and "fileLevels b fm L < 2 ^ 31" and "isMatrix n L rows"
  obtains data where "inFile (fdData D) (convOf b) fm n L data"
    and "rowsRead lam n L (skipped (convOf b) fm L) data = rows"
proof -
  obtain data where data: "smap_find (dataContainers (fdData D)) name = Some (DataContainerDouble name data)"
      "length data = n * fileLevels b fm L"
      "\<forall>i < n. \<forall>j < fileLevels b fm L. data ! position lam i j = rows ! i ! (j - skipped (convOf b) fm L)"
    using assms(1) by (auto simp: storesField_def)
  have "inFile (fdData D) (convOf b) fm n L data"
    using data(1,2) assms(2-5) by (simp add: inFile_def fieldData_def fileLevels_def)
  moreover have "rowsRead lam n L (skipped (convOf b) fm L) data = rows"
    unfolding rowsRead_def using data(3) by (intro matrix_eqI [OF isMatrix_matrix assms(6)]) (simp add: fileLevels_def)
  ultimately show ?thesis by (rule that)
qed

lemma all_stored_found:
  assumes "\<forall>fm \<in> set fms. storesField b lam nd n fm (writeName b lfricName fm) (L fm) (rows fm) vs D"
    and "\<forall>fm \<in> set fms. fieldToWrite b fd fm (writeName b lfricName fm) n (L fm) \<and>
      namedField b created gathered exchanged fs H n fm (writeName b lfricName fm) (f fm) (F fm) (G fm) (L fm) (rows fm)"
    and "\<forall>fm \<in> set fms. writeName b lfricName fm = nameInFile (convOf b) fm \<and> \<not> (noFirstLevel fm \<and> L fm = 71)"
  obtains data where "\<forall>fm \<in> set fms. inFile (fdData D) (convOf b) fm n (L fm) (data fm) \<and>
    rowsRead lam n (L fm) (skipped (convOf b) fm (L fm)) (data fm) = rows fm"
proof -
  have "\<exists>data. inFile (fdData D) (convOf b) fm n (L fm) data \<and>
      rowsRead lam n (L fm) (skipped (convOf b) fm (L fm)) data = rows fm" if fm: "fm \<in> set fms" for fm
  proof -
    have "\<not> (noFirstLevel fm \<and> L fm = 71)" "n * fileLevels b fm (L fm) < 2 ^ 31" "fileLevels b fm (L fm) < 2 ^ 31"
        "isMatrix n (L fm) (rows fm)"
      using assms(2,3) fm by (auto simp: fieldToWrite_def hasDims_def namedField_def localField_def)
    from stored_found [OF bspec [OF assms(1) fm] _ this] assms(3) fm show ?thesis by blast
  qed
  then show ?thesis using that by metis
qed


end
