(* ===== verification/Round_Trip_Runs.thy ===== *)
theory Round_Trip_Runs
  imports Full_Runs Increments_Round_Trip
begin

text \<open>
  The writing entry points and the round trip on the instance of \<open>Memory_Env\<close>: the process keeps what
  \<open>initialiseFile\<close> makes of the LFRic file of \<open>Full_Runs\<close>, and has two local fields: one of two levels, and one of 70 levels that has none at the surface.
\<close>

definition keptData :: "(string \<times> size_t) FileData" where
  "keptData = lfricData\<lparr>fdMetadata := addDimension ''all_levels'' 71 (fdMetadata lfricData),
    fdData := deleteContainer ''theta'' (fdData lfricData), fdLfricAtlasMap := [1, 2, 0]\<rparr>"

definition keptMonio :: "(string \<times> size_t) Monio" where
  "keptMonio = sampleMonio\<lparr>moFilesData := smap_put ''F3'' keptData smap_empty\<rparr>"

definition windField :: Field where
  "windField = valueField\<lparr>fieldName := ''wind'', fieldShape := [3, 70],
    fieldArray := ArrDouble [replicate 70 (FNum 7), replicate 70 (FNum 8), replicate 70 (FNum 9)]\<rparr>"

definition pairSet :: FieldSet where
  "pairSet = \<lparr>fsFields = [0, 1], fsIndex = smap_put ''wind'' 1 (smap_put ''theta'' 0 smap_empty)\<rparr>"

definition keptWorld :: "(MemDisk, string \<times> size_t) world" where
  "keptWorld = lfricWorld\<lparr>varHeap := lfricVars, fieldHeap := [valueField, windField], theMonio := Some keptMonio\<rparr>"

definition airMetadata :: FieldMetadata where
  "airMetadata = thetaMetadata\<lparr>lfricReadName := ''air'', lfricWriteName := ''air'', lfricVertConfig := ''full_levels'',
    jediVertConfig := ''full_levels''\<rparr>"

definition windMetadata :: FieldMetadata where
  "windMetadata = airMetadata\<lparr>lfricReadName := ''wind'', lfricWriteName := ''wind'', jediName := ''wind'',
    lfricVertConfig := ''all_levels'', jediVertConfig := ''full_levels_no_surf'', noFirstLevel := True\<rparr>"

text \<open>The two fields, by their metadata.\<close>

definition outRef :: "FieldMetadata \<Rightarrow> ref" where
  "outRef fm = (if fm = airMetadata then 0 else 1)"

definition outLocal :: "FieldMetadata \<Rightarrow> Field" where
  "outLocal fm = (if fm = airMetadata then valueField else windField)"

definition outLevels :: "FieldMetadata \<Rightarrow> nat" where
  "outLevels fm = (if fm = airMetadata then 2 else 70)"

definition outRows :: "FieldMetadata \<Rightarrow> double list list" where
  "outRows fm = (if fm = airMetadata then [[FNum 1, FNum 2], [FNum 3, FNum 4], [FNum 5, FNum 6]]
    else [replicate 70 (FNum 7), replicate 70 (FNum 8), replicate 70 (FNum 9)])"

definition outDisk :: MemDisk where
  "outDisk = snd (memOpen ''o.nc'' nc_replace lfricDisk)"

lemma air_wind: "windMetadata \<noteq> airMetadata"
  by (simp add: windMetadata_def airMetadata_def thetaMetadata_def)

lemma kept_ready:
  "readyToWrite b memEnv memView ''o.nc'' pairSet keptData keptMonio 3 outDisk keptWorld"
  "fieldToWrite True keptData airMetadata ''air'' 3 2" "fieldToWrite True keptData windMetadata ''wind'' 3 70"
  "fieldToWrite False keptData airMetadata ''theta'' 3 2" "fieldToWrite False keptData windMetadata ''wind'' 3 70"
  "wf_world keptWorld"
proof -
  have "ncOpen memEnv ''o.nc'' nc_replace (outside keptWorld) = (Inr 3, outDisk)"
    "memView 3 outDisk = Some (emptyContents ''o.nc'')"
    by code_simp+
  moreover have "writable (varHeap keptWorld) keptData" "wf_vars (varHeap keptWorld)" "isOrderMap (fdLfricAtlasMap keptData)"
    "jediFree keptData"
    by code_simp+
  ultimately show "readyToWrite b memEnv memView ''o.nc'' pairSet keptData keptMonio 3 outDisk keptWorld"
    by (simp add: readyToWrite_def keptWorld_def lfricWorld_def idleWorld_def keptMonio_def sampleMonio_def writerSlot_def
        pairSet_def valueField_def memEnv_def)
  show "fieldToWrite True keptData airMetadata ''air'' 3 2" "fieldToWrite True keptData windMetadata ''wind'' 3 70"
    "fieldToWrite False keptData airMetadata ''theta'' 3 2" "fieldToWrite False keptData windMetadata ''wind'' 3 70"
    by code_simp+
  show "wf_world keptWorld"
    by (simp add: wf_world_def keptWorld_def lfricWorld_def idleWorld_def keptMonio_def sampleMonio_def)
qed

definition memCreated :: "nat \<Rightarrow> FieldOptions \<Rightarrow> Field" where
  "memCreated space opts = \<lparr>fieldName = optName opts, fieldSpace = space, fieldGlobal = True,
    fieldShape = [of_nat (length memGrid), optLevels opts],
    fieldArray = blankArray (optKind opts) (length memGrid) (unat (optLevels opts))\<rparr>"

definition memCopied :: "Field \<Rightarrow> Field \<Rightarrow> Field" where
  "memCopied from to = to\<lparr>fieldArray := fieldArray from\<rparr>"

lemma memEnv_calls: "atlasCalls memEnv memCreated memCopied memCopied (\<lambda>field. field)"
  using memEnv_atlas by (simp add: memCreated_def [abs_def] memCopied_def [abs_def])

lemma out_local:
  "localField memCreated memCopied (\<lambda>field. field) 3 (outLevels fm) (outLocal fm) ((outLocal fm)\<lparr>fieldGlobal := True\<rparr>) (outRows fm)"
  by (simp add: localField_def globalFieldOf_def memCreated_def memCopied_def valueField_def thetaField_def datatypeOf_def
      memGrid_def outRows_def isMatrix_def outLocal_def outLevels_def windField_def)

lemma out_surface:
  assumes "fm \<in> {airMetadata, windMetadata}"
  shows "surfaceCopies b memCreated (fieldSpace ((outLocal fm)\<lparr>fieldGlobal := True\<rparr>)) fm name 3 (outLevels fm)"
proof (cases "fm = airMetadata")
  case True
  have "skipped c airMetadata 2 = 0" for c by (simp add: skipped_def skippedLevels_def)
  then show ?thesis using True by (simp add: surfaceCopies_def outLevels_def)
next
  case False
  have "surfaceCopies b memCreated space windMetadata name 3 70" for space
    by (simp add: surfaceCopies_def memCreated_def blankArray_def memGrid_def isMatrix_def Let_def)
  then show ?thesis using False assms air_wind by (auto simp: outLevels_def)
qed

lemma out_fields:
  assumes "lfricName = lfricReadName \<or> lfricName = lfricWriteName"
  shows "\<forall>fm \<in> set [airMetadata, windMetadata]. fieldToWrite b keptData fm (writeName b lfricName fm) 3 (outLevels fm) \<and>
    namedField b memCreated memCopied (\<lambda>field. field) pairSet (fieldHeap keptWorld) 3 fm (writeName b lfricName fm) (outRef fm)
      (outLocal fm) ((outLocal fm)\<lparr>fieldGlobal := True\<rparr>) (outLevels fm) (outRows fm)"
    and "distinct (map (writeName b lfricName) [airMetadata, windMetadata])"
proof -
  have names: "writeName b lfricName airMetadata = (if b then ''air'' else ''theta'')" "writeName b lfricName windMetadata = ''wind''"
    using assms by (auto simp: writeName_def airMetadata_def windMetadata_def thetaMetadata_def)
  have levels: "outLevels airMetadata = 2" "outLevels windMetadata = 70" using air_wind by (simp_all add: outLevels_def)
  have named: "namedField b memCreated memCopied (\<lambda>field. field) pairSet (fieldHeap keptWorld) 3 fm (writeName b lfricName fm) (outRef fm)
      (outLocal fm) ((outLocal fm)\<lparr>fieldGlobal := True\<rparr>) (outLevels fm) (outRows fm)" if "fm \<in> {airMetadata, windMetadata}" for fm
    unfolding namedField_def using out_local [of fm] out_surface [of fm b "writeName b lfricName fm"] that air_wind
    by (auto simp: outRef_def outLocal_def pairSet_def keptWorld_def airMetadata_def windMetadata_def thetaMetadata_def
        valueField_def windField_def thetaField_def)
  show "\<forall>fm \<in> set [airMetadata, windMetadata]. fieldToWrite b keptData fm (writeName b lfricName fm) 3 (outLevels fm) \<and>
      namedField b memCreated memCopied (\<lambda>field. field) pairSet (fieldHeap keptWorld) 3 fm (writeName b lfricName fm) (outRef fm)
        (outLocal fm) ((outLocal fm)\<lparr>fieldGlobal := True\<rparr>) (outLevels fm) (outRows fm)"
    using kept_ready(2-5) named names levels by (cases b) simp_all
  show "distinct (map (writeName b lfricName) [airMetadata, windMetadata])" by (simp add: names)
qed

lemma out_refs: "[airMetadata, windMetadata] \<noteq> []" "distinct (map outRef [airMetadata, windMetadata])"
  using air_wind by (simp_all add: outRef_def)



end
