(* ===== verification/Read_State_Runs.thy ===== *)
theory Read_State_Runs
  imports Read_State Round_Trip_Runs
begin

text \<open>
  \<open>readState\<close> on the instance of \<open>Memory_Env\<close>: the LFRic file of \<open>Full_Runs\<close> with two time steps.
\<close>

definition stateVars :: "Variable list" where
  "stateVars = take 4 lfricVars @ [
    \<lparr>varName = ''time_instant'', varType = eDouble, varDims = [(''time_counter'', 2)],
      varAttrs = smap_put ''time_origin'' (AttributeString ''time_origin'' ''2021-06-30 00:00:00'') smap_empty\<rparr>,
    \<lparr>varName = ''theta'', varType = eDouble,
      varDims = [(''time_counter'', 2), (''full_levels'', 2), (''nMesh2d_face'', 3)], varAttrs = smap_empty\<rparr>]"

definition stateValues :: "double list" where
  "stateValues = map FNum [1, 2, 3, 4, 5, 6, 7, 8, 9, 10, 11, 12]"

definition stateData :: "(string \<times> size_t) FileData" where
  "stateData = lfricData\<lparr>
    fdMetadata := fold (\<lambda>i. addVariable (varName (stateVars ! i)) i) [0..<6]
      (fold (\<lambda>d. addDimension (fst d) (snd d))
        [(''full_levels'', 2), (''half_levels'', 1), (''nMesh2d_face'', 3), (''time_counter'', 2)] Metadata_new),
    fdData := fold addContainer [DataContainerDouble ''time_instant'' [FNum 0, FNum 60], DataContainerDouble ''theta'' stateValues]
      (deleteContainer ''theta'' (fdData lfricData))\<rparr>"

definition stateDisk :: MemDisk where
  "stateDisk = outside (snd (storeFile memEnv 0 ''s.nc'' stateData (idleWorld\<lparr>varHeap := stateVars\<rparr>)))"

text \<open>Two local fields, the second of a variable that LFRic files do not have.\<close>

definition spareField :: Field where
  "spareField = valueField\<lparr>fieldName := ''spare''\<rparr>"

definition spareMetadata :: FieldMetadata where
  "spareMetadata = thetaMetadata\<lparr>lfricReadName := ''none'', jediName := ''spare''\<rparr>"

definition stateSet :: FieldSet where
  "stateSet = \<lparr>fsFields = [0, 1], fsIndex = smap_put ''theta'' 0 (smap_put ''spare'' 1 smap_empty)\<rparr>"

definition stateWorld :: "(MemDisk, string \<times> size_t) world" where
  "stateWorld = lfricWorld\<lparr>fieldHeap := [thetaField, spareField], outside := stateDisk\<rparr>"

lemma state_ready:
  "readyToRead memEnv memView memVals attOf ''F3'' ''s.nc'' stateVars stateData sampleMonio 3
    (stateDisk\<lparr>dkOpen := dkOpen stateDisk @ [''s.nc'']\<rparr>) stateWorld"
  "fileCoords (fdData stateData) = Some lfricCoords" "fileConvention (fdMetadata stateData) = Some eLfricConvention"
proof -
  show coords: "fileCoords (fdData stateData) = Some lfricCoords"
    and "fileConvention (fdMetadata stateData) = Some eLfricConvention"
    by code_simp+
  have contents: "memView 3 (stateDisk\<lparr>dkOpen := dkOpen stateDisk @ [''s.nc'']\<rparr>) =
      Some (contentsOf ''s.nc'' attOf stateVars (fdMetadata stateData))"
    by code_simp
  have "list_all (\<lambda>e. memVals 3 (stateDisk\<lparr>dkOpen := dkOpen stateDisk @ [''s.nc'']\<rparr>) (fst e) = Some (valuesIn (snd e)))
      (entries (dataContainers (fdData stateData)))"
    by code_simp
  moreover have "ncOpen memEnv ''s.nc'' nc_read stateDisk = (Inr 3, stateDisk\<lparr>dkOpen := dkOpen stateDisk @ [''s.nc'']\<rparr>)"
    by code_simp
  moreover have "storableData stateVars stateData"
    "smap_find (dataContainers (fdData stateData)) kVerticalFullName \<noteq> None"
    "smap_find (dataContainers (fdData stateData)) kVerticalHalfName \<noteq> None"
    by code_simp+
  moreover have "sameGrid memEnv ''F3'' lfricCoords"
    by code_simp
  ultimately show "readyToRead memEnv memView memVals attOf ''F3'' ''s.nc'' stateVars stateData sampleMonio 3
      (stateDisk\<lparr>dkOpen := dkOpen stateDisk @ [''s.nc'']\<rparr>) stateWorld"
    using contents coords by (simp add: readyToRead_def opensReader_def stateWorld_def lfricWorld_def idleWorld_def sampleMonio_def
        readerSlot_def list_all_iff domIff)
qed

definition stateTimes :: "(string \<times> size_t) list" where
  "stateTimes = [(''2021-06-30T00:00:00Z'', 0), (''2021-06-30T00:00:00Z'', 60)]"

lemma state_times:
  "fileTimes memEnv stateVars stateData (''2021-06-30T00:00:00Z'', 0) = Some stateTimes"
  "originAt memEnv stateVars stateData (''2021-06-30T00:00:00Z'', 0)"
proof -
  have find: "smap_find (mdVariables (fdMetadata stateData)) kTimeVarName = Some 4"
    "smap_find (dataContainers (fdData stateData)) kTimeVarName = Some (DataContainerDouble ''time_instant'' [FNum 0, FNum 60])"
    "smap_find (varAttrs (stateVars ! 4)) kTimeOriginName = Some (AttributeString ''time_origin'' ''2021-06-30 00:00:00'')"
    "strToWords ''2021-06-30 00:00:00'' (CHR '' '') = [''2021-06-30'', ''00:00:00'']"
    by code_simp+
  have round: "std_round 0 = 0" "std_round 60 = 60" by (simp_all add: std_round_def floor_eq_iff)
  have axis: "timeAxis stateVars stateData = Some (''2021-06-30T00:00:00Z'', [0, 60])"
    by (simp add: timeAxis_def find wholeSeconds_def secondsOf_def round)
  show "fileTimes memEnv stateVars stateData (''2021-06-30T00:00:00Z'', 0) = Some stateTimes"
    by (simp add: fileTimes_def axis stateTimes_def memEnv_def)
  show "originAt memEnv stateVars stateData (''2021-06-30T00:00:00Z'', 0)"
    by (simp add: originAt_def axis memEnv_def memDateTime_def)
qed

lemma state_series: "timeSeries stateVars stateData ''theta'' 2 (length lfricCoords * 2) stateValues"
proof -
  have "smap_find (mdVariables (fdMetadata stateData)) ''theta'' = Some 5"
    "smap_find (dataContainers (fdData stateData)) ''theta'' = Some (DataContainerDouble ''theta'' stateValues)"
    "varDims (stateVars ! 5) = [(''time_counter'', 2), (''full_levels'', 2), (''nMesh2d_face'', 3)]"
    by code_simp+
  moreover have "string_find ''theta'' kLfricMeshTerm = None" by code_simp
  then have "\<not> (\<exists>a b. ''theta'' = a @ kLfricMeshTerm @ b)"
    using string_find_iff [of "''theta''" kLfricMeshTerm] by blast
  then have "''theta'' \<notin> insert kTimeVarName (initialNames (fdData stateData))"
    unfolding initialNames_def by (simp add: kVerticalHalfName_def kVerticalFullName_def kTimeVarName_def)
  ultimately show ?thesis by (simp add: timeSeries_def kTimeDimName_def lfricCoords_def)
qed

text \<open>What is expected of each field, by its metadata.\<close>

definition stateRef :: "FieldMetadata \<Rightarrow> ref" where
  "stateRef fm = (if fm = spareMetadata then 1 else 0)"

definition stateLocal :: "FieldMetadata \<Rightarrow> Field" where
  "stateLocal fm = (if fm = spareMetadata then spareField else thetaField)"

definition stateGlobal :: "FieldMetadata \<Rightarrow> Field" where
  "stateGlobal fm = (stateLocal fm)\<lparr>fieldGlobal := True\<rparr>"

lemma two_fields: "thetaMetadata \<noteq> spareMetadata"
  by (simp add: spareMetadata_def thetaMetadata_def)

lemma state_local:
  assumes "L \<in> {thetaField, spareField}"
  shows "\<exists>rows. localField memCreated memCopied (\<lambda>field. field) (length lfricCoords) 2 L (L\<lparr>fieldGlobal := True\<rparr>) rows"
  using assms by (auto simp: localField_def globalFieldOf_def memCreated_def memCopied_def thetaField_def spareField_def
      valueField_def datatypeOf_def memGrid_def lfricCoords_def isMatrix_def)

lemma state_fields:
  "\<forall>fm \<in> set [thetaMetadata, spareMetadata].
    fieldToRead memEnv memCreated memCopied (\<lambda>field. field) ''F3'' stateSet (fieldHeap stateWorld) (length lfricCoords) fm
      (stateRef fm) (stateLocal fm) (stateGlobal fm) ((\<lambda>_. 2) fm) \<and>
    (nameInFile eLfricConvention fm \<notin> set kMissingVariableNames \<longrightarrow>
      seriesToRead stateVars stateData eLfricConvention fm (length lfricCoords) ((\<lambda>_. 2) fm) 1 2 ((\<lambda>_. stateValues) fm))"
proof -
  have all: "skipped eLfricConvention thetaMetadata 2 = 0" by code_simp
  have "noFirstLevel thetaMetadata = False" "nameInFile eLfricConvention thetaMetadata = ''theta''"
    by (simp_all add: thetaMetadata_def nameInFile_def)
  then have "seriesToRead stateVars stateData eLfricConvention thetaMetadata (length lfricCoords) 2 1 2 stateValues"
    unfolding seriesToRead_def all using state_series by simp
  moreover have "nameInFile eLfricConvention spareMetadata \<in> set kMissingVariableNames"
    by (simp add: nameInFile_def spareMetadata_def kMissingVariableNames_def)
  moreover have "smap_find (fsIndex stateSet) (jediName thetaMetadata) = Some 0"
    "smap_find (fsIndex stateSet) (jediName spareMetadata) = Some 1"
    by code_simp+
  moreover have "fieldHeap stateWorld = [thetaField, spareField]" by (simp add: stateWorld_def)
  ultimately show ?thesis
    using state_local two_fields by (simp add: fieldToRead_def stateRef_def stateLocal_def stateGlobal_def memEnv_def)
qed


end
