(* ===== verification/Spec2Isabelle.thy ===== *)
theory Spec2Isabelle
  imports Field_Round_Trips Read_State_Runs
begin

text \<open>
  MONIO (Met Office NetCDF I/O) reads and writes LFRic model data in NetCDF files for JEDI. A host
  program hands it Atlas field sets; MONIO gathers each field to one PE (the owner), reads or writes
  a NetCDF file there, reorders the data between the order of the LFRic file and the order of the
  Atlas grid, and scatters the field again. This development models the library \<open>src/src/monio\<close>.

  \<^bold>\<open>How the program is modelled.\<close> A member function is a HOL function on the state of one PE that
  either returns a value or ends with an error, and leaves a state in both cases (\<open>Effects\<close>). The
  state (\<open>world\<close> in \<open>Objects\<close>) holds heaps of the objects the code shares by pointer (variables, Atlas
  fields, files, readers, writers), the singleton \<open>Monio::this_\<close>, the rank, a flag for \<open>MPI_Abort\<close>,
  and \<open>outside\<close>, the state of everything the program calls. Classes with value semantics are records
  and are passed and returned. Machine integers have their width: \<open>size_t\<close> is a 64-bit, \<open>int\<close> and
  \<open>atlas::idx_t\<close> a 32-bit word, with the conversions the compiler inserts. Undefined behaviour (an
  access past the end of a vector, a null pointer, signed overflow) is the error \<open>Undefined\<close>, so a
  theorem about a result also says that no such behaviour occurs. The loops run over lists or over the
  output of a command that gets shorter, so every definition is total and no fuel is needed; the one
  operation that does not return, the destructor of the singleton, is a \<open>partial_function\<close>.

  \<^bold>\<open>What is a parameter.\<close> NetCDF, Atlas, the OOPS date-time classes and the file system are not part
  of the program: each call is a component of the record \<open>env\<close> (\<open>Services\<close>), an argument \<open>E\<close> of the
  definitions that make the call. Theorems name what they rely on: \<open>closeQuiet E\<close> (closing a file does
  not throw), the values a certain call returns, or \<open>closestExact\<close> (the nearest grid point to a grid
  point is itself), \<open>ncStore\<close> and \<open>ncData\<close> (\<open>Nc_Contents\<close>: what NetCDF documents of defining and
  asking for dimensions, variables and attributes, of values, and of closing and reopening a file),
  \<open>ncSlabs\<close> (reading a hyperslab within the bounds of a variable), \<open>opensAgain\<close> (a file open for reading can
  be opened for reading once more, as the code does for every field), \<open>definesOnly\<close> (definitions leave the
  values of other variables alone), or
  \<open>atlasCalls\<close> (\<open>Read_Increments\<close>: gathering and scattering do not fail). \<open>Memory_Env\<close> instantiates the
  record with files held in memory and proves the hypotheses for it; \<open>Concrete_Runs\<close>, \<open>Full_Runs\<close>,
  \<open>Round_Trip_Runs\<close> and \<open>Read_State_Runs\<close> apply each property to it, the last three to whole calls of the
  entry points.

  \<^bold>\<open>Parts and theories.\<close>
  \<^item> \<open>Prelude\<close>: machine integers, floating point values, generic facts. \<open>Effects\<close>: computations with
    state and errors, their execution rules and invariants. \<open>Std_Map\<close>: \<open>std::map\<close> as ordered
    association lists, with the locales \<open>ordered_map\<close> and \<open>keyed_store\<close> for what its clients rely on.
  \<^item> \<open>Constants\<close> (\<open>Constants.h\<close>), \<open>Objects\<close> (the members of every class), \<open>Services\<close> (the calls).
  \<^item> \<open>File_Handles\<close>: opening and closing (\<open>File.cc\<close>, \<open>Reader.cc\<close>, \<open>Writer.cc\<close>), \<open>Monio::get\<close> and
    \<open>closeFiles\<close>, \<open>utils::throwException\<close>, the ownership invariant \<open>wf_world\<close>. \<open>Closing\<close>: the locale
    \<open>file_owner\<close>, interpreted on readers and on writers, and the error exit \<open>failS\<close> that every member
    function uses (\<open>Monio::get().closeFiles(); utils::throwException(...)\<close>), and the destructor.
  \<^item> \<open>Invariants\<close> and \<open>Variables\<close>: the locales \<open>call_invariant\<close> and \<open>world_invariant\<close>, what a property of
    the state must satisfy to be kept by every operation; each later theory adds its operations to them,
    and \<open>reading_invariant\<close> and \<open>writing_invariant\<close> (\<open>Monio_Core\<close>) add opening. They are interpreted on
    \<open>wf_world\<close>, on the well-formedness and the identity of variables, and (\<open>Sessions\<close>) on one singleton
    and on files being closed.
  \<^item> \<open>Utils\<close> (\<open>Utils.cc\<close>), \<open>Data_Containers\<close> (\<open>Attribute*.cc\<close>, \<open>DataContainer*.cc\<close>), \<open>Variables\<close>
    (\<open>Variable.cc\<close>), \<open>Metadatas\<close> and \<open>Metadata_Print\<close> (\<open>Metadata.cc\<close>), \<open>Data_Store\<close> (\<open>Data.cc\<close>,
    \<open>FileData.cc\<close>).
  \<^item> \<open>Nc_Files\<close> (the rest of \<open>File.cc\<close>), \<open>Readers\<close> (\<open>Reader.cc\<close>), \<open>Writers\<close> (\<open>Writer.cc\<close>);
    \<open>Metadata_Round_Trip\<close>: what \<open>File\<close> writes and what it makes of it when it reads;
    \<open>Data_Round_Trip\<close>: a whole \<open>FileData\<close> through \<open>Writer\<close>, the file, and \<open>Reader\<close>.
  \<^item> \<open>Utils_Atlas\<close> (\<open>UtilsAtlas.cc\<close>), \<open>Atlas_Reader\<close> (\<open>AtlasReader.cc\<close>), \<open>Atlas_Writer\<close>
    (\<open>AtlasWriter.cc\<close>), \<open>Field_Round_Trips\<close> (properties of the two together).
  \<^item> \<open>Monio_Core\<close> (\<open>Monio.cc\<close>): the five entry points; \<open>Monio_Facts\<close>: what its parts compute;
    \<open>Initialise\<close>: \<open>initialiseFile\<close> on a valid file; \<open>Read_Increments\<close>,
    \<open>Read_State\<close> and \<open>Write_Field_Set\<close>: \<open>readIncrements\<close>, \<open>readState\<close> and \<open>writeFieldSet\<close> from call to return;
    \<open>Write_Increments\<close>: one round of the loop of \<open>writeIncrements\<close> and \<open>writeState\<close>, which adds a field
    to a file; \<open>Write_Preparation\<close>: what they do before it; \<open>Write_Entry_Points\<close>: the two calls from call to return; \<open>Increments_Round_Trip\<close>: writing
    and reading back; \<open>Sessions\<close>: a host program that calls the entry points, as a step relation.

  A definition has the name of the function it models; where two classes share a name it is prefixed
  with the class (\<open>Reader_openFile\<close>), and an overload gets a suffix (\<open>populateWholeField\<close> is
  \<open>populateField\<close> without an order map, \<open>populateFileDataWithFieldOnly\<close> the overload without
  field metadata).

  \<^bold>\<open>What the theorems show.\<close>
  \<^item> Where data go: \<open>populateDataVec\<close> and \<open>populateField\<close> put every element at its mapped position and
    undo each other for every order map; fields without a surface level survive a round trip through
    the 71 levels of an LFRic file; \<open>createLfricAtlasMap\<close> makes a permutation, which \<open>populateField\<close>
    applies in the direction opposite to its construction.
  \<^item> What is read and written: metadata and data written to a new file come back equal; the hyperslab
    of a time step, whole variables, dimensions, date-times, the clean-up of the file data before a write.
  \<^item> Whole operations: \<open>initialiseFile\<close>, \<open>readIncrements\<close> and \<open>readState\<close> succeed on a valid LFRic file, and
    what they leave in the file data and in the field, for \<open>readState\<close> the slice of the wanted date-time; \<open>writeFieldSet\<close> leaves a file with the values of the
    field, in another order than the dimensions it declares; \<open>writeIncrements\<close> and \<open>writeState\<close>, in both conventions, leave a
    file with all fields at their mapped positions (in the LFRic convention with 71 levels for a field of 70 without a surface level) and everything that was kept for the grid, from which
    \<open>readIncrements\<close> gets the fields back.
  \<^item> Errors: no NetCDF exception leaves an entry point, the guards of every entry point, the mode
    guards of a file, and that the files are closed after every return and every such error.
  \<^item> Invariants: readers and writers hold only files that exist and only on the owner's PE; the other
    PEs do nothing. In every state that calls can reach no file is left open and there is one singleton.
    A variable keeps its name and type through every call.
  \<^item> Termination: \<open>exec\<close> returns all the output of its command; the destructor of the singleton never
    returns.
  \<^item> Comparison, lookup and deletion in \<open>Metadata\<close> and \<open>Data\<close>, exactly as the code does them.
  \<^item> Accesses past the end that the bounds checks let through, and other deviations from what the code
    intends, each stated as a theorem about the code as it is.

  \<^bold>\<open>Bounds.\<close> Where sizes pass through \<open>int\<close> the theorems ask for sizes below \<open>2 ^ 31\<close>, as the code does
  implicitly.

  \<^bold>\<open>Not modelled.\<close> Log output other than what \<open>Metadata::print\<close> writes, getters that return a member
  (the selectors of the records), the test drivers.
  Floating point values are exact numbers, infinities and NaN: the program copies and compares them and
  rounds only time values. One PE is modelled at a time: what the others contribute to a gather is part
  of the call.
\<close>

end
